(* ===== verification/Prelude.thy ===== *)
theory Prelude
  imports Main "HOL-Library.Word" "HOL-Library.Monad_Syntax" "HOL-Library.Sublist"
begin

text \<open>
  Shared vocabulary of the development: the machine integers of the C sources, C strings (lists of
  characters without the terminating NUL), the parts of the C library the sources call
  (\<^verbatim>\<open>snprintf\<close>, \<^verbatim>\<open>strtol\<close>, \<^verbatim>\<open>strtoull\<close>, \<^verbatim>\<open>atoi\<close>, \<^verbatim>\<open>tolower\<close>), decimal printing, the output a
  process writes, and the generic lemmas the component theories rest on.
\<close>

unbundle bit_operations_syntax

section \<open>Machine integers\<close>

type_synonym byte = "8 word"
type_synonym u8 = "8 word"
type_synonym u16 = "16 word"
type_synonym u32 = "32 word"
type_synonym u64 = "64 word"

named_theorems io_simps "rewrite rules for the effects of a step on the output and the connection"

definition UINT64_MAX :: nat where
  "UINT64_MAX = 2 ^ 64 - 1"

text \<open>The bit pattern of an \<^verbatim>\<open>int\<close>: the value a 64-bit integer keeps when it is stored in 32 bits.\<close>

definition to_int32 :: "int \<Rightarrow> int" where
  "to_int32 v = (v + 2 ^ 31) mod 2 ^ 32 - 2 ^ 31"

text \<open>The cast \<^verbatim>\<open>(uint16_t)\<close> of an \<^verbatim>\<open>int\<close>.\<close>

definition to_u16 :: "int \<Rightarrow> u16" where
  "to_u16 v = word_of_int v"

lemma to_int32_range: "- (2 ^ 31) \<le> to_int32 v" "to_int32 v < 2 ^ 31"
  by (simp_all add: to_int32_def)

lemma to_int32_id:
  assumes "- (2 ^ 31) \<le> v" "v < 2 ^ 31"
  shows "to_int32 v = v"
proof -
  have "(v + 2 ^ 31) mod 2 ^ 32 = v + 2 ^ 31"
    using assms by (intro mod_pos_pos_trivial) simp_all
  then show ?thesis by (simp add: to_int32_def)
qed

lemma uint_to_u16: "uint (to_u16 v) = v mod 65536"
  by (simp add: to_u16_def uint_word_of_int take_bit_eq_mod)

section \<open>Characters and strings\<close>

abbreviation ccode :: "char \<Rightarrow> nat" where
  "ccode c \<equiv> of_char c"

definition is_digit :: "char \<Rightarrow> bool" where
  "is_digit c \<longleftrightarrow> 48 \<le> ccode c \<and> ccode c \<le> 57"

definition digit_val :: "char \<Rightarrow> nat" where
  "digit_val c = ccode c - 48"

definition tolower :: "char \<Rightarrow> char" where
  "tolower c = (if 65 \<le> ccode c \<and> ccode c \<le> 90 then char_of (ccode c + 32) else c)"

definition is_space :: "char \<Rightarrow> bool" where
  "is_space c \<longleftrightarrow> ccode c = 32 \<or> (9 \<le> ccode c \<and> ccode c \<le> 13)"

text \<open>\<^verbatim>\<open>snprintf(buf, n, "%s", s)\<close>: what the buffer of size \<open>n\<close> holds afterwards. The call returns
  \<^verbatim>\<open>strlen(s)\<close>, so the sources test truncation by \<open>length s \<ge> n\<close>.\<close>

definition c_buf :: "nat \<Rightarrow> string \<Rightarrow> string" where
  "c_buf n s = take (n - 1) s"

lemma c_buf_fits [simp]: "length s < n \<Longrightarrow> c_buf n s = s"
  by (simp add: c_buf_def)

lemma length_c_buf: "0 < n \<Longrightarrow> length (c_buf n s) < n"
  by (simp add: c_buf_def)

text \<open>A byte buffer read as a C string ends at its first NUL byte.\<close>

definition c_string_of :: "string \<Rightarrow> string" where
  "c_string_of s = takeWhile (\<lambda>c. ccode c \<noteq> 0) s"

section \<open>Decimal numbers\<close>

fun dec_nat :: "nat \<Rightarrow> string" where
  "dec_nat n = (if n < 10 then [char_of (48 + n)] else dec_nat (n div 10) @ [char_of (48 + n mod 10)])"

declare dec_nat.simps [simp del]

definition dec_int :: "int \<Rightarrow> string" where
  "dec_int v = (if v < 0 then CHR ''-'' # dec_nat (nat (- v)) else dec_nat (nat v))"

text \<open>Reading digits: the value accumulated so far and the rest of the text.\<close>

fun read_dec :: "nat \<Rightarrow> string \<Rightarrow> nat \<times> string" where
  "read_dec acc [] = (acc, [])"
| "read_dec acc (c # cs) = (if is_digit c then read_dec (10 * acc + digit_val c) cs else (acc, c # cs))"

lemma is_digit_char_of [simp]: "(d::nat) < 10 \<Longrightarrow> is_digit (char_of (48 + d))"
  by (simp add: is_digit_def of_char_of)

lemma digit_val_char_of [simp]: "(d::nat) < 10 \<Longrightarrow> digit_val (char_of (48 + d)) = d"
  by (simp add: digit_val_def of_char_of)

lemma dec_nat_digits: "c \<in> set (dec_nat n) \<Longrightarrow> is_digit c"
proof (induction n rule: dec_nat.induct)
  case (1 n)
  show ?case
  proof (cases "n < 10")
    case True
    with "1.prems" show ?thesis by (simp add: dec_nat.simps [of n])
  next
    case False
    with "1.prems" have "c = char_of (48 + n mod 10) \<or> c \<in> set (dec_nat (n div 10))"
      by (simp add: dec_nat.simps [of n])
    with "1.IH" [OF False] show ?thesis by auto
  qed
qed

lemma dec_nat_not_Nil [simp]: "dec_nat n \<noteq> []"
  by (subst dec_nat.simps) simp

lemma read_dec_append:
  "(\<And>c. c \<in> set ds \<Longrightarrow> is_digit c) \<Longrightarrow>
     read_dec acc (ds @ cs) = read_dec (fst (read_dec acc ds)) cs"
  by (induction ds arbitrary: acc) auto

lemma read_dec_rest: "cs = [] \<or> \<not> is_digit (hd cs) \<Longrightarrow> read_dec acc cs = (acc, cs)"
  by (cases cs) auto

lemma fst_read_dec_dec_nat: "fst (read_dec 0 (dec_nat n)) = n"
proof (induction n rule: dec_nat.induct)
  case (1 n)
  show ?case
  proof (cases "n < 10")
    case True
    then show ?thesis by (simp add: dec_nat.simps [of n])
  next
    case False
    have "read_dec 0 (dec_nat (n div 10) @ [char_of (48 + n mod 10)])
        = read_dec (fst (read_dec 0 (dec_nat (n div 10)))) [char_of (48 + n mod 10)]"
      by (rule read_dec_append) (rule dec_nat_digits)
    with False "1.IH" show ?thesis by (simp add: dec_nat.simps [of n])
  qed
qed

lemma read_dec_dec_nat:
  assumes "cs = [] \<or> \<not> is_digit (hd cs)"
  shows "read_dec 0 (dec_nat n @ cs) = (n, cs)"
  using assms by (simp add: read_dec_append dec_nat_digits fst_read_dec_dec_nat read_dec_rest)

section \<open>The number parsers of the C library\<close>

definition digit_in_base :: "nat \<Rightarrow> char \<Rightarrow> nat option" where
  "digit_in_base base c =
     (let d = (if is_digit c then digit_val c
               else if 97 \<le> ccode (tolower c) \<and> ccode (tolower c) \<le> 122 then ccode (tolower c) - 87
               else 36)
      in if d < base then Some d else None)"

fun read_base :: "nat \<Rightarrow> nat \<Rightarrow> string \<Rightarrow> nat \<times> string" where
  "read_base base acc [] = (acc, [])"
| "read_base base acc (c # cs) =
     (case digit_in_base base c of
        Some d \<Rightarrow> read_base base (base * acc + d) cs
      | None \<Rightarrow> (acc, c # cs))"

text \<open>Sign and magnitude of the subject sequence, with the unread rest; \<open>None\<close> when there is no
  digit to convert. Base 16 additionally admits a \<^verbatim>\<open>0x\<close> prefix, which no caller here passes.\<close>

definition strto_subject :: "nat \<Rightarrow> string \<Rightarrow> (bool \<times> nat \<times> string) option" where
  "strto_subject base s =
     (let t = dropWhile is_space s;
          neg = (t \<noteq> [] \<and> hd t = CHR ''-'');
          u = (if t \<noteq> [] \<and> (hd t = CHR ''-'' \<or> hd t = CHR ''+'') then tl t else t)
      in if u \<noteq> [] \<and> digit_in_base base (hd u) \<noteq> None
         then (let (v, rest) = read_base base 0 u in Some (neg, v, rest))
         else None)"

text \<open>\<^verbatim>\<open>strtoull\<close>: saturates at \<^verbatim>\<open>ULLONG_MAX\<close>, and negates in unsigned arithmetic; \<^verbatim>\<open>end\<close> is
  the whole text when nothing was converted.\<close>

definition strtoull :: "nat \<Rightarrow> string \<Rightarrow> u64 \<times> string" where
  "strtoull base s =
     (case strto_subject base s of
        None \<Rightarrow> (0, s)
      | Some (neg, v, rest) \<Rightarrow>
          (if v > UINT64_MAX then - 1 else if neg then - of_nat v else of_nat v, rest))"

text \<open>\<^verbatim>\<open>strtol\<close> with a 64-bit \<^verbatim>\<open>long\<close>: saturates at both ends.\<close>

definition strtol :: "nat \<Rightarrow> string \<Rightarrow> int \<times> string" where
  "strtol base s =
     (case strto_subject base s of
        None \<Rightarrow> (0, s)
      | Some (neg, v, rest) \<Rightarrow>
          (if neg then max (- (2 ^ 63)) (- int v) else min (2 ^ 63 - 1) (int v), rest))"

text \<open>\<^verbatim>\<open>atoi\<close> as the C library implements it: \<^verbatim>\<open>(int)strtol(s, NULL, 10)\<close>.\<close>

definition atoi :: "string \<Rightarrow> int" where
  "atoi s = to_int32 (fst (strtol 10 s))"

lemma is_digit_imp_not_space: "is_digit c \<Longrightarrow> \<not> is_space c"
  by (auto simp: is_digit_def is_space_def)

lemma digit_in_base_10 [simp]:
  "digit_in_base 10 c = (if is_digit c then Some (digit_val c) else None)"
  by (auto simp: digit_in_base_def is_digit_def digit_val_def Let_def)

lemma read_base_10: "read_base 10 acc s = read_dec acc s"
  by (induction s arbitrary: acc) auto

lemma strto_subject_dec_nat:
  assumes "cs = [] \<or> \<not> is_digit (hd cs)"
  shows "strto_subject 10 (dec_nat n @ cs) = Some (False, n, cs)"
proof -
  obtain d ds where ds: "dec_nat n = d # ds" by (cases "dec_nat n") auto
  then have d: "is_digit d" using dec_nat_digits [of d n] by simp
  then have "\<not> is_space d" "d \<noteq> CHR ''-''" "d \<noteq> CHR ''+''"
    by (auto simp: is_digit_imp_not_space is_digit_def)
  with d show ?thesis
    using read_dec_dec_nat [OF assms, of n] by (simp add: strto_subject_def ds read_base_10)
qed

lemma atoi_dec_nat:
  assumes "n < 2 ^ 31"
  shows "atoi (dec_nat n) = int n"
proof -
  have "fst (strtol 10 (dec_nat n)) = int n"
    using assms strto_subject_dec_nat [of "[]" n] by (simp add: strtol_def)
  with assms show ?thesis by (simp add: atoi_def to_int32_id)
qed

section \<open>Bytes and hexadecimal digits\<close>

text \<open>The bytes of a C string, and bytes written as characters.\<close>

definition bytes_of :: "string \<Rightarrow> byte list" where
  "bytes_of s = map of_char s"

definition text_of :: "byte list \<Rightarrow> string" where
  "text_of bs = map (\<lambda>b. char_of (unat b)) bs"

text \<open>\<^verbatim>\<open>%02x\<close> of a byte.\<close>

definition hex_digit :: "nat \<Rightarrow> char" where
  "hex_digit n = ''0123456789abcdef'' ! n"

definition hex_byte :: "byte \<Rightarrow> string" where
  "hex_byte b = [hex_digit (unat (drop_bit 4 b)), hex_digit (unat (b AND 15))]"

lemma hex_parts: "unat (drop_bit 4 (b :: byte)) < 16" "unat (b AND 15) < 16"
    "16 * drop_bit 4 b + (b AND 15) = b"
proof -
  have d: "unat (drop_bit 4 b) = unat b div 16" by (simp add: drop_bit_eq_div unat_div)
  have "b AND 15 = take_bit 4 b" by (simp add: take_bit_eq_mask mask_eq_exp_minus_1)
  then have m: "unat (b AND 15) = unat b mod 16" by (simp add: take_bit_eq_mod unat_mod)
  have "unat b < 2 ^ LENGTH(8)" by (rule unsigned_less)
  then show "unat (drop_bit 4 b) < 16" by (simp add: d)
  show "unat (b AND 15) < 16" by (simp add: m)
  have "(of_nat (16 * (unat b div 16) + unat b mod 16) :: byte) = b" by simp
  then have "16 * of_nat (unat (drop_bit 4 b)) + of_nat (unat (b AND 15)) = b"
    unfolding d m by (simp only: of_nat_add of_nat_mult of_nat_numeral)
  then show "16 * drop_bit 4 b + (b AND 15) = b" by simp
qed

lemma length_hex [simp]: "length (concat (map hex_byte bs)) = 2 * length bs"
  by (induction bs) (simp_all add: hex_byte_def)

section \<open>Output files\<close>

text \<open>An output takes bytes until its room is used up (\<open>None\<close>: without limit).\<close>

record output_file =
  out_bytes :: "byte list"
  out_room :: "nat option"

definition fwrite :: "byte list \<Rightarrow> output_file \<Rightarrow> nat \<times> output_file" where
  "fwrite d out =
     (let n = (case out_room out of None \<Rightarrow> length d | Some room \<Rightarrow> min room (length d)) in
      (n, out\<lparr>out_bytes := out_bytes out @ take n d, out_room := map_option (\<lambda>room. room - n) (out_room out)\<rparr>))"

lemma fwrite_unlimited: "out_room out = None \<Longrightarrow> fwrite d out = (length d, out\<lparr>out_bytes := out_bytes out @ d\<rparr>)"
  by (cases out) (simp add: fwrite_def)

section \<open>Formatted output\<close>

datatype fmt_arg = FStr string | FNat nat | FInt int

definition show_arg :: "fmt_arg \<Rightarrow> string" where
  "show_arg a = (case a of FStr s \<Rightarrow> s | FNat n \<Rightarrow> dec_nat n | FInt v \<Rightarrow> dec_int v)"

text \<open>The conversions the sources use without flags or width: \<^verbatim>\<open>%s\<close>, \<^verbatim>\<open>%d\<close>, \<^verbatim>\<open>%u\<close>, \<^verbatim>\<open>%zu\<close> and
  \<^verbatim>\<open>%llu\<close>. A conversion takes the next argument.\<close>

fun c_format :: "string \<Rightarrow> fmt_arg list \<Rightarrow> string" where
  "c_format [] as = []"
| "c_format (c # cs) as =
     (if c = CHR ''%'' then
        (let rest = dropWhile (\<lambda>x. x = CHR ''z'' \<or> x = CHR ''l'') cs in
         case (rest, as) of
           (k # ks, a # as') \<Rightarrow> show_arg a @ c_format ks as'
         | _ \<Rightarrow> c # cs)
      else c # c_format cs as)"

text \<open>What a process writes: to standard output, to standard error, a \<^verbatim>\<open>perror\<close> line (the text after
  the colon is the system's) and the carriage-return progress lines of the transfers.\<close>

datatype console = Out string | Err string | Perror string | Progress nat nat

definition newline :: string where
  "newline = [CHR 0x0A]"

text \<open>The UTF-8 bytes of an em dash in a message.\<close>

definition em_dash :: string where
  "em_dash = [CHR 0xE2, CHR 0x80, CHR 0x94]"

definition nl :: "string \<Rightarrow> string" where
  "nl s = s @ newline"

section \<open>Generic lemmas\<close>

lemma take_append_drop_take: "take n xs @ take m (drop n xs) = take (n + m) xs"
  by (simp add: take_add)

lemma prefix_take: "prefix (take n xs) xs"
  by (metis append_take_drop_id prefixI)

lemma bind_Some_iff: "Option.bind m f = Some y \<longleftrightarrow> (\<exists>x. m = Some x \<and> f x = Some y)"
  by (cases m) auto

end
