(* ===== verification/Client.thy ===== *)
theory Client
  imports Prelude
begin

text \<open>
  The command line client's connection to the daemon (\<^verbatim>\<open>src/src/offs/client.c\<close>, \<^verbatim>\<open>client.h\<close>): sending
  and receiving exactly the bytes of a frame over a socket that may accept or deliver fewer, be
  interrupted, or have nothing ready; connecting and disconnecting; and the length-prefixed frames
  on top. A socket is the sequence of answers the system gives to the successive calls, so every
  statement holds for each behaviour of the peer and the kernel. A call that finds no further answer
  blocks for ever: the operation does not return, which is the value \<open>None\<close>.
  The CBOR library and the frame encoder of liboffs are the fields of a codec.
\<close>

section \<open>Sockets\<close>

datatype errno = EINTR | EAGAIN | EWOULDBLOCK | ENOMEM | EMSGSIZE | EOTHER

text \<open>One answer of \<^verbatim>\<open>platform_socket_send\<close>: the number of bytes taken (never more than offered), or
  a failure with its \<^verbatim>\<open>errno\<close>.\<close>

datatype send_ev = Sent nat | SendErr errno

text \<open>One answer of \<^verbatim>\<open>platform_socket_recv\<close>: bytes that have arrived (the call takes at most what was
  asked for and leaves the rest), of which none means that the peer closed the connection, or a
  failure.\<close>

datatype recv_ev = Avail "byte list" | RecvErr errno

record sock =
  send_evs :: "send_ev list"
  recv_evs :: "recv_ev list"
  wire_out :: "byte list"

definition CLI_EAGAIN_RETRY_MS :: u32 where
  "CLI_EAGAIN_RETRY_MS = 1"

definition CLI_EAGAIN_BUDGET_MS :: u32 where
  "CLI_EAGAIN_BUDGET_MS = 30000"

definition MAX_RESPONSE_SIZE :: u32 where
  "MAX_RESPONSE_SIZE = 16 * 1024 * 1024"

text \<open>\<^verbatim>\<open>_send_all\<close>: the result is \<open>None\<close> for the C result 0 and \<open>Some e\<close> for -1 with \<^verbatim>\<open>errno\<close> \<open>e\<close>;
  \<open>wire\<close> collects the bytes the socket has taken.\<close>

fun send_all :: "send_ev list \<Rightarrow> byte list \<Rightarrow> nat \<Rightarrow> u32 \<Rightarrow> byte list
    \<Rightarrow> (errno option \<times> byte list \<times> send_ev list) option" where
  "send_all [] data bytes_sent eagain_ms wire =
     (if bytes_sent < length data then None else Some (None, wire, []))"
| "send_all (ev # evs) data bytes_sent eagain_ms wire =
     (if bytes_sent < length data then
        (case ev of
           SendErr e \<Rightarrow>
             if e = EINTR then send_all evs data bytes_sent eagain_ms wire
             else if e = EAGAIN \<or> e = EWOULDBLOCK then
               (if eagain_ms \<ge> CLI_EAGAIN_BUDGET_MS then Some (Some e, wire, evs)
                else send_all evs data bytes_sent (eagain_ms + CLI_EAGAIN_RETRY_MS) wire)
             else Some (Some e, wire, evs)
         | Sent k \<Rightarrow>
             let result = min k (length data - bytes_sent) in
             send_all evs data (bytes_sent + result) 0 (wire @ take result (drop bytes_sent data)))
      else Some (None, wire, ev # evs))"

text \<open>\<^verbatim>\<open>_recv_all\<close>: the C result, the bytes received and the answers left. Bytes that arrived beyond
  what was asked for stay at the head of the answers.\<close>

definition ev_weight :: "recv_ev \<Rightarrow> nat" where
  "ev_weight ev = (case ev of Avail bs \<Rightarrow> Suc (length bs) | RecvErr e \<Rightarrow> 1)"

function recv_all :: "recv_ev list \<Rightarrow> nat \<Rightarrow> byte list \<Rightarrow> u32
    \<Rightarrow> (int \<times> byte list \<times> recv_ev list) option" where
  "recv_all [] len data eagain_ms = (if length data < len then None else Some (0, data, []))"
| "recv_all (RecvErr e # evs) len data eagain_ms =
     (if length data < len then
        (if e = EINTR then recv_all evs len data eagain_ms
         else if e = EAGAIN \<or> e = EWOULDBLOCK then
           (if eagain_ms \<ge> CLI_EAGAIN_BUDGET_MS then Some (- 1, data, evs)
            else recv_all evs len data (eagain_ms + CLI_EAGAIN_RETRY_MS))
         else Some (- 1, data, evs))
      else Some (0, data, RecvErr e # evs))"
| "recv_all (Avail bs # evs) len data eagain_ms =
     (if length data < len then
        (let result = min (length bs) (len - length data) in
         if result = 0 then Some (- 1, data, evs)
         else recv_all (if result < length bs then Avail (drop result bs) # evs else evs)
                len (data @ take result bs) 0)
      else Some (0, data, Avail bs # evs))"
  by pat_completeness auto
termination
  by (relation "measure (\<lambda>(evs, len, data, e). sum_list (map ev_weight evs))")
     (auto simp: ev_weight_def)

section \<open>The client\<close>

record cli_client =
  socket :: "sock option"
  socket_path :: "string option"
  connected :: u8

definition cli_client_create :: "string option \<Rightarrow> cli_client" where
  "cli_client_create path = \<lparr>socket = None, socket_path = path, connected = 0\<rparr>"

text \<open>\<^verbatim>\<open>platform_local_connect\<close> of liboffs is the argument \<open>local_connect\<close>.\<close>

definition cli_client_connect ::
    "(string \<Rightarrow> sock option) \<Rightarrow> cli_client option \<Rightarrow> int \<times> cli_client option" where
  "cli_client_connect local_connect client =
     (case client of
        None \<Rightarrow> (- 1, client)
      | Some c \<Rightarrow>
          (case socket_path c of
             None \<Rightarrow> (- 1, client)
           | Some path \<Rightarrow>
               if connected c \<noteq> 0 then (0, client)
               else (case local_connect path of
                       None \<Rightarrow> (- 1, client)
                     | Some s \<Rightarrow> (0, Some (c\<lparr>socket := Some s, connected := 1\<rparr>)))))"

definition cli_client_disconnect :: "cli_client option \<Rightarrow> cli_client option" where
  "cli_client_disconnect client = map_option (\<lambda>c. c\<lparr>socket := None, connected := 0\<rparr>) client"

text \<open>\<^verbatim>\<open>cli_client_destroy\<close> disconnects and frees: no client is left.\<close>

definition cli_client_destroy :: "cli_client option \<Rightarrow> cli_client option" where
  "cli_client_destroy client =
     (case client of None \<Rightarrow> None | Some c \<Rightarrow> (let d = cli_client_disconnect (Some c) in None))"

section \<open>Frames\<close>

record 'c codec =
  cbor_serialize :: "'c \<Rightarrow> byte list" \<comment> \<open>empty when the library reports no buffer or no bytes\<close>
  stream_frame_encode :: "byte list \<Rightarrow> byte list option"
  cbor_load :: "byte list \<Rightarrow> 'c option" \<comment> \<open>\<open>None\<close> on a null item or an error code\<close>

definition cli_client_send_frame ::
    "('c, 'm) codec_scheme \<Rightarrow> cli_client option \<Rightarrow> 'c option \<Rightarrow> (errno option \<times> cli_client option) option" where
  "cli_client_send_frame cd client frame =
     (case (client, frame) of
        (Some c, Some f) \<Rightarrow>
          (case (connected c = 0, socket c) of
             (False, Some s) \<Rightarrow>
               (let cbor_buf = cbor_serialize cd f in
                if cbor_buf = [] then Some (Some ENOMEM, client)
                else case stream_frame_encode cd cbor_buf of
                  None \<Rightarrow> Some (Some EMSGSIZE, client)
                | Some framed \<Rightarrow>
                    if framed = [] then Some (Some EMSGSIZE, client)
                    else do {
                      (rc, wire, evs) \<leftarrow> send_all (send_evs s) framed 0 0 (wire_out s);
                      Some (rc, Some (c\<lparr>socket := Some (s\<lparr>send_evs := evs, wire_out := wire\<rparr>)\<rparr>))
                    })
           | _ \<Rightarrow> Some (Some EOTHER, client))
      | _ \<Rightarrow> Some (Some EOTHER, client))"

text \<open>The big-endian length prefix, as the code assembles it from four bytes.\<close>

definition decode_length :: "byte list \<Rightarrow> u32" where
  "decode_length b =
     push_bit 24 (ucast (b ! 0)) OR push_bit 16 (ucast (b ! 1)) OR push_bit 8 (ucast (b ! 2)) OR ucast (b ! 3)"

definition cli_client_recv_frame ::
    "('c, 'm) codec_scheme \<Rightarrow> cli_client option \<Rightarrow> ('c option \<times> cli_client option) option" where
  "cli_client_recv_frame cd client =
     (case client of
        None \<Rightarrow> Some (None, client)
      | Some c \<Rightarrow>
          (case (connected c = 0, socket c) of
             (False, Some s) \<Rightarrow> do {
               (rc, length_buf, evs) \<leftarrow> recv_all (recv_evs s) 4 [] 0;
               let client1 = Some (c\<lparr>socket := Some (s\<lparr>recv_evs := evs\<rparr>)\<rparr>);
               if rc \<noteq> 0 then Some (None, client1)
               else (let response_len = decode_length length_buf in
                 if response_len = 0 \<or> response_len > MAX_RESPONSE_SIZE then Some (None, client1)
                 else do {
                   (rc2, response_data, evs2) \<leftarrow> recv_all evs (unat response_len) [] 0;
                   let client2 = Some (c\<lparr>socket := Some (s\<lparr>recv_evs := evs2\<rparr>)\<rparr>);
                   Some (if rc2 \<noteq> 0 then None else cbor_load cd response_data, client2)
                 })
             }
           | _ \<Rightarrow> Some (None, client)))"

definition usable :: "cli_client option \<Rightarrow> bool" where
  "usable client \<longleftrightarrow> (\<exists>c. client = Some c \<and> connected c \<noteq> 0 \<and> socket c \<noteq> None)"

definition cli_client_send ::
    "('c, 'm) codec_scheme \<Rightarrow> cli_client option \<Rightarrow> 'c option \<Rightarrow> ('c option \<times> cli_client option) option" where
  "cli_client_send cd client request =
     (case (client, request) of
        (Some c, Some r) \<Rightarrow>
          (if connected c = 0 \<or> socket c = None then Some (None, client)
           else do {
             (rc, client1) \<leftarrow> cli_client_send_frame cd client request;
             if rc \<noteq> None then Some (None, client1) else cli_client_recv_frame cd client1
           })
      | _ \<Rightarrow> Some (None, client))"

section \<open>Sending exactly the bytes of a frame\<close>

lemma send_all_done [simp]: "length data \<le> k \<Longrightarrow> send_all evs data k e w = Some (None, w, evs)"
  by (cases evs) simp_all

lemma send_all_sent:
  "send_all evs data k e w = Some (rc, w', evs') \<Longrightarrow> k \<le> length data \<Longrightarrow>
     \<exists>m. k \<le> m \<and> m \<le> length data \<and> w' = w @ take (m - k) (drop k data) \<and> (rc = None \<longleftrightarrow> m = length data)"
proof (induction evs arbitrary: k e w)
  case Nil
  then show ?case by (auto split: if_splits intro: exI [of _ k])
next
  case (Cons ev evs)
  show ?case
  proof (cases "k < length data")
    case False
    with Cons.prems show ?thesis by (auto intro: exI [of _ k])
  next
    case True
    show ?thesis
    proof (cases ev)
      case (Sent n)
      let ?r = "min n (length data - k)"
      from Sent True Cons.prems(1)
      have "send_all evs data (k + ?r) 0 (w @ take ?r (drop k data)) = Some (rc, w', evs')"
        by (simp add: Let_def)
      moreover have "k + ?r \<le> length data" using True by linarith
      ultimately obtain m where
        m: "k + ?r \<le> m" "m \<le> length data"
           "w' = (w @ take ?r (drop k data)) @ take (m - (k + ?r)) (drop (k + ?r) data)"
           "rc = None \<longleftrightarrow> m = length data"
        using Cons.IH by blast
      have "take ?r (drop k data) @ take (m - (k + ?r)) (drop ?r (drop k data))
              = take (?r + (m - (k + ?r))) (drop k data)"
        by (rule take_append_drop_take)
      moreover have "?r + (m - (k + ?r)) = m - k" using m(1) by linarith
      ultimately have "w' = w @ take (m - k) (drop k data)"
        using m(3) by (simp add: add.commute)
      with m show ?thesis by (intro exI [of _ m]) simp
    next
      case (SendErr er)
      consider (retry) e' where "send_all evs data k e' w = Some (rc, w', evs')" | (fail) "rc \<noteq> None" "w' = w"
        using SendErr True Cons.prems(1) by (auto split: if_splits)
      then show ?thesis
      proof cases
        case retry
        from Cons.IH [OF this Cons.prems(2)] show ?thesis .
      next
        case fail
        with True show ?thesis by (intro exI [of _ k]) simp
      qed
    qed
  qed
qed

text \<open>Every call that makes progress shortens what is left; between two of them the budget admits
  30000 waits, and only interruptions are free. So a socket that takes at least one byte whenever it
  takes any cannot keep the loop going.\<close>

definition counts_send :: "send_ev \<Rightarrow> bool" where
  "counts_send ev \<longleftrightarrow> ev \<noteq> SendErr EINTR"

definition counts_recv :: "recv_ev \<Rightarrow> bool" where
  "counts_recv ev \<longleftrightarrow> ev \<noteq> RecvErr EINTR"

lemma counts_simps [simp]:
  "counts_send (Sent k)" "counts_send (SendErr e) \<longleftrightarrow> e \<noteq> EINTR"
  "counts_recv (Avail bs)" "counts_recv (RecvErr e) \<longleftrightarrow> e \<noteq> EINTR"
  by (simp_all add: counts_send_def counts_recv_def)

lemma budget_step:
  assumes "\<not> CLI_EAGAIN_BUDGET_MS \<le> (e::u32)"
  shows "unat (e + CLI_EAGAIN_RETRY_MS) = Suc (unat e)" "unat e < 30000"
  using assms by (simp_all add: CLI_EAGAIN_BUDGET_MS_def CLI_EAGAIN_RETRY_MS_def unat_arith_simps)

lemma send_all_returns_aux:
  assumes "Sent 0 \<notin> set evs" "unat e \<le> 30000"
    and "(length data - k) * 30001 - unat e \<le> length (filter counts_send evs)"
  shows "\<exists>r. send_all evs data k e w = Some r"
  using assms
proof (induction evs arbitrary: k e w)
  case Nil
  then show ?case by (cases "length data - k") (auto simp: not_less)
next
  case (Cons ev evs)
  show ?case
  proof (cases "k < length data")
    case False
    then show ?thesis by simp
  next
    case True
    then obtain d where d: "length data - k = Suc d" by (cases "length data - k") auto
    show ?thesis
    proof (cases ev)
      case (Sent n)
      let ?r = "min n (length data - k)"
      have "1 \<le> ?r" using Sent Cons.prems(1) d by (cases n) auto
      then have "length data - (k + ?r) \<le> d" using d by linarith
      then have "(length data - (k + ?r)) * 30001 \<le> d * 30001" by (rule mult_le_mono1)
      moreover have "d * 30001 \<le> length (filter counts_send evs)"
        using Cons.prems(2,3) Sent d by simp
      ultimately have "\<exists>r. send_all evs data (k + ?r) 0 (w @ take ?r (drop k data)) = Some r"
        using Cons.prems(1) by (intro Cons.IH) simp_all
      with Sent True show ?thesis by (simp add: Let_def)
    next
      case (SendErr er)
      show ?thesis
      proof (cases "(er = EAGAIN \<or> er = EWOULDBLOCK) \<and> \<not> CLI_EAGAIN_BUDGET_MS \<le> e")
        case True
        then have wait: "er \<noteq> EINTR" "er = EAGAIN \<or> er = EWOULDBLOCK" "\<not> CLI_EAGAIN_BUDGET_MS \<le> e" by auto
        note b = budget_step [OF wait(3)]
        have "Suc d * 30001 - Suc (unat e) \<le> length (filter counts_send evs)"
          using Cons.prems(3) SendErr wait(1) d by simp
        with b d Cons.prems(1) have "\<exists>r. send_all evs data k (e + CLI_EAGAIN_RETRY_MS) w = Some r"
          by (intro Cons.IH) simp_all
        with wait SendErr \<open>k < length data\<close> show ?thesis by simp
      next
        case False
        with SendErr \<open>k < length data\<close> Cons.IH [of e k w] Cons.prems show ?thesis by auto
      qed
    qed
  qed
qed

text \<open>Answers on which the socket takes no byte and no limit is reached: interruptions, sends of zero bytes, and
  refusals of which at most \<open>b\<close> (then 30000 after each send of zero bytes) follow each other.\<close>

fun stalling :: "nat \<Rightarrow> send_ev list \<Rightarrow> bool" where
  "stalling b [] = True"
| "stalling b (Sent n # evs) = (n = 0 \<and> stalling 30000 evs)"
| "stalling b (SendErr e # evs) =
     (if e = EINTR then stalling b evs else (e = EAGAIN \<or> e = EWOULDBLOCK) \<and> 0 < b \<and> stalling (b - 1) evs)"

lemma send_all_stalls:
  "stalling (30000 - unat e) evs \<Longrightarrow> k < length data \<Longrightarrow> send_all evs data k e w = None"
proof (induction evs arbitrary: e w)
  case (Cons ev evs)
  show ?case
  proof (cases ev)
    case (SendErr er)
    show ?thesis
    proof (cases "er = EINTR")
      case False
      then have "\<not> CLI_EAGAIN_BUDGET_MS \<le> e" using Cons.prems SendErr by (auto simp: CLI_EAGAIN_BUDGET_MS_def word_le_nat_alt split: if_splits)
      then show ?thesis using Cons.IH [of "e + CLI_EAGAIN_RETRY_MS" w] Cons.prems SendErr False budget_step [of e] by auto
    qed (use Cons.IH [of e w] Cons.prems SendErr in auto)
  qed (use Cons.IH [of 0 w] Cons.prems in auto)
qed simp

section \<open>Receiving exactly the bytes of a frame\<close>

definition stream :: "recv_ev list \<Rightarrow> byte list" where
  "stream evs = concat (map (\<lambda>ev. case ev of Avail bs \<Rightarrow> bs | RecvErr e \<Rightarrow> []) evs)"

lemma stream_simps [simp]:
  "stream [] = []" "stream (Avail bs # evs) = bs @ stream evs" "stream (RecvErr e # evs) = stream evs"
  by (simp_all add: stream_def)

lemma recv_all_done [simp]: "len \<le> length data \<Longrightarrow> recv_all evs len data e = Some (0, data, evs)"
proof (cases evs)
  case (Cons ev evs')
  then show "len \<le> length data \<Longrightarrow> recv_all evs len data e = Some (0, data, evs)" by (cases ev) simp_all
qed simp

text \<open>An answer with bytes either is taken whole or completes the request.\<close>

lemma recv_all_Avail_whole:
  assumes "length data < len" "bs \<noteq> []" "length data + length bs \<le> len"
  shows "recv_all (Avail bs # evs) len data e = recv_all evs len (data @ bs) 0"
proof -
  from assms have "min (length bs) (len - length data) = length bs" by simp
  with assms show ?thesis by (simp add: Let_def)
qed

lemma recv_all_Avail_part:
  assumes "length data < len" "len < length data + length bs"
  shows "recv_all (Avail bs # evs) len data e
       = Some (0, data @ take (len - length data) bs, Avail (drop (len - length data) bs) # evs)"
proof -
  from assms have "min (length bs) (len - length data) = len - length data" by simp
  with assms show ?thesis by (auto simp: Let_def)
qed

lemma recv_all_closed: "length data < len \<Longrightarrow> recv_all (Avail [] # evs) len data e = Some (- 1, data, evs)"
  by (simp add: Let_def)

declare recv_all.simps(3) [simp del]

lemmas recv_all_Avail = recv_all_Avail_whole recv_all_Avail_part recv_all_closed

lemma recv_all_ErrE:
  assumes "recv_all (RecvErr er # evs) len data e = Some (rc, data', evs')"
  obtains (retry) e' where "recv_all evs len data e' = Some (rc, data', evs')"
    | (fail) "rc = - 1" "data' = data" "evs' = evs" "length data < len"
    | (complete) "rc = 0" "data' = data" "evs' = RecvErr er # evs" "len \<le> length data"
proof (cases "length data < len")
  case True
  show thesis
  proof (cases "er = EINTR \<or> (er = EAGAIN \<or> er = EWOULDBLOCK) \<and> \<not> CLI_EAGAIN_BUDGET_MS \<le> e")
    case True
    with \<open>length data < len\<close> assms retry show thesis by (simp split: if_splits)
  next
    case False
    with \<open>length data < len\<close> assms fail show thesis by (simp split: if_splits)
  qed
next
  case False
  with assms complete show thesis by simp
qed

lemma recv_all_conserves:
  "recv_all evs len data e = Some (rc, data', evs') \<Longrightarrow> length data \<le> len \<Longrightarrow>
     data' @ stream evs' = data @ stream evs \<and> prefix data data' \<and> length data' \<le> len
       \<and> (rc = 0 \<longleftrightarrow> length data' = len) \<and> (rc = 0 \<or> rc = - 1)"
proof (induction evs arbitrary: data e)
  case Nil
  then show ?case by (auto split: if_splits)
next
  case (Cons ev evs)
  show ?case
  proof (cases ev)
    case (RecvErr er)
    with Cons.prems(1) have "recv_all (RecvErr er # evs) len data e = Some (rc, data', evs')" by simp
    then show ?thesis
    proof (cases rule: recv_all_ErrE)
      case retry
      from Cons.IH [OF this Cons.prems(2)] RecvErr show ?thesis by auto
    qed (use RecvErr Cons.prems(2) in auto)
  next
    case (Avail bs)
    consider "len \<le> length data" | "length data < len" "bs = []"
      | "length data < len" "bs \<noteq> []" "length data + length bs \<le> len"
      | "length data < len" "len < length data + length bs" by linarith
    then show ?thesis
    proof cases
      case 3
      with Avail Cons.prems have "recv_all evs len (data @ bs) 0 = Some (rc, data', evs')"
        by (simp add: recv_all_Avail)
      from Cons.IH [OF this] 3 Avail show ?thesis by (auto dest: append_prefixD)
    qed (use Avail Cons.prems in \<open>auto simp: recv_all_Avail\<close>)
  qed
qed

text \<open>A peer that only delivers bytes, in whatever pieces, with interruptions in between.\<close>

definition benign :: "recv_ev list \<Rightarrow> bool" where
  "benign evs \<longleftrightarrow> list_all (\<lambda>ev. case ev of Avail bs \<Rightarrow> bs \<noteq> [] | RecvErr e \<Rightarrow> e = EINTR) evs"

lemma benign_simps [simp]:
  "benign []"
  "benign (Avail bs # evs) \<longleftrightarrow> bs \<noteq> [] \<and> benign evs"
  "benign (RecvErr e # evs) \<longleftrightarrow> e = EINTR \<and> benign evs"
  by (simp_all add: benign_def)

lemma recv_all_benign:
  "benign evs \<Longrightarrow> len \<le> length data + length (stream evs) \<Longrightarrow> length data \<le> len \<Longrightarrow>
     \<exists>evs'. recv_all evs len data e = Some (0, take len (data @ stream evs), evs') \<and> benign evs'
       \<and> stream evs' = drop (len - length data) (stream evs)"
proof (induction evs arbitrary: data e)
  case Nil
  then show ?case by simp
next
  case (Cons ev evs)
  show ?case
  proof (cases ev)
    case (RecvErr er)
    with Cons.prems Cons.IH [of data e] show ?thesis by (cases "length data < len") auto
  next
    case (Avail bs)
    consider "length data = len"
      | "length data < len" "bs \<noteq> []" "length data + length bs \<le> len"
      | "length data < len" "len < length data + length bs" using Cons.prems Avail by fastforce
    then show ?thesis
    proof cases
      case 2
      with Cons.prems Avail Cons.IH [of "data @ bs" 0] show ?thesis by (simp add: recv_all_Avail)
    qed (use Avail Cons.prems in \<open>auto simp: recv_all_Avail\<close>)
  qed
qed

lemma recv_all_returns_aux:
  assumes "unat e \<le> 30000"
    and "(len - length data) * 30001 - unat e \<le> length (filter counts_recv evs)"
  shows "\<exists>r. recv_all evs len data e = Some r"
  using assms
proof (induction evs arbitrary: data e)
  case Nil
  then show ?case by (cases "len - length data") auto
next
  case (Cons ev evs)
  show ?case
  proof (cases "length data < len")
    case False
    then show ?thesis by simp
  next
    case True
    then obtain d where d: "len - length data = Suc d" by (cases "len - length data") auto
    show ?thesis
    proof (cases ev)
      case (RecvErr er)
      show ?thesis
      proof (cases "(er = EAGAIN \<or> er = EWOULDBLOCK) \<and> \<not> CLI_EAGAIN_BUDGET_MS \<le> e")
        case True
        then have wait: "er \<noteq> EINTR" "er = EAGAIN \<or> er = EWOULDBLOCK" "\<not> CLI_EAGAIN_BUDGET_MS \<le> e" by auto
        note b = budget_step [OF wait(3)]
        have "Suc d * 30001 - Suc (unat e) \<le> length (filter counts_recv evs)"
          using Cons.prems(2) RecvErr wait(1) d by simp
        with Cons.IH [of "e + CLI_EAGAIN_RETRY_MS" data] b d wait RecvErr show ?thesis by simp
      next
        case False
        with Cons.IH [of e data] Cons.prems RecvErr show ?thesis by auto
      qed
    next
      case (Avail bs)
      consider "bs = []" | "bs \<noteq> []" "length data + length bs \<le> len" | "len < length data + length bs" by linarith
      then show ?thesis
      proof cases
        case 2
        then have "len - length (data @ bs) \<le> d" using d by (cases bs) auto
        then have "(len - length (data @ bs)) * 30001 \<le> d * 30001" by (rule mult_le_mono1)
        moreover have "d * 30001 \<le> length (filter counts_recv evs)" using Cons.prems Avail d by simp
        ultimately have "\<exists>r. recv_all evs len (data @ bs) 0 = Some r" by (intro Cons.IH) simp_all
        with 2 True Avail show ?thesis by (simp add: recv_all_Avail)
      qed (use True Avail in \<open>auto simp: recv_all_Avail\<close>)
    qed
  qed
qed

section \<open>The length prefix\<close>

text \<open>The four bytes a frame starts with, most significant first.\<close>

definition be32 :: "nat \<Rightarrow> byte list" where
  "be32 n = [of_nat (n div 2 ^ 24), of_nat (n div 2 ^ 16), of_nat (n div 2 ^ 8), of_nat n]"

lemma length_be32 [simp]: "length (be32 n) = 4"
  by (simp add: be32_def)

lemma decode_length_be32: "decode_length (be32 n) = of_nat n"
proof (rule bit_word_eqI)
  fix i
  assume "i < LENGTH(32)"
  then have i: "i < 32" by simp
  have shifts: "bit (n div 16777216) k = bit n (24 + k)" "bit (n div 65536) k = bit n (16 + k)"
    "bit (n div 256) k = bit n (8 + k)" for k
    using bit_drop_bit_eq [of 24 n] bit_drop_bit_eq [of 16 n] bit_drop_bit_eq [of 8 n]
    by (simp_all add: drop_bit_eq_div fun_eq_iff)
  consider "i < 8" | "8 \<le> i" "i < 16" | "16 \<le> i" "i < 24" | "24 \<le> i" by linarith
  then show "bit (decode_length (be32 n)) i \<longleftrightarrow> bit (of_nat n :: u32) i"
    using i by cases (auto simp: decode_length_def be32_def bit_simps shifts)
qed

section \<open>Frames and the state of the client\<close>

text \<open>A client is connected exactly when it owns a socket.\<close>

definition client_wf :: "cli_client \<Rightarrow> bool" where
  "client_wf c \<longleftrightarrow> (connected c \<noteq> 0 \<longleftrightarrow> socket c \<noteq> None)"

lemma create_wf: "client_wf (cli_client_create p)"
  by (simp add: client_wf_def cli_client_create_def)

lemma connect_wf:
  "client_wf c \<Longrightarrow> cli_client_connect lc (Some c) = (rc, Some c') \<Longrightarrow>
     client_wf c' \<and> (rc = 0 \<longrightarrow> connected c' \<noteq> 0) \<and> socket_path c' = socket_path c"
  by (auto simp: cli_client_connect_def client_wf_def split: option.splits if_splits)

lemma disconnect_wf: "cli_client_disconnect (Some c) = Some c' \<Longrightarrow> client_wf c' \<and> connected c' = 0"
  by (auto simp: cli_client_disconnect_def client_wf_def)

text \<open>The two directions of a socket do not disturb each other.\<close>

lemma send_frame_cases:
  assumes "cli_client_send_frame cd client frame = Some (rc, client')"
  obtains (refused) er where "rc = Some er" "client' = client"
  | (sent) c s f framed wire evs where "client = Some c" "connected c \<noteq> 0" "socket c = Some s" "frame = Some f"
      "cbor_serialize cd f \<noteq> []" "stream_frame_encode cd (cbor_serialize cd f) = Some framed" "framed \<noteq> []"
      "send_all (send_evs s) framed 0 0 (wire_out s) = Some (rc, wire, evs)"
      "client' = Some (c\<lparr>socket := Some (s\<lparr>send_evs := evs, wire_out := wire\<rparr>)\<rparr>)"
  using assms
  by (auto simp: cli_client_send_frame_def Let_def bind_Some_iff split: option.splits if_splits bool.splits)

lemma recv_frame_cases:
  assumes "cli_client_recv_frame cd client = Some (resp, client')"
  obtains (closed) "resp = None" "client' = client" "\<not> usable client"
  | (no_length) c s rc lb evs where "client = Some c" "connected c \<noteq> 0" "socket c = Some s"
      "recv_all (recv_evs s) 4 [] 0 = Some (rc, lb, evs)" "resp = None"
      "rc \<noteq> 0 \<or> decode_length lb = 0 \<or> decode_length lb > MAX_RESPONSE_SIZE"
      "client' = Some (c\<lparr>socket := Some (s\<lparr>recv_evs := evs\<rparr>)\<rparr>)"
  | (body) c s lb evs rc body evs2 where "client = Some c" "connected c \<noteq> 0" "socket c = Some s"
      "recv_all (recv_evs s) 4 [] 0 = Some (0, lb, evs)"
      "decode_length lb \<noteq> 0" "decode_length lb \<le> MAX_RESPONSE_SIZE"
      "recv_all evs (unat (decode_length lb)) [] 0 = Some (rc, body, evs2)"
      "resp = (if rc \<noteq> 0 then None else cbor_load cd body)"
      "client' = Some (c\<lparr>socket := Some (s\<lparr>recv_evs := evs2\<rparr>)\<rparr>)"
  using assms
  by (auto simp: cli_client_recv_frame_def usable_def Let_def bind_Some_iff not_less
      split: option.splits if_splits bool.splits)

lemma usable_Some: "usable (Some c) \<longleftrightarrow> connected c \<noteq> 0 \<and> socket c \<noteq> None"
  by (simp add: usable_def)

lemma send_frame_usable: "cli_client_send_frame cd client f = Some (rc, client') \<Longrightarrow> usable client' = usable client"
  by (erule send_frame_cases) (simp_all add: usable_def)

lemma recv_frame_usable: "cli_client_recv_frame cd client = Some (r, client') \<Longrightarrow> usable client' = usable client"
  by (erule recv_frame_cases) (simp_all add: usable_def)

lemma send_frame_unusable: "\<not> usable client \<Longrightarrow> cli_client_send_frame cd client f = Some (Some EOTHER, client)"
  by (auto simp: cli_client_send_frame_def usable_def split: option.splits bool.splits)

lemma recv_frame_unusable: "\<not> usable client \<Longrightarrow> cli_client_recv_frame cd client = Some (None, client)"
  by (auto simp: cli_client_recv_frame_def usable_def split: option.splits bool.splits)

lemma client_send_unfold:
  "cli_client_send cd client request =
     (if usable client \<and> request \<noteq> None
      then do {
        (rc, client1) \<leftarrow> cli_client_send_frame cd client request;
        if rc \<noteq> None then Some (None, client1) else cli_client_recv_frame cd client1
      }
      else Some (None, client))"
  by (auto simp: cli_client_send_def usable_def split: option.splits)

section \<open>The interface the commands use\<close>

text \<open>A command sees a connection through three operations: sending a frame, receiving one, and a
  request with its reply. The laws say that an unusable connection answers nothing and stays as it
  is, that no operation changes whether the connection is usable, and that a request is a frame sent
  followed by a frame received.\<close>

locale frame_channel =
  fixes alive :: "'cl \<Rightarrow> bool"
    and send_frame :: "'cl \<Rightarrow> 'c option \<Rightarrow> (errno option \<times> 'cl) option"
    and recv_frame :: "'cl \<Rightarrow> ('c option \<times> 'cl) option"
    and request :: "'cl \<Rightarrow> 'c option \<Rightarrow> ('c option \<times> 'cl) option"
  assumes send_dead: "\<not> alive cl \<Longrightarrow> \<exists>e. send_frame cl f = Some (Some e, cl)"
    and recv_dead: "\<not> alive cl \<Longrightarrow> recv_frame cl = Some (None, cl)"
    and send_alive: "send_frame cl f = Some (rc, cl') \<Longrightarrow> alive cl' = alive cl"
    and recv_alive: "recv_frame cl = Some (r, cl') \<Longrightarrow> alive cl' = alive cl"
    and request_Some: "alive cl \<Longrightarrow> request cl (Some item) =
          Option.bind (send_frame cl (Some item)) (\<lambda>(rc, cl1). if rc \<noteq> None then Some (None, cl1) else recv_frame cl1)"
    and request_refused: "\<not> alive cl \<or> f = None \<Longrightarrow> request cl f = Some (None, cl)"
begin

lemma request_alive:
  assumes "request cl f = Some (r, cl')"
  shows "alive cl' = alive cl"
proof (cases "alive cl \<and> f \<noteq> None")
  case True
  then obtain item where "f = Some item" by auto
  with True assms obtain rc cl1 where sent: "send_frame cl f = Some (rc, cl1)"
    and rest: "(if rc \<noteq> None then Some (None, cl1) else recv_frame cl1) = Some (r, cl')"
    by (auto simp: request_Some bind_Some_iff)
  from rest have "alive cl' = alive cl1" by (cases rc) (auto dest: recv_alive)
  with send_alive [OF sent] show ?thesis by simp
next
  case False
  with assms request_refused [of cl f] show ?thesis by auto
qed

lemma reply_needs_connection:
  assumes "request cl f = Some (Some r, cl')"
  shows "alive cl \<and> f \<noteq> None"
proof (rule ccontr)
  assume "\<not> ?thesis"
  with assms request_refused [of cl f] show False by auto
qed

lemma reply_was_received:
  assumes "request cl f = Some (Some r, cl')"
  obtains cl1 where "send_frame cl f = Some (None, cl1)" "recv_frame cl1 = Some (Some r, cl')"
proof -
  from reply_needs_connection [OF assms] have "alive cl" and "f \<noteq> None" by auto
  with assms that show thesis
    by (auto simp: request_Some bind_Some_iff split: if_splits)
qed

end

interpretation cli: frame_channel usable "cli_client_send_frame cd" "cli_client_recv_frame cd" "cli_client_send cd"
  for cd :: "('c, 'm) codec_scheme"
proof unfold_locales
  fix cl f rc cl' r item
  show "\<not> usable cl \<Longrightarrow> \<exists>e. cli_client_send_frame cd cl f = Some (Some e, cl)"
    by (simp add: send_frame_unusable)
  show "\<not> usable cl \<Longrightarrow> cli_client_recv_frame cd cl = Some (None, cl)"
    by (rule recv_frame_unusable)
  show "cli_client_send_frame cd cl f = Some (rc, cl') \<Longrightarrow> usable cl' = usable cl"
    by (rule send_frame_usable)
  show "cli_client_recv_frame cd cl = Some (r, cl') \<Longrightarrow> usable cl' = usable cl"
    by (rule recv_frame_usable)
  show "usable cl \<Longrightarrow> cli_client_send cd cl (Some item) =
      Option.bind (cli_client_send_frame cd cl (Some item))
        (\<lambda>(rc, cl1). if rc \<noteq> None then Some (None, cl1) else cli_client_recv_frame cd cl1)"
    by (simp add: client_send_unfold)
  show "\<not> usable cl \<or> f = None \<Longrightarrow> cli_client_send cd cl f = Some (None, cl)"
    by (auto simp: client_send_unfold)
qed

section \<open>The life of a client\<close>

text \<open>One operation of the interface in \<^verbatim>\<open>client.h\<close> on an existing client.\<close>

inductive client_step :: "(string \<Rightarrow> sock option) \<Rightarrow> ('c, 'm) codec_scheme \<Rightarrow> cli_client \<Rightarrow> cli_client \<Rightarrow> bool"
  for lc cd where
  step_connect: "cli_client_connect lc (Some c) = (rc, Some c') \<Longrightarrow> client_step lc cd c c'"
| step_disconnect: "cli_client_disconnect (Some c) = Some c' \<Longrightarrow> client_step lc cd c c'"
| step_send_frame: "cli_client_send_frame cd (Some c) f = Some (rc, Some c') \<Longrightarrow> client_step lc cd c c'"
| step_recv_frame: "cli_client_recv_frame cd (Some c) = Some (r, Some c') \<Longrightarrow> client_step lc cd c c'"
| step_send: "cli_client_send cd (Some c) f = Some (r, Some c') \<Longrightarrow> client_step lc cd c c'"

inductive client_reachable :: "(string \<Rightarrow> sock option) \<Rightarrow> ('c, 'm) codec_scheme \<Rightarrow> string option \<Rightarrow> cli_client \<Rightarrow> bool"
  for lc cd p where
  reach_create: "client_reachable lc cd p (cli_client_create p)"
| reach_step: "client_reachable lc cd p c \<Longrightarrow> client_step lc cd c c' \<Longrightarrow> client_reachable lc cd p c'"

definition client_inv :: "string option \<Rightarrow> cli_client \<Rightarrow> bool" where
  "client_inv p c \<longleftrightarrow> client_wf c \<and> socket_path c = p"

lemma send_frame_inv: "client_inv p c \<Longrightarrow> cli_client_send_frame cd (Some c) f = Some (rc, Some c') \<Longrightarrow> client_inv p c'"
  by (erule send_frame_cases) (auto simp: client_inv_def client_wf_def)

lemma recv_frame_inv: "client_inv p c \<Longrightarrow> cli_client_recv_frame cd (Some c) = Some (r, Some c') \<Longrightarrow> client_inv p c'"
  by (erule recv_frame_cases) (auto simp: client_inv_def client_wf_def)

lemma send_frame_keeps_client:
  "cli_client_send_frame cd (Some c) f = Some (rc, client') \<Longrightarrow> \<exists>c'. client' = Some c'"
  by (erule send_frame_cases) auto

lemma send_inv:
  assumes "client_inv p c" "cli_client_send cd (Some c) f = Some (r, Some c')"
  shows "client_inv p c'"
proof (cases "usable (Some c) \<and> f \<noteq> None")
  case True
  with assms(2) obtain rc cl1 where sent: "cli_client_send_frame cd (Some c) f = Some (rc, cl1)"
    and rest: "(if rc \<noteq> None then Some (None, cl1) else cli_client_recv_frame cd cl1) = Some (r, Some c')"
    by (auto simp: client_send_unfold bind_Some_iff)
  then obtain c1 where "cl1 = Some c1" using send_frame_keeps_client by blast
  with sent assms(1) have "client_inv p c1" by (auto intro: send_frame_inv)
  with rest \<open>cl1 = Some c1\<close> show ?thesis by (auto split: if_splits intro: recv_frame_inv)
next
  case False
  with assms show ?thesis by (auto simp: client_send_unfold)
qed

lemma client_step_inv: "client_step lc cd c c' \<Longrightarrow> client_inv p c \<Longrightarrow> client_inv p c'"
proof (induction rule: client_step.induct)
  case (step_connect c rc c')
  then show ?case using connect_wf [of c lc rc c'] by (auto simp: client_inv_def)
next
  case (step_disconnect c c')
  then show ?case by (auto simp: client_inv_def cli_client_disconnect_def client_wf_def)
qed (blast intro: send_frame_inv recv_frame_inv send_inv)+

lemma send_frame_effect:
  assumes "connected c \<noteq> 0" "socket c = Some s"
    and "cbor_serialize cd f \<noteq> []" "stream_frame_encode cd (cbor_serialize cd f) = Some framed" "framed \<noteq> []"
    and "cli_client_send_frame cd (Some c) (Some f) = Some (rc, client')"
  shows "\<exists>c' s' sent. client' = Some c' \<and> socket c' = Some s' \<and> wire_out s' = wire_out s @ sent
      \<and> prefix sent framed \<and> (rc = None \<longleftrightarrow> sent = framed) \<and> recv_evs s' = recv_evs s"
proof -
  from assms obtain wire evs where sent: "send_all (send_evs s) framed 0 0 (wire_out s) = Some (rc, wire, evs)"
    and cl: "client' = Some (c\<lparr>socket := Some (s\<lparr>send_evs := evs, wire_out := wire\<rparr>)\<rparr>)"
    by (auto simp: cli_client_send_frame_def Let_def bind_Some_iff)
  from send_all_sent [OF sent] obtain m where "m \<le> length framed" "wire = wire_out s @ take m framed"
    "rc = None \<longleftrightarrow> m = length framed" by auto
  with cl show ?thesis by (auto simp: prefix_take intro!: exI [of _ "take m framed"])
qed

section \<open>Properties\<close>

text \<open>Whatever partial writes, interruptions and waits the socket answers with, the bytes
  \<^verbatim>\<open>cli_client_send_frame\<close> puts on the wire are a prefix of the encoded frame, appended to what was
  there, and the call reports success exactly when the whole frame went out; the receiving direction
  is untouched.\<close>

theorem send_frame_wire:
  assumes "connected c \<noteq> 0" "socket c = Some s"
    and "cbor_serialize cd f \<noteq> []" "stream_frame_encode cd (cbor_serialize cd f) = Some framed" "framed \<noteq> []"
    and "cli_client_send_frame cd (Some c) (Some f) = Some (rc, client')"
  shows "\<exists>c' s' sent. client' = Some c' \<and> socket c' = Some s' \<and> wire_out s' = wire_out s @ sent
      \<and> prefix sent framed \<and> (rc = None \<longleftrightarrow> sent = framed) \<and> recv_evs s' = recv_evs s"
  using assms by (rule send_frame_effect)

theorem send_frame_wire_witness:
  "\<exists>c' s' sent. Some (\<lparr>socket = Some \<lparr>send_evs = [], recv_evs = [], wire_out = [0, 0, 0, 1, 7]\<rparr>,
        socket_path = Some ''s'', connected = 1\<rparr>) = Some c' \<and> socket c' = Some s' \<and> wire_out s' = [] @ sent
      \<and> prefix sent [0, 0, 0, 1, 7 :: byte] \<and> (None = (None :: errno option) \<longleftrightarrow> sent = [0, 0, 0, 1, 7]) \<and> recv_evs s' = []"
  using send_frame_wire [of "\<lparr>socket = Some \<lparr>send_evs = [Sent 2, SendErr EINTR, Sent 9], recv_evs = [], wire_out = []\<rparr>,
        socket_path = Some ''s'', connected = 1\<rparr>" "\<lparr>send_evs = [Sent 2, SendErr EINTR, Sent 9], recv_evs = [], wire_out = []\<rparr>"
      "\<lparr>cbor_serialize = (\<lambda>x::byte. [x]), stream_frame_encode = (\<lambda>b. Some (be32 (length b) @ b)), cbor_load = (\<lambda>b. None)\<rparr>"
      7 "[0, 0, 0, 1, 7]" None]
  by (simp add: cli_client_send_frame_def be32_def)

text \<open>C3. A frame the client sent is what a receiver reads back, however the network cuts the bytes
  into pieces and interrupts the reads: with a frame encoder that prefixes the big-endian length and
  a CBOR library that loads what it serialised, \<^verbatim>\<open>cli_client_recv_frame\<close> returns the item sent and
  leaves exactly the bytes behind it.\<close>

theorem frame_roundtrip:
  assumes "connected c \<noteq> 0" "socket c = Some s" "wire_out s = []"
    and "cbor_serialize cd f \<noteq> []" "length (cbor_serialize cd f) \<le> 16 * 1024 * 1024"
    and "stream_frame_encode cd (cbor_serialize cd f) = Some (be32 (length (cbor_serialize cd f)) @ cbor_serialize cd f)"
    and "cbor_load cd (cbor_serialize cd f) = Some f"
    and "cli_client_send_frame cd (Some c) (Some f) = Some (None, Some c')" "socket c' = Some s'"
    and "connected r \<noteq> 0" "socket r = Some t" "benign (recv_evs t)" "stream (recv_evs t) = wire_out s' @ rest"
  shows "\<exists>t'. cli_client_recv_frame cd (Some r) = Some (Some f, Some (r\<lparr>socket := Some t'\<rparr>))
      \<and> stream (recv_evs t') = rest \<and> benign (recv_evs t')"
proof -
  let ?b = "cbor_serialize cd f"
  obtain sent where "wire_out s' = sent" "sent = be32 (length ?b) @ ?b"
    using send_frame_effect [OF assms(1,2,4,6) _ assms(8)] assms(3,4,9) by auto
  with assms(13) have str: "stream (recv_evs t) = be32 (length ?b) @ ?b @ rest" by simp
  obtain evs1 where r1: "recv_all (recv_evs t) 4 [] 0 = Some (0, be32 (length ?b), evs1)" "benign evs1"
    "stream evs1 = ?b @ rest"
    using recv_all_benign [OF assms(12), of 4 "[]" 0] by (auto simp: str)
  have len: "unat (of_nat (length ?b) :: u32) = length ?b"
    using assms(5) by (simp add: unat_of_nat take_bit_nat_eq_self)
  have small: "of_nat (length ?b) \<noteq> (0::u32)" "\<not> (of_nat (length ?b) :: u32) > MAX_RESPONSE_SIZE"
    using assms(4,5) len by (auto simp: word_less_nat_alt MAX_RESPONSE_SIZE_def unat_eq_zero [symmetric])
  obtain evs2 where r2: "recv_all evs1 (length ?b) [] 0 = Some (0, ?b, evs2)" "benign evs2" "stream evs2 = rest"
    using recv_all_benign [OF r1(2), of "length ?b" "[]" 0] by (auto simp: r1(3))
  show ?thesis
    using assms(7,10,11) r1(1) r2 small len
    by (intro exI [of _ "t\<lparr>recv_evs := evs2\<rparr>"])
      (simp add: cli_client_recv_frame_def decode_length_be32 Let_def)
qed

theorem frame_roundtrip_witness:
  "\<exists>t'. cli_client_recv_frame \<lparr>cbor_serialize = (\<lambda>x::byte. [x]),
        stream_frame_encode = (\<lambda>b. Some (be32 (length b) @ b)), cbor_load = (\<lambda>b. Some (hd b))\<rparr>
      (Some \<lparr>socket = Some \<lparr>send_evs = [], recv_evs = [Avail [0, 0], RecvErr EINTR, Avail [0], Avail [1, 7, 9]], wire_out = []\<rparr>,
             socket_path = None, connected = 1\<rparr>)
      = Some (Some 7, Some \<lparr>socket = Some t', socket_path = None, connected = 1\<rparr>) \<and> stream (recv_evs t') = [9] \<and> benign (recv_evs t')"
  using frame_roundtrip [of "\<lparr>socket = Some \<lparr>send_evs = [Sent 9], recv_evs = [], wire_out = []\<rparr>, socket_path = None, connected = 1\<rparr>"
      "\<lparr>send_evs = [Sent 9], recv_evs = [], wire_out = []\<rparr>"
      "\<lparr>cbor_serialize = (\<lambda>x::byte. [x]), stream_frame_encode = (\<lambda>b. Some (be32 (length b) @ b)), cbor_load = (\<lambda>b. Some (hd b))\<rparr>" 7
      "\<lparr>socket = Some \<lparr>send_evs = [], recv_evs = [], wire_out = [0, 0, 0, 1, 7]\<rparr>, socket_path = None, connected = 1\<rparr>"
      "\<lparr>send_evs = [], recv_evs = [], wire_out = [0, 0, 0, 1, 7]\<rparr>"
      "\<lparr>socket = Some \<lparr>send_evs = [], recv_evs = [Avail [0, 0], RecvErr EINTR, Avail [0], Avail [1, 7, 9]], wire_out = []\<rparr>, socket_path = None, connected = 1\<rparr>"
      "\<lparr>send_evs = [], recv_evs = [Avail [0, 0], RecvErr EINTR, Avail [0], Avail [1, 7, 9]], wire_out = []\<rparr>" "[9]"]
  by (simp add: cli_client_send_frame_def be32_def)

text \<open>C18. A frame is delivered to a command only after a length prefix of four bytes that is neither
  zero nor above 16 MiB, and exactly the announced number of bytes is read behind it and handed to
  the CBOR loader; nothing of the stream is lost or read twice.\<close>

theorem recv_frame_sound:
  assumes "cli_client_recv_frame cd (Some c) = Some (Some x, client')"
  shows "\<exists>s s' lb body. socket c = Some s \<and> client' = Some (c\<lparr>socket := Some s'\<rparr>)
      \<and> stream (recv_evs s) = lb @ body @ stream (recv_evs s') \<and> length lb = 4
      \<and> length body = unat (decode_length lb) \<and> 0 < length body \<and> length body \<le> 16 * 1024 * 1024
      \<and> cbor_load cd body = Some x"
  using assms
proof (cases rule: recv_frame_cases)
  case (body c0 s lb evs rc b evs2)
  have rc: "rc = 0" "cbor_load cd b = Some x" using body(8) by (auto split: if_splits)
  have lb: "lb @ stream evs = stream (recv_evs s)" "length lb = 4"
    using recv_all_conserves [OF body(4)] by auto
  have b: "b @ stream evs2 = stream evs" "length b = unat (decode_length lb)"
    using recv_all_conserves [OF body(7)] rc by auto
  have "0 < unat (decode_length lb)" using body(5) by (simp add: unat_gt_0)
  moreover have "unat (decode_length lb) \<le> 16 * 1024 * 1024"
    using body(6) by (simp add: word_le_nat_alt MAX_RESPONSE_SIZE_def)
  ultimately show ?thesis
    using body(1,3,9) rc lb b
    by (intro exI [of _ s] exI [of _ "s\<lparr>recv_evs := evs2\<rparr>"] exI [of _ lb] exI [of _ b]) auto
qed auto

theorem recv_frame_sound_witness:
  "\<exists>s s' lb body. Some \<lparr>send_evs = [], recv_evs = [Avail [0, 0, 0, 1, 7, 9]], wire_out = []\<rparr> = Some s
      \<and> Some \<lparr>socket = Some \<lparr>send_evs = [], recv_evs = [Avail [9]], wire_out = []\<rparr>, socket_path = None, connected = 1\<rparr>
        = Some \<lparr>socket = Some s', socket_path = None, connected = 1\<rparr>
      \<and> stream (recv_evs s) = lb @ body @ stream (recv_evs s') \<and> length lb = 4
      \<and> length body = unat (decode_length lb) \<and> 0 < length body \<and> length body \<le> 16 * 1024 * 1024
      \<and> Some (hd body) = Some (7 :: byte)"
  using recv_frame_sound [of "\<lparr>cbor_serialize = (\<lambda>x::byte. [x]), stream_frame_encode = (\<lambda>b. None), cbor_load = (\<lambda>b. Some (hd b))\<rparr>"
      "\<lparr>socket = Some \<lparr>send_evs = [], recv_evs = [Avail [0, 0, 0, 1, 7, 9]], wire_out = []\<rparr>, socket_path = None, connected = 1\<rparr>" 7
      "Some \<lparr>socket = Some \<lparr>send_evs = [], recv_evs = [Avail [9]], wire_out = []\<rparr>, socket_path = None, connected = 1\<rparr>"]
  by (simp add: cli_client_recv_frame_def recv_all.simps(3) Let_def decode_length_def MAX_RESPONSE_SIZE_def)

text \<open>The receiving loop cannot hang on a peer that keeps answering: every read of at least one
  byte counts, and between two of them at most 30000 waits of one millisecond are tolerated. With
  30001 answers per missing byte, interruptions not counted, \<^verbatim>\<open>_recv_all\<close> has returned.\<close>

theorem recv_all_returns:
  assumes "len * 30001 \<le> length (filter counts_recv evs)"
  shows "\<exists>r. recv_all evs len [] 0 = Some r"
  using assms by (intro recv_all_returns_aux) simp_all

theorem recv_all_returns_witness:
  "\<exists>r. recv_all (replicate 60002 (RecvErr EAGAIN)) 2 [] 0 = Some r"
  using recv_all_returns [of 2 "replicate 60002 (RecvErr EAGAIN)"] by (simp del: replicate.simps)

text \<open>C27. When \<^verbatim>\<open>_send_all\<close> returns, and when it does not. A send that reports success for no bytes resets the wait
  budget: on every sequence of answers made of zero-byte sends, interruptions and refusals (\<^verbatim>\<open>EAGAIN\<close>), at most 30000
  refusals between two zero-byte sends, it is still running at the end of the sequence, however long that is.
  If no send reports zero bytes, it returns as soon as 30001 answers other than \<^verbatim>\<open>EINTR\<close> have come per byte to send;
  interruptions are not counted by the code, and a socket that only interrupts is of the first kind.\<close>

theorem send_all_progress:
  assumes "data \<noteq> []"
  shows "(stalling 30000 stalls \<longrightarrow> send_all stalls data 0 0 [] = None)
    \<and> (Sent 0 \<notin> set evs \<and> length data * 30001 \<le> length (filter counts_send evs)
        \<longrightarrow> (\<exists>r. send_all evs data 0 0 [] = Some r))"
proof (intro conjI impI)
  show "send_all stalls data 0 0 [] = None" if "stalling 30000 stalls"
    using assms that by (intro send_all_stalls) simp_all
  assume "Sent 0 \<notin> set evs \<and> length data * 30001 \<le> length (filter counts_send evs)"
  then show "\<exists>r. send_all evs data 0 0 [] = Some r"
    by (intro send_all_returns_aux) simp_all
qed

theorem send_all_progress_witness:
  "send_all [SendErr EAGAIN, Sent 0, SendErr EINTR, SendErr EAGAIN, Sent 0] [7] 0 0 [] = None \<and>
   (\<exists>r. send_all (replicate 30001 (SendErr EAGAIN)) [7] 0 0 [] = Some r)"
  using send_all_progress [of "[7]" "[SendErr EAGAIN, Sent 0, SendErr EINTR, SendErr EAGAIN, Sent 0]" "replicate 30001 (SendErr EAGAIN)"]
  by (simp del: replicate.simps send_all.simps)

text \<open>In every state a client can reach through the operations of \<^verbatim>\<open>client.h\<close>, from creation on,
  it is marked connected exactly when it owns a socket, and it still names the path it was created
  with.\<close>

theorem client_always_consistent:
  assumes "client_reachable lc cd p c"
  shows "(connected c \<noteq> 0 \<longleftrightarrow> socket c \<noteq> None) \<and> socket_path c = p"
proof -
  from assms have "client_inv p c"
  proof (induction rule: client_reachable.induct)
    case reach_create
    then show ?case by (simp add: client_inv_def create_wf) (simp add: cli_client_create_def)
  next
    case (reach_step c c')
    then show ?case by (blast intro: client_step_inv)
  qed
  then show ?thesis by (simp add: client_inv_def client_wf_def)
qed

theorem client_always_consistent_witness:
  "(connected \<lparr>socket = Some \<lparr>send_evs = [], recv_evs = [], wire_out = []\<rparr>, socket_path = Some ''p'', connected = 1\<rparr> \<noteq> 0
     \<longleftrightarrow> socket \<lparr>socket = Some \<lparr>send_evs = [], recv_evs = [], wire_out = []\<rparr>, socket_path = Some ''p'', connected = 1\<rparr> \<noteq> None)
   \<and> socket_path \<lparr>socket = Some \<lparr>send_evs = [], recv_evs = [], wire_out = []\<rparr>, socket_path = Some ''p'', connected = 1\<rparr> = Some ''p''"
proof (rule client_always_consistent)
  let ?lc = "\<lambda>p. Some \<lparr>send_evs = [], recv_evs = [], wire_out = []\<rparr>"
  let ?cd = "\<lparr>cbor_serialize = (\<lambda>x::byte. [x]), stream_frame_encode = (\<lambda>b. None), cbor_load = (\<lambda>b. None)\<rparr>"
  show "client_reachable ?lc ?cd (Some ''p'')
      \<lparr>socket = Some \<lparr>send_evs = [], recv_evs = [], wire_out = []\<rparr>, socket_path = Some ''p'', connected = 1\<rparr>"
    by (rule reach_step [OF reach_create step_connect [of _ _ 0]])
      (simp add: cli_client_connect_def cli_client_create_def)
qed

end
