(* ===== verification/L10n.thy ===== *)
theory L10n
  imports Prelude
begin

text \<open>
  The messages of the command line tool (\<^verbatim>\<open>src/src/offs/l10n/en.h\<close>), under the names and with the
  format directives the header gives them. Non-ASCII characters are their UTF-8 bytes.
\<close>

definition L10N_CLI_DESCRIPTION :: string where
  "L10N_CLI_DESCRIPTION = ''Owner Free File System - Command Line Interface''"

definition L10N_COMMANDS :: string where
  "L10N_COMMANDS = ''Commands:''"

definition L10N_USAGE :: string where
  "L10N_USAGE = ''Usage:''"

definition L10N_UNKNOWN_COMMAND :: string where
  "L10N_UNKNOWN_COMMAND = ''Unknown command:''"

definition L10N_DAEMON_UNREACHABLE :: string where
  "L10N_DAEMON_UNREACHABLE = ''Cannot connect to daemon at''"

definition L10N_START_DESC :: string where
  "L10N_START_DESC = ''Start the daemon''"

definition L10N_STOP_DESC :: string where
  "L10N_STOP_DESC = ''Stop the running daemon''"

definition L10N_RESTART_DESC :: string where
  "L10N_RESTART_DESC = ''Stop and restart the daemon''"

definition L10N_PUT_DESC :: string where
  "L10N_PUT_DESC = ''Import a file into the network''"

definition L10N_GET_DESC :: string where
  "L10N_GET_DESC = ''Export a file from the network''"

definition L10N_LOAD_DESC :: string where
  "L10N_LOAD_DESC = ''Warm the daemon block cache for a file''"

definition L10N_BLOCK_DESC :: string where
  "L10N_BLOCK_DESC = ''Block cache operations''"

definition L10N_PEER_DESC :: string where
  "L10N_PEER_DESC = ''Peer management''"

definition L10N_CONFIG_DESC :: string where
  "L10N_CONFIG_DESC = ''Configuration management''"

definition L10N_FRIEND_DESC :: string where
  "L10N_FRIEND_DESC = ''Friend list management''"

definition L10N_HEALTH_DESC :: string where
  "L10N_HEALTH_DESC = ''Health check and statistics''"

definition L10N_STATUS_DESC :: string where
  "L10N_STATUS_DESC = ''Daemon status''"

definition L10N_VERSION_DESC :: string where
  "L10N_VERSION_DESC = ''Print version information''"

definition L10N_HELP_DESC :: string where
  "L10N_HELP_DESC = ''Show help for a command''"

definition L10N_DAEMON_STARTED :: string where
  "L10N_DAEMON_STARTED = ''Daemon started (PID: %d)''"

definition L10N_DAEMON_STOPPED :: string where
  "L10N_DAEMON_STOPPED = ''Daemon stopped''"

definition L10N_DAEMON_ALREADY_RUNNING :: string where
  "L10N_DAEMON_ALREADY_RUNNING = ''Daemon is already running''"

definition L10N_ERROR :: string where
  "L10N_ERROR = ''Error''"

definition L10N_OK :: string where
  "L10N_OK = ''OK''"

definition L10N_PUT_IMPORTED :: string where
  "L10N_PUT_IMPORTED = ''File imported: %s''"

definition L10N_PUT_USAGE :: string where
  "L10N_PUT_USAGE = ''Usage: offs put <file> [--temporary] [--recycler <url>] [--tuple-size N] [--recycle-ephemeral commit|propagate]''"

definition L10N_PUT_ENCODE_START :: string where
  "L10N_PUT_ENCODE_START = ''Error: failed to encode PUT_START frame''"

definition L10N_PUT_SEND_START :: string where
  "L10N_PUT_SEND_START = ''Error: failed to send PUT_START frame: %s''"

definition L10N_PUT_ENCODE_DATA :: string where
  "L10N_PUT_ENCODE_DATA = ''Error: failed to encode PUT_DATA frame''"

definition L10N_PUT_SEND_DATA :: string where
  "L10N_PUT_SEND_DATA = ''Error: failed to send PUT_DATA frame: %s''"

definition L10N_PUT_ENCODE_END :: string where
  "L10N_PUT_ENCODE_END = ''Error: failed to encode PUT_END frame''"

definition L10N_PUT_SEND_END :: string where
  "L10N_PUT_SEND_END = ''Error: failed to send PUT_END frame: %s''"

definition L10N_PUT_NO_RESPONSE :: string where
  "L10N_PUT_NO_RESPONSE = ''Error: daemon closed connection without responding''"

definition L10N_PUT_DECODE_RESPONSE :: string where
  "L10N_PUT_DECODE_RESPONSE = ''Error: failed to decode PUT_RESPONSE''"

definition L10N_PUT_UNDECODABLE_ERR :: string where
  "L10N_PUT_UNDECODABLE_ERR = ''Error: undecodable error frame''"

definition L10N_PUT_UNEXPECTED_TYPE :: string where
  "L10N_PUT_UNEXPECTED_TYPE = ''Error: unexpected response type %u''"

definition L10N_PUT_EMPTY_FILE :: string where
  "L10N_PUT_EMPTY_FILE = ''Error: empty file''"

definition L10N_PUT_INVALID_PATH :: string where
  "L10N_PUT_INVALID_PATH = ''Error: invalid file path''"

definition L10N_PUT_TUPLE_SIZE_USAGE :: string where
  "L10N_PUT_TUPLE_SIZE_USAGE = ''Error: --tuple-size requires an integer argument''"

definition L10N_PUT_TUPLE_SIZE_RANGE :: string where
  "L10N_PUT_TUPLE_SIZE_RANGE = ''Error: --tuple-size must be a positive integer''"

definition L10N_PUT_RECYCLE_USAGE :: string where
  "L10N_PUT_RECYCLE_USAGE = ''Error: --recycle-ephemeral requires '' @ [CHR 0x27] @ ''commit'' @ [CHR 0x27] @ '' or '' @ [CHR 0x27] @ ''propagate'' @ [CHR 0x27]"

definition L10N_PUT_RECYCLE_NEEDS_RECYCLER :: string where
  "L10N_PUT_RECYCLE_NEEDS_RECYCLER = ''Error: --recycle-ephemeral requires --recycler <url>''"

definition L10N_GET_USAGE :: string where
  "L10N_GET_USAGE = ''Usage: offs get <ori> [--output <path>]''"

definition L10N_GET_ENCODE_REQUEST :: string where
  "L10N_GET_ENCODE_REQUEST = ''Error: failed to encode GET_REQUEST frame''"

definition L10N_LOAD_USAGE :: string where
  "L10N_LOAD_USAGE = ''Usage: offs load <ori>''"

definition L10N_LOAD_ENCODE_REQUEST :: string where
  "L10N_LOAD_ENCODE_REQUEST = ''Error: failed to encode LOAD_REQUEST frame''"

definition L10N_LOAD_TRUNCATED :: string where
  "L10N_LOAD_TRUNCATED = ''load truncated (no LOAD_END frame)''"

definition L10N_LOAD_PARTIAL :: string where
  "L10N_LOAD_PARTIAL = ''Warning: partial load (%zu/%zu tuples)''"

definition L10N_LOAD_FAILED :: string where
  "L10N_LOAD_FAILED = ''Load failed (%zu/%zu tuples found)''"

definition L10N_EPHEMERAL_DESC :: string where
  "L10N_EPHEMERAL_DESC = ''List, commit, or delete ephemeral blocks''"

definition L10N_EPHEMERAL_USAGE :: string where
  "L10N_EPHEMERAL_USAGE = ''Usage: offs ephemeral <list|commit <url>|delete <url>>''"

definition L10N_EPHEMERAL_ENCODE_REQUEST :: string where
  "L10N_EPHEMERAL_ENCODE_REQUEST = ''Error: failed to encode ephemeral op request frame''"

definition L10N_EPHEMERAL_LIST_FAILED :: string where
  "L10N_EPHEMERAL_LIST_FAILED = ''Error: ephemeral list failed (status %d)''"

definition L10N_EPHEMERAL_COMMITTED :: string where
  "L10N_EPHEMERAL_COMMITTED = ''Committed %zu blocks''"

definition L10N_EPHEMERAL_DELETED :: string where
  "L10N_EPHEMERAL_DELETED = ''Deleted %zu blocks claimed by the representation''"

definition L10N_PIN_DESC :: string where
  "L10N_PIN_DESC = ''Pin a representation'' @ [CHR 0x27] @ ''s blocks against deletion''"

definition L10N_PIN_USAGE :: string where
  "L10N_PIN_USAGE = ''Usage: offs pin <url>''"

definition L10N_PIN_ENCODE_REQUEST :: string where
  "L10N_PIN_ENCODE_REQUEST = ''Error: failed to encode pin request frame''"

definition L10N_PINNED :: string where
  "L10N_PINNED = ''Pinned %zu blocks''"

definition L10N_UNPIN_DESC :: string where
  "L10N_UNPIN_DESC = ''Remove pins from a representation'' @ [CHR 0x27] @ ''s blocks''"

definition L10N_UNPIN_USAGE :: string where
  "L10N_UNPIN_USAGE = ''Usage: offs unpin <url>''"

definition L10N_UNPINNED :: string where
  "L10N_UNPINNED = ''Unpinned %zu blocks''"

definition L10N_REP_UNEXPECTED_TYPE :: string where
  "L10N_REP_UNEXPECTED_TYPE = ''Error: unexpected response type %u''"

definition L10N_REP_DECODE_RESPONSE :: string where
  "L10N_REP_DECODE_RESPONSE = ''Error: failed to decode response frame''"

definition L10N_REP_OP_FAILED :: string where
  "L10N_REP_OP_FAILED = ''Error: representation operation failed (status %d)''"

definition L10N_BLOCK_PUT_USAGE :: string where
  "L10N_BLOCK_PUT_USAGE = ''Usage: offs block put <data> [--encoding base58|raw]''"

definition L10N_BLOCK_GET_USAGE :: string where
  "L10N_BLOCK_GET_USAGE = ''Usage: offs block get <hash>''"

definition L10N_BLOCK_DELETE_USAGE :: string where
  "L10N_BLOCK_DELETE_USAGE = ''Usage: offs block delete <hash> [--force]''"

definition L10N_BLOCK_DELETE_CONFLICT :: string where
  "L10N_BLOCK_DELETE_CONFLICT = ''Error: %s '' @ [CHR 0xE2] @ [CHR 0x80] @ [CHR 0x94] @ '' use --force to delete it anyway''"

definition L10N_BLOCK_DELETE_NOT_FOUND :: string where
  "L10N_BLOCK_DELETE_NOT_FOUND = ''Error: block not found''"

definition L10N_BLOCK_DELETE_STATUS :: string where
  "L10N_BLOCK_DELETE_STATUS = ''Error: block delete failed (status %u)''"

definition L10N_BLOCK_DELETE_DECODE :: string where
  "L10N_BLOCK_DELETE_DECODE = ''Error: failed to decode block DELETE response''"

definition L10N_BLOCK_DELETE_UNEXPECTED :: string where
  "L10N_BLOCK_DELETE_UNEXPECTED = ''Error: unexpected response type %u''"

definition L10N_PEER_INFO_PROMPT :: string where
  "L10N_PEER_INFO_PROMPT = ''Peer Information:''"

definition L10N_PEER_INFO_USAGE :: string where
  "L10N_PEER_INFO_USAGE = ''Usage: offs peer info [--qr <ppm-file>|-]''"

definition L10N_PEER_INFO_DECODE :: string where
  "L10N_PEER_INFO_DECODE = ''Error: failed to decode PEER_INFO_RESPONSE''"

definition L10N_PEER_LIST_PROMPT :: string where
  "L10N_PEER_LIST_PROMPT = ''Connected Peers:''"

definition L10N_PEER_CONNECT_USAGE :: string where
  "L10N_PEER_CONNECT_USAGE = ''Usage: offs peer connect <addr> | --qr <ppm-file>''"

definition L10N_FILE_TOO_LARGE :: string where
  "L10N_FILE_TOO_LARGE = ''Error: file exceeds the 2 MB QR payload limit''"

definition L10N_CONFIG_USAGE :: string where
  "L10N_CONFIG_USAGE = ''Usage: offs config <show|get <field>|set <field>=<value>|add <field> <value>|remove <field>|set-auth <hash>|generate-auth <key> [--cost N]|reload>''"

definition L10N_CONFIG_STAGED :: string where
  "L10N_CONFIG_STAGED = ''staged (restart to apply)''"

definition L10N_CONFIG_REJECTED :: string where
  "L10N_CONFIG_REJECTED = ''rejected''"

definition L10N_CONFIG_RELOADING :: string where
  "L10N_CONFIG_RELOADING = ''reloading''"

definition L10N_CONFIG_BAD_HASH :: string where
  "L10N_CONFIG_BAD_HASH = ''invalid bcrypt hash: expected a $2b$ 60-character hash''"

definition L10N_CONFIG_BAD_COST :: string where
  "L10N_CONFIG_BAD_COST = ''invalid --cost: must be an integer in 4..31''"

definition L10N_CONFIG_HASH_FAILED :: string where
  "L10N_CONFIG_HASH_FAILED = ''failed to generate bcrypt hash''"

definition L10N_CONFIG_NO_FIELD :: string where
  "L10N_CONFIG_NO_FIELD = ''no such field''"

definition L10N_FRIEND_ADD_USAGE :: string where
  "L10N_FRIEND_ADD_USAGE = ''Usage: offs friend add <data> | --qr <ppm-file>''"

definition L10N_FRIEND_REMOVE_USAGE :: string where
  "L10N_FRIEND_REMOVE_USAGE = ''Usage: offs friend remove <node-id>''"

definition L10N_FRIEND_LIST_PROMPT :: string where
  "L10N_FRIEND_LIST_PROMPT = ''Friends:''"

definition L10N_BOOTSTRAP_DESC :: string where
  "L10N_BOOTSTRAP_DESC = ''Bootstrap peer management''"

definition L10N_BOOTSTRAP_ADD_USAGE :: string where
  "L10N_BOOTSTRAP_ADD_USAGE = ''Usage: offs bootstrap add <host:port | [ipv6]:port>''"

definition L10N_BOOTSTRAP_REMOVE_USAGE :: string where
  "L10N_BOOTSTRAP_REMOVE_USAGE = ''Usage: offs bootstrap remove <host:port>''"

definition L10N_BOOTSTRAP_LIST_PROMPT :: string where
  "L10N_BOOTSTRAP_LIST_PROMPT = ''Bootstrap peers:''"

definition L10N_BOOTSTRAP_CONFLICT :: string where
  "L10N_BOOTSTRAP_CONFLICT = ''Already a bootstrap peer (or config-seeded)''"

definition L10N_BOOTSTRAP_REMOVE_CONFLICT :: string where
  "L10N_BOOTSTRAP_REMOVE_CONFLICT = ''Bootstrap peer is config-seeded and cannot be removed''"

definition L10N_BOOTSTRAP_NOT_FOUND :: string where
  "L10N_BOOTSTRAP_NOT_FOUND = ''Bootstrap peer not found''"

definition L10N_BOOTSTRAP_BAD_ENDPOINT :: string where
  "L10N_BOOTSTRAP_BAD_ENDPOINT = ''Invalid endpoint''"

definition L10N_CACHE_DESC :: string where
  "L10N_CACHE_DESC = ''Block cache management''"

definition L10N_CACHE_USAGE :: string where
  "L10N_CACHE_USAGE = ''Usage: offs cache <size <value> | move <destination> [--from <dir>] [--config-dir <dir>] [--unsafe] [--keep] | gc --from <file> [--force] [--defrag]>''"

definition L10N_CACHE_SIZE_USAGE :: string where
  "L10N_CACHE_SIZE_USAGE = ''Usage: offs cache size <bytes | <n>KiB|MiB|GiB|TiB|KB|MB|GB|TB>   (e.g. 1TB, 512GiB, 250000000000)''"

definition L10N_CACHE_SIZE_SET :: string where
  "L10N_CACHE_SIZE_SET = ''Cache capacity applied live: %llu bytes (current footprint: %llu bytes)'' @ newline"

definition L10N_CACHE_SIZE_STAGED :: string where
  "L10N_CACHE_SIZE_STAGED = ''Cache capacity staged (%llu bytes); applies at the next daemon start'' @ newline"

definition L10N_CACHE_SIZE_REJECTED :: string where
  "L10N_CACHE_SIZE_REJECTED = ''Error: cache resize rejected (status %u)'' @ newline"

definition L10N_CACHE_SIZE_DECODE :: string where
  "L10N_CACHE_SIZE_DECODE = ''Error: failed to decode cache resize response''"

definition L10N_CACHE_SIZE_ENCODE :: string where
  "L10N_CACHE_SIZE_ENCODE = ''Error: failed to encode the resize request''"

definition L10N_CACHE_MOVE_USAGE :: string where
  "L10N_CACHE_MOVE_USAGE = ''Usage: offs cache move <destination> [--from <dir>] [--config-dir <dir>] [--unsafe] [--keep]''"

definition L10N_CACHE_DEST_NOT_DIR :: string where
  "L10N_CACHE_DEST_NOT_DIR = ''Error: %s is not a usable directory''"

definition L10N_CACHE_DEST_NOT_EMPTY :: string where
  "L10N_CACHE_DEST_NOT_EMPTY = ''Error: %s is not empty''"

definition L10N_CACHE_DEST_SAME :: string where
  "L10N_CACHE_DEST_SAME = ''Error: destination is the current cache directory''"

definition L10N_CACHE_DEST_NESTED :: string where
  "L10N_CACHE_DEST_NESTED = ''Error: destination is inside the current cache directory (or the other way around)''"

definition L10N_CACHE_UNSAFE_WARNING :: string where
  "L10N_CACHE_UNSAFE_WARNING = ''Warning: --unsafe deletes each source file right after copying it, without verification; a failure could cause data loss''"

definition L10N_CACHE_STOP_FAILED :: string where
  "L10N_CACHE_STOP_FAILED = ''Error: failed to stop the daemon; nothing was changed''"

definition L10N_CACHE_STAGE_FAILED :: string where
  "L10N_CACHE_STAGE_FAILED = ''Error: failed to write the pending config''"

definition L10N_CACHE_MOVE_FAILED :: string where
  "L10N_CACHE_MOVE_FAILED = ''Error: cache move failed at %s; destination %s may hold partially moved files'' @ newline"

definition L10N_CACHE_REVERT_FAILED :: string where
  "L10N_CACHE_REVERT_FAILED = ''Warning: the pending cache_dir revert FAILED; the daemon would start using %s with partial content '' @ [CHR 0xE2] @ [CHR 0x80] @ [CHR 0x94] @ '' clear the staged cache_dir before restarting it'' @ newline"

definition L10N_CACHE_MOVED :: string where
  "L10N_CACHE_MOVED = ''Cache moved: %s -> %s'' @ newline"

definition L10N_CACHE_SRC_SHELL_LEFT :: string where
  "L10N_CACHE_SRC_SHELL_LEFT = ''Warning: the emptied source directory %s could not be removed; nothing is wrong with the move itself'' @ newline"

definition L10N_CACHE_NO_CONTENT :: string where
  "L10N_CACHE_NO_CONTENT = ''Nothing to move: %s is missing or empty; new location staged'' @ newline"

definition L10N_CACHE_KEEP_STAGED :: string where
  "L10N_CACHE_KEEP_STAGED = ''Staged cache location %s (--keep: the daemon starts using it at its next start and the source content stays behind; run again without --keep to move the content now)'' @ newline"

definition L10N_CACHE_SRC_UNRESOLVED :: string where
  "L10N_CACHE_SRC_UNRESOLVED = ''Error: could not resolve the current cache directory; pass --from <dir>''"

definition L10N_CACHE_GC_USAGE :: string where
  "L10N_CACHE_GC_USAGE = ''Usage: offs cache gc --from <file> [--force] [--defrag]'' @ newline @ newline @ ''  Deletes every block in the cache that is not reachable from the'' @ newline @ ''  newline-delimited list of representation URLs/ORIs in <file>.'' @ newline @ newline @ ''  --force    Also delete pinned and ephemeral-claimed blocks'' @ newline @ ''  --defrag   Chain a defragment pass after the sweep''"

definition L10N_CACHE_GC_FROM_REQUIRED :: string where
  "L10N_CACHE_GC_FROM_REQUIRED = ''Error: --from <file> with the newline-delimited keep list is required''"

definition L10N_CACHE_GC_EMPTY_FILE :: string where
  "L10N_CACHE_GC_EMPTY_FILE = ''Error: keep-list file is empty; nothing to collect from''"

definition L10N_CACHE_GC_TOO_LARGE :: string where
  "L10N_CACHE_GC_TOO_LARGE = ''Error: keep-list file is larger than the 4 MiB wire cap''"

definition L10N_CACHE_GC_UNREACHABLE :: string where
  "L10N_CACHE_GC_UNREACHABLE = ''Error: could not reach the daemon; the sweep only runs against a reachable, running daemon (there is no staged fallback for a destructive sweep)'' @ newline"

definition L10N_CACHE_GC_ENCODE :: string where
  "L10N_CACHE_GC_ENCODE = ''Error: failed to encode the cache gc request''"

definition L10N_CACHE_GC_DECODE :: string where
  "L10N_CACHE_GC_DECODE = ''Error: failed to decode the cache gc response''"

definition L10N_CACHE_GC_PARTIAL :: string where
  "L10N_CACHE_GC_PARTIAL = ''Warning: not every keep-list line resolved; the failed lines follow'' @ newline"

definition L10N_CACHE_GC_SUMMARY :: string where
  "L10N_CACHE_GC_SUMMARY = ''Garbage collection complete: %llu/%llu URLs resolved, %llu blocks deleted, %llu blocks kept'' @ newline"

definition L10N_CACHE_GC_SKIPPED :: string where
  "L10N_CACHE_GC_SKIPPED = ''Skipped: %llu pinned, %llu ephemeral-claimed'' @ newline"

definition L10N_CACHE_GC_FAILED_LINE :: string where
  "L10N_CACHE_GC_FAILED_LINE = ''Warning: keep-list line %llu failed (%s): %s'' @ newline"

definition L10N_CACHE_GC_DEFRAG :: string where
  "L10N_CACHE_GC_DEFRAG = ''Defragment pass: %llu sections touched, %llu blocks relocated'' @ newline"

definition L10N_CACHE_GC_REJECTED :: string where
  "L10N_CACHE_GC_REJECTED = ''Error: garbage collection failed (status %u); nothing was deleted''"

end
