(* ===== verification/Cli_Base.thy ===== *)
theory Cli_Base
  imports Client L10n
begin

text \<open>
  What every command of \<^verbatim>\<open>offs\<close> shares (\<^verbatim>\<open>src/src/offs/cli_util.c\<close>): the state a command works on (its
  connection and what it has printed), the wire protocol of liboffs as a parameter, the reporting of
  error frames, the command table, the help text and the language.
\<close>

section \<open>The state of a command\<close>

record cli_st =
  client :: "cli_client option"
  log :: "console list"

definition say :: "console \<Rightarrow> 'w cli_st_scheme \<Rightarrow> 'w cli_st_scheme" where
  "say c st = st\<lparr>log := log st @ [c]\<rparr>"

definition out_line :: "string \<Rightarrow> 'w cli_st_scheme \<Rightarrow> 'w cli_st_scheme" where
  "out_line s = say (Out (nl s))"

definition err_line :: "string \<Rightarrow> 'w cli_st_scheme \<Rightarrow> 'w cli_st_scheme" where
  "err_line s = say (Err (nl s))"

lemma client_say [simp]:
  "client (say c st) = client st" "client (out_line s st) = client st" "client (err_line s st) = client st"
  by (simp_all add: say_def out_line_def err_line_def)

lemma log_say [simp]:
  "log (say c st) = log st @ [c]" "log (out_line s st) = log st @ [Out (nl s)]"
  "log (err_line s st) = log st @ [Err (nl s)]"
  by (simp_all add: say_def out_line_def err_line_def)

text \<open>The part of the wire protocol every command uses: \<^verbatim>\<open>client_api_wire_get_type\<close>, the type code of
  an error frame and the decoder of one, and the status codes. An encoder that a command does not
  check for failure is total, since memory allocation is taken to succeed.\<close>

record 'c wire = "'c codec" +
  get_type :: "'c \<Rightarrow> u8"
  CLIENT_API_ERROR :: u8
  error_decode :: "'c \<Rightarrow> (u8 \<times> string) option" \<comment> \<open>status code and message\<close>
  CLIENT_API_STATUS_OK :: u8
  CLIENT_API_STATUS_NOT_FOUND :: u8
  CLIENT_API_STATUS_CONFLICT :: u8
  CLIENT_API_STATUS_BAD_REQUEST :: u8
  CLIENT_API_STATUS_INTERNAL_ERROR :: u8

text \<open>The exchanges with the daemon, on the state of a command.\<close>

definition st_send :: "('c, 'm) codec_scheme \<Rightarrow> 'c option \<Rightarrow> 'w cli_st_scheme
    \<Rightarrow> ('c option \<times> 'w cli_st_scheme) option" where
  "st_send w req st = do {
     (r, cl) \<leftarrow> cli_client_send w (client st) req;
     Some (r, st\<lparr>client := cl\<rparr>)
   }"

definition st_send_frame :: "('c, 'm) codec_scheme \<Rightarrow> 'c option \<Rightarrow> 'w cli_st_scheme
    \<Rightarrow> (errno option \<times> 'w cli_st_scheme) option" where
  "st_send_frame w frame st = do {
     (rc, cl) \<leftarrow> cli_client_send_frame w (client st) frame;
     Some (rc, st\<lparr>client := cl\<rparr>)
   }"

definition st_recv_frame :: "('c, 'm) codec_scheme \<Rightarrow> 'w cli_st_scheme
    \<Rightarrow> ('c option \<times> 'w cli_st_scheme) option" where
  "st_recv_frame w st = do {
     (r, cl) \<leftarrow> cli_client_recv_frame w (client st);
     Some (r, st\<lparr>client := cl\<rparr>)
   }"

text \<open>The lines every command prints for a decodable error frame: \<^verbatim>\<open>"%s: %s\n", L10N_ERROR, message\<close>.\<close>

definition error_text :: "string \<Rightarrow> string" where
  "error_text message = L10N_ERROR @ '': '' @ message"

definition print_error_frame :: "('c, 'm) wire_scheme \<Rightarrow> 'c \<Rightarrow> 'w cli_st_scheme \<Rightarrow> 'w cli_st_scheme" where
  "print_error_frame w response st =
     (case error_decode w response of
        Some (status, message) \<Rightarrow> err_line (error_text message) st
      | None \<Rightarrow> st)"

definition cli_print_error_if :: "('c, 'm) wire_scheme \<Rightarrow> 'c \<Rightarrow> 'w cli_st_scheme \<Rightarrow> int \<times> 'w cli_st_scheme" where
  "cli_print_error_if w response st =
     (if get_type w response \<noteq> CLIENT_API_ERROR w then (0, st)
      else (1, print_error_frame w response st))"

lemma client_print_error_frame [simp]: "client (print_error_frame w r st) = client st"
  by (simp add: print_error_frame_def split: option.splits prod.splits)

section \<open>The command table, the help text and the language\<close>

datatype handler =
    Cmd_Start | Cmd_Stop | Cmd_Restart | Cmd_Put | Cmd_Get | Cmd_Load | Cmd_Block | Cmd_Ephemeral
  | Cmd_Pin | Cmd_Unpin | Cmd_Peer | Cmd_Config | Cmd_Cache | Cmd_Friend | Cmd_Health | Cmd_Status
  | Cmd_Version | Cmd_Bootstrap

record cli_command =
  cmd_name :: string
  cmd_description :: string
  cmd_handler :: "handler option"

definition g_commands :: "cli_command list" where
  "g_commands = [
    \<lparr>cmd_name = ''start'', cmd_description = L10N_START_DESC, cmd_handler = Some Cmd_Start\<rparr>,
    \<lparr>cmd_name = ''stop'', cmd_description = L10N_STOP_DESC, cmd_handler = Some Cmd_Stop\<rparr>,
    \<lparr>cmd_name = ''restart'', cmd_description = L10N_RESTART_DESC, cmd_handler = Some Cmd_Restart\<rparr>,
    \<lparr>cmd_name = ''put'', cmd_description = L10N_PUT_DESC, cmd_handler = Some Cmd_Put\<rparr>,
    \<lparr>cmd_name = ''get'', cmd_description = L10N_GET_DESC, cmd_handler = Some Cmd_Get\<rparr>,
    \<lparr>cmd_name = ''load'', cmd_description = L10N_LOAD_DESC, cmd_handler = Some Cmd_Load\<rparr>,
    \<lparr>cmd_name = ''block'', cmd_description = L10N_BLOCK_DESC, cmd_handler = Some Cmd_Block\<rparr>,
    \<lparr>cmd_name = ''ephemeral'', cmd_description = L10N_EPHEMERAL_DESC, cmd_handler = Some Cmd_Ephemeral\<rparr>,
    \<lparr>cmd_name = ''pin'', cmd_description = L10N_PIN_DESC, cmd_handler = Some Cmd_Pin\<rparr>,
    \<lparr>cmd_name = ''unpin'', cmd_description = L10N_UNPIN_DESC, cmd_handler = Some Cmd_Unpin\<rparr>,
    \<lparr>cmd_name = ''peer'', cmd_description = L10N_PEER_DESC, cmd_handler = Some Cmd_Peer\<rparr>,
    \<lparr>cmd_name = ''config'', cmd_description = L10N_CONFIG_DESC, cmd_handler = Some Cmd_Config\<rparr>,
    \<lparr>cmd_name = ''cache'', cmd_description = L10N_CACHE_DESC, cmd_handler = Some Cmd_Cache\<rparr>,
    \<lparr>cmd_name = ''friend'', cmd_description = L10N_FRIEND_DESC, cmd_handler = Some Cmd_Friend\<rparr>,
    \<lparr>cmd_name = ''health'', cmd_description = L10N_HEALTH_DESC, cmd_handler = Some Cmd_Health\<rparr>,
    \<lparr>cmd_name = ''status'', cmd_description = L10N_STATUS_DESC, cmd_handler = Some Cmd_Status\<rparr>,
    \<lparr>cmd_name = ''version'', cmd_description = L10N_VERSION_DESC, cmd_handler = Some Cmd_Version\<rparr>,
    \<lparr>cmd_name = ''bootstrap'', cmd_description = L10N_BOOTSTRAP_DESC, cmd_handler = Some Cmd_Bootstrap\<rparr>,
    \<lparr>cmd_name = ''help'', cmd_description = L10N_HELP_DESC, cmd_handler = None\<rparr>]"

text \<open>The linear search the sources do by \<^verbatim>\<open>strcmp\<close>.\<close>

definition find_command :: "string \<Rightarrow> cli_command option" where
  "find_command name = List.find (\<lambda>c. cmd_name c = name) g_commands"

definition pad_right :: "nat \<Rightarrow> string \<Rightarrow> string" where
  "pad_right n s = s @ replicate (n - length s) (CHR '' '')"

definition pad_left :: "nat \<Rightarrow> string \<Rightarrow> string" where
  "pad_left n s = replicate (n - length s) (CHR '' '') @ s"

definition quoted :: "string \<Rightarrow> string" where
  "quoted s = [CHR 0x27] @ s @ [CHR 0x27]"

definition cli_print_help :: "string option \<Rightarrow> 'w cli_st_scheme \<Rightarrow> 'w cli_st_scheme" where
  "cli_print_help command_name st =
     (case command_name of
        Some name \<Rightarrow>
          (case find_command name of
             Some c \<Rightarrow> out_line (''  '' @ L10N_USAGE @ '' '' @ cmd_name c @ '' --help'')
                        (out_line (cmd_name c @ '' - '' @ cmd_description c) st)
           | None \<Rightarrow> out_line (L10N_UNKNOWN_COMMAND @ '' '' @ quoted name) st)
      | None \<Rightarrow>
          fold (\<lambda>c. out_line (''  '' @ pad_right 12 (cmd_name c) @ '' '' @ cmd_description c)) g_commands
            (out_line (newline @ L10N_COMMANDS) (out_line (''OFFS - '' @ L10N_CLI_DESCRIPTION) st)))"

text \<open>\<^verbatim>\<open>cli_detect_lang\<close>: the two environment variables are the arguments. \<^verbatim>\<open>strncpy\<close> keeps seven
  characters of \<^verbatim>\<open>LANG\<close>, and the encoding suffix is cut at the first dot.\<close>

definition cli_detect_lang :: "string option \<Rightarrow> string option \<Rightarrow> string" where
  "cli_detect_lang offs_lang lang =
     (case offs_lang of
        Some l \<Rightarrow> l
      | None \<Rightarrow> (case lang of
          Some l \<Rightarrow> takeWhile (\<lambda>c. c \<noteq> CHR ''.'') (take 7 l)
        | None \<Rightarrow> ''en''))"

text \<open>\<^verbatim>\<open>OFFS_LOCAL_SOCKET_PATH\<close> of \<^verbatim>\<open>src/src/Service/local_socket.h\<close>, on both platforms.\<close>

definition OFFS_LOCAL_SOCKET_PATH :: string where
  "OFFS_LOCAL_SOCKET_PATH = ''/var/run/offs.sock''"

definition cli_set_socket_path :: "string option \<Rightarrow> string \<Rightarrow> string" where
  "cli_set_socket_path path g_socket_path = (case path of Some p \<Rightarrow> p | None \<Rightarrow> g_socket_path)"

lemma command_names_distinct: "distinct (map cmd_name g_commands)"
  by (simp add: g_commands_def)

lemma find_command_Some_iff: "find_command name = Some c \<longleftrightarrow> c \<in> set g_commands \<and> cmd_name c = name"
proof
  show "find_command name = Some c \<Longrightarrow> c \<in> set g_commands \<and> cmd_name c = name"
    by (auto simp: find_command_def find_Some_iff)
next
  assume c: "c \<in> set g_commands \<and> cmd_name c = name"
  then obtain d where d: "find_command name = Some d"
    by (cases "find_command name") (auto simp: find_command_def find_None_iff)
  then have "d \<in> set g_commands" "cmd_name d = name"
    by (auto simp: find_command_def find_Some_iff)
  with c have "d = c" using command_names_distinct by (auto simp: distinct_map inj_on_def)
  with d show "find_command name = Some c" by simp
qed

section \<open>The exchange interface on the state of a command\<close>

definition st_usable :: "'w cli_st_scheme \<Rightarrow> bool" where
  "st_usable st \<longleftrightarrow> usable (client st)"

lemma st_usable_say [simp]:
  "st_usable (say c st) = st_usable st" "st_usable (out_line s st) = st_usable st" "st_usable (err_line s st) = st_usable st"
  by (simp_all add: st_usable_def)

interpretation st: frame_channel st_usable "\<lambda>st f. st_send_frame w f st" "st_recv_frame w" "\<lambda>st f. st_send w f st"
  for w :: "('c, 'm) codec_scheme"
proof unfold_locales
  fix cl :: "'w cli_st_scheme" and f rc cl' r item
  show "\<not> st_usable cl \<Longrightarrow> \<exists>e. st_send_frame w f cl = Some (Some e, cl)"
    by (simp add: st_usable_def st_send_frame_def send_frame_unusable)
  show "\<not> st_usable cl \<Longrightarrow> st_recv_frame w cl = Some (None, cl)"
    by (simp add: st_usable_def st_recv_frame_def recv_frame_unusable)
  show "st_send_frame w f cl = Some (rc, cl') \<Longrightarrow> st_usable cl' = st_usable cl"
    by (auto simp: st_usable_def st_send_frame_def bind_Some_iff dest: send_frame_usable)
  show "st_recv_frame w cl = Some (r, cl') \<Longrightarrow> st_usable cl' = st_usable cl"
    by (auto simp: st_usable_def st_recv_frame_def bind_Some_iff dest: recv_frame_usable)
  show "st_usable cl \<Longrightarrow> st_send w (Some item) cl =
      Option.bind (st_send_frame w (Some item) cl)
        (\<lambda>(rc, cl1). if rc \<noteq> None then Some (None, cl1) else st_recv_frame w cl1)"
    by (auto simp: st_usable_def st_send_def st_send_frame_def st_recv_frame_def client_send_unfold
        intro!: Option.bind_cong split: prod.splits)
  show "\<not> st_usable cl \<or> f = None \<Longrightarrow> st_send w f cl = Some (None, cl)"
    by (auto simp: st_usable_def st_send_def client_send_unfold)
qed

section \<open>What goes out, and what is left to come in\<close>

definition the_socket :: "'w cli_st_scheme \<Rightarrow> sock option" where
  "the_socket st = Option.bind (client st) socket"

definition sent_bytes :: "'w cli_st_scheme \<Rightarrow> byte list" where
  "sent_bytes st = (case the_socket st of Some s \<Rightarrow> wire_out s | None \<Rightarrow> [])"

definition coming_bytes :: "'w cli_st_scheme \<Rightarrow> byte list" where
  "coming_bytes st = (case the_socket st of Some s \<Rightarrow> stream (recv_evs s) | None \<Rightarrow> [])"

definition framed :: "('c, 'm) codec_scheme \<Rightarrow> 'c \<Rightarrow> byte list" where
  "framed cd f = the (stream_frame_encode cd (cbor_serialize cd f))"

lemma bytes_say [simp]:
  "sent_bytes (say c st) = sent_bytes st" "sent_bytes (out_line s st) = sent_bytes st" "sent_bytes (err_line s st) = sent_bytes st"
  "coming_bytes (say c st) = coming_bytes st" "coming_bytes (out_line s st) = coming_bytes st" "coming_bytes (err_line s st) = coming_bytes st"
  by (simp_all add: sent_bytes_def coming_bytes_def the_socket_def)

lemma send_frame_bytes:
  assumes "st_send_frame cd (Some f) st = Some (None, st1)"
  shows "sent_bytes st1 = sent_bytes st @ framed cd f"
proof -
  from assms obtain cl where "cli_client_send_frame cd (client st) (Some f) = Some (None, cl)" and st1: "st1 = st\<lparr>client := cl\<rparr>"
    by (auto simp: st_send_frame_def bind_Some_iff)
  then show ?thesis
  proof (cases rule: send_frame_cases)
    case (sent c s g fr wire evs)
    from send_all_sent [OF sent(8)] have "wire = wire_out s @ fr" by auto
    with sent st1 show ?thesis by (simp add: sent_bytes_def the_socket_def framed_def)
  qed simp
qed

text \<open>Receiving a frame takes at least the four bytes of its length from what is to come, and sends
  nothing.\<close>

lemma recv_frame_bytes:
  assumes "st_recv_frame cd st = Some (r, st1)"
  shows "sent_bytes st1 = sent_bytes st" and "r \<noteq> None \<Longrightarrow> length (coming_bytes st1) < length (coming_bytes st)"
proof -
  from assms obtain cl where "cli_client_recv_frame cd (client st) = Some (r, cl)" and st1: "st1 = st\<lparr>client := cl\<rparr>"
    by (auto simp: st_recv_frame_def bind_Some_iff)
  then have "sent_bytes st1 = sent_bytes st \<and> (r \<noteq> None \<longrightarrow> length (coming_bytes st1) < length (coming_bytes st))"
  proof (cases rule: recv_frame_cases)
    case closed
    with st1 show ?thesis by (simp add: sent_bytes_def the_socket_def)
  next
    case no_length
    with st1 show ?thesis by (simp add: sent_bytes_def the_socket_def)
  next
    case (body c s lb evs rc bd evs2)
    from recv_all_conserves [OF body(4)] have "length (lb @ stream evs) = length (stream (recv_evs s))" "length lb = 4" by simp_all
    moreover from recv_all_conserves [OF body(7)] have "length (bd @ stream evs2) = length (stream evs)" by simp
    ultimately have "length (stream evs2) < length (stream (recv_evs s))" by simp
    with body st1 show ?thesis by (simp add: sent_bytes_def coming_bytes_def the_socket_def)
  qed
  then show "sent_bytes st1 = sent_bytes st" "r \<noteq> None \<Longrightarrow> length (coming_bytes st1) < length (coming_bytes st)" by blast+
qed

section \<open>A small instance\<close>

text \<open>For evaluating commands on concrete input: a codec whose items are byte lists that stand for
  themselves, and a session with a connection that takes whole frames.\<close>

definition plain_codec :: "(byte list, 'm) codec_scheme \<Rightarrow> bool" where
  "plain_codec cd \<longleftrightarrow> cbor_serialize cd = (\<lambda>x. x) \<and> stream_frame_encode cd = (\<lambda>b. Some (be32 (length b) @ b)) \<and> cbor_load cd = Some"

definition demo_session :: "nat \<Rightarrow> recv_ev list \<Rightarrow> byte list \<Rightarrow> cli_st" where
  "demo_session n evs sent = \<lparr>client = Some \<lparr>socket = Some \<lparr>send_evs = replicate n (Sent 99), recv_evs = evs, wire_out = sent\<rparr>,
     socket_path = None, connected = 1\<rparr>, log = []\<rparr>"

lemma demo_send: "plain_codec cd \<Longrightarrow> f \<noteq> [] \<Longrightarrow> length f < 90 \<Longrightarrow> 0 < n \<Longrightarrow>
    st_send_frame cd (Some f) (demo_session n evs w) = Some (None, demo_session (n - 1) evs (w @ be32 (length f) @ f))"
  by (cases n) (simp_all add: st_send_frame_def cli_client_send_frame_def plain_codec_def demo_session_def be32_def Let_def)

lemma demo_recv:
  "plain_codec cd \<Longrightarrow> st_recv_frame cd (demo_session n (Avail [0, 0, 0, 1, a] # evs) w) = Some (Some [a], demo_session n evs w)"
  "plain_codec cd \<Longrightarrow> st_recv_frame cd (demo_session n (Avail [0, 0, 0, 2, a, b] # evs) w) = Some (Some [a, b], demo_session n evs w)"
  by (simp_all add: st_recv_frame_def cli_client_recv_frame_def plain_codec_def demo_session_def recv_all.simps(3) Let_def
      decode_length_def MAX_RESPONSE_SIZE_def)

lemma demo_exchange:
  assumes "plain_codec cd" "f \<noteq> []" "length f < 90" "0 < n"
  shows "st_send cd (Some f) (demo_session n (Avail [0, 0, 0, 1, a] # evs) w) = Some (Some [a], demo_session (n - 1) evs (w @ be32 (length f) @ f))"
    and "st_send cd (Some f) (demo_session n (Avail [0, 0, 0, 2, a, b] # evs) w) = Some (Some [a, b], demo_session (n - 1) evs (w @ be32 (length f) @ f))"
proof -
  have "st_usable (demo_session n evs' w')" for n evs' w' by (simp add: st_usable_def usable_def demo_session_def)
  then show "st_send cd (Some f) (demo_session n (Avail [0, 0, 0, 1, a] # evs) w) = Some (Some [a], demo_session (n - 1) evs (w @ be32 (length f) @ f))"
    and "st_send cd (Some f) (demo_session n (Avail [0, 0, 0, 2, a, b] # evs) w) = Some (Some [a, b], demo_session (n - 1) evs (w @ be32 (length f) @ f))"
    by (simp_all add: st.request_Some demo_send [OF assms] demo_recv [OF assms(1)])
qed

lemma demo_dead: "st_send cd f \<lparr>client = None, log = l\<rparr> = Some (None, \<lparr>client = None, log = l\<rparr>)"
  by (simp add: st.request_refused st_usable_def usable_def)

end
