(* ===== verification/Cache_Size.thy ===== *)
theory Cache_Size
  imports Cli_Base
begin

text \<open>
  The size argument of \<^verbatim>\<open>offs cache size\<close> (\<^verbatim>\<open>_parse_size_bytes\<close> of \<^verbatim>\<open>src/src/offs/commands/cache.c\<close>):
  64-bit arithmetic with explicit overflow checks. It is shown to compute the exact product over the
  natural numbers, and to fail exactly when that product is zero or does not fit.
\<close>

section \<open>The parser\<close>

text \<open>The digit loop; the counter \<open>i\<close> is the number of digits read.\<close>

fun size_digits :: "u64 \<Rightarrow> nat \<Rightarrow> string \<Rightarrow> (u64 \<times> nat \<times> string) option" where
  "size_digits value i [] = Some (value, i, [])"
| "size_digits value i (c # cs) =
     (if is_digit c then
        (let digit = of_nat (digit_val c) in
         if value > (- 1) div 10 then None
         else if value * 10 > (- 1) - digit then None
         else size_digits (value * 10 + digit) (i + 1) cs)
      else Some (value, i, c # cs))"

definition size_units :: "(string \<times> u64) list" where
  "size_units = [
     (''TiB'', 1024 * 1024 * 1024 * 1024), (''TB'', 1000000000000),
     (''GiB'', 1024 * 1024 * 1024), (''GB'', 1000000000),
     (''MiB'', 1024 * 1024), (''MB'', 1000000),
     (''KiB'', 1024), (''KB'', 1000)]"

text \<open>The inner comparison loop: equal lengths, and every character of the unit equal up to case.\<close>

definition unit_matches :: "string \<Rightarrow> string \<Rightarrow> bool" where
  "unit_matches unit sfx \<longleftrightarrow>
     length unit = length sfx \<and> list_all2 (\<lambda>a b. tolower a = tolower b) unit sfx"

definition size_multiplier :: "string \<Rightarrow> u64 option" where
  "size_multiplier sfx =
     (if sfx = [] then Some 1
      else map_option snd (List.find (\<lambda>(unit, mult). unit_matches unit sfx) size_units))"

definition parse_size_bytes :: "string option \<Rightarrow> u64 option" where
  "parse_size_bytes text =
     (case text of
        None \<Rightarrow> None
      | Some t \<Rightarrow>
          if t = [] then None
          else if hd t = CHR ''-'' \<or> hd t = CHR ''+'' then None
          else (case size_digits 0 0 t of
              None \<Rightarrow> None
            | Some (value, i, sfx) \<Rightarrow>
                if i = 0 then None
                else (case size_multiplier sfx of
                    None \<Rightarrow> None
                  | Some multiplier \<Rightarrow>
                      if value = 0 \<or> value > (- 1) div multiplier then None
                      else Some (value * multiplier))))"

section \<open>The reference over the natural numbers\<close>

definition size_spec :: "string \<Rightarrow> nat option" where
  "size_spec t =
     (let (n, sfx) = read_dec 0 t in
      if t = [] \<or> \<not> is_digit (hd t) then None
      else map_option (\<lambda>m. n * unat m) (size_multiplier sfx))"

definition fits_u64 :: "nat option \<Rightarrow> u64 option" where
  "fits_u64 v = (case v of Some n \<Rightarrow> if 0 < n \<and> n \<le> UINT64_MAX then Some (of_nat n) else None | None \<Rightarrow> None)"

lemma unat_max: "unat (- 1 :: u64) = UINT64_MAX"
  by (simp add: unsigned_minus_1_eq_mask mask_eq_exp_minus_1 UINT64_MAX_def)

lemma unat_max_div: "unat ((- 1 :: u64) div m) = UINT64_MAX div unat m"
  by (simp add: unat_div unat_max)

lemma unat_le_max: "unat (w :: u64) \<le> UINT64_MAX"
  using word_order.extremum [of w] by (simp add: word_le_nat_alt unat_max)

lemma mult_fits:
  assumes "(m :: u64) \<noteq> 0"
  shows "v > (- 1) div m \<longleftrightarrow> UINT64_MAX < unat v * unat m"
    and "\<not> v > (- 1) div m \<Longrightarrow> unat (v * m) = unat v * unat m"
proof -
  have m: "0 < unat m" using assms by (simp add: unat_gt_0)
  have "v > (- 1) div m \<longleftrightarrow> UINT64_MAX div unat m < unat v"
    by (simp add: word_less_nat_alt unat_max_div)
  also have "\<dots> \<longleftrightarrow> UINT64_MAX < unat v * unat m"
    using m by (simp add: div_less_iff_less_mult)
  finally show eq: "v > (- 1) div m \<longleftrightarrow> UINT64_MAX < unat v * unat m" .
  show "unat (v * m) = unat v * unat m" if "\<not> v > (- 1) div m"
    using that eq by (simp add: unat_word_ariths UINT64_MAX_def)
qed

lemma read_dec_mono: "acc \<le> fst (read_dec acc s)"
proof (induction s arbitrary: acc)
  case (Cons c cs)
  have "acc \<le> 10 * acc + digit_val c" by simp
  also have "\<dots> \<le> fst (read_dec (10 * acc + digit_val c) cs)" by (rule Cons)
  finally show ?case by simp
qed simp

lemma digit_val_le: "is_digit c \<Longrightarrow> digit_val c \<le> 9"
  unfolding is_digit_def digit_val_def by linarith

lemma digit_step:
  assumes "d \<le> 9"
  shows "(v :: u64) > (- 1) div 10 \<or> v * 10 > (- 1) - of_nat d \<longleftrightarrow> UINT64_MAX < 10 * unat v + d"
    and "\<not> (v > (- 1) div 10 \<or> v * 10 > (- 1) - of_nat d) \<Longrightarrow> unat (v * 10 + of_nat d) = 10 * unat v + d"
proof -
  have ten: "(10 :: u64) \<noteq> 0" by simp
  have d: "unat (of_nat d :: u64) = d" using assms by (simp add: unat_of_nat take_bit_nat_eq_self)
  have sub: "unat ((- 1 :: u64) - of_nat d) = UINT64_MAX - d"
    using assms d by (subst unat_sub) (simp_all add: unat_max word_order.extremum)
  have small: "v * 10 > (- 1) - of_nat d \<longleftrightarrow> UINT64_MAX - d < 10 * unat v" if "\<not> v > (- 1) div 10"
    using mult_fits(2) [OF ten that] by (simp add: word_less_nat_alt sub mult.commute)
  have d2: "d \<le> UINT64_MAX" using assms by (simp add: UINT64_MAX_def)
  show iff: "v > (- 1) div 10 \<or> v * 10 > (- 1) - of_nat d \<longleftrightarrow> UINT64_MAX < 10 * unat v + d"
    using mult_fits(1) [OF ten, of v] small d2 by (cases "v > (- 1) div 10") auto
  show "unat (v * 10 + of_nat d) = 10 * unat v + d" if ok: "\<not> (v > (- 1) div 10 \<or> v * 10 > (- 1) - of_nat d)"
  proof -
    have "10 * unat v + d < 2 ^ 64" using ok iff by (simp add: UINT64_MAX_def)
    then show ?thesis using mult_fits(2) [OF ten, of v] ok d by (subst unat_add_lem [THEN iffD1]) auto
  qed
qed

lemma read_dec_rest_length: "length (snd (read_dec acc s)) \<le> length s"
  by (induction s arbitrary: acc) (auto intro: le_SucI)

lemma size_digits_spec:
  "size_digits v i s =
     (if fst (read_dec (unat v) s) \<le> UINT64_MAX
      then Some (of_nat (fst (read_dec (unat v) s)), i + (length s - length (snd (read_dec (unat v) s))), snd (read_dec (unat v) s))
      else None)"
proof (induction s arbitrary: v i)
  case Nil
  then show ?case by (simp add: unat_le_max)
next
  case (Cons c cs)
  show ?case
  proof (cases "is_digit c")
    case True
    let ?d = "digit_val c" and ?n = "10 * unat v + digit_val c"
    note step = digit_step [OF digit_val_le [OF True], of v]
    show ?thesis
    proof (cases "UINT64_MAX < ?n")
      case over: True
      then have "UINT64_MAX < fst (read_dec ?n cs)" using read_dec_mono [of ?n cs] by simp
      with over step(1) True show ?thesis by (auto simp: Let_def)
    next
      case False
      with step have v: "unat (v * 10 + of_nat ?d) = ?n"
        and go: "size_digits v i (c # cs) = size_digits (v * 10 + of_nat ?d) (i + 1) cs"
        using True by (auto simp: Let_def)
      show ?thesis
        unfolding go Cons.IH v using True read_dec_rest_length [of ?n cs] by (simp add: Suc_diff_le)
    qed
  next
    case False
    then show ?thesis by (simp add: unat_le_max)
  qed
qed

lemma read_dec_progress: "is_digit c \<Longrightarrow> length (snd (read_dec acc (c # cs))) < length (c # cs)"
  using read_dec_rest_length [of "10 * acc + digit_val c" cs] by simp

lemma multiplier_positive: "size_multiplier s = Some m \<Longrightarrow> m \<noteq> 0"
  by (auto simp: size_multiplier_def size_units_def split: if_splits)

lemma parse_size_refines: "parse_size_bytes (Some t) = fits_u64 (size_spec t)"
proof (cases "t = [] \<or> \<not> is_digit (hd t)")
  case True
  then have "t \<noteq> [] \<Longrightarrow> size_digits 0 0 t = Some (0, 0, t)" by (cases t) auto
  with True show ?thesis
    by (auto simp: parse_size_bytes_def size_spec_def fits_u64_def Let_def split: prod.splits)
next
  case False
  then obtain c cs where t: "t = c # cs" "is_digit c" by (cases t) auto
  then have sign: "\<not> (hd t = CHR ''-'' \<or> hd t = CHR ''+'')" by (auto simp: is_digit_def)
  obtain n sfx where rd: "read_dec 0 t = (n, sfx)" by fastforce
  have pos: "length t - length sfx \<noteq> 0" using read_dec_progress [OF t(2), of 0 cs] rd t(1) by simp
  have sp: "size_spec t = map_option (\<lambda>m. n * unat m) (size_multiplier sfx)"
    using False rd by (simp add: size_spec_def)
  have dig: "size_digits 0 0 t = (if n \<le> UINT64_MAX then Some (of_nat n, length t - length sfx, sfx) else None)"
    using size_digits_spec [of 0 0 t] rd by simp
  show ?thesis
  proof (cases "size_multiplier sfx")
    case None
    with sp dig sign t pos show ?thesis by (simp add: parse_size_bytes_def fits_u64_def)
  next
    case (Some m)
    note m = multiplier_positive [OF Some]
    have ge: "n \<le> n * unat m" using m by (cases "unat m") (simp_all add: unat_eq_zero)
    show ?thesis
    proof (cases "n \<le> UINT64_MAX")
      case True
      then have un: "unat (of_nat n :: u64) = n" by (simp add: unat_of_nat take_bit_nat_eq_self UINT64_MAX_def)
      have zero: "of_nat n = (0 :: u64) \<longleftrightarrow> n = 0"
        using un unat_eq_zero [of "of_nat n :: u64"] by simp
      have prod: "of_nat n * m = of_nat (n * unat m)" by simp
      show ?thesis
        using True Some sp dig sign t pos mult_fits(1) [OF m, of "of_nat n"] un zero m
        by (auto simp: parse_size_bytes_def fits_u64_def unat_gt_0 not_less)
    next
      case False
      moreover from False ge have "\<not> n * unat m \<le> UINT64_MAX" by linarith
      ultimately show ?thesis
        using Some sp dig sign t(1) by (simp add: parse_size_bytes_def fits_u64_def del: size_digits.simps)
    qed
  qed
qed

text \<open>C20. The size parser is exact: on every text it returns the product of the digits' value and the
  unit's multiplier computed without bounds, as long as that product is positive and at most
  \<^verbatim>\<open>UINT64_MAX\<close>, and rejects the text otherwise. No intermediate wrap-around can reach the result.\<close>

theorem parse_size_exact: "parse_size_bytes (Some t) = fits_u64 (size_spec t)"
  by (rule parse_size_refines)

text \<open>Sizes round-trip through their decimal text: a positive number of units whose product fits 64
  bits, printed in decimal and followed by any spelling of a unit, is read back as that product.\<close>

theorem parse_size_roundtrip:
  assumes "0 < n" "size_multiplier u = Some m" "n * unat m \<le> UINT64_MAX" "u = [] \<or> \<not> is_digit (hd u)"
  shows "parse_size_bytes (Some (dec_nat n @ u)) = Some (of_nat (n * unat m))"
proof -
  obtain d ds where d: "dec_nat n = d # ds" by (cases "dec_nat n") auto
  then have "is_digit d" using dec_nat_digits [of d n] by simp
  with d have "size_spec (dec_nat n @ u) = Some (n * unat m)"
    using assms(2) read_dec_dec_nat [OF assms(4), of n] by (simp add: size_spec_def)
  then show ?thesis
    using assms(1,3) multiplier_positive [OF assms(2)] by (simp add: parse_size_refines fits_u64_def unat_gt_0)
qed

theorem parse_size_roundtrip_witness:
  "parse_size_bytes (Some (dec_nat 512 @ ''gib'')) = Some (of_nat (512 * unat (1073741824 :: u64)))"
proof (rule parse_size_roundtrip)
  show "size_multiplier ''gib'' = Some 1073741824" by code_simp
qed (simp_all add: UINT64_MAX_def is_digit_def)

end
