(* ===== verification/Cache_Paths.thy ===== *)
theory Cache_Paths
  imports Prelude
begin

text \<open>
  The path helpers of \<^verbatim>\<open>src/src/offs/cli_util.c\<close> that \<^verbatim>\<open>offs cache move\<close> rests on: normalisation, the
  comparison that refuses a destination equal to or nested in the source, the recursive move of a
  directory tree, and the resolution of the configuration and cache directories. The comparison is
  shown to refine an abstract view of a path (absolute or not, and its list of components); the move
  is shown to lose no file, for every file system that keeps the documented laws of the calls it makes.
\<close>

section \<open>Normalisation and comparison\<close>

datatype platform = Posix | Windows

definition sep_of :: "platform \<Rightarrow> char" where
  "sep_of pl = (case pl of Posix \<Rightarrow> CHR ''/'' | Windows \<Rightarrow> CHR 0x5C)"

definition is_sep :: "char \<Rightarrow> bool" where
  "is_sep c \<longleftrightarrow> c = CHR ''/'' \<or> c = CHR 0x5C"

text \<open>The copying loop of \<^verbatim>\<open>_normalize_path\<close>. The output is kept in reverse, so that its head is
  \<^verbatim>\<open>out[o - 1]\<close>; \<open>None\<close> is the return value 0.\<close>

fun norm_loop :: "char \<Rightarrow> nat \<Rightarrow> string \<Rightarrow> string \<Rightarrow> string option" where
  "norm_loop sep out_size acc [] = Some acc"
| "norm_loop sep out_size acc (c # cs) =
     (if is_sep c then
        (if acc \<noteq> [] \<and> hd acc = sep then norm_loop sep out_size acc cs
         else if length acc + 1 \<ge> out_size then None
         else norm_loop sep out_size (sep # acc) cs)
      else if length acc + 1 \<ge> out_size then None
      else norm_loop sep out_size (c # acc) cs)"

text \<open>The loop that strips trailing separators and keeps the first character.\<close>

fun strip_trailing :: "char \<Rightarrow> string \<Rightarrow> string" where
  "strip_trailing sep [] = []"
| "strip_trailing sep [c] = [c]"
| "strip_trailing sep (c # d # cs) = (if c = sep then strip_trailing sep (d # cs) else c # d # cs)"

definition normalize_path :: "platform \<Rightarrow> nat \<Rightarrow> string \<Rightarrow> string option" where
  "normalize_path pl out_size src =
     (case norm_loop (sep_of pl) out_size [] src of
        None \<Rightarrow> None
      | Some acc \<Rightarrow> Some (rev (strip_trailing (sep_of pl) acc)))"

definition path_char :: "platform \<Rightarrow> char \<Rightarrow> char" where
  "path_char pl c = (case pl of Posix \<Rightarrow> c | Windows \<Rightarrow> tolower c)"

text \<open>The comparison loop: 1 same directory, 2 one inside the other, 0 disjoint.\<close>

fun compare_paths :: "platform \<Rightarrow> string \<Rightarrow> string \<Rightarrow> nat" where
  "compare_paths pl [] [] = 1"
| "compare_paths pl [] (d # ds) = (if d = sep_of pl then 2 else 0)"
| "compare_paths pl (c # cs) [] = (if c = sep_of pl then 2 else 0)"
| "compare_paths pl (c # cs) (d # ds) =
     (if path_char pl c \<noteq> path_char pl d then 0 else compare_paths pl cs ds)"

definition cli_cache_paths_conflict :: "platform \<Rightarrow> string \<Rightarrow> string \<Rightarrow> nat" where
  "cli_cache_paths_conflict pl a b =
     (case (normalize_path pl 1024 a, normalize_path pl 1024 b) of
        (Some na, Some nb) \<Rightarrow> compare_paths pl na nb
      | _ \<Rightarrow> 2)"

section \<open>The abstract view of a path\<close>

text \<open>A path is absolute or relative, and a list of components; \<open>P\<close> says which characters separate.\<close>

type_synonym path_view = "bool \<times> string list"

fun split_on :: "(char \<Rightarrow> bool) \<Rightarrow> string \<Rightarrow> string list" where
  "split_on P [] = [[]]"
| "split_on P (c # cs) =
     (if P c then [] # split_on P cs
      else (case split_on P cs of [] \<Rightarrow> [[c]] | w # ws \<Rightarrow> (c # w) # ws))"

definition components :: "(char \<Rightarrow> bool) \<Rightarrow> string \<Rightarrow> string list" where
  "components P s = filter (\<lambda>w. w \<noteq> []) (split_on P s)"

definition view :: "(char \<Rightarrow> bool) \<Rightarrow> string \<Rightarrow> path_view" where
  "view P s = (s \<noteq> [] \<and> P (hd s), components P s)"

fun join :: "char \<Rightarrow> string list \<Rightarrow> string" where
  "join sep [] = []"
| "join sep [w] = w"
| "join sep (w # v # ws) = w @ sep # join sep (v # ws)"

definition render :: "char \<Rightarrow> path_view \<Rightarrow> string" where
  "render sep v = (if fst v then sep # join sep (snd v) else join sep (snd v))"

text \<open>One directory strictly inside another, in the abstract view.\<close>

definition view_inside :: "path_view \<Rightarrow> path_view \<Rightarrow> bool" where
  "view_inside outer inner \<longleftrightarrow> fst outer = fst inner \<and> strict_prefix (snd outer) (snd inner)"

definition fold_view :: "platform \<Rightarrow> path_view \<Rightarrow> path_view" where
  "fold_view pl v = (fst v, map (map (path_char pl)) (snd v))"

definition conflict_spec :: "path_view \<Rightarrow> path_view \<Rightarrow> nat" where
  "conflict_spec a b = (if a = b then 1 else if view_inside a b \<or> view_inside b a then 2 else 0)"

text \<open>What the comparison of the normalised strings sees. It differs from \<open>view_inside\<close> only where a path
  has no component: nothing is seen inside the root, and the empty path counts as a parent of every
  absolute path instead of every relative one.\<close>

definition seen_inside :: "path_view \<Rightarrow> path_view \<Rightarrow> bool" where
  "seen_inside outer inner \<longleftrightarrow>
     (fst outer = fst inner \<and> snd outer \<noteq> [] \<and> strict_prefix (snd outer) (snd inner))
     \<or> (outer = (False, []) \<and> fst inner)"

section \<open>Splitting and joining\<close>

lemma split_on_not_Nil [simp]: "split_on P s \<noteq> []"
  by (cases s) (auto split: list.splits)

lemma split_on_append_sep: "P c \<Longrightarrow> split_on P (s @ c # t) = split_on P s @ split_on P t"
  by (induction s) (auto split: list.splits)

lemma components_Nil [simp]: "components P [] = []"
  by (simp add: components_def)

lemma components_append_sep: "P c \<Longrightarrow> components P (s @ c # t) = components P s @ components P t"
  by (simp add: components_def split_on_append_sep)

lemma components_Cons_sep [simp]: "P c \<Longrightarrow> components P (c # t) = components P t"
  by (simp add: components_def)

lemma components_snoc_sep: "P c \<Longrightarrow> components P (s @ [c]) = components P s"
  using components_append_sep [of P c s "[]"] by simp

definition clean :: "(char \<Rightarrow> bool) \<Rightarrow> string \<Rightarrow> bool" where
  "clean P w \<longleftrightarrow> w \<noteq> [] \<and> (\<forall>c\<in>set w. \<not> P c)"

lemma split_on_sepfree: "\<forall>c\<in>set w. \<not> P c \<Longrightarrow> split_on P w = [w]"
  by (induction w) auto

lemma components_clean: "clean P w \<Longrightarrow> components P w = [w]"
  by (simp add: clean_def components_def split_on_sepfree)

lemma split_on_pieces: "w \<in> set (split_on P s) \<Longrightarrow> c \<in> set w \<Longrightarrow> \<not> P c"
proof (induction s arbitrary: w)
  case (Cons a s)
  obtain v ws where v: "split_on P s = v # ws" by (cases "split_on P s") auto
  with Cons.IH [of v] Cons.IH [of w] Cons.prems show ?case by (auto split: if_splits)
qed simp

lemma components_are_clean: "w \<in> set (components P s) \<Longrightarrow> clean P w"
  by (auto simp: components_def clean_def dest: split_on_pieces)

lemma components_join:
  "P sep \<Longrightarrow> \<forall>w\<in>set ws. clean P w \<Longrightarrow> components P (join sep ws) = ws"
  by (induction sep ws rule: join.induct) (simp_all add: components_clean components_append_sep)

lemma join_head: "\<forall>w\<in>set ws. clean P w \<Longrightarrow> P sep \<Longrightarrow> join sep ws \<noteq> [] \<longleftrightarrow> ws \<noteq> []"
  by (induction sep ws rule: join.induct) (auto simp: clean_def)

lemma join_hd_clean: "\<forall>w\<in>set ws. clean P w \<Longrightarrow> ws \<noteq> [] \<Longrightarrow> \<not> P (hd (join sep ws))"
  by (induction sep ws rule: join.induct) (auto simp: clean_def hd_append)

definition view_ok :: "(char \<Rightarrow> bool) \<Rightarrow> path_view \<Rightarrow> bool" where
  "view_ok P v \<longleftrightarrow> (\<forall>w\<in>set (snd v). clean P w)"

lemma view_ok_view: "view_ok P (view P s)"
  by (simp add: view_ok_def view_def components_are_clean)

lemma view_render: "P sep \<Longrightarrow> view_ok P v \<Longrightarrow> view P (render sep v) = v"
  by (cases v) (auto simp: view_def render_def view_ok_def components_join join_hd_clean join_head)

lemma join_append: "us \<noteq> [] \<Longrightarrow> vs \<noteq> [] \<Longrightarrow> join sep (us @ vs) = join sep us @ sep # join sep vs"
proof (induction sep us rule: join.induct)
  case (2 sep w)
  then show ?case by (cases vs) auto
qed auto

section \<open>Normal forms\<close>

definition only_sep :: "(char \<Rightarrow> bool) \<Rightarrow> char \<Rightarrow> string \<Rightarrow> bool" where
  "only_sep P sep s \<longleftrightarrow> list_all (\<lambda>c. P c \<longrightarrow> c = sep) s"

lemma only_sep_simps [simp]:
  "only_sep P sep []" "only_sep P sep (c # s) \<longleftrightarrow> (P c \<longrightarrow> c = sep) \<and> only_sep P sep s"
  "only_sep P sep (s @ t) \<longleftrightarrow> only_sep P sep s \<and> only_sep P sep t"
  "only_sep P sep (rev s) = only_sep P sep s"
  by (simp_all add: only_sep_def)

text \<open>A normal path: no character that separates but \<open>sep\<close> itself, no two separators in a row and
  none at the end, the single root separator apart.\<close>

fun no_double :: "char \<Rightarrow> string \<Rightarrow> bool" where
  "no_double sep (c # d # cs) = (\<not> (c = sep \<and> d = sep) \<and> no_double sep (d # cs))"
| "no_double sep _ = True"

definition normal_path :: "char \<Rightarrow> string \<Rightarrow> bool" where
  "normal_path sep s \<longleftrightarrow> only_sep is_sep sep s \<and> no_double sep s
     \<and> (1 < length s \<longrightarrow> last s \<noteq> sep)"

lemma is_sep_sep_of [simp]: "is_sep (sep_of pl)"
  by (simp add: is_sep_def sep_of_def split: platform.splits)

lemma no_double_Cons:
  "no_double sep (c # s) \<longleftrightarrow> no_double sep s \<and> \<not> (s \<noteq> [] \<and> c = sep \<and> hd s = sep)"
  by (cases s) auto

lemma no_double_rev: "no_double sep (rev s) = no_double sep s"
proof -
  have snoc: "no_double sep (s @ [c]) \<longleftrightarrow> no_double sep s \<and> \<not> (s \<noteq> [] \<and> last s = sep \<and> c = sep)" for s c
    by (induction sep s rule: no_double.induct) auto
  show ?thesis
    by (induction s) (auto simp: snoc no_double_Cons last_rev)
qed

text \<open>What the copying loop keeps, for the output \<open>rev acc\<close> written so far: only \<open>sep\<close> separates in
  it, it has no doubled separator, and reading it gives the view of the text read so far.\<close>

lemma norm_loop_view:
  assumes "norm_loop sep n acc s = Some acc'" "is_sep sep"
    and "only_sep is_sep sep acc" "no_double sep acc"
  shows "only_sep is_sep sep acc' \<and> no_double sep acc'
     \<and> view is_sep (rev acc') = view is_sep (rev acc @ s)"
  using assms
proof (induction sep n acc s rule: norm_loop.induct)
  case (2 sep n acc c cs)
  have view_swap: "view is_sep (rev acc @ sep # cs) = view is_sep (rev acc @ c # cs)" if "is_sep c"
    using that "2.prems"(2)
    by (simp add: view_def components_append_sep hd_append)
  have view_drop: "view is_sep (rev acc @ cs) = view is_sep (rev acc @ c # cs)"
    if c: "is_sep c" and acc: "acc \<noteq> []" "hd acc = sep"
  proof -
    from acc obtain as where "acc = sep # as" by (cases acc) auto
    then show ?thesis using c "2.prems"(2)
      by (simp add: view_def components_append_sep hd_append)
  qed
  have nd: "no_double sep (d # acc)" if "\<not> (d = sep \<and> acc \<noteq> [] \<and> hd acc = sep)" for d
    using that "2.prems"(4) by (auto simp: no_double_Cons)
  note loop = "2.prems"(1) and sep = "2.prems"(2) and old = "2.prems"(3)
  consider (skip) "is_sep c" "acc \<noteq> []" "hd acc = sep"
    | (sep) "is_sep c" "\<not> (acc \<noteq> [] \<and> hd acc = sep)" | (other) "\<not> is_sep c" by blast
  then show ?case
  proof cases
    case skip
    with "2.IH"(1) loop sep old "2.prems"(4) show ?thesis by (simp add: view_drop)
  next
    case sep
    then have "norm_loop sep n (sep # acc) cs = Some acc'" "\<not> length acc + 1 \<ge> n"
      using loop by (auto split: if_splits)
    with "2.IH"(2) [OF sep] \<open>is_sep sep\<close> old nd [of sep] sep show ?thesis by (simp add: view_swap)
  next
    case other
    then have "norm_loop sep n (c # acc) cs = Some acc'" "\<not> length acc + 1 \<ge> n"
      using loop by (auto split: if_splits)
    moreover have "no_double sep (c # acc)" using other sep by (intro nd) auto
    ultimately show ?thesis using "2.IH"(3) [OF other] sep old other by simp
  qed
qed simp

lemma strip_trailing_view:
  assumes "is_sep sep" "only_sep is_sep sep acc" "no_double sep acc"
  shows "normal_path sep (rev (strip_trailing sep acc))
     \<and> view is_sep (rev (strip_trailing sep acc)) = view is_sep (rev acc)"
proof (cases "\<exists>d cs. acc = sep # d # cs")
  case True
  then obtain d cs where acc: "acc = sep # d # cs" by blast
  with assms(3) have d: "d \<noteq> sep" by simp
  then have strip: "strip_trailing sep acc = d # cs" using acc by (cases cs) auto
  have "view is_sep (rev acc) = view is_sep (rev (d # cs))"
    using components_snoc_sep [of is_sep sep "rev (d # cs)", OF assms(1)]
    by (simp add: acc view_def hd_append)
  moreover have "normal_path sep (rev (d # cs))"
    using assms(2,3) acc d no_double_rev [of sep "d # cs"] by (simp add: normal_path_def)
  ultimately show ?thesis using strip by simp
next
  case False
  then have "strip_trailing sep acc = acc"
    by (cases "(sep, acc)" rule: strip_trailing.cases) auto
  moreover have "1 < length acc \<Longrightarrow> hd acc \<noteq> sep"
    using False by (cases acc; cases "tl acc") auto
  ultimately show ?thesis
    using assms(2,3) no_double_rev [of sep acc]
    by (simp add: normal_path_def last_rev length_greater_0_conv [symmetric] del: length_greater_0_conv)
qed

lemma hd_split_on: "hd (split_on P s) = [] \<longleftrightarrow> s = [] \<or> P (hd s)"
  by (cases s) (auto split: list.splits)

lemma join_split_on: "only_sep P sep s \<Longrightarrow> join sep (split_on P s) = s"
proof (induction s)
  case (Cons c s)
  obtain w ws where w: "split_on P s = w # ws" by (cases "split_on P s") auto
  with Cons have IH: "join sep (w # ws) = s" by simp
  show ?case
  proof (cases "P c")
    case True
    with Cons.prems w IH show ?thesis by simp
  next
    case False
    with w IH show ?thesis by (cases ws) auto
  qed
qed simp

lemma split_on_pieces_not_Nil:
  assumes "only_sep P sep s" "no_double sep s" "s \<noteq> [] \<longrightarrow> last s \<noteq> sep"
  shows "[] \<notin> set (tl (split_on P s))"
  using assms
proof (induction s)
  case (Cons c s)
  obtain w ws where w: "split_on P s = w # ws" by (cases "split_on P s") auto
  have IH: "[] \<notin> set ws" using Cons w by (simp add: no_double_Cons split: if_splits)
  show ?case
  proof (cases "P c")
    case True
    with Cons.prems have "s \<noteq> []" "hd s \<noteq> sep" by (auto simp: no_double_Cons)
    moreover from this Cons.prems(1) have "\<not> P (hd s)" by (cases s) auto
    ultimately have "w \<noteq> []" using hd_split_on [of P s] w by simp
    with True w IH show ?thesis by simp
  next
    case False
    with w IH show ?thesis by simp
  qed
qed simp

lemma join_components:
  assumes "only_sep P sep s" "no_double sep s" "s \<noteq> [] \<Longrightarrow> last s \<noteq> sep \<and> \<not> P (hd s)"
  shows "join sep (components P s) = s"
proof (cases "s = []")
  case False
  have "[] \<notin> set (split_on P s)"
    using split_on_pieces_not_Nil [OF assms(1,2)] assms(3) hd_split_on [of P s] False
    by (cases "split_on P s") auto
  then have "components P s = split_on P s"
    unfolding components_def by (intro filter_True) auto
  with join_split_on [OF assms(1)] show ?thesis by simp
qed simp

lemma render_view:
  assumes "is_sep sep" "normal_path sep s"
  shows "render sep (view is_sep s) = s"
proof (cases "s \<noteq> [] \<and> is_sep (hd s)")
  case True
  with assms(2) obtain t where s: "s = sep # t" by (cases s) (auto simp: normal_path_def)
  have "t \<noteq> [] \<Longrightarrow> hd t \<noteq> sep" using assms(2) by (simp add: normal_path_def no_double_Cons s)
  then have "t \<noteq> [] \<Longrightarrow> \<not> is_sep (hd t)" using assms(2) s by (cases t) (auto simp: normal_path_def)
  then have "join sep (components is_sep t) = t"
    using assms(2) by (intro join_components) (auto simp: normal_path_def no_double_Cons s)
  then show ?thesis using assms(1) by (simp add: render_def view_def s)
next
  case False
  have "s \<noteq> [] \<Longrightarrow> last s \<noteq> sep"
  proof (cases s)
    case (Cons c t)
    then show ?thesis using assms(1) False assms(2) by (cases t) (auto simp: normal_path_def)
  qed simp
  then have "join sep (components is_sep s) = s"
    using assms(2) False by (intro join_components) (auto simp: normal_path_def)
  then show ?thesis using False by (auto simp: render_def view_def)
qed

lemma norm_loop_fits: "length acc + length s < n \<Longrightarrow> \<exists>acc'. norm_loop sep n acc s = Some acc'"
  by (induction sep n acc s rule: norm_loop.induct) auto

lemma normalize_path_view:
  assumes "normalize_path pl n s = Some t"
  shows "normal_path (sep_of pl) t \<and> t = render (sep_of pl) (view is_sep s)"
proof -
  obtain acc where acc: "norm_loop (sep_of pl) n [] s = Some acc" "t = rev (strip_trailing (sep_of pl) acc)"
    using assms by (auto simp: normalize_path_def split: option.splits)
  have "normal_path (sep_of pl) t \<and> view is_sep t = view is_sep s"
    using norm_loop_view [OF acc(1)] strip_trailing_view [of "sep_of pl" acc] acc(2) by simp
  with render_view [of "sep_of pl" t] show ?thesis by simp
qed

lemma normalize_path_fits:
  assumes "length s < n"
  shows "normalize_path pl n s = Some (render (sep_of pl) (view is_sep s))"
proof -
  obtain acc where "norm_loop (sep_of pl) n [] s = Some acc"
    using norm_loop_fits [of "[]" s n] assms by auto
  then obtain t where "normalize_path pl n s = Some t" by (auto simp: normalize_path_def)
  with normalize_path_view show ?thesis by fastforce
qed

section \<open>The comparison implements the abstract one\<close>

lemma tolower_separators: "tolower c = CHR 0x5C \<longleftrightarrow> c = CHR 0x5C"
proof -
  have "ccode (char_of (k + 32)) \<noteq> 92" if "65 \<le> k" "k \<le> 90" for k :: nat
    using that by (simp add: of_char_of)
  from this [of "ccode c"]
  have "65 \<le> ccode c \<Longrightarrow> ccode c \<le> 90 \<Longrightarrow> ccode (tolower c) \<noteq> 92 \<and> ccode (tolower c) \<noteq> ccode (CHR 0x5C)"
    by (simp add: tolower_def)
  then have "65 \<le> ccode c \<Longrightarrow> ccode c \<le> 90 \<Longrightarrow> tolower c \<noteq> CHR 0x5C" by auto
  then show ?thesis by (cases "65 \<le> ccode c \<and> ccode c \<le> 90") (auto simp: tolower_def)
qed

lemma path_char_sep: "path_char pl c = sep_of pl \<longleftrightarrow> c = sep_of pl"
  by (cases pl) (simp_all add: path_char_def sep_of_def tolower_separators)

lemma compare_paths_prefix:
  "compare_paths pl a b =
     (let fa = map (path_char pl) a; fb = map (path_char pl) b in
      if fa = fb then 1
      else if (\<exists>r. fb = fa @ sep_of pl # r) \<or> (\<exists>r. fa = fb @ sep_of pl # r) then 2 else 0)"
  by (induction pl a b rule: compare_paths.induct) (auto simp: path_char_sep Let_def)

lemma view_append_sep:
  "P sep \<Longrightarrow> s \<noteq> [] \<Longrightarrow> view P (s @ sep # r) = (fst (view P s), snd (view P s) @ components P r)"
  by (simp add: view_def components_append_sep)

lemma render_not_Nil: "view_ok P v \<Longrightarrow> P sep \<Longrightarrow> render sep v \<noteq> [] \<longleftrightarrow> v \<noteq> (False, [])"
  using join_head [of "snd v" P sep] by (cases v) (auto simp: render_def view_ok_def)

lemma render_prefix_imp:
  assumes sep: "P sep" and ok: "view_ok P u" "view_ok P v" and r: "render sep v = render sep u @ sep # r"
  shows "seen_inside u v"
proof (cases "u = (False, [])")
  case True
  then have "hd (render sep v) = sep" "render sep v \<noteq> []" using r by (simp_all add: render_def)
  then have "fst (view P (render sep v))" using sep by (simp add: view_def)
  then show ?thesis using True view_render [of P sep v] sep ok by (simp add: seen_inside_def)
next
  case False
  then have ne: "render sep u \<noteq> []" using render_not_Nil [of P u sep] ok sep by simp
  have v: "v = (fst u, snd u @ components P r)"
    using view_render [of P sep v] view_append_sep [of P sep "render sep u" r] view_render [of P sep u] ok sep ne r
    by simp
  have grows: "components P r \<noteq> []"
  proof
    assume "components P r = []"
    then have "v = u" using v by simp
    then show False using r by simp
  qed
  have "snd u \<noteq> []"
  proof
    assume "snd u = []"
    with False have u: "u = (True, [])" by (cases u) auto
    then have "join sep (components P r) = sep # r" using r v by (simp add: render_def)
    moreover have "\<not> P (hd (join sep (components P r)))"
      using grows components_are_clean [of _ P r] join_hd_clean [of "components P r" P sep] by blast
    ultimately show False using sep by simp
  qed
  with v grows show ?thesis by (auto simp: seen_inside_def strict_prefix_def)
qed

lemma seen_inside_imp:
  assumes "seen_inside u v"
  shows "\<exists>r. render sep v = render sep u @ sep # r"
proof -
  consider (root) "u = (False, [])" "fst v"
    | (child) ws where "ws \<noteq> []" "snd u \<noteq> []" "snd v = snd u @ ws" "fst u = fst v"
    using assms by (auto simp: seen_inside_def strict_prefix_def prefix_def)
  then show ?thesis
    by cases (auto simp: render_def join_append)
qed

lemma path_char_is_sep: "is_sep (path_char pl c) = is_sep c"
proof -
  have slash: "tolower c = CHR ''/'' \<longleftrightarrow> c = CHR ''/''"
  proof (cases "65 \<le> ccode c \<and> ccode c \<le> 90")
    case True
    then have "ccode (tolower c) = ccode c + 32" by (simp add: tolower_def of_char_of)
    with True have "ccode (tolower c) \<noteq> 47" by simp
    with True show ?thesis by (auto simp del: of_char_eq_iff)
  next
    case False
    then have "tolower c = c" by (auto simp: tolower_def)
    then show ?thesis by simp
  qed
  show ?thesis by (cases pl) (simp_all add: path_char_def is_sep_def tolower_separators slash)
qed

lemma map_join: "map f (join sep ws) = join (f sep) (map (map f) ws)"
  by (induction sep ws rule: join.induct) auto

lemma map_render: "map (path_char pl) (render (sep_of pl) v) = render (sep_of pl) (fold_view pl v)"
  using path_char_sep [of pl "sep_of pl"] by (simp add: render_def fold_view_def map_join)

lemma fold_view_ok: "view_ok is_sep v \<Longrightarrow> view_ok is_sep (fold_view pl v)"
  by (auto simp: view_ok_def fold_view_def clean_def path_char_is_sep)

lemma conflict_seen:
  assumes "length a < 1024" "length b < 1024"
  shows "cli_cache_paths_conflict pl a b =
           (let u = fold_view pl (view is_sep a); v = fold_view pl (view is_sep b)
            in if u = v then 1 else if seen_inside u v \<or> seen_inside v u then 2 else 0)"
proof -
  let ?u = "fold_view pl (view is_sep a)" and ?v = "fold_view pl (view is_sep b)"
  let ?r = "render (sep_of pl)"
  have ok: "view_ok is_sep ?u" "view_ok is_sep ?v" by (simp_all add: fold_view_ok view_ok_view)
  have inj: "?r ?u = ?r ?v \<longleftrightarrow> ?u = ?v"
    using view_render [OF is_sep_sep_of ok(1), of pl] view_render [OF is_sep_sep_of ok(2), of pl] by metis
  have inside: "(\<exists>r. ?r ?v = ?r ?u @ sep_of pl # r) \<longleftrightarrow> seen_inside ?u ?v"
    "(\<exists>r. ?r ?u = ?r ?v @ sep_of pl # r) \<longleftrightarrow> seen_inside ?v ?u"
    using render_prefix_imp [of is_sep "sep_of pl"] ok seen_inside_imp is_sep_sep_of by blast+
  show ?thesis
    using inj inside
    by (simp add: cli_cache_paths_conflict_def normalize_path_fits assms compare_paths_prefix
        map_render Let_def)
qed

lemma seen_inside_view: "snd u \<noteq> [] \<Longrightarrow> seen_inside u v \<longleftrightarrow> view_inside u v"
  by (auto simp: seen_inside_def view_inside_def)

lemma conflict_refines:
  assumes "length a < 1024" "length b < 1024" "components is_sep a \<noteq> []" "components is_sep b \<noteq> []"
  shows "cli_cache_paths_conflict pl a b =
           conflict_spec (fold_view pl (view is_sep a)) (fold_view pl (view is_sep b))"
proof -
  have "snd (fold_view pl (view is_sep a)) \<noteq> []" "snd (fold_view pl (view is_sep b)) \<noteq> []"
    using assms(3,4) by (simp_all add: fold_view_def view_def)
  then show ?thesis by (simp add: conflict_seen assms(1,2) conflict_spec_def seen_inside_view Let_def)
qed

lemma conflict_range: "cli_cache_paths_conflict pl a b \<in> {0, 1, 2}"
  by (simp add: cli_cache_paths_conflict_def compare_paths_prefix Let_def split: option.splits)

text \<open>C4. \<^verbatim>\<open>cli_cache_paths_conflict\<close> compares directories and not spellings: for two paths shorter than
  1024 characters with at least one component each (neither the root nor empty) it answers 1 exactly
  when both have the same components (up to letter case on Windows), 2 exactly when one is strictly
  inside the other, and 0 otherwise, whatever mixture of separators, repeated separators and trailing
  separators they are written with. Components are compared as they are written: \<^verbatim>\<open>.\<close>, \<^verbatim>\<open>..\<close> and symbolic
  links are not resolved. The root is left out because there the code disagrees with its header comment
  (\<open>paths_conflict_root\<close>).\<close>

theorem paths_conflict_refines:
  assumes "length a < 1024" "length b < 1024" "components is_sep a \<noteq> []" "components is_sep b \<noteq> []"
  shows "cli_cache_paths_conflict pl a b =
           conflict_spec (fold_view pl (view is_sep a)) (fold_view pl (view is_sep b))"
  by (rule conflict_refines) (rule assms)+

theorem paths_conflict_refines_witness:
  "cli_cache_paths_conflict Windows ''C:/Offs//cache/'' ''c:/offs'' = 2"
proof -
  have "cli_cache_paths_conflict Windows ''C:/Offs//cache/'' ''c:/offs'' =
      conflict_spec (fold_view Windows (view is_sep ''C:/Offs//cache/'')) (fold_view Windows (view is_sep ''c:/offs''))"
    by (rule paths_conflict_refines) (simp, simp, code_simp, code_simp)
  also have "\<dots> = 2" by code_simp
  finally show ?thesis .
qed

text \<open>C40. The root is not recognised as a parent: \<^verbatim>\<open>"/"\<close> and any other absolute path shorter than 1024
  characters are reported disjoint, in either order, although the second lies inside the first and the
  header comment promises 2 when one is inside the other.\<close>

theorem paths_conflict_root:
  assumes "length p < 1024" "view is_sep p = (True, ws)" "ws \<noteq> []"
  shows "cli_cache_paths_conflict Posix ''/'' p = 0 \<and> cli_cache_paths_conflict Posix p ''/'' = 0 \<and>
         view_inside (view is_sep ''/'') (view is_sep p)"
proof -
  have "view is_sep ''/'' = (True, [])" by code_simp
  then show ?thesis
    using conflict_seen [of "''/''" p Posix] conflict_seen [of p "''/''" Posix] assms
    by (simp add: fold_view_def seen_inside_def view_inside_def strict_prefix_def)
qed

theorem paths_conflict_root_witness:
  "cli_cache_paths_conflict Posix ''/'' ''/var/cache/offs'' = 0"
  by (rule conjunct1 [OF paths_conflict_root [where ws = "[''var'', ''cache'', ''offs'']"]]) (simp, code_simp, simp)

end
