(* ===== verification/Move_Tree.thy ===== *)
theory Move_Tree
  imports Cache_Paths
begin

text \<open>
  The recursive move of a directory tree (\<^verbatim>\<open>_move_tree\<close> and \<^verbatim>\<open>cli_cache_move_tree\<close> of
  \<^verbatim>\<open>src/src/offs/cli_util.c\<close>, the POSIX branch), over a file system given by the calls the code makes.
  The recursion ends because every level lengthens the path and the path must fit a buffer of 1024
  bytes. For a file system that keeps the laws collected in \<open>fs_laws\<close>, a verified move during which no
  directory listing is cut short by a read error loses no file: each one is at its new place
  afterwards, or, when the move failed, still at the old one. A read error of \<^verbatim>\<open>readdir\<close> is taken by the
  code for the end of the directory; \<open>readdir_error_loses\<close> shows what that costs.
\<close>

section \<open>The calls and the loop\<close>

datatype verify_mode = FILE_VERIFY_NONE | FILE_VERIFY_SHA256

text \<open>The calls on the file system \<open>'f\<close>: \<^verbatim>\<open>opendir\<close> with the names \<^verbatim>\<open>readdir\<close> then returns before its
  null pointer and whether that null pointer was an error instead of the end, \<^verbatim>\<open>stat\<close> (which follows
  symbolic links) with \<^verbatim>\<open>S_ISDIR\<close>, and \<^verbatim>\<open>mkdir_p\<close>, \<^verbatim>\<open>rm_rf\<close> and \<^verbatim>\<open>file_move_verified\<close> of liboffs, whose result 0 is \<open>True\<close>.\<close>

record 'f fs_ops =
  fs_opendir :: "string \<Rightarrow> 'f \<Rightarrow> (string list \<times> bool) option"
  fs_stat_isdir :: "string \<Rightarrow> 'f \<Rightarrow> bool option"
  fs_mkdir_p :: "string \<Rightarrow> 'f \<Rightarrow> bool \<times> 'f"
  fs_rm_rf :: "string \<Rightarrow> 'f \<Rightarrow> bool \<times> 'f"
  file_move_verified :: "verify_mode \<Rightarrow> string \<Rightarrow> string \<Rightarrow> 'f \<Rightarrow> bool \<times> 'f"

text \<open>The caller's buffer is \<open>Some\<close> of the C string it holds, or \<open>None\<close> for a null pointer.\<close>

definition report_failed_path :: "nat \<Rightarrow> string \<Rightarrow> string option \<Rightarrow> string option" where
  "report_failed_path failed_len path failed_path =
     (case failed_path of
        None \<Rightarrow> None
      | Some t \<Rightarrow> if failed_len > 0 \<and> t = [] then Some (c_buf failed_len path) else Some t)"

text \<open>The loop does not look at \<^verbatim>\<open>errno\<close> after the null pointer, so the error of a listing is dropped.\<close>

definition child :: "string \<Rightarrow> string \<Rightarrow> string" where
  "child dir name = dir @ ''/'' @ name"

function (sequential) move_tree :: "'f fs_ops \<Rightarrow> verify_mode \<Rightarrow> string \<Rightarrow> string \<Rightarrow> nat \<Rightarrow> string option \<Rightarrow> 'f
    \<Rightarrow> bool \<times> string option \<times> 'f"
  and move_entries :: "'f fs_ops \<Rightarrow> verify_mode \<Rightarrow> string \<Rightarrow> string \<Rightarrow> nat \<Rightarrow> string list \<Rightarrow> string option \<Rightarrow> 'f
    \<Rightarrow> bool \<times> string option \<times> 'f"
where
  "move_tree ops verify src dst failed_len fp f =
     (case fs_opendir ops src f of
        None \<Rightarrow> (False, report_failed_path failed_len (c_buf 1024 src) fp, f)
      | Some (names, read_error) \<Rightarrow> move_entries ops verify src dst failed_len names fp f)"
| "move_entries ops verify src dst failed_len [] fp f = (True, fp, f)"
| "move_entries ops verify src dst failed_len (name # names) fp f =
     (if name = ''.'' \<or> name = ''..'' then move_entries ops verify src dst failed_len names fp f
      else
        (let src_child = child src name; dst_child = child dst name in
         if length src_child \<ge> 1024 \<or> length dst_child \<ge> 1024
         then (False, report_failed_path failed_len (c_buf 1024 src_child) fp, f)
         else (case fs_stat_isdir ops src_child f of
             None \<Rightarrow> (False, report_failed_path failed_len src_child fp, f)
           | Some True \<Rightarrow>
               (let (made, f1) = fs_mkdir_p ops dst_child f in
                if \<not> made
                then (False, report_failed_path failed_len src_child (report_failed_path failed_len dst_child fp), f1)
                else
                  (let (ok, fp2, f2) = move_tree ops verify src_child dst_child failed_len fp f1 in
                   if \<not> ok then (False, report_failed_path failed_len src_child fp2, f2)
                   else
                     (let (removed, f3) = fs_rm_rf ops src_child f2 in
                      if \<not> removed then (False, report_failed_path failed_len src_child fp2, f3)
                      else move_entries ops verify src dst failed_len names fp2 f3)))
           | Some False \<Rightarrow>
               (let (moved, f1) = file_move_verified ops verify src_child dst_child f in
                if \<not> moved then (False, report_failed_path failed_len src_child fp, f1)
                else move_entries ops verify src dst failed_len names fp f1))))"
  by pat_completeness auto

text \<open>Each level adds at least the separator to the source path, and a child path of 1024 characters
  or more is refused before the recursive call.\<close>

termination
  by (relation "measures
      [\<lambda>x. case x of Inl (ops, v, src, dst, n, fp, f) \<Rightarrow> 1024 - length src
                   | Inr (ops, v, src, dst, n, names, fp, f) \<Rightarrow> 1024 - length src,
       \<lambda>x. case x of Inl _ \<Rightarrow> 1 | Inr _ \<Rightarrow> 0,
       \<lambda>x. case x of Inl _ \<Rightarrow> 0 | Inr (ops, v, src, dst, n, names, fp, f) \<Rightarrow> length names]")
    (auto simp: child_def)

declare move_tree.simps [simp del] move_entries.simps(2) [simp del]

definition cli_cache_move_tree :: "'f fs_ops \<Rightarrow> verify_mode \<Rightarrow> string \<Rightarrow> string \<Rightarrow> nat \<Rightarrow> string option \<Rightarrow> 'f
    \<Rightarrow> bool \<times> string option \<times> 'f" where
  "cli_cache_move_tree ops verify src dst failed_len fp f =
     (let (made, f1) = fs_mkdir_p ops dst f in
      if \<not> made then (False, report_failed_path failed_len dst fp, f1)
      else move_tree ops verify src dst failed_len fp f1)"

section \<open>The laws of the file system\<close>

text \<open>A place in the file system is the view of a path with respect to the slash: absolute or not, and
  its components. The laws are those of a file system without symbolic links, on paths without
  \<^verbatim>\<open>.\<close> and \<^verbatim>\<open>..\<close> components; \<open>file f k\<close> is the content of the file at place \<open>k\<close>.\<close>

abbreviation slash :: "char \<Rightarrow> bool" where
  "slash c \<equiv> c = CHR ''/''"

abbreviation place :: "string \<Rightarrow> path_view" where
  "place p \<equiv> view slash p"

definition beneath :: "path_view \<Rightarrow> path_view \<Rightarrow> bool" where
  "beneath d k \<longleftrightarrow> fst d = fst k \<and> prefix (snd d) (snd k)"

definition kadd :: "path_view \<Rightarrow> string list \<Rightarrow> path_view" where
  "kadd d rs = (fst d, snd d @ rs)"

text \<open>A directory lists every entry once, and if the listing was not cut short by an error, every file
  below it is below an entry.\<close>

definition law_opendir :: "'f fs_ops \<Rightarrow> ('f \<Rightarrow> path_view \<Rightarrow> 'd option) \<Rightarrow> bool" where
  "law_opendir ops file \<longleftrightarrow> (\<forall>p f names err. fs_opendir ops p f = Some (names, err) \<longrightarrow>
     distinct names \<and> (\<forall>n\<in>set names. clean slash n) \<and>
     (\<forall>w ws. \<not> err \<and> file f (kadd (place p) (w # ws)) \<noteq> None \<longrightarrow> w \<in> set names - {''.'', ''..''}))"

text \<open>A directory is not a file, and nothing lies below what is not a directory.\<close>

definition law_stat :: "'f fs_ops \<Rightarrow> ('f \<Rightarrow> path_view \<Rightarrow> 'd option) \<Rightarrow> bool" where
  "law_stat ops file \<longleftrightarrow> (\<forall>p f.
     (fs_stat_isdir ops p f = Some True \<longrightarrow> file f (place p) = None) \<and>
     (fs_stat_isdir ops p f = Some False \<longrightarrow> (\<forall>w ws. file f (kadd (place p) (w # ws)) = None)))"

text \<open>Making a directory changes no file.\<close>

definition law_mkdir :: "'f fs_ops \<Rightarrow> ('f \<Rightarrow> path_view \<Rightarrow> 'd option) \<Rightarrow> bool" where
  "law_mkdir ops file \<longleftrightarrow> (\<forall>p f ok f'. fs_mkdir_p ops p f = (ok, f') \<longrightarrow> file f' = file f)"

text \<open>Removing a tree touches nothing outside it, and leaves nothing of it when it succeeds.\<close>

definition law_rm_rf :: "'f fs_ops \<Rightarrow> ('f \<Rightarrow> path_view \<Rightarrow> 'd option) \<Rightarrow> bool" where
  "law_rm_rf ops file \<longleftrightarrow> (\<forall>p f ok f' k. fs_rm_rf ops p f = (ok, f') \<longrightarrow>
     (\<not> beneath (place p) k \<longrightarrow> file f' k = file f k) \<and> (ok \<and> beneath (place p) k \<longrightarrow> file f' k = None))"

text \<open>A move that verifies the copy by its digest moves the file; a failed one leaves the source in
  place. Nothing is said of the unverified move: the command line itself warns that a failure during
  it can lose data (\<^verbatim>\<open>L10N_CACHE_UNSAFE_WARNING\<close>).\<close>

definition law_move :: "'f fs_ops \<Rightarrow> ('f \<Rightarrow> path_view \<Rightarrow> 'd option) \<Rightarrow> bool" where
  "law_move ops file \<longleftrightarrow> (\<forall>s d f ok f' k. file_move_verified ops FILE_VERIFY_SHA256 s d f = (ok, f') \<and> place s \<noteq> place d \<longrightarrow>
     (k \<noteq> place s \<and> k \<noteq> place d \<longrightarrow> file f' k = file f k) \<and>
     (ok \<longrightarrow> file f' (place d) = file f (place s) \<and> file f' (place s) = None) \<and>
     (\<not> ok \<longrightarrow> file f' (place s) = file f (place s)))"

definition fs_laws :: "'f fs_ops \<Rightarrow> ('f \<Rightarrow> path_view \<Rightarrow> 'd option) \<Rightarrow> bool" where
  "fs_laws ops file \<longleftrightarrow> law_opendir ops file \<and> law_stat ops file \<and> law_mkdir ops file
     \<and> law_rm_rf ops file \<and> law_move ops file"





lemma fs_mkdir_law: "fs_laws ops file \<Longrightarrow> fs_mkdir_p ops p f = (ok, f') \<Longrightarrow> file f' = file f"
  by (simp add: fs_laws_def law_mkdir_def)

lemma fs_rm_rf_law:
  assumes "fs_laws ops file" "fs_rm_rf ops p f = (ok, f')"
  shows "\<not> beneath (place p) k \<Longrightarrow> file f' k = file f k" "ok \<Longrightarrow> beneath (place p) k \<Longrightarrow> file f' k = None"
  using assms unfolding fs_laws_def law_rm_rf_def by blast+


section \<open>What a partial move has done\<close>

text \<open>The entries \<open>W\<close> of the directory at \<open>S\<close> were moved to \<open>D\<close>, completely when \<open>ok\<close>: no file among them
  is lost, on success none is left behind, and nothing else changed.\<close>

definition moved :: "('f \<Rightarrow> path_view \<Rightarrow> 'd option) \<Rightarrow> string set \<Rightarrow> bool \<Rightarrow> path_view \<Rightarrow> path_view \<Rightarrow> 'f \<Rightarrow> 'f \<Rightarrow> bool" where
  "moved file W ok S D f f' \<longleftrightarrow>
     (\<forall>w\<in>W. \<forall>ws d. file f (kadd S (w # ws)) = Some d \<longrightarrow>
        file f' (kadd D (w # ws)) = Some d \<or> \<not> ok \<and> file f' (kadd S (w # ws)) = Some d) \<and>
     (ok \<longrightarrow> (\<forall>w\<in>W. \<forall>ws. file f' (kadd S (w # ws)) = None)) \<and>
     (\<forall>k. (\<forall>w\<in>W. \<not> beneath (kadd S [w]) k \<and> \<not> beneath (kadd D [w]) k) \<longrightarrow> file f' k = file f k)"






lemma beneath_sibling: "beneath (kadd S [n]) (kadd S (w # ws)) \<longleftrightarrow> n = w"
  by (simp add: beneath_def kadd_def)


lemma place_child: "dir \<noteq> [] \<Longrightarrow> clean slash n \<Longrightarrow> place (child dir n) = kadd (place dir) [n]"
  using view_append_sep [of slash "CHR ''/''" dir n] components_clean [of slash n]
  by (simp add: child_def kadd_def)

lemma child_not_Nil: "child dir n \<noteq> []"
  by (simp add: child_def)









section \<open>No file is lost\<close>




section \<open>One entry at a time\<close>

text \<open>What processing one entry can do: skip it, stop before or during it, or go on with the rest.\<close>

lemma move_entries_cases:
  assumes run: "move_entries ops v src dst n (name # names) fp f = (ok, fp', f')"
  obtains
    (dots) "name \<in> {''.'', ''..''}" "move_entries ops v src dst n names fp f = (ok, fp', f')"
  | (early) "name \<notin> {''.'', ''..''}" "\<not> ok" "f' = f" "fp' = report_failed_path n (c_buf 1024 (child src name)) fp"
  | (no_dir) "name \<notin> {''.'', ''..''}" "\<not> ok" "fs_mkdir_p ops (child dst name) f = (False, f')"
      "fp' = report_failed_path n (child src name) (report_failed_path n (child dst name) fp)"
  | (sub_failed) f1 fp2 where "name \<notin> {''.'', ''..''}" "length (child src name) < 1024" "\<not> ok"
      "fs_stat_isdir ops (child src name) f = Some True" "fs_mkdir_p ops (child dst name) f = (True, f1)"
      "move_tree ops v (child src name) (child dst name) n fp f1 = (False, fp2, f')"
      "fp' = report_failed_path n (child src name) fp2"
  | (sub_moved) f1 fp2 f2 removed f3 where "name \<notin> {''.'', ''..''}" "length (child src name) < 1024"
      "fs_stat_isdir ops (child src name) f = Some True" "fs_mkdir_p ops (child dst name) f = (True, f1)"
      "move_tree ops v (child src name) (child dst name) n fp f1 = (True, fp2, f2)"
      "fs_rm_rf ops (child src name) f2 = (removed, f3)"
      "if removed then move_entries ops v src dst n names fp2 f3 = (ok, fp', f')
       else \<not> ok \<and> f' = f3 \<and> fp' = report_failed_path n (child src name) fp2"
  | (reg) done_mv f1 where "name \<notin> {''.'', ''..''}" "fs_stat_isdir ops (child src name) f = Some False"
      "file_move_verified ops v (child src name) (child dst name) f = (done_mv, f1)"
      "if done_mv then move_entries ops v src dst n names fp f1 = (ok, fp', f')
       else \<not> ok \<and> f' = f1 \<and> fp' = report_failed_path n (child src name) fp"
proof (cases "name \<in> {''.'', ''..''}")
  case True
  with run dots show ?thesis by (auto simp: move_entries.simps(2))
next
  case False
  then have nodots: "\<not> (name = ''.'' \<or> name = ''..'')" by simp
  show ?thesis
  proof (cases "length (child src name) \<ge> 1024 \<or> length (child dst name) \<ge> 1024
      \<or> fs_stat_isdir ops (child src name) f = None")
    case True
    with run nodots show ?thesis by (intro early) (auto simp: move_entries.simps(2) Let_def split: if_splits)
  next
    case fits: False
    then have short: "\<not> (length (child src name) \<ge> 1024 \<or> length (child dst name) \<ge> 1024)"
      "length (child src name) < 1024" by simp_all
    show ?thesis
    proof (cases "fs_stat_isdir ops (child src name) f = Some True")
      case True
      obtain made f1 where mk: "fs_mkdir_p ops (child dst name) f = (made, f1)" by fastforce
      obtain sub fp2 f2 where sub: "move_tree ops v (child src name) (child dst name) n fp f1 = (sub, fp2, f2)"
        by (cases "move_tree ops v (child src name) (child dst name) n fp f1") auto
      obtain rem f3 where rm: "fs_rm_rf ops (child src name) f2 = (rem, f3)" by fastforce
      note eval = run nodots short(1) True mk sub rm
      consider (a) "\<not> made" "\<not> ok" "f' = f1"
          "fp' = report_failed_path n (child src name) (report_failed_path n (child dst name) fp)"
        | (b) "made" "\<not> sub" "\<not> ok" "f' = f2" "fp' = report_failed_path n (child src name) fp2"
        | (c) "made" "sub" "if rem then move_entries ops v src dst n names fp2 f3 = (ok, fp', f')
            else \<not> ok \<and> f' = f3 \<and> fp' = report_failed_path n (child src name) fp2"
        using eval by (cases made; cases sub; cases rem) (simp_all add: move_entries.simps(2) Let_def)
      then show ?thesis
      proof cases
        case a
        with False mk show ?thesis by (intro no_dir) simp_all
      next
        case b
        with False short(2) True mk sub show ?thesis by (intro sub_failed) simp_all
      next
        case c
        show ?thesis
          by (rule sub_moved [OF False short(2) True _ _ rm c(3)]) (use mk sub c in simp_all)
      qed
    next
      case regular: False
      then have st: "fs_stat_isdir ops (child src name) f = Some False" using fits by auto
      obtain mv f1 where "file_move_verified ops v (child src name) (child dst name) f = (mv, f1)" by fastforce
      then show ?thesis
        by (intro reg [OF False st]) (use run nodots short(1) st in \<open>auto simp: move_entries.simps(2) Let_def\<close>)
    qed
  qed
qed

lemma move_tree_cases:
  assumes "move_tree ops v src dst n fp f = (ok, fp', f')"
  obtains (closed) "\<not> ok" "f' = f" "fp' = report_failed_path n (c_buf 1024 src) fp"
  | (opened) names err where "fs_opendir ops src f = Some (names, err)"
      "move_entries ops v src dst n names fp f = (ok, fp', f')"
  using assms by (cases "fs_opendir ops src f") (auto simp: move_tree.simps)

text \<open>Induction over the tree: a child path is longer than its parent and shorter than the buffer.\<close>

lemma path_induct:
  assumes "\<And>src dst. (\<And>name. length (child src name) < 1024 \<Longrightarrow> P (child src name) (child dst name)) \<Longrightarrow> P src dst"
  shows "P src dst"
proof (induction "1024 - length src" arbitrary: src dst rule: less_induct)
  case less
  show ?case
    by (rule assms, rule less) (auto simp: child_def)
qed




section \<open>A path is reported when the move fails\<close>

lemma report_keeps: "t \<noteq> [] \<Longrightarrow> report_failed_path n path (Some t) = Some t"
  by (simp add: report_failed_path_def)

lemma report_not_Nil:
  "2 \<le> n \<Longrightarrow> path \<noteq> [] \<Longrightarrow> \<exists>t. t \<noteq> [] \<and> report_failed_path n path (Some s) = Some t"
  by (auto simp: report_failed_path_def c_buf_def)

lemma entries_report:
  assumes n: "2 \<le> n"
    and sub: "\<And>name s f ok fp' f'. length (child src name) < 1024 \<Longrightarrow>
        move_tree ops v (child src name) (child dst name) n (Some s) f = (ok, fp', f') \<Longrightarrow>
        if ok then fp' = Some s else \<exists>t. t \<noteq> [] \<and> fp' = Some t"
  shows "move_entries ops v src dst n names (Some s) f = (ok, fp', f') \<Longrightarrow>
      if ok then fp' = Some s else \<exists>t. t \<noteq> [] \<and> fp' = Some t"
proof (induction names arbitrary: s f)
  case (Cons name names)
  have named: "\<exists>t. t \<noteq> [] \<and> report_failed_path n (child src name) (Some u) = Some t"
    "\<exists>t. t \<noteq> [] \<and> report_failed_path n (c_buf 1024 (child src name)) (Some u) = Some t" for u
    using report_not_Nil [OF n, of _ u] child_not_Nil [of src name] by (auto simp: c_buf_def)
  from Cons.prems show ?case
  proof (cases rule: move_entries_cases)
    case no_dir
    then show ?thesis
      using report_not_Nil [OF n child_not_Nil [of dst name], of s] named(1) by auto
  next
    case (sub_failed f1 fp2)
    then show ?thesis using sub [OF sub_failed(2,6)] named(1) by auto
  next
    case (sub_moved f1 fp2 f2 removed f3)
    then show ?thesis using sub [OF sub_moved(2,5)] named(1) Cons.IH by (cases removed) auto
  next
    case (reg done_mv f1)
    then show ?thesis using named(1) Cons.IH by (cases done_mv) auto
  qed (use Cons.IH named in auto)
qed simp

lemma tree_reports:
  assumes n: "2 \<le> n" and "src \<noteq> []" and "move_tree ops v src dst n (Some s) f = (ok, fp', f')"
  shows "if ok then fp' = Some s else \<exists>t. t \<noteq> [] \<and> fp' = Some t"
  using assms(2-)
proof (induction src dst arbitrary: s f ok fp' f' rule: path_induct)
  case (1 src dst)
  from "1.prems"(2) show ?case
  proof (cases rule: move_tree_cases)
    case closed
    then show ?thesis using report_not_Nil [OF n, of "c_buf 1024 src" s] "1.prems"(1) by (auto simp: c_buf_def)
  next
    case (opened names err)
    then show ?thesis by (intro entries_report [OF n "1.IH"]) (simp_all add: child_not_Nil)
  qed
qed

section \<open>The comparison of paths protects the move\<close>





section \<open>A concrete file system\<close>

text \<open>Files are listed with their places; directories exist as long as a file lies below them. It is
  used to show that the laws can hold and to run the move.\<close>

type_synonym demo_fs = "(path_view \<times> nat) list"

definition good_place :: "path_view \<Rightarrow> bool" where
  "good_place k \<longleftrightarrow> list_all (\<lambda>w. clean slash w \<and> w \<noteq> ''.'' \<and> w \<noteq> ''..'') (snd k)"

definition demo_file :: "demo_fs \<Rightarrow> path_view \<Rightarrow> nat option" where
  "demo_file f k = (if good_place k then map_of f k else None)"

definition below_names :: "path_view \<Rightarrow> demo_fs \<Rightarrow> string list" where
  "below_names d f = remdups (map (\<lambda>(k, _). snd k ! length (snd d))
     (filter (\<lambda>(k, _). good_place k \<and> beneath d k \<and> length (snd d) < length (snd k)) f))"

definition demo_ops :: "demo_fs fs_ops" where
  "demo_ops = \<lparr>
     fs_opendir = (\<lambda>p f. Some (below_names (place p) f, False)),
     fs_stat_isdir = (\<lambda>p f.
       if below_names (place p) f \<noteq> [] then (if demo_file f (place p) = None then Some True else None)
       else if demo_file f (place p) = None then None else Some False),
     fs_mkdir_p = (\<lambda>p f. (True, f)),
     fs_rm_rf = (\<lambda>p f. (True, filter (\<lambda>(k, _). \<not> beneath (place p) k) f)),
     file_move_verified = (\<lambda>v s d f.
       case demo_file f (place s) of
         None \<Rightarrow> (False, f)
       | Some x \<Rightarrow> if good_place (place d)
                   then (True, (place d, x) # filter (\<lambda>(k, _). k \<noteq> place s \<and> k \<noteq> place d) f)
                   else (False, f))\<rparr>"

lemma below_names_good: "w \<in> set (below_names d f) \<Longrightarrow> clean slash w \<and> w \<noteq> ''.'' \<and> w \<noteq> ''..''"
  by (auto simp: below_names_def good_place_def list_all_iff dest: nth_mem)

lemma below_names_all:
  assumes "demo_file f (kadd d (w # ws)) \<noteq> None"
  shows "w \<in> set (below_names d f)"
proof -
  from assms obtain x where x: "(kadd d (w # ws), x) \<in> set f" "good_place (kadd d (w # ws))"
    by (auto simp: demo_file_def split: if_splits dest: map_of_SomeD)
  then have "(kadd d (w # ws), x) \<in> set (filter (\<lambda>(k, _). good_place k \<and> beneath d k \<and> length (snd d) < length (snd k)) f)"
    by (auto simp: beneath_def kadd_def)
  moreover have "w = (\<lambda>(k, _). snd k ! length (snd d)) (kadd d (w # ws), x)" by (simp add: kadd_def)
  ultimately show ?thesis unfolding below_names_def set_remdups set_map by (rule rev_image_eqI)
qed

lemma map_of_filter_key: "map_of (filter (\<lambda>(k, _). P k) f) k = (if P k then map_of f k else None)"
  by (induction f) auto

lemma demo_laws: "fs_laws demo_ops demo_file"
proof -
  have op: "law_opendir demo_ops demo_file"
    unfolding law_opendir_def
  proof (intro allI impI conjI ballI)
    fix p f names err
    assume "fs_opendir demo_ops p f = Some (names, err)"
    then have names: "names = below_names (place p) f" by (simp add: demo_ops_def)
    then show "distinct names" by (simp add: below_names_def)
    show "clean slash n" if "n \<in> set names" for n using below_names_good that names by blast
    show "w \<in> set names - {''.'', ''..''}" if "\<not> err \<and> demo_file f (kadd (place p) (w # ws)) \<noteq> None" for w ws
      using below_names_all [OF conjunct2 [OF that]] below_names_good [of w "place p" f] names by blast
  qed
  have st: "law_stat demo_ops demo_file"
    unfolding law_stat_def
  proof (intro allI conjI impI)
    fix p f w ws
    show "fs_stat_isdir demo_ops p f = Some True \<Longrightarrow> demo_file f (place p) = None"
      by (simp add: demo_ops_def split: if_splits)
    assume "fs_stat_isdir demo_ops p f = Some False"
    then have "below_names (place p) f = []" by (simp add: demo_ops_def split: if_splits)
    then show "demo_file f (kadd (place p) (w # ws)) = None"
      using below_names_all [of f "place p" w ws] by (cases "demo_file f (kadd (place p) (w # ws))") auto
  qed
  have mk: "law_mkdir demo_ops demo_file" by (simp add: law_mkdir_def demo_ops_def)
  have rm: "law_rm_rf demo_ops demo_file"
    by (simp add: law_rm_rf_def demo_ops_def demo_file_def map_of_filter_key)
  have mv: "law_move demo_ops demo_file"
    unfolding law_move_def
  proof (intro allI impI)
    fix s d f ok f' k
    assume "file_move_verified demo_ops FILE_VERIFY_SHA256 s d f = (ok, f') \<and> place s \<noteq> place d"
    then show "(k \<noteq> place s \<and> k \<noteq> place d \<longrightarrow> demo_file f' k = demo_file f k) \<and>
        (ok \<longrightarrow> demo_file f' (place d) = demo_file f (place s) \<and> demo_file f' (place s) = None) \<and>
        (\<not> ok \<longrightarrow> demo_file f' (place s) = demo_file f (place s))"
      by (cases "demo_file f (place s)"; cases "good_place (place d)")
        (auto simp: demo_ops_def demo_file_def map_of_filter_key)
  qed
  show ?thesis using op st mk rm mv by (simp add: fs_laws_def)
qed

definition demo_start :: demo_fs where
  "demo_start = [((True, [''old'', ''a'']), 1), ((True, [''old'', ''sub'', ''b'']), 2), ((True, [''etc'', ''c'']), 3)]"




section \<open>Properties of the move\<close>





text \<open>C39. A read error of \<^verbatim>\<open>readdir\<close> in a directory below the source destroys files and is reported as a
  success. Take any entry that is a directory, whose destination can be made, whose listing is cut
  short before its first name by a read error, and whose removal works: the loop makes the destination,
  moves nothing, removes the directory with every file below it and goes on to the next entry as after
  a complete move, in either verification mode. (The Windows branch checks the reason for the end of its
  listing and fails.)\<close>

theorem readdir_error_loses:
  assumes laws: "fs_laws ops file" and name: "clean slash name" "name \<noteq> ''.''" "name \<noteq> ''..''" "src \<noteq> []"
    and short: "length (child src name) < 1024" "length (child dst name) < 1024"
    and dir: "fs_stat_isdir ops (child src name) f = Some True" "fs_mkdir_p ops (child dst name) f = (True, f1)"
    and err: "fs_opendir ops (child src name) f1 = Some ([], True)"
    and rm: "fs_rm_rf ops (child src name) f1 = (True, f2)"
  shows "move_entries ops verify src dst n (name # names) fp f = move_entries ops verify src dst n names fp f2 \<and>
         (\<forall>ws. file f2 (kadd (place src) (name # ws)) = None) \<and>
         (\<forall>k. \<not> beneath (kadd (place src) [name]) k \<longrightarrow> file f2 k = file f k)"
proof -
  have at: "place (child src name) = kadd (place src) [name]" using name by (simp add: place_child)
  have "move_entries ops verify src dst n (name # names) fp f = move_entries ops verify src dst n names fp f2"
    using name short dir err rm by (simp add: move_entries.simps(2) move_tree.simps)
  moreover have "file f2 (kadd (place src) (name # ws)) = None" for ws
    using fs_rm_rf_law(2) [OF laws rm, of "kadd (place src) (name # ws)"] by (simp add: at beneath_sibling)
  moreover have "file f2 k = file f k" if "\<not> beneath (kadd (place src) [name]) k" for k
    using fs_rm_rf_law(1) [OF laws rm, of k] fs_mkdir_law [OF laws dir(2)] that by (simp add: at)
  ultimately show ?thesis by blast
qed

text \<open>The demonstration file system with a read error in one directory.\<close>

definition bad_disk :: "demo_fs fs_ops" where
  "bad_disk = demo_ops\<lparr>fs_opendir := \<lambda>p f. if p = ''/old/sub'' then Some ([], True) else fs_opendir demo_ops p f\<rparr>"

lemma bad_disk_laws: "fs_laws bad_disk demo_file"
proof -
  have "law_opendir bad_disk demo_file"
    using demo_laws unfolding fs_laws_def law_opendir_def bad_disk_def by (simp split: if_splits)
  then show ?thesis
    using demo_laws by (simp add: fs_laws_def law_stat_def law_mkdir_def law_rm_rf_def law_move_def bad_disk_def)
qed

theorem readdir_error_loses_witness:
  "move_entries bad_disk FILE_VERIFY_SHA256 ''/old'' ''/new'' 1024 [''sub''] (Some []) demo_start =
     (True, Some [], [((True, [''old'', ''a'']), 1), ((True, [''etc'', ''c'']), 3)])"
proof -
  let ?f2 = "[((True, [''old'', ''a'']), 1), ((True, [''etc'', ''c'']), 3)] :: demo_fs"
  have "move_entries bad_disk FILE_VERIFY_SHA256 ''/old'' ''/new'' 1024 [''sub''] (Some []) demo_start =
      move_entries bad_disk FILE_VERIFY_SHA256 ''/old'' ''/new'' 1024 [] (Some []) ?f2"
    by (rule conjunct1 [OF readdir_error_loses [OF bad_disk_laws, where ?f1.0 = demo_start]]) code_simp+
  then show ?thesis by simp
qed

text \<open>A failed move names a path: with an empty buffer of at least two bytes handed in, a failure at
  any depth leaves a non-empty path in it, and a success leaves it empty.\<close>

theorem move_tree_reports:
  assumes "2 \<le> failed_len" "src \<noteq> []" "dst \<noteq> []"
    and "cli_cache_move_tree ops verify src dst failed_len (Some []) f = (ok, fp', f')"
  shows "if ok then fp' = Some [] else \<exists>t. t \<noteq> [] \<and> fp' = Some t"
proof -
  obtain made f1 where mk: "fs_mkdir_p ops dst f = (made, f1)" by fastforce
  show ?thesis
  proof (cases made)
    case True
    then have "move_tree ops verify src dst failed_len (Some []) f1 = (ok, fp', f')"
      using assms(4) mk by (simp add: cli_cache_move_tree_def)
    then show ?thesis by (rule tree_reports [OF assms(1,2)])
  next
    case False
    then show ?thesis
      using assms(4) mk report_not_Nil [OF assms(1,3), of "[]"] by (auto simp: cli_cache_move_tree_def)
  qed
qed

theorem move_tree_reports_witness:
  "\<exists>t f'. t \<noteq> [] \<and> cli_cache_move_tree (demo_ops\<lparr>fs_rm_rf := \<lambda>p f. (False, f)\<rparr>) FILE_VERIFY_NONE ''/old'' ''/new'' 1024
      (Some []) demo_start = (False, Some t, f')"
proof -
  obtain ok fp' f' where run: "cli_cache_move_tree (demo_ops\<lparr>fs_rm_rf := \<lambda>p f. (False, f)\<rparr>) FILE_VERIFY_NONE
      ''/old'' ''/new'' 1024 (Some []) demo_start = (ok, fp', f')"
    by (cases "cli_cache_move_tree (demo_ops\<lparr>fs_rm_rf := \<lambda>p f. (False, f)\<rparr>) FILE_VERIFY_NONE ''/old'' ''/new'' 1024
      (Some []) demo_start") auto
  have "fst (cli_cache_move_tree (demo_ops\<lparr>fs_rm_rf := \<lambda>p f. (False, f)\<rparr>) FILE_VERIFY_NONE ''/old'' ''/new'' 1024
      (Some []) demo_start) = False" by code_simp
  with run move_tree_reports [OF _ _ _ run] show ?thesis by auto
qed

end
