(* ===== verification/Config_Dirs.thy ===== *)
theory Config_Dirs
  imports Prelude
begin

text \<open>
  Where the daemon keeps its state (\<^verbatim>\<open>src/src/offs/cli_util.c\<close>): the two directories named in the
  daemon's configuration file, and the resolution of the configuration and cache directories as the
  command line tool does it. cJSON, the reading of files and the services of liboffs (default paths, the
  pending configuration) are a parameter.
\<close>

section \<open>The services of liboffs and cJSON\<close>

text \<open>The members of \<^verbatim>\<open>config_t\<close> the sources read or write.\<close>

record config_t =
  cfg_max_capacity_bytes :: u64
  cfg_eabf_base_ttl_ms :: u32
  cfg_respiration_tau_min_ms :: u32
  cfg_respiration_tau_max_ms :: u32
  cfg_bootstrap_peers :: "string option"
  cfg_api_key_hash :: "string option"
  cfg_cache_dir :: "string option"
  cfg_http_idle_timeout_ms :: nat
  cfg_http_hard_timeout_ms :: nat

text \<open>JSON items are abstract; \<open>cj_string\<close>, \<open>cj_number\<close> and \<open>cj_bool\<close> are the type tests of cJSON together
  with the value members (for a number \<^verbatim>\<open>valueint\<close>, and \<^verbatim>\<open>valuedouble\<close> rounded toward zero). A path that does not fit the
  1024 byte buffer the callers pass counts as none.\<close>

record ('j, 'w) host =
  cJSON_Parse :: "string \<Rightarrow> 'j option"
  cJSON_GetObjectItem :: "'j \<Rightarrow> string \<Rightarrow> 'j option"
  cj_string :: "'j \<Rightarrow> string option"
  cj_number :: "'j \<Rightarrow> (int \<times> int) option"
  cj_bool :: "'j \<Rightarrow> bool option"
  read_file :: "'w \<Rightarrow> string \<Rightarrow> string option" \<comment> \<open>\<open>None\<close> when it cannot be opened or measured\<close>
  offs_default_config_path_get :: "'w \<Rightarrow> string option"
  offs_default_dirs_get :: "'w \<Rightarrow> (string \<times> string) option" \<comment> \<open>configuration and cache directory\<close>
  config_pending_load :: "'w \<Rightarrow> string \<Rightarrow> config_t option"
  cast_out_of_range :: "nat \<Rightarrow> int \<Rightarrow> int" \<comment> \<open>what the compiled conversion of a \<^verbatim>\<open>double\<close> to \<open>n\<close> bits gives where C leaves it undefined\<close>

text \<open>The string member \<open>key\<close> of the object \<open>sec\<close> of the root.\<close>

definition section_string :: "('j, 'w) host \<Rightarrow> 'j \<Rightarrow> string \<Rightarrow> string \<Rightarrow> string option" where
  "section_string h root sec key = do {
     s \<leftarrow> cJSON_GetObjectItem h root sec;
     v \<leftarrow> cJSON_GetObjectItem h s key;
     cj_string h v
   }"

section \<open>The directories in the configuration file\<close>

definition out_buffer :: "nat \<Rightarrow> string option \<Rightarrow> string" where
  "out_buffer n v = (case v of None \<Rightarrow> [] | Some s \<Rightarrow> c_buf n s)"

text \<open>\<open>None\<close> is the result -1; otherwise the contents of the two buffers.\<close>

definition cli_cache_read_config_file_dirs ::
    "('j, 'w) host \<Rightarrow> 'w \<Rightarrow> string \<Rightarrow> nat \<Rightarrow> nat \<Rightarrow> (string \<times> string) option" where
  "cli_cache_read_config_file_dirs h w config_path config_dir_size cache_dir_size = do {
     buffer \<leftarrow> read_file h w config_path;
     root \<leftarrow> cJSON_Parse h (c_string_of buffer);
     Some (out_buffer config_dir_size (section_string h root ''daemon'' ''config-dir''),
           out_buffer cache_dir_size (section_string h root ''cache'' ''dir''))
   }"

definition given :: "string option \<Rightarrow> bool" where
  "given flag \<longleftrightarrow> flag \<noteq> None \<and> flag \<noteq> Some []"

definition config_file_dirs :: "('j, 'w) host \<Rightarrow> 'w \<Rightarrow> (string \<times> string) option" where
  "config_file_dirs h w = do {
     config_path \<leftarrow> offs_default_config_path_get h w;
     cli_cache_read_config_file_dirs h w config_path 1024 1024
   }"

definition cli_cache_resolve_config_dir :: "('j, 'w) host \<Rightarrow> 'w \<Rightarrow> string option \<Rightarrow> nat \<Rightarrow> string option" where
  "cli_cache_resolve_config_dir h w flag out_size =
     (if given flag then Some (c_buf out_size (the flag))
      else (case config_file_dirs h w of
          Some (file_cfg_dir, file_cache_dir) \<Rightarrow>
            if file_cfg_dir \<noteq> [] then Some (c_buf out_size file_cfg_dir)
            else map_option (\<lambda>(config_dir, _). c_buf out_size config_dir) (offs_default_dirs_get h w)
        | None \<Rightarrow> map_option (\<lambda>(config_dir, _). c_buf out_size config_dir) (offs_default_dirs_get h w)))"

definition pending_cache_dir :: "('j, 'w) host \<Rightarrow> 'w \<Rightarrow> string option \<Rightarrow> string option" where
  "pending_cache_dir h w config_dir = do {
     resolved_cfg_dir \<leftarrow> (if given config_dir then config_dir else cli_cache_resolve_config_dir h w None 1024);
     pending \<leftarrow> config_pending_load h w resolved_cfg_dir;
     cfg_cache_dir pending
   }"

definition cli_cache_resolve_current ::
    "('j, 'w) host \<Rightarrow> 'w \<Rightarrow> string option \<Rightarrow> string option \<Rightarrow> nat \<Rightarrow> string option" where
  "cli_cache_resolve_current h w from_flag config_dir out_size =
     (if given from_flag then Some (c_buf out_size (the from_flag))
      else (case config_file_dirs h w of
          Some (file_cfg_dir, file_cache_dir) \<Rightarrow>
            if file_cache_dir \<noteq> [] then Some (c_buf out_size file_cache_dir)
            else (case pending_cache_dir h w config_dir of
                Some d \<Rightarrow> Some (c_buf out_size d)
              | None \<Rightarrow> map_option (\<lambda>(_, cache_dir). c_buf out_size cache_dir) (offs_default_dirs_get h w))
        | None \<Rightarrow>
            (case pending_cache_dir h w config_dir of
                Some d \<Rightarrow> Some (c_buf out_size d)
              | None \<Rightarrow> map_option (\<lambda>(_, cache_dir). c_buf out_size cache_dir) (offs_default_dirs_get h w))))"

lemma c_buf_c_buf: "m \<le> n \<Longrightarrow> c_buf n (c_buf m s) = c_buf m s"
  by (simp add: c_buf_def min_absorb2)

text \<open>The sources of the cache directory in their order of precedence.\<close>

lemma resolve_current_first:
  "cli_cache_resolve_current h w from_flag config_dir n =
     map_option (c_buf n)
       (List.find (\<lambda>_. True) (concat (map (\<lambda>x. case x of None \<Rightarrow> [] | Some s \<Rightarrow> [s])
          [if given from_flag then from_flag else None,
           (case config_file_dirs h w of Some (_, d) \<Rightarrow> if d \<noteq> [] then Some d else None | None \<Rightarrow> None),
           pending_cache_dir h w config_dir,
           map_option snd (offs_default_dirs_get h w)])))"
  by (auto simp: cli_cache_resolve_current_def given_def split: option.splits prod.splits)

end
