(* ===== verification/Start_Stop.thy ===== *)
theory Start_Stop
  imports Cli_Base
begin

text \<open>
  Starting, stopping and restarting the daemon (\<^verbatim>\<open>src/src/offs/commands/start_stop.c\<close>). The operating
  system is a parameter that acts on an abstract world: \<^verbatim>\<open>system\<close>, the sleep, the connection to the local
  socket, \<^verbatim>\<open>fork\<close> with the exec calls of the child, \<^verbatim>\<open>waitpid\<close>, and the files under \<^verbatim>\<open>/proc\<close>. The
  polling loops are bounded by their time budgets, and the flags of a running daemon survive a restart.
\<close>

section \<open>The operating system\<close>

datatype os_kind = Linux | MacOS | Windows_OS | Other_OS

record 'w machine =
  os_kind :: os_kind
  os_system :: "string \<Rightarrow> 'w \<Rightarrow> int \<times> 'w" \<comment> \<open>exit status of a shell command\<close>
  os_sleep_ms :: "nat \<Rightarrow> 'w \<Rightarrow> 'w"
  os_local_connect :: "'w \<Rightarrow> string \<Rightarrow> sock option"
  os_fork_exec :: "(string \<times> string list) list \<Rightarrow> 'w \<Rightarrow> nat option \<times> 'w"
    \<comment> \<open>\<^verbatim>\<open>fork\<close>, the child trying the exec calls in order: the pid, or \<open>None\<close> when the fork fails\<close>
  os_waitpid_nohang :: "nat \<Rightarrow> 'w \<Rightarrow> int option \<times> 'w" \<comment> \<open>status, when the child has exited\<close>
  os_exe_path :: "'w \<Rightarrow> string option" \<comment> \<open>\<^verbatim>\<open>readlink("/proc/self/exe")\<close>\<close>
  os_is_executable :: "'w \<Rightarrow> string \<Rightarrow> bool" \<comment> \<open>\<^verbatim>\<open>stat\<close>: a regular file with an execute bit\<close>
  os_pgrep_offsd :: "'w \<Rightarrow> int option" \<comment> \<open>the number \<^verbatim>\<open>fscanf\<close> reads from \<^verbatim>\<open>pgrep -x offsd\<close>\<close>
  os_cmdline :: "'w \<Rightarrow> int \<Rightarrow> string option" \<comment> \<open>the bytes of \<^verbatim>\<open>/proc/<pid>/cmdline\<close>\<close>
  os_geteuid :: "'w \<Rightarrow> nat"

record 'w sys_st = cli_st +
  world :: 'w

lemma world_say [simp]: "world (say c st) = world st" "world (out_line s st) = world st" "world (err_line s st) = world st"
  by (simp_all add: say_def out_line_def err_line_def)

definition run_system :: "'w machine \<Rightarrow> string \<Rightarrow> ('w, 'm) sys_st_scheme \<Rightarrow> int \<times> ('w, 'm) sys_st_scheme" where
  "run_system os cmd st = (let (rc, w) = os_system os cmd (world st) in (rc, st\<lparr>world := w\<rparr>))"

definition is_daemon_running :: "'w machine \<Rightarrow> ('w, 'm) sys_st_scheme \<Rightarrow> bool \<times> ('w, 'm) sys_st_scheme" where
  "is_daemon_running os st =
     (let (result, st1) = run_system os
            (if os_kind os = Windows_OS then ''sc query offs-daemon > nul 2>&1''
             else ''pgrep -x offsd > /dev/null 2>&1'') st
      in (result = 0, st1))"

definition cli_daemon_is_running :: "'w machine \<Rightarrow> ('w, 'm) sys_st_scheme \<Rightarrow> bool \<times> ('w, 'm) sys_st_scheme" where
  "cli_daemon_is_running os st = is_daemon_running os st"

text \<open>The loop of \<^verbatim>\<open>cli_daemon_wait_stopped\<close>: it probes before it looks at the budget.\<close>

function wait_stopped_loop :: "'w machine \<Rightarrow> nat \<Rightarrow> nat \<Rightarrow> ('w, 'm) sys_st_scheme \<Rightarrow> ('w, 'm) sys_st_scheme" where
  "wait_stopped_loop os timeout_ms waited_ms st =
     (let (running, st1) = is_daemon_running os st in
      if running \<and> waited_ms < timeout_ms
      then wait_stopped_loop os timeout_ms (waited_ms + 100) (st1\<lparr>world := os_sleep_ms os 100 (world st1)\<rparr>)
      else st1)"
  by pat_completeness auto

termination
  by (relation "measure (\<lambda>(os, timeout_ms, waited_ms, st). timeout_ms - waited_ms)") auto

declare wait_stopped_loop.simps [simp del]

definition cli_daemon_wait_stopped :: "'w machine \<Rightarrow> nat \<Rightarrow> ('w, 'm) sys_st_scheme \<Rightarrow> int \<times> ('w, 'm) sys_st_scheme" where
  "cli_daemon_wait_stopped os timeout_ms st =
     (let st1 = wait_stopped_loop os timeout_ms 0 st;
          (running, st2) = is_daemon_running os st1
      in (if running then - 1 else 0, st2))"

section \<open>Start\<close>

fun probe_socket_path :: "string list \<Rightarrow> string" where
  "probe_socket_path (a # b # as) = (if a = ''--unix'' then b else probe_socket_path (b # as))"
| "probe_socket_path _ = OFFS_LOCAL_SOCKET_PATH"

text \<open>\<^verbatim>\<open>_probe_daemon_up\<close>: a fresh client per attempt, 100 ms between attempts. The client is always
  created, since allocation is taken to succeed, and destroyed after the attempt.\<close>

function probe_daemon_up :: "'w machine \<Rightarrow> string \<Rightarrow> nat \<Rightarrow> nat \<Rightarrow> 'w \<Rightarrow> bool \<times> 'w" where
  "probe_daemon_up os path timeout_ms elapsed w =
     (if elapsed < timeout_ms then
        (let (rc, probe) = cli_client_connect (os_local_connect os w) (Some (cli_client_create (Some path))) in
         if rc = 0 then (True, w)
         else probe_daemon_up os path timeout_ms (elapsed + 100) (os_sleep_ms os 100 w))
      else (False, w))"
  by pat_completeness auto

termination
  by (relation "measure (\<lambda>(os, p, timeout_ms, elapsed, w). timeout_ms - elapsed)") auto

declare probe_daemon_up.simps [simp del]

text \<open>\<^verbatim>\<open>dirname\<close> of the path of the running binary, which is absolute.\<close>

definition dirname :: "string \<Rightarrow> string" where
  "dirname p =
     (let d = rev (dropWhile (\<lambda>c. c = CHR ''/'') (dropWhile (\<lambda>c. c \<noteq> CHR ''/'') (rev p)))
      in if d = [] then ''/'' else d)"

text \<open>The exec calls of the forked child: \<^verbatim>\<open>offsd\<close> beside the running binary when it is there and
  executable, then \<^verbatim>\<open>offsd\<close> on the search path. When \<^verbatim>\<open>execv\<close> comes back, \<^verbatim>\<open>offsd_args[0]\<close> still
  holds the freed absolute path, so that call is the one modelled with that name.\<close>

definition offsd_exec_calls :: "'w machine \<Rightarrow> 'w \<Rightarrow> string list \<Rightarrow> (string \<times> string list) list" where
  "offsd_exec_calls os w argv =
     (case os_exe_path os w of
        Some exe_path \<Rightarrow>
          (let offsd_abs = dirname exe_path @ ''/offsd'' in
           if exe_path \<noteq> [] \<and> os_is_executable os w offsd_abs
           then [(offsd_abs, offsd_abs # argv), (''offsd'', offsd_abs # argv)]
           else [(''offsd'', ''offsd'' # argv)])
      | None \<Rightarrow> [(''offsd'', ''offsd'' # argv)])"

definition WEXITSTATUS :: "int \<Rightarrow> int" where
  "WEXITSTATUS s = (s div 256) mod 256"

definition start_usage :: string where
  "start_usage = ''Usage: offs start [offsd flags ...]'' @ newline
     @ ''  Forwards all flags to offsd (e.g. --foreground, --unix <path>,'' @ newline
     @ ''  --cache-dir <dir>, --data-dir <dir>, --port <n>, --config <path>).'' @ newline"

text \<open>The POSIX branch of \<^verbatim>\<open>cmd_start\<close>: fork, look for an early exit, probe the socket.\<close>

definition start_fork :: "'w machine \<Rightarrow> string list \<Rightarrow> ('w, 'm) sys_st_scheme \<Rightarrow> int \<times> ('w, 'm) sys_st_scheme" where
  "start_fork os argv st =
     (let (forked, w1) = os_fork_exec os (offsd_exec_calls os (world st) argv) (world st);
          st1 = st\<lparr>world := w1\<rparr>
      in case forked of
        None \<Rightarrow> (1, say (Perror ''fork'') st1)
      | Some pid \<Rightarrow>
          (let (exited, w2) = os_waitpid_nohang os pid w1;
               st2 = st1\<lparr>world := w2\<rparr>
           in if exited \<noteq> None \<and> exited \<noteq> Some 0
              then (1, err_line (''Daemon failed to start (child exited with status ''
                         @ dec_int (WEXITSTATUS (the exited)) @ '')'') st2)
              else
                (let path = probe_socket_path argv;
                     (up, w3) = probe_daemon_up os path 3000 0 w2;
                     st3 = st2\<lparr>world := w3\<rparr>
                 in if \<not> up
                    then (1, err_line (''Daemon failed to start (no response at '' @ path @ '' within 3s)'') st3)
                    else (0, out_line (c_format L10N_DAEMON_STARTED [FNat pid]) st3))))"

definition cmd_start :: "'w machine \<Rightarrow> string list \<Rightarrow> ('w, 'm) sys_st_scheme \<Rightarrow> int \<times> ('w, 'm) sys_st_scheme" where
  "cmd_start os argv st =
     (if ''--help'' \<in> set argv then (0, say (Out start_usage) st)
      else
        (let (running, st1) = is_daemon_running os st in
         if running then (1, err_line L10N_DAEMON_ALREADY_RUNNING st1)
         else if os_kind os = Windows_OS then
           (let (result, st2) = run_system os ''sc start offs-daemon > nul 2>&1'' st1 in
            if result \<noteq> 0 then (1, err_line ''Failed to start daemon service'' st2)
            else (0, out_line ''Daemon started'' st2))
         else start_fork os argv st1))"

section \<open>Stop\<close>

definition cmd_stop :: "'w machine \<Rightarrow> ('w, 'm) sys_st_scheme \<Rightarrow> int \<times> ('w, 'm) sys_st_scheme" where
  "cmd_stop os st =
     (let (running, st1) = is_daemon_running os st in
      if \<not> running then (1, err_line L10N_DAEMON_UNREACHABLE st1)
      else
        (let (result, st2) = run_system os
               (if os_kind os = Windows_OS then ''sc stop offs-daemon > nul 2>&1''
                else ''pkill -TERM -x offsd 2>/dev/null'') st1
         in if result \<noteq> 0
            then (1, err_line (if os_kind os = Windows_OS then ''Failed to stop daemon service'' else ''Failed to stop daemon'') st2)
            else (0, out_line L10N_DAEMON_STOPPED st2)))"

section \<open>Restart\<close>

text \<open>The arguments in the bytes of \<^verbatim>\<open>/proc/<pid>/cmdline\<close>: cut at NUL bytes, up to the first empty one.\<close>

function nul_args :: "string \<Rightarrow> string list" where
  "nul_args s =
     (let a = takeWhile (\<lambda>c. ccode c \<noteq> 0) s in
      if a = [] then [] else a # nul_args (drop (length a + 1) s))"
  by pat_completeness auto

termination
proof (relation "measure length")
  fix s a
  assume "a = takeWhile (\<lambda>c. ccode c \<noteq> 0) s" "a \<noteq> []"
  then have "s \<noteq> []" by auto
  then show "(drop (length a + 1) s, s) \<in> measure length" by (cases s) auto
qed simp

declare nul_args.simps [simp del]

definition read_running_offsd_args :: "'w machine \<Rightarrow> 'w \<Rightarrow> string list" where
  "read_running_offsd_args os w =
     (case os_pgrep_offsd os w of
        None \<Rightarrow> []
      | Some pid \<Rightarrow>
          if pid \<le> 0 then []
          else (case os_cmdline os w pid of
              None \<Rightarrow> []
            | Some bytes \<Rightarrow>
                (let buf = take 4095 bytes in
                 if buf = [] then [] else tl (nul_args buf))))"

definition is_service_managed :: "'w machine \<Rightarrow> ('w, 'm) sys_st_scheme \<Rightarrow> bool \<times> ('w, 'm) sys_st_scheme" where
  "is_service_managed os st =
     (let probe = (\<lambda>cmd. let (rc, st1) = run_system os cmd st in (rc = 0, st1)) in
      case os_kind os of
        Linux \<Rightarrow> probe ''systemctl is-active --quiet offs-daemon 2>/dev/null''
      | MacOS \<Rightarrow> probe ''launchctl list offs-daemon >/dev/null 2>&1''
      | Windows_OS \<Rightarrow> probe ''sc query offs-daemon > nul 2>&1''
      | Other_OS \<Rightarrow> (False, st))"

definition restart_via :: "'w machine \<Rightarrow> string \<Rightarrow> string \<Rightarrow> string \<Rightarrow> string \<Rightarrow> ('w, 'm) sys_st_scheme
    \<Rightarrow> int \<times> ('w, 'm) sys_st_scheme" where
  "restart_via os cmd good denied bad st =
     (let (result, st1) = run_system os cmd st in
      if result = 0 then (0, out_line good st1)
      else (1, err_line (if os_geteuid os (world st1) \<noteq> 0 then denied else bad) st1))"

definition service_restart :: "'w machine \<Rightarrow> ('w, 'm) sys_st_scheme \<Rightarrow> int \<times> ('w, 'm) sys_st_scheme" where
  "service_restart os st =
     (case os_kind os of
        Linux \<Rightarrow> restart_via os ''systemctl restart offs-daemon 2>&1'' ''Daemon restarted via systemctl''
          ''Permission denied. Run: sudo systemctl restart offs-daemon'' ''systemctl restart offs-daemon failed'' st
      | MacOS \<Rightarrow> restart_via os ''launchctl kickstart -k system/offs-daemon 2>&1'' ''Daemon restarted via launchctl''
          ''Permission denied. Run: sudo launchctl kickstart -k system/offs-daemon''
          ''launchctl kickstart offs-daemon failed'' st
      | Windows_OS \<Rightarrow>
          restart_via os ''sc stop offs-daemon > nul 2>&1 && sc start offs-daemon > nul 2>&1'' ''Daemon restarted via sc''
            ''sc restart offs-daemon failed (run from an elevated shell)''
            ''sc restart offs-daemon failed (run from an elevated shell)'' st
      | Other_OS \<Rightarrow> (1, st))"

definition restart_args :: "'w machine \<Rightarrow> string list \<Rightarrow> 'w \<Rightarrow> string list" where
  "restart_args os argv w =
     (if os_kind os \<noteq> Windows_OS \<and> argv = []
      then filter (\<lambda>a. a \<noteq> ''--foreground'') (read_running_offsd_args os w)
      else argv)"

definition cmd_restart :: "'w machine \<Rightarrow> string list \<Rightarrow> ('w, 'm) sys_st_scheme \<Rightarrow> int \<times> ('w, 'm) sys_st_scheme" where
  "cmd_restart os argv st =
     (let (managed, st1) = is_service_managed os st in
      if managed then service_restart os st1
      else
        (let start_argv = restart_args os argv (world st1);
             (ret, st2) = cmd_stop os st1
         in if ret \<noteq> 0 then (ret, st2)
            else
              (let (stopped, st3) = cli_daemon_wait_stopped os 10000 st2;
                   st4 = (if stopped \<noteq> 0
                          then err_line ''Warning: old daemon still running after 10s; proceeding with restart'' st3
                          else st3)
               in cmd_start os start_argv st4)))"

section \<open>The polling loops\<close>

lemma probe_connects:
  "fst (cli_client_connect (os_local_connect os w) (Some (cli_client_create (Some path)))) = 0
     \<longleftrightarrow> os_local_connect os w path \<noteq> None"
  by (auto simp: cli_client_connect_def cli_client_create_def split: option.splits)

lemma probe_step:
  "probe_daemon_up os path t e w =
     (if e < t then
        (if os_local_connect os w path \<noteq> None then (True, w)
         else probe_daemon_up os path t (e + 100) (os_sleep_ms os 100 w))
      else (False, w))"
  using probe_connects [of os w path]
  by (subst probe_daemon_up.simps) (auto simp: Let_def split: prod.splits)

lemma probe_spec:
  "\<exists>n. n * 100 < (t - e) + 100 \<and> snd (probe_daemon_up os path t e w) = (os_sleep_ms os 100 ^^ n) w \<and>
     (fst (probe_daemon_up os path t e w) \<longleftrightarrow>
        (\<exists>k. e + k * 100 < t \<and> os_local_connect os ((os_sleep_ms os 100 ^^ k) w) path \<noteq> None))"
proof (induction "t - e" arbitrary: e w rule: less_induct)
  case less
  let ?z = "os_sleep_ms os 100"
  consider (over) "\<not> e < t" | (up) "e < t" "os_local_connect os w path \<noteq> None"
    | (wait) "e < t" "os_local_connect os w path = None" by blast
  then show ?case
  proof cases
    case over
    then show ?thesis by (intro exI [of _ 0]) (auto simp: probe_step [of os path t e w])
  next
    case up
    then show ?thesis by (intro exI [of _ 0]) (auto simp: probe_step [of os path t e w] intro: exI [of _ 0])
  next
    case wait
    have step: "probe_daemon_up os path t e w = probe_daemon_up os path t (e + 100) (?z w)"
      using wait by (subst probe_step) simp
    have dec: "t - (e + 100) < t - e" using wait(1) by simp
    obtain n where n: "n * 100 < (t - (e + 100)) + 100"
      "snd (probe_daemon_up os path t (e + 100) (?z w)) = (?z ^^ n) (?z w)"
      "fst (probe_daemon_up os path t (e + 100) (?z w)) \<longleftrightarrow>
        (\<exists>k. e + 100 + k * 100 < t \<and> os_local_connect os ((?z ^^ k) (?z w)) path \<noteq> None)"
      using less [OF dec, of "?z w"] by blast
    have shift: "(\<exists>k. e + k * 100 < t \<and> os_local_connect os ((?z ^^ k) w) path \<noteq> None) \<longleftrightarrow>
        (\<exists>k. e + 100 + k * 100 < t \<and> os_local_connect os ((?z ^^ k) (?z w)) path \<noteq> None)" (is "?l \<longleftrightarrow> ?r")
    proof
      assume ?l
      then obtain k where k: "e + k * 100 < t" "os_local_connect os ((?z ^^ k) w) path \<noteq> None" by blast
      then obtain j where "k = Suc j" using wait(2) by (cases k) auto
      with k show ?r by (intro exI [of _ j]) (simp add: funpow_swap1)
    next
      assume ?r
      then obtain k where "e + 100 + k * 100 < t" "os_local_connect os ((?z ^^ k) (?z w)) path \<noteq> None" by blast
      then show ?l by (intro exI [of _ "Suc k"]) (simp add: funpow_swap1)
    qed
    have "Suc n * 100 < (t - e) + 100" using n(1) wait(1) by (cases n) simp_all
    then show ?thesis
      using n(2,3) unfolding step shift by (intro exI [of _ "Suc n"]) (simp add: funpow_swap1)
  qed
qed

text \<open>The readiness probe tells the truth within its budget: it answers yes exactly when the daemon
  accepts a connection at one of the instants 0, 100, 200, ... ms below the timeout, and it sleeps 100 ms
  at most as often as the timeout allows, so \<^verbatim>\<open>offs start\<close> waits no more than its three seconds.\<close>

theorem probe_daemon_up_iff:
  "\<exists>n. n * 100 < t + 100 \<and> snd (probe_daemon_up os path t 0 w) = (os_sleep_ms os 100 ^^ n) w \<and>
     (fst (probe_daemon_up os path t 0 w) \<longleftrightarrow>
        (\<exists>k. k * 100 < t \<and> os_local_connect os ((os_sleep_ms os 100 ^^ k) w) path \<noteq> None))"
  using probe_spec [of t 0 os path w] by simp

section \<open>The flags of a running daemon\<close>

text \<open>What the kernel puts into \<^verbatim>\<open>/proc/<pid>/cmdline\<close>: every argument followed by a NUL byte.\<close>

definition cmdline_of :: "string list \<Rightarrow> string" where
  "cmdline_of as = concat (map (\<lambda>a. a @ [CHR 0x00]) as)"

definition proper_arg :: "string \<Rightarrow> bool" where
  "proper_arg a \<longleftrightarrow> a \<noteq> [] \<and> list_all (\<lambda>c. ccode c \<noteq> 0) a"

lemma nul_args_Cons: "proper_arg a \<Longrightarrow> nul_args (a @ CHR 0x00 # s) = a # nul_args s"
  by (subst nul_args.simps) (simp add: proper_arg_def takeWhile_append list_all_iff Let_def)

lemma nul_args_Nil [simp]: "nul_args [] = []"
  by (subst nul_args.simps) simp

lemma nul_args_cmdline: "list_all proper_arg as \<Longrightarrow> nul_args (cmdline_of as) = as"
  by (induction as) (simp_all add: cmdline_of_def nul_args_Cons)

lemma read_args_cmdline:
  assumes "os_pgrep_offsd os w = Some pid" "0 < pid" "os_cmdline os w pid = Some (cmdline_of (exe # as))"
    and "list_all proper_arg (exe # as)" "length (cmdline_of (exe # as)) \<le> 4095"
  shows "read_running_offsd_args os w = as"
  using assms nul_args_cmdline [of "exe # as"]
  by (simp add: read_running_offsd_args_def cmdline_of_def)

text \<open>A restart without arguments starts the daemon with the flags it is running with, less
  \<^verbatim>\<open>--foreground\<close>: for a command line of non-empty arguments that fits the 4095 bytes read, the vector
  handed to \<^verbatim>\<open>offsd\<close> is the one in \<^verbatim>\<open>/proc/<pid>/cmdline\<close> without the program name.\<close>

theorem restart_preserves_flags:
  assumes "os_kind os \<noteq> Windows_OS" "os_pgrep_offsd os w = Some pid" "0 < pid"
    and "os_cmdline os w pid = Some (cmdline_of (exe # as))"
    and "list_all proper_arg (exe # as)" "length (cmdline_of (exe # as)) \<le> 4095"
  shows "restart_args os [] w = filter (\<lambda>a. a \<noteq> ''--foreground'') as"
  using read_args_cmdline [OF assms(2-6)] assms(1) by (simp add: restart_args_def)


text \<open>A concrete machine, for the runs of the polling and restart commands: the world counts the
  milliseconds slept, the daemon's process disappears after \<open>dies\<close> of them and a new one answers on
  its socket from \<open>up\<close> on.\<close>

definition demo_machine :: "nat \<Rightarrow> nat \<Rightarrow> string list \<Rightarrow> nat machine" where
  "demo_machine dies up argv = \<lparr>
     os_kind = Linux,
     os_system = (\<lambda>cmd w. (if cmd = ''pgrep -x offsd > /dev/null 2>&1'' then (if w < dies then 0 else 1)
                          else if cmd = ''pkill -TERM -x offsd 2>/dev/null'' then 0 else 1, w)),
     os_sleep_ms = (\<lambda>ms w. w + ms),
     os_local_connect = (\<lambda>w p. if up \<le> w then Some \<lparr>send_evs = [], recv_evs = [], wire_out = []\<rparr> else None),
     os_fork_exec = (\<lambda>calls w. (Some 77, w)),
     os_waitpid_nohang = (\<lambda>pid w. (Some 0, w)),
     os_exe_path = (\<lambda>w. Some ''/usr/bin/offs''),
     os_is_executable = (\<lambda>w p. True),
     os_pgrep_offsd = (\<lambda>w. Some 41),
     os_cmdline = (\<lambda>w pid. Some (cmdline_of argv)),
     os_geteuid = (\<lambda>w. 0)\<rparr>"

theorem restart_preserves_flags_witness:
  "restart_args (demo_machine 5 9 [''offsd'', ''--foreground'', ''--port'', ''80'']) [] 0 = [''--port'', ''80'']"
  using restart_preserves_flags [of "demo_machine 5 9 [''offsd'', ''--foreground'', ''--port'', ''80'']" 0 41
      "''offsd''" "[''--foreground'', ''--port'', ''80'']"]
  by (simp add: demo_machine_def proper_arg_def cmdline_of_def)

section \<open>Waiting for the old daemon\<close>

text \<open>The probe sees the daemon in every world.\<close>

definition always_running :: "'w machine \<Rightarrow> bool" where
  "always_running os \<longleftrightarrow> (\<forall>w. fst (os_system os ''pgrep -x offsd > /dev/null 2>&1'' w) = 0)"

lemma running_seen:
  "always_running os \<Longrightarrow> os_kind os \<noteq> Windows_OS \<Longrightarrow> fst (is_daemon_running os st)"
  by (simp add: always_running_def is_daemon_running_def run_system_def split_beta Let_def)

lemma cmd_start_refuses:
  assumes "always_running os" "os_kind os \<noteq> Windows_OS" "''--help'' \<notin> set argv"
  shows "fst (cmd_start os argv st) = 1"
  using running_seen [OF assms(1,2), of st] assms(3) by (simp add: cmd_start_def split_beta Let_def)

text \<open>A restart whose old daemon does not go away fails: although the command announces that it
  proceeds, the double-start guard of \<^verbatim>\<open>cmd_start\<close> refuses, and the exit code is 1.\<close>

theorem restart_refused_when_stuck:
  assumes "always_running os" "os_kind os \<noteq> Windows_OS"
    and "fst (is_service_managed os st) = False" "''--help'' \<notin> set (restart_args os argv (world (snd (is_service_managed os st))))"
  shows "fst (cmd_restart os argv st) = 1"
  using assms(3) cmd_start_refuses [OF assms(1,2,4)] running_seen [OF assms(1,2)]
  by (auto simp: cmd_restart_def cmd_stop_def split_beta Let_def)

theorem restart_refused_when_stuck_witness:
  "fst (cmd_restart (demo_machine 100000 0 [''offsd'']\<lparr>os_system := \<lambda>cmd w. (if CHR ''y'' \<in> set cmd then 3 else 0, w)\<rparr>)
      [] \<lparr>client = None, log = [], world = 0\<rparr>) = 1"
  by (rule restart_refused_when_stuck)
    (simp_all add: always_running_def demo_machine_def is_service_managed_def run_system_def restart_args_def
      read_running_offsd_args_def cmdline_of_def nul_args_Cons [of "''offsd''" "[]", simplified] proper_arg_def)

end
