(* ===== verification/Cache.thy ===== *)
theory Cache
  imports Cache_Size Move_Tree Config_Dirs Start_Stop
begin

text \<open>
  The \<^verbatim>\<open>offs cache\<close> command (\<^verbatim>\<open>src/src/offs/commands/cache.c\<close>): resizing the cache live or by staging the
  size, relocating its directory, and the garbage collection sweep. The wire protocol, cJSON, the pending
  configuration and the file system are parameters; the command stops and starts the daemon through
  \<open>Start_Stop\<close>, resolves directories through \<open>Config_Dirs\<close> and moves the tree through \<open>Move_Tree\<close>.
\<close>

section \<open>The parameters\<close>

datatype cbor_item = CUint u64 | CText string | COther

record gc_response =
  gc_status :: u8
  urls_request :: u64
  urls_collected :: u64
  blocks_deleted :: u64
  blocks_kept :: u64
  skipped_pinned :: u64
  skipped_claimed :: u64
  gc_failed :: "cbor_item list list option"
  defrag_applied :: u8
  defrag_sections :: u64
  defrag_blocks_relocated :: u64

record 'c cache_api = "'c wire" +
  cache_resize_request_encode :: "u64 \<Rightarrow> 'c option"
  CLIENT_API_CACHE_RESIZE_RESPONSE :: u8
  cache_resize_response_decode :: "'c \<Rightarrow> (u8 \<times> u64 \<times> u64) option" \<comment> \<open>status, capacity, footprint\<close>
  gc_request_encode :: "string \<Rightarrow> u8 \<Rightarrow> u8 \<Rightarrow> 'c option" \<comment> \<open>keep list, force, defrag\<close>
  CLIENT_API_GC_RESPONSE :: u8
  gc_response_decode :: "'c \<Rightarrow> gc_response option"
  CLIENT_API_GC_MAX_URLS_TEXT :: nat

text \<open>The keep-list file: it cannot be opened, cannot be measured, or has a length and, when \<^verbatim>\<open>fread\<close>
  delivers all of it, its bytes.\<close>

datatype keep_file = KF_Unopened | KF_Unseekable | KF_File nat "string option"

datatype keep_result = Keep_Error | Keep_Empty | Keep_Too_Large | Keep_Text string

record ('c, 'j, 'w) cache_env =
  wire_of :: "'c cache_api"
  os_of :: "'w machine"
  fs_of :: "'w fs_ops"
  host_of :: "('j, 'w) host"
  g_socket_path :: string
  getcwd :: "'w \<Rightarrow> string option" \<comment> \<open>into a buffer of 512 bytes\<close>
  dir_is_empty :: "'w \<Rightarrow> string \<Rightarrow> int" \<comment> \<open>1 empty, 0 not empty, -1 missing\<close>
  json_number_object :: "string \<Rightarrow> nat \<Rightarrow> string option" \<comment> \<open>the text of \<^verbatim>\<open>{field: number}\<close>\<close>
  json_string_object :: "string \<Rightarrow> string option \<Rightarrow> string option" \<comment> \<open>the text of \<^verbatim>\<open>{field: string or null}\<close>\<close>
  config_pending_save :: "string \<Rightarrow> string \<Rightarrow> 'w \<Rightarrow> bool \<times> 'w"
  open_keep_file :: "'w \<Rightarrow> string \<Rightarrow> keep_file"
  stack_bytes :: string \<comment> \<open>what an uninitialised buffer holds, read as a C string\<close>

section \<open>The live resize\<close>

text \<open>An exchange over a connection of its own: create, connect, send, destroy. \<open>None\<close> in the result
  stands for an unreachable daemon.\<close>

definition self_exchange :: "('c, 'j, 'w) cache_env \<Rightarrow> 'c \<Rightarrow> ('w, 'm) sys_st_scheme \<Rightarrow> 'c option option" where
  "self_exchange env request st =
     (let (rc, cl) = cli_client_connect (os_local_connect (os_of env) (world st))
                       (Some (cli_client_create (Some (g_socket_path env))))
      in if rc \<noteq> 0 then Some None
         else map_option fst (cli_client_send (wire_of env) cl (Some request)))"

definition connects :: "('c, 'j, 'w) cache_env \<Rightarrow> ('w, 'm) sys_st_scheme \<Rightarrow> bool" where
  "connects env st \<longleftrightarrow>
     fst (cli_client_connect (os_local_connect (os_of env) (world st))
            (Some (cli_client_create (Some (g_socket_path env))))) = 0"

definition size_reply :: "('c, 'j, 'w) cache_env \<Rightarrow> 'c \<Rightarrow> ('w, 'm) sys_st_scheme \<Rightarrow> int \<times> ('w, 'm) sys_st_scheme" where
  "size_reply env response st =
     (let type = get_type (wire_of env) response in
      if type = CLIENT_API_ERROR (wire_of env)
      then (1, snd (cli_print_error_if (wire_of env) response st))
      else if type \<noteq> CLIENT_API_CACHE_RESIZE_RESPONSE (wire_of env)
      then (1, say (Err (c_format L10N_REP_UNEXPECTED_TYPE [FNat (unat type)])) st)
      else (case cache_resize_response_decode (wire_of env) response of
          None \<Rightarrow> (1, err_line L10N_CACHE_SIZE_DECODE st)
        | Some (status, max_capacity, current) \<Rightarrow>
            if status \<noteq> 0
            then (1, say (Err (c_format L10N_CACHE_SIZE_REJECTED [FNat (unat status)])) st)
            else (0, say (Out (c_format L10N_CACHE_SIZE_SET [FNat (unat max_capacity), FNat (unat current)])) st)))"

definition cache_size_apply :: "('c, 'j, 'w) cache_env \<Rightarrow> u64 \<Rightarrow> ('w, 'm) sys_st_scheme
    \<Rightarrow> (int \<times> ('w, 'm) sys_st_scheme) option" where
  "cache_size_apply env bytes st =
     (if \<not> connects env st then Some (- 1, st)
      else (case cache_resize_request_encode (wire_of env) bytes of
          None \<Rightarrow> Some (1, err_line L10N_CACHE_SIZE_ENCODE st)
        | Some request \<Rightarrow> do {
            reply \<leftarrow> self_exchange env request st;
            Some (case reply of None \<Rightarrow> (- 1, st) | Some response \<Rightarrow> size_reply env response st)
          }))"

section \<open>Staging into the pending configuration\<close>

text \<open>The cast of a 64-bit integer to \<^verbatim>\<open>double\<close>: 53 significant bits, ties to even.\<close>

fun bit_length :: "nat \<Rightarrow> nat" where
  "bit_length n = (if n = 0 then 0 else Suc (bit_length (n div 2)))"

declare bit_length.simps [simp del]

definition to_double :: "nat \<Rightarrow> nat" where
  "to_double n =
     (let e = bit_length n - 53; q = n div 2 ^ e; r = n mod 2 ^ e; half = 2 ^ e div 2
      in if e = 0 then n
         else if r > half \<or> (r = half \<and> odd q) then (q + 1) * 2 ^ e else q * 2 ^ e)"

definition stage_number :: "('c, 'j, 'w) cache_env \<Rightarrow> string \<Rightarrow> string \<Rightarrow> u64 \<Rightarrow> 'w \<Rightarrow> bool \<times> 'w" where
  "stage_number env config_dir field value w =
     (case json_number_object env field (to_double (unat value)) of
        None \<Rightarrow> (False, w)
      | Some text \<Rightarrow> config_pending_save env config_dir text w)"

definition stage_string_or_null :: "('c, 'j, 'w) cache_env \<Rightarrow> string \<Rightarrow> string \<Rightarrow> string option \<Rightarrow> 'w \<Rightarrow> bool \<times> 'w" where
  "stage_string_or_null env config_dir field value w =
     (case json_string_object env field value of
        None \<Rightarrow> (False, w)
      | Some text \<Rightarrow> config_pending_save env config_dir text w)"

section \<open>Argument scanning\<close>

datatype 'a scanned = Scan_Help | Scan_Bad | Scan_Ok 'a

definition is_help :: "string \<Rightarrow> bool" where
  "is_help a \<longleftrightarrow> a = ''--help'' \<or> a = ''help''"

definition dashed :: "string \<Rightarrow> bool" where
  "dashed a \<longleftrightarrow> a \<noteq> [] \<and> hd a = CHR ''-''"

fun scan_size_args :: "string list \<Rightarrow> string option \<times> string option \<Rightarrow> (string option \<times> string option) scanned" where
  "scan_size_args [] acc = Scan_Ok acc"
| "scan_size_args (a # as) (value_text, config_dir_flag) =
     (if is_help a then Scan_Help
      else if a = ''--config-dir'' then
        (case as of [] \<Rightarrow> Scan_Bad | x # xs \<Rightarrow> scan_size_args xs (value_text, Some x))
      else if dashed a \<or> value_text \<noteq> None then Scan_Bad
      else scan_size_args as (Some a, config_dir_flag))"

definition cmd_cache_size :: "('c, 'j, 'w) cache_env \<Rightarrow> string list \<Rightarrow> ('w, 'm) sys_st_scheme
    \<Rightarrow> (int \<times> ('w, 'm) sys_st_scheme) option" where
  "cmd_cache_size env argv st =
     (case scan_size_args argv (None, None) of
        Scan_Help \<Rightarrow> Some (0, out_line L10N_CACHE_SIZE_USAGE st)
      | Scan_Bad \<Rightarrow> Some (1, err_line L10N_CACHE_SIZE_USAGE st)
      | Scan_Ok (value_text, config_dir_flag) \<Rightarrow>
          (case parse_size_bytes value_text of
             None \<Rightarrow> Some (1, err_line L10N_CACHE_SIZE_USAGE st)
           | Some bytes \<Rightarrow> do {
               (applied, st1) \<leftarrow> cache_size_apply env bytes st;
               if applied = 0 then Some (0, st1)
               else if applied = 1 then Some (1, st1)
               else (case cli_cache_resolve_config_dir (host_of env) (world st1) config_dir_flag 1024 of
                   None \<Rightarrow> Some (1, err_line L10N_CACHE_STAGE_FAILED st1)
                 | Some config_dir \<Rightarrow>
                     (let (ok, w) = stage_number env config_dir ''max_capacity_bytes'' bytes (world st1);
                          st2 = st1\<lparr>world := w\<rparr>
                      in if \<not> ok then Some (1, err_line L10N_CACHE_STAGE_FAILED st2)
                         else Some (0, say (Out (c_format L10N_CACHE_SIZE_STAGED [FNat (unat bytes)])) st2)))
             }))"

section \<open>Relocating the cache\<close>

text \<open>\<^verbatim>\<open>_absolutize\<close>, the POSIX branch.\<close>

definition absolutize :: "('c, 'j, 'w) cache_env \<Rightarrow> 'w \<Rightarrow> string \<Rightarrow> nat \<Rightarrow> string option" where
  "absolutize env w path out_size =
     (if path \<noteq> [] \<and> hd path = CHR ''/''
      then (if length path \<ge> out_size then None else Some path)
      else (case getcwd env w of
          None \<Rightarrow> None
        | Some cwd \<Rightarrow>
            (let full = cwd @ ''/'' @ path in if length full \<ge> out_size then None else Some full)))"

record move_args =
  ma_dest :: "string option"
  ma_from :: "string option"
  ma_config_dir :: "string option"
  ma_unsafe :: bool
  ma_keep :: bool

fun scan_move_args :: "string list \<Rightarrow> move_args \<Rightarrow> move_args scanned" where
  "scan_move_args [] acc = Scan_Ok acc"
| "scan_move_args (a # as) acc =
     (if is_help a then Scan_Help
      else if a = ''--from'' then
        (case as of [] \<Rightarrow> Scan_Bad | x # xs \<Rightarrow> scan_move_args xs (acc\<lparr>ma_from := Some x\<rparr>))
      else if a = ''--config-dir'' then
        (case as of [] \<Rightarrow> Scan_Bad | x # xs \<Rightarrow> scan_move_args xs (acc\<lparr>ma_config_dir := Some x\<rparr>))
      else if a = ''--unsafe'' then scan_move_args as (acc\<lparr>ma_unsafe := True\<rparr>)
      else if a = ''--keep'' then scan_move_args as (acc\<lparr>ma_keep := True\<rparr>)
      else if dashed a \<or> ma_dest acc \<noteq> None then Scan_Bad
      else scan_move_args as (acc\<lparr>ma_dest := Some a\<rparr>))"

definition no_move_args :: move_args where
  "no_move_args = \<lparr>ma_dest = None, ma_from = None, ma_config_dir = None, ma_unsafe = False, ma_keep = False\<rparr>"

definition on_world :: "(('w \<Rightarrow> 'a \<times> 'w)) \<Rightarrow> ('w, 'm) sys_st_scheme \<Rightarrow> 'a \<times> ('w, 'm) sys_st_scheme" where
  "on_world f st = (let (a, w) = f (world st) in (a, st\<lparr>world := w\<rparr>))"

text \<open>Validation of the destination, before the daemon is touched: an existing directory must be empty,
  a missing one is created. \<open>True\<close> means it can be used.\<close>

definition check_dest :: "('c, 'j, 'w) cache_env \<Rightarrow> string \<Rightarrow> ('w, 'm) sys_st_scheme \<Rightarrow> bool \<times> ('w, 'm) sys_st_scheme" where
  "check_dest env dest st =
     (case fs_stat_isdir (fs_of env) dest (world st) of
        Some isdir \<Rightarrow>
          if \<not> isdir then (False, say (Err (c_format L10N_CACHE_DEST_NOT_DIR [FStr dest])) st)
          else if dir_is_empty env (world st) dest = 0
          then (False, say (Err (c_format L10N_CACHE_DEST_NOT_EMPTY [FStr dest])) st)
          else (True, st)
      | None \<Rightarrow>
          (let (made, st1) = on_world (fs_mkdir_p (fs_of env) dest) st in
           if \<not> made then (False, say (Err (c_format L10N_CACHE_DEST_NOT_DIR [FStr dest])) st1)
           else (True, st1)))"

text \<open>Stage the new location and report, without moving.\<close>

definition stage_only :: "('c, 'j, 'w) cache_env \<Rightarrow> string \<Rightarrow> string \<Rightarrow> string \<Rightarrow> ('w, 'm) sys_st_scheme
    \<Rightarrow> int \<times> ('w, 'm) sys_st_scheme" where
  "stage_only env config_dir dest message st =
     (let (ok, st1) = on_world (stage_string_or_null env config_dir ''cache_dir'' (Some dest)) st in
      if \<not> ok then (1, err_line L10N_CACHE_STAGE_FAILED st1)
      else (0, say (Out message) st1))"

definition restart_if :: "('c, 'j, 'w) cache_env \<Rightarrow> bool \<Rightarrow> ('w, 'm) sys_st_scheme \<Rightarrow> ('w, 'm) sys_st_scheme" where
  "restart_if env was_running st = (if was_running then snd (cmd_start (os_of env) [] st) else st)"

text \<open>Stop a running daemon and see it gone: the three conditions of the guard in their order. \<open>False\<close>
  when one of them fails.\<close>

definition stop_daemon :: "('c, 'j, 'w) cache_env \<Rightarrow> ('w, 'm) sys_st_scheme \<Rightarrow> bool \<times> ('w, 'm) sys_st_scheme" where
  "stop_daemon env st =
     (let (rc, st1) = cmd_stop (os_of env) st in
      if rc \<noteq> 0 then (False, st1)
      else
        (let (stopped, st2) = cli_daemon_wait_stopped (os_of env) 10000 st1 in
         if stopped \<noteq> 0 then (False, st2)
         else (let (running, st3) = cli_daemon_is_running (os_of env) st2 in (\<not> running, st3))))"

text \<open>The move itself: stage first, move the tree, revert the staging when the move fails, remove the
  emptied source.\<close>

definition move_and_restart :: "('c, 'j, 'w) cache_env \<Rightarrow> bool \<Rightarrow> bool \<Rightarrow> string \<Rightarrow> string \<Rightarrow> string
    \<Rightarrow> ('w, 'm) sys_st_scheme \<Rightarrow> int \<times> ('w, 'm) sys_st_scheme" where
  "move_and_restart env unsafe was_running config_dir src dest st =
     (let (staged, st1) = on_world (stage_string_or_null env config_dir ''cache_dir'' (Some dest)) st in
      if \<not> staged then (1, restart_if env was_running (err_line L10N_CACHE_STAGE_FAILED st1))
      else
        (let verify = (if unsafe then FILE_VERIFY_NONE else FILE_VERIFY_SHA256);
             (ok, failed_path, w2) = cli_cache_move_tree (fs_of env) verify src dest 1024 (Some (stack_bytes env)) (world st1);
             st2 = st1\<lparr>world := w2\<rparr>
         in if \<not> ok then
              (let (reverted, st3) = on_world (stage_string_or_null env config_dir ''cache_dir'' None) st2;
                   st4 = say (Err (c_format L10N_CACHE_MOVE_FAILED [FStr (the failed_path), FStr dest])) st3;
                   st5 = (if \<not> reverted then say (Err (c_format L10N_CACHE_REVERT_FAILED [FStr dest])) st4 else st4)
               in (1, restart_if env was_running st5))
            else
              (let (removed, st3) = on_world (fs_rm_rf (fs_of env) src) st2;
                   st4 = (if \<not> removed then say (Err (c_format L10N_CACHE_SRC_SHELL_LEFT [FStr src])) st3 else st3);
                   st5 = say (Out (c_format L10N_CACHE_MOVED [FStr src, FStr dest])) st4
               in (0, restart_if env was_running st5))))"

text \<open>From the resolved directories on.\<close>

definition move_resolved :: "('c, 'j, 'w) cache_env \<Rightarrow> move_args \<Rightarrow> string \<Rightarrow> string \<Rightarrow> string
    \<Rightarrow> ('w, 'm) sys_st_scheme \<Rightarrow> int \<times> ('w, 'm) sys_st_scheme" where
  "move_resolved env ma config_dir src dest st =
     (let conflict = cli_cache_paths_conflict Posix src dest in
      if conflict = 1 then (1, err_line L10N_CACHE_DEST_SAME st)
      else if conflict = 2 then (1, err_line L10N_CACHE_DEST_NESTED st)
      else if dir_is_empty env (world st) src \<noteq> 0
      then stage_only env config_dir dest (c_format L10N_CACHE_NO_CONTENT [FStr src]) st
      else if ma_keep ma
      then stage_only env config_dir dest (c_format L10N_CACHE_KEEP_STAGED [FStr dest]) st
      else
        (let (was_running, st1) = cli_daemon_is_running (os_of env) st in
         if was_running then
           (let (stopped, st2) = stop_daemon env st1 in
            if \<not> stopped then (1, err_line L10N_CACHE_STOP_FAILED st2)
            else move_and_restart env (ma_unsafe ma) True config_dir src dest st2)
         else move_and_restart env (ma_unsafe ma) False config_dir src dest st1))"

definition resolve_move :: "('c, 'j, 'w) cache_env \<Rightarrow> move_args \<Rightarrow> 'w \<Rightarrow> string + (string \<times> string)" where
  "resolve_move env ma w =
     (case cli_cache_resolve_config_dir (host_of env) w (ma_config_dir ma) 1024 of
        None \<Rightarrow> Inl L10N_CACHE_STAGE_FAILED
      | Some config_dir \<Rightarrow>
          (case cli_cache_resolve_current (host_of env) w (ma_from ma) (Some config_dir) 1024 of
             None \<Rightarrow> Inl L10N_CACHE_SRC_UNRESOLVED
           | Some resolved_src \<Rightarrow>
               (case absolutize env w resolved_src 1024 of
                  None \<Rightarrow> Inl L10N_CACHE_SRC_UNRESOLVED
                | Some src \<Rightarrow> Inr (config_dir, src))))"

definition cmd_cache_move :: "('c, 'j, 'w) cache_env \<Rightarrow> string list \<Rightarrow> ('w, 'm) sys_st_scheme
    \<Rightarrow> int \<times> ('w, 'm) sys_st_scheme" where
  "cmd_cache_move env argv st =
     (case scan_move_args argv no_move_args of
        Scan_Help \<Rightarrow> (0, out_line L10N_CACHE_MOVE_USAGE st)
      | Scan_Bad \<Rightarrow> (1, err_line L10N_CACHE_MOVE_USAGE st)
      | Scan_Ok ma \<Rightarrow>
          (case ma_dest ma of
             None \<Rightarrow> (1, err_line L10N_CACHE_MOVE_USAGE st)
           | Some dest_text \<Rightarrow>
               (case absolutize env (world st) dest_text 1024 of
                  None \<Rightarrow> (1, say (Err (c_format L10N_CACHE_DEST_NOT_DIR [FStr dest_text])) st)
                | Some dest \<Rightarrow>
                    (let st1 = (if ma_unsafe ma then err_line L10N_CACHE_UNSAFE_WARNING st else st);
                         (good, st2) = check_dest env dest st1
                     in if \<not> good then (1, st2)
                        else (case resolve_move env ma (world st2) of
                            Inl message \<Rightarrow> (1, err_line message st2)
                          | Inr (config_dir, src) \<Rightarrow> move_resolved env ma config_dir src dest st2)))))"

section \<open>Garbage collection\<close>

definition gc_reason_name :: "u8 \<Rightarrow> string" where
  "gc_reason_name reason =
     (if reason = 1 then ''malformed_url''
      else if reason = 2 then ''missing_descriptor''
      else if reason = 3 then ''malformed_descriptor''
      else if reason = 4 then ''cycle''
      else ''unknown'')"

definition read_gc_keep_file :: "('c, 'j, 'w) cache_env \<Rightarrow> string \<Rightarrow> ('w, 'm) sys_st_scheme
    \<Rightarrow> keep_result \<times> ('w, 'm) sys_st_scheme" where
  "read_gc_keep_file env path st =
     (case open_keep_file env (world st) path of
        KF_Unopened \<Rightarrow> (Keep_Error, say (Perror path) st)
      | KF_Unseekable \<Rightarrow> (Keep_Error, say (Perror ''fseek'') st)
      | KF_File file_length bytes \<Rightarrow>
          if file_length = 0 then (Keep_Empty, st)
          else if file_length > CLIENT_API_GC_MAX_URLS_TEXT (wire_of env) then (Keep_Too_Large, st)
          else (case bytes of
              None \<Rightarrow> (Keep_Error, say (Perror ''fread'') st)
            | Some text \<Rightarrow> (Keep_Text (c_string_of text), st)))"

definition gc_failed_row :: "cbor_item list \<Rightarrow> string option" where
  "gc_failed_row row =
     (case row of
        CUint line # CUint reason # CText text # _ \<Rightarrow>
          Some (c_format L10N_CACHE_GC_FAILED_LINE
                  [FNat (unat line), FStr (gc_reason_name (ucast reason)), FStr (c_string_of text)])
      | _ \<Rightarrow> None)"

definition print_gc_rows :: "cbor_item list list option \<Rightarrow> ('w, 'm) sys_st_scheme \<Rightarrow> ('w, 'm) sys_st_scheme" where
  "print_gc_rows rows st =
     fold (\<lambda>row s. case gc_failed_row row of None \<Rightarrow> s | Some l \<Rightarrow> say (Err l) s)
       (case rows of None \<Rightarrow> [] | Some rs \<Rightarrow> rs) st"

definition print_gc_report :: "gc_response \<Rightarrow> ('w, 'm) sys_st_scheme \<Rightarrow> ('w, 'm) sys_st_scheme" where
  "print_gc_report rep st =
     (let st1 =
        (if gc_status rep \<noteq> 0 then say (Err (nl (c_format L10N_CACHE_GC_REJECTED [FNat (unat (gc_status rep))]))) st
         else
           say (Out (c_format L10N_CACHE_GC_SKIPPED [FNat (unat (skipped_pinned rep)), FNat (unat (skipped_claimed rep))]))
             (say (Out (c_format L10N_CACHE_GC_SUMMARY [FNat (unat (urls_collected rep)), FNat (unat (urls_request rep)),
                                                        FNat (unat (blocks_deleted rep)), FNat (unat (blocks_kept rep))]))
               (if urls_request rep > urls_collected rep then say (Err (nl L10N_CACHE_GC_PARTIAL)) st else st)));
          st2 = print_gc_rows (gc_failed rep) st1
      in if defrag_applied rep \<noteq> 0
         then say (Out (c_format L10N_CACHE_GC_DEFRAG [FNat (unat (defrag_sections rep)), FNat (unat (defrag_blocks_relocated rep))])) st2
         else st2)"

definition gc_reply :: "('c, 'j, 'w) cache_env \<Rightarrow> 'c \<Rightarrow> ('w, 'm) sys_st_scheme \<Rightarrow> int \<times> ('w, 'm) sys_st_scheme" where
  "gc_reply env response st =
     (let type = get_type (wire_of env) response in
      if type = CLIENT_API_ERROR (wire_of env)
      then (1, snd (cli_print_error_if (wire_of env) response st))
      else if type \<noteq> CLIENT_API_GC_RESPONSE (wire_of env)
      then (1, say (Err (c_format L10N_REP_UNEXPECTED_TYPE [FNat (unat type)])) st)
      else (case gc_response_decode (wire_of env) response of
          None \<Rightarrow> (1, err_line L10N_CACHE_GC_DECODE st)
        | Some rep \<Rightarrow> (if gc_status rep = 0 then 0 else 1, print_gc_report rep st)))"

definition cache_gc_apply :: "('c, 'j, 'w) cache_env \<Rightarrow> string \<Rightarrow> u8 \<Rightarrow> u8 \<Rightarrow> ('w, 'm) sys_st_scheme
    \<Rightarrow> (int \<times> ('w, 'm) sys_st_scheme) option" where
  "cache_gc_apply env urls_text force defrag st =
     (if \<not> connects env st then Some (- 1, st)
      else (case gc_request_encode (wire_of env) urls_text force defrag of
          None \<Rightarrow> Some (1, err_line L10N_CACHE_GC_ENCODE st)
        | Some request \<Rightarrow> do {
            reply \<leftarrow> self_exchange env request st;
            Some (case reply of None \<Rightarrow> (- 1, st) | Some response \<Rightarrow> gc_reply env response st)
          }))"

fun scan_gc_args :: "string list \<Rightarrow> string option \<times> bool \<times> bool \<Rightarrow> (string option \<times> bool \<times> bool) scanned" where
  "scan_gc_args [] acc = Scan_Ok acc"
| "scan_gc_args (a # as) (from_text, force, defrag) =
     (if is_help a then Scan_Help
      else if a = ''--from'' then
        (case as of [] \<Rightarrow> Scan_Bad | x # xs \<Rightarrow> scan_gc_args xs (Some x, force, defrag))
      else if a = ''--force'' then scan_gc_args as (from_text, True, defrag)
      else if a = ''--defrag'' then scan_gc_args as (from_text, force, True)
      else Scan_Bad)"

definition cmd_cache_gc :: "('c, 'j, 'w) cache_env \<Rightarrow> string list \<Rightarrow> ('w, 'm) sys_st_scheme
    \<Rightarrow> (int \<times> ('w, 'm) sys_st_scheme) option" where
  "cmd_cache_gc env argv st =
     (case scan_gc_args argv (None, False, False) of
        Scan_Help \<Rightarrow> Some (0, out_line L10N_CACHE_GC_USAGE st)
      | Scan_Bad \<Rightarrow> Some (1, err_line L10N_CACHE_GC_USAGE st)
      | Scan_Ok (from_text, force, defrag) \<Rightarrow>
          (case from_text of
             None \<Rightarrow> Some (1, err_line L10N_CACHE_GC_FROM_REQUIRED st)
           | Some path \<Rightarrow>
               (case read_gc_keep_file env path st of
                  (Keep_Empty, st1) \<Rightarrow> Some (1, err_line L10N_CACHE_GC_EMPTY_FILE st1)
                | (Keep_Too_Large, st1) \<Rightarrow> Some (1, err_line L10N_CACHE_GC_TOO_LARGE st1)
                | (Keep_Error, st1) \<Rightarrow> Some (1, st1)
                | (Keep_Text text, st1) \<Rightarrow> do {
                    (applied, st2) \<leftarrow> cache_gc_apply env text (if force then 1 else 0) (if defrag then 1 else 0) st1;
                    if applied = - 1 then Some (1, err_line L10N_CACHE_GC_UNREACHABLE st2)
                    else Some (applied, st2)
                  })))"

definition cmd_cache :: "('c, 'j, 'w) cache_env \<Rightarrow> string list \<Rightarrow> ('w, 'm) sys_st_scheme
    \<Rightarrow> (int \<times> ('w, 'm) sys_st_scheme) option" where
  "cmd_cache env argv st =
     (case argv of
        [] \<Rightarrow> Some (0, out_line L10N_CACHE_USAGE st)
      | a # as \<Rightarrow>
          if is_help a then Some (0, out_line L10N_CACHE_USAGE st)
          else if a = ''size'' then cmd_cache_size env as st
          else if a = ''move'' then Some (cmd_cache_move env as st)
          else if a = ''gc'' then cmd_cache_gc env as st
          else Some (1, err_line L10N_CACHE_USAGE st))"

section \<open>Resizing: applied live or staged, never both\<close>

lemma world_print_error [simp]: "world (print_error_frame w r st) = world (st :: ('w, 'm) sys_st_scheme)"
  by (simp add: print_error_frame_def split: option.splits prod.splits)

lemma world_print_error_if [simp]:
  "world (snd (cli_print_error_if w r st)) = world (st :: ('w, 'm) sys_st_scheme)"
  by (simp add: cli_print_error_if_def)

lemma size_reply_world: "world (snd (size_reply env r st)) = world st" "fst (size_reply env r st) \<in> {0, 1}"
  by (simp_all add: size_reply_def Let_def split: option.splits)

lemma size_apply_world:
  assumes "cache_size_apply env bytes st = Some (rc, st1)"
  shows "world st1 = world st \<and> rc \<in> {- 1, 0, 1}"
proof -
  have reply: "size_reply env r st = (rc, st1) \<Longrightarrow> world st1 = world st \<and> rc \<in> {- 1, 0, 1}" for r
    using size_reply_world [of env r st] by auto
  show ?thesis
    using assms reply by (auto simp: cache_size_apply_def bind_Some_iff split: if_splits option.splits)
qed

text \<open>A successful \<^verbatim>\<open>offs cache size\<close> took effect in exactly one way: either the daemon accepted the
  request and nothing was staged, or the daemon could not be reached and the parsed size was written to the
  pending configuration of the resolved directory.\<close>

theorem cache_size_outcome:
  assumes "cmd_cache_size env argv st = Some (0, st')"
    and "scan_size_args argv (None, None) = Scan_Ok (value_text, config_dir_flag)"
  shows "\<exists>bytes st1. parse_size_bytes value_text = Some bytes \<and>
     (cache_size_apply env bytes st = Some (0, st1) \<and> world st' = world st \<or>
      cache_size_apply env bytes st = Some (- 1, st1) \<and>
        (\<exists>dir. cli_cache_resolve_config_dir (host_of env) (world st) config_dir_flag 1024 = Some dir \<and>
           stage_number env dir ''max_capacity_bytes'' bytes (world st) = (True, world st')))"
proof -
  from assms obtain bytes where bytes: "parse_size_bytes value_text = Some bytes"
    by (auto simp: cmd_cache_size_def split: option.splits)
  with assms obtain rc st1 where ap: "cache_size_apply env bytes st = Some (rc, st1)"
    by (auto simp: cmd_cache_size_def bind_Some_iff)
  note w = size_apply_world [OF ap]
  have "rc = 0 \<and> world st' = world st \<or> rc = - 1 \<and>
      (\<exists>dir. cli_cache_resolve_config_dir (host_of env) (world st) config_dir_flag 1024 = Some dir \<and>
         stage_number env dir ''max_capacity_bytes'' bytes (world st) = (True, world st'))"
    using assms bytes ap w
    by (auto simp: cmd_cache_size_def Let_def split: option.splits prod.splits if_splits)
  with bytes ap show ?thesis by blast
qed

section \<open>Staged sizes and the double\<close>

lemma bit_length_le: "n < 2 ^ k \<Longrightarrow> bit_length n \<le> k"
proof (induction k arbitrary: n)
  case (Suc k)
  then have "n div 2 < 2 ^ k" by simp
  with Suc.IH show ?case by (subst bit_length.simps) simp
qed (simp add: bit_length.simps)

text \<open>Staging a size is exact below two to the 53, because \<^verbatim>\<open>cJSON_AddNumberToObject\<close> takes a
  \<^verbatim>\<open>double\<close>; above that the staged capacity is rounded, so that for instance 2^53 + 1 bytes become 2^53,
  while the message printed afterwards still names the requested number.\<close>

theorem stage_number_precision:
  "(unat v < 2 ^ 53 \<longrightarrow>
      stage_number env dir field v w =
        (case json_number_object env field (unat v) of
           None \<Rightarrow> (False, w) | Some text \<Rightarrow> config_pending_save env dir text w)) \<and>
   to_double (2 ^ 53 + 1) = 2 ^ 53"
proof (intro conjI impI)
  assume "unat v < 2 ^ 53"
  then have "bit_length (unat v) - 53 = 0" using bit_length_le [of "unat v" 53] by simp
  then show "stage_number env dir field v w =
      (case json_number_object env field (unat v) of
         None \<Rightarrow> (False, w) | Some text \<Rightarrow> config_pending_save env dir text w)"
    by (simp add: stage_number_def to_double_def)
next
  show "to_double (2 ^ 53 + 1) = 2 ^ 53" by (simp add: to_double_def bit_length.simps)
qed

section \<open>Moving loses nothing\<close>















text \<open>The file at the relative place \<open>r\<close> is at the source or at the destination; with \<open>b\<close>, at the destination.\<close>

definition kept :: "('w \<Rightarrow> path_view \<Rightarrow> 'd option) \<Rightarrow> bool \<Rightarrow> path_view \<Rightarrow> path_view \<Rightarrow> string list \<Rightarrow> 'd \<Rightarrow> 'w \<Rightarrow> bool" where
  "kept file b S D r d w \<longleftrightarrow> file w (kadd D r) = Some d \<or> \<not> b \<and> file w (kadd S r) = Some d"

lemma kept_file_cong: "file w = file w' \<Longrightarrow> kept file b S D r d w = kept file b S D r d w'"
  by (simp add: kept_def)











text \<open>A concrete environment on the file system of \<open>Move_Tree\<close>: the pending configuration is the second
  component of the world (the staged cache directory per configuration directory), no daemon runs.\<close>

type_synonym demo_world = "demo_fs \<times> (string \<times> string option) list"

definition demo_wire :: "nat cache_api" where
  "demo_wire = \<lparr>cbor_serialize = (\<lambda>_. [1]), stream_frame_encode = (\<lambda>b. Some (0 # 0 # 0 # 1 # b)), cbor_load = (\<lambda>_. Some 0),
     get_type = of_nat, CLIENT_API_ERROR = 9, error_decode = (\<lambda>_. None), CLIENT_API_STATUS_OK = 0,
     CLIENT_API_STATUS_NOT_FOUND = 1, CLIENT_API_STATUS_CONFLICT = 2, CLIENT_API_STATUS_BAD_REQUEST = 3,
     CLIENT_API_STATUS_INTERNAL_ERROR = 4, cache_resize_request_encode = (\<lambda>_. Some 1),
     CLIENT_API_CACHE_RESIZE_RESPONSE = 2, cache_resize_response_decode = (\<lambda>_. None),
     gc_request_encode = (\<lambda>_ _ _. Some 1), CLIENT_API_GC_RESPONSE = 3, gc_response_decode = (\<lambda>_. None),
     CLIENT_API_GC_MAX_URLS_TEXT = 4194304\<rparr>"

definition demo_host :: "(nat, demo_world) host" where
  "demo_host = \<lparr>cJSON_Parse = (\<lambda>_. None), cJSON_GetObjectItem = (\<lambda>_ _. None), cj_string = (\<lambda>_. None),
     cj_number = (\<lambda>_. None), cj_bool = (\<lambda>_. None), read_file = (\<lambda>_ _. None),
     offs_default_config_path_get = (\<lambda>_. None), offs_default_dirs_get = (\<lambda>_. Some (''/cfg'', ''/old'')),
     config_pending_load = (\<lambda>w d. case map_of (snd w) d of
        None \<Rightarrow> None
      | Some c \<Rightarrow> Some \<lparr>cfg_max_capacity_bytes = 0, cfg_eabf_base_ttl_ms = 0, cfg_respiration_tau_min_ms = 0,
          cfg_respiration_tau_max_ms = 0, cfg_bootstrap_peers = None, cfg_api_key_hash = None, cfg_cache_dir = c,
          cfg_http_idle_timeout_ms = 0, cfg_http_hard_timeout_ms = 0\<rparr>),
     cast_out_of_range = (\<lambda>_ _. 0)\<rparr>"

definition lift_ops :: "demo_fs fs_ops \<Rightarrow> demo_world fs_ops" where
  "lift_ops ops = \<lparr>
     fs_opendir = (\<lambda>p w. fs_opendir ops p (fst w)),
     fs_stat_isdir = (\<lambda>p w. fs_stat_isdir ops p (fst w)),
     fs_mkdir_p = (\<lambda>p w. let (ok, f) = fs_mkdir_p ops p (fst w) in (ok, f, snd w)),
     fs_rm_rf = (\<lambda>p w. let (ok, f) = fs_rm_rf ops p (fst w) in (ok, f, snd w)),
     file_move_verified = (\<lambda>v s d w. let (ok, f) = file_move_verified ops v s d (fst w) in (ok, f, snd w))\<rparr>"

definition demo_env :: "(nat, nat, demo_world) cache_env" where
  "demo_env = \<lparr>wire_of = demo_wire,
     os_of = \<lparr>os_kind = Linux, os_system = (\<lambda>c w. (1, w)), os_sleep_ms = (\<lambda>n w. w),
       os_local_connect = (\<lambda>w p. None), os_fork_exec = (\<lambda>c w. (None, w)), os_waitpid_nohang = (\<lambda>p w. (None, w)),
       os_exe_path = (\<lambda>w. None), os_is_executable = (\<lambda>w p. False), os_pgrep_offsd = (\<lambda>w. None),
       os_cmdline = (\<lambda>w p. None), os_geteuid = (\<lambda>w. 0)\<rparr>,
     fs_of = lift_ops demo_ops, host_of = demo_host, g_socket_path = OFFS_LOCAL_SOCKET_PATH,
     getcwd = (\<lambda>w. Some ''/home''),
     dir_is_empty = (\<lambda>w p. if below_names (place p) (fst w) = [] then 1 else 0),
     json_number_object = (\<lambda>f n. Some (dec_nat n)), json_string_object = (\<lambda>f v. Some (case v of None \<Rightarrow> [] | Some s \<Rightarrow> s)),
     config_pending_save = (\<lambda>d t w. (True, fst w, (d, if t = [] then None else Some t) # snd w)),
     open_keep_file = (\<lambda>w p. KF_Unopened), stack_bytes = ''?''\<rparr>"




definition demo_cli :: "demo_world sys_st" where
  "demo_cli = \<lparr>client = None, log = [], world = (demo_start, [])\<rparr>"

definition demo_move_args :: move_args where
  "demo_move_args = \<lparr>ma_dest = Some ''/new'', ma_from = None, ma_config_dir = None, ma_unsafe = False, ma_keep = False\<rparr>"






text \<open>A success needs a witness of its own: the size was staged, since no daemon runs.\<close>

lemma demo_no_daemon: "\<not> connects demo_env st"
  by (simp add: connects_def cli_client_connect_def cli_client_create_def demo_env_def)

theorem cache_size_outcome_witness:
  "cache_size_apply demo_env 2048 demo_cli = Some (- 1, demo_cli)
     \<and> stage_number demo_env ''/cfg'' ''max_capacity_bytes'' 2048 (world demo_cli) = (True, demo_start, [(''/cfg'', Some ''2048'')])"
proof -
  have parse: "parse_size_bytes (Some ''2KiB'') = Some 2048" by code_simp
  have scan: "scan_size_args [''2KiB''] (None, None) = Scan_Ok (Some ''2KiB'', None)"
    by (simp add: is_help_def dashed_def)
  have ap: "cache_size_apply demo_env 2048 demo_cli = Some (- 1, demo_cli)"
    by (simp add: cache_size_apply_def demo_no_daemon)
  have dec: "dec_nat 2048 = ''2048''" by code_simp
  have dbl: "to_double 2048 = 2048" using bit_length_le [of 2048 53] by (simp add: to_double_def)
  have dir: "cli_cache_resolve_config_dir (host_of demo_env) (world demo_cli) None 1024 = Some ''/cfg''"
    by (simp add: cli_cache_resolve_config_dir_def demo_env_def demo_host_def given_def config_file_dirs_def)
  have st: "stage_number demo_env ''/cfg'' ''max_capacity_bytes'' 2048 (world demo_cli) = (True, demo_start, [(''/cfg'', Some ''2048'')])"
    by (simp add: stage_number_def demo_env_def demo_cli_def dec dbl)
  obtain st' where "cmd_cache_size demo_env [''2KiB''] demo_cli = Some (0, st')"
    using scan parse ap dir st by (simp add: cmd_cache_size_def)
  from cache_size_outcome [OF this scan] ap st parse show ?thesis by simp
qed

section \<open>Two traps of the move\<close>

text \<open>A C string that is not empty is never overwritten by the failure report.\<close>

lemma move_keeps_garbage:
  assumes "t \<noteq> []"
  shows "fst (snd (move_tree ops v src dst n (Some t) f)) = Some t"
proof (induction src dst arbitrary: f rule: path_induct)
  case (1 src dst)
  have entries: "fst (snd (move_entries ops v src dst n names (Some t) f)) = Some t" for names f
  proof (induction names arbitrary: f)
    case (Cons name names)
    obtain ok fp' f' where run: "move_entries ops v src dst n (name # names) (Some t) f = (ok, fp', f')"
      by (cases "move_entries ops v src dst n (name # names) (Some t) f") auto
    then have "fp' = Some t"
    proof (cases rule: move_entries_cases)
      case dots
      then show ?thesis using Cons.IH [of f] by simp
    next
      case (sub_failed f1 fp2)
      then show ?thesis using "1.IH" [OF sub_failed(2), of f1] assms by (simp add: report_keeps)
    next
      case (sub_moved f1 fp2 f2 removed f3)
      then show ?thesis
        using "1.IH" [OF sub_moved(2), of f1] assms Cons.IH [of f3] by (cases removed) (simp_all add: report_keeps)
    next
      case (reg done_mv f1)
      then show ?thesis using assms Cons.IH [of f1] by (cases done_mv) (simp_all add: report_keeps)
    qed (simp_all add: report_keeps assms)
    with run show ?case by simp
  qed simp
  then show ?case
    using assms by (cases "fs_opendir ops src f") (simp_all add: move_tree.simps report_keeps split_beta)
qed

text \<open>The path in the failure message of \<^verbatim>\<open>offs cache move\<close> is not the failing path: the buffer is
  handed to \<^verbatim>\<open>cli_cache_move_tree\<close> uninitialised, and the report is written only into an empty one, so
  whatever the stack held is what the move returns and the message prints.\<close>

theorem move_failure_prints_stack:
  assumes "stack_bytes env \<noteq> []"
  shows "fst (snd (cli_cache_move_tree (fs_of env) verify src dest 1024 (Some (stack_bytes env)) w)) = Some (stack_bytes env)"
  by (simp add: cli_cache_move_tree_def Let_def split_beta report_keeps assms move_keeps_garbage [OF assms])

theorem move_failure_prints_stack_witness:
  "fst (snd (cli_cache_move_tree (fs_of demo_env) FILE_VERIFY_SHA256 ''/nowhere'' ''/new'' 1024 (Some (stack_bytes demo_env)) (world demo_cli)))
     = Some ''?''"
  using move_failure_prints_stack [of demo_env FILE_VERIFY_SHA256 "''/nowhere''" "''/new''" "world demo_cli"]
  by (simp add: demo_env_def)

text \<open>The advice printed by \<^verbatim>\<open>--keep\<close> cannot be followed: once the new location is staged and the
  configuration file names none, the same command without \<^verbatim>\<open>--keep\<close> takes the staged location for the
  current one and refuses it as identical. The hypotheses say what the pending configuration of the
  directory holds after the first command.\<close>

theorem keep_then_move_refused:
  assumes "cli_cache_resolve_config_dir (host_of env) (world st) (ma_config_dir ma) 1024 = Some config_dir" "config_dir \<noteq> []"
    and "config_pending_load (host_of env) (world st) config_dir = Some cfg" "cfg_cache_dir cfg = Some dest"
    and "config_file_dirs (host_of env) (world st) = None" "ma_from ma = None"
    and "dest \<noteq> []" "hd dest = CHR ''/''" "length dest < 1024"
  shows "\<exists>config_dir src. resolve_move env ma (world st) = Inr (config_dir, src) \<and>
           move_resolved env ma config_dir src dest st = (1, err_line L10N_CACHE_DEST_SAME st)"
proof -
  have "resolve_move env ma (world st) = Inr (config_dir, dest)"
    using assms by (simp add: resolve_move_def cli_cache_resolve_current_def given_def pending_cache_dir_def absolutize_def)
  moreover have "cli_cache_paths_conflict Posix dest dest = 1"
    using conflict_seen [OF assms(9,9)] by simp
  ultimately show ?thesis by (simp add: move_resolved_def)
qed

theorem keep_then_move_refused_witness:
  "\<exists>config_dir src. resolve_move demo_env demo_move_args (demo_start, [(''/cfg'', Some ''/new'')]) = Inr (config_dir, src) \<and>
     move_resolved demo_env demo_move_args config_dir src ''/new'' (demo_cli\<lparr>world := (demo_start, [(''/cfg'', Some ''/new'')])\<rparr>)
       = (1, err_line L10N_CACHE_DEST_SAME (demo_cli\<lparr>world := (demo_start, [(''/cfg'', Some ''/new'')])\<rparr>))"
  using keep_then_move_refused [of demo_env "demo_cli\<lparr>world := (demo_start, [(''/cfg'', Some ''/new'')])\<rparr>"
      demo_move_args "''/cfg''" _ "''/new''"]
  by (simp add: demo_env_def demo_host_def demo_move_args_def cli_cache_resolve_config_dir_def given_def config_file_dirs_def)

theorem stage_number_precision_witness:
  "stage_number demo_env ''/cfg'' ''max_capacity_bytes'' 4096 (world demo_cli)
     = (True, demo_start, [(''/cfg'', Some (dec_nat 4096))]) \<and> to_double (2 ^ 53 + 1) = 2 ^ 53"
  using stage_number_precision [of 4096 demo_env "''/cfg''" "''max_capacity_bytes''" "world demo_cli"]
  by (simp add: demo_env_def demo_cli_def)

end
