(* ===== verification/File_Transfer.thy ===== *)
theory File_Transfer
  imports Cli_Base
begin

text \<open>
  Moving files in and out of the network: \<^verbatim>\<open>offs put\<close>, \<^verbatim>\<open>offs get\<close> and \<^verbatim>\<open>offs load\<close>
  (\<^verbatim>\<open>src/src/offs/commands/put.c\<close>, \<^verbatim>\<open>get.c\<close>, \<^verbatim>\<open>load.c\<close>). The message encoders and decoders of liboffs extend
  the wire parameter; a file is what can be read from it, and an output takes a number of bytes.
\<close>

section \<open>The messages\<close>

record put_request =
  pr_content_type :: string
  pr_file_name :: string
  pr_stream_length :: nat
  pr_temporary :: bool
  pr_tuple_size :: "nat option"
  pr_recycle_ephemeral :: nat \<comment> \<open>0 none, 1 commit, 2 propagate\<close>
  pr_recycler_urls :: "string list"

record 'c transfer_api = "'c wire" +
  mime_type_from_extension :: "string \<Rightarrow> string"
  strerror :: "errno \<Rightarrow> string"
  put_request_encode :: "put_request \<Rightarrow> 'c option"
  put_data_encode :: "byte list \<Rightarrow> 'c option"
  put_end_encode :: "'c option"
  CLIENT_API_PUT_RESPONSE :: u8
  put_response_decode :: "'c \<Rightarrow> string option"
  get_request_encode :: "string \<Rightarrow> 'c option"
  CLIENT_API_GET_RESPONSE_START :: u8
  CLIENT_API_GET_DATA :: u8
  CLIENT_API_GET_END :: u8
  get_data_decode :: "'c \<Rightarrow> byte list option"
  load_request_encode :: "string \<Rightarrow> 'c option"
  CLIENT_API_LOAD_PROGRESS :: u8
  CLIENT_API_LOAD_END :: u8
  CLIENT_API_LOAD_STATUS_LOADED :: u8
  CLIENT_API_LOAD_STATUS_PARTIAL :: u8
  CLIENT_API_LOAD_STATUS_FAILED :: u8
  load_progress_decode :: "'c \<Rightarrow> (nat \<times> nat) option"
  load_end_decode :: "'c \<Rightarrow> (u8 \<times> nat \<times> nat) option"

section \<open>\<^verbatim>\<open>offs put\<close>: the command line\<close>

definition PUT_CHUNK_SIZE :: nat where
  "PUT_CHUNK_SIZE = 1024 * 1024"

definition put_help :: string where
  "put_help =
     ''offs put '' @ em_dash @ '' import a file into the OFFS network'' @ newline
     @ newline
     @ ''Usage: offs put <file> [--temporary] [--recycler <url>] [--tuple-size N]'' @ newline
     @ ''                   [--recycle-ephemeral commit|propagate]'' @ newline
     @ newline
     @ ''Streams the file to the daemon in 1 MiB chunks. The content type is'' @ newline
     @ ''detected from the file extension (e.g. .mp4 -> video/mp4); unknown'' @ newline
     @ ''extensions fall back to application/octet-stream.'' @ newline
     @ newline
     @ ''Flags:'' @ newline
     @ ''  --temporary            Mark the upload as temporary (the daemon may'' @ newline
     @ ''                        handle it differently '' @ em_dash @ '' e.g. skip peer announce).'' @ newline
     @ ''  --recycler <url>       A peer to recycle (store) the blocks on, in'' @ newline
     @ ''                        addition to the local cache. The URL is the'' @ newline
     @ ''                        peer'' @ [CHR 0x27] @ ''s HTTP address, e.g. http://host:23402.'' @ newline
     @ ''                        Only one recycler is supported from the CLI.'' @ newline
     @ ''  --tuple-size N         Erasure-coding width (blocks per tuple). Default 3.'' @ newline
     @ ''                        Must be <= the daemon'' @ [CHR 0x27] @ ''s max_tuple_size (default 5).'' @ newline
     @ ''                        Higher N = more redundancy + more storage; the'' @ newline
     @ ''                        pre-flight rejects the PUT if N > max_tuple_size.'' @ newline
     @ ''  --recycle-ephemeral <mode>'' @ newline
     @ ''                        How blocks fetched from --recycler are folded'' @ newline
     @ ''                        in when they carry ephemeral claims: '' @ [CHR 0x27] @ ''commit'' @ [CHR 0x27] @ newline
     @ ''                        marks them permanent, '' @ [CHR 0x27] @ ''propagate'' @ [CHR 0x27] @ '' keeps them'' @ newline
     @ ''                        ephemeral and transfers the claim to this'' @ newline
     @ ''                        file. Requires --recycler.'' @ newline
     @ ''  --help                Show this help.'' @ newline
     @ newline
     @ ''Examples:'' @ newline
     @ ''  offs put movie.mp4'' @ newline
     @ ''  offs put movie.mp4 --recycler http://192.168.1.50:23402'' @ newline
     @ ''  offs put data.bin --tuple-size 5 --temporary'' @ newline
     @ ''  offs put data.bin --recycler http://192.168.1.50:23402 --recycle-ephemeral commit'' @ newline
     @ newline
     @ ''On success, prints the ORI (an OFFS URL you can GET or share).''"

record put_args =
  file_path :: "string option"
  temporary :: bool
  recycler_url :: "string option"
  tuple_size :: "nat option"
  recycle_ephemeral :: nat

definition no_put_args :: put_args where
  "no_put_args = \<lparr>file_path = None, temporary = False, recycler_url = None, tuple_size = None, recycle_ephemeral = 0\<rparr>"

text \<open>The scan ends with the help, with a message and result 1, or with the arguments.\<close>

datatype 'a scanned = Wants_Help | Refused string | Accepted 'a

fun scan_put_args :: "string list \<Rightarrow> put_args \<Rightarrow> put_args scanned" where
  "scan_put_args [] pa = Accepted pa"
| "scan_put_args (x # rest) pa =
     (if x = ''--help'' then Wants_Help
      else if x = ''--temporary'' then scan_put_args rest (pa\<lparr>temporary := True\<rparr>)
      else if x = ''--recycler'' then
        (case rest of
           [] \<Rightarrow> Refused ''Error: --recycler requires a URL argument''
         | v # rest' \<Rightarrow> scan_put_args rest' (pa\<lparr>recycler_url := Some v\<rparr>))
      else if x = ''--recycle-ephemeral'' then
        (case rest of
           [] \<Rightarrow> Refused L10N_PUT_RECYCLE_USAGE
         | v # rest' \<Rightarrow>
             if v = ''commit'' then scan_put_args rest' (pa\<lparr>recycle_ephemeral := 1\<rparr>)
             else if v = ''propagate'' then scan_put_args rest' (pa\<lparr>recycle_ephemeral := 2\<rparr>)
             else Refused L10N_PUT_RECYCLE_USAGE)
      else if x = ''--tuple-size'' then
        (case rest of
           [] \<Rightarrow> Refused L10N_PUT_TUPLE_SIZE_USAGE
         | v # rest' \<Rightarrow>
             (case strtol 10 v of
                (parsed, end) \<Rightarrow>
                  if end \<noteq> [] \<or> parsed \<le> 0 then Refused L10N_PUT_TUPLE_SIZE_RANGE
                  else scan_put_args rest' (pa\<lparr>tuple_size := Some (nat parsed)\<rparr>)))
      else if take 2 x = ''--'' then Refused (''Error: unknown flag '' @ quoted x)
      else scan_put_args rest (if file_path pa = None then pa\<lparr>file_path := Some x\<rparr> else pa))"

section \<open>\<^verbatim>\<open>offs put\<close>: the stream\<close>

text \<open>A file as the command meets it: the failures of \<^verbatim>\<open>fopen\<close>, \<^verbatim>\<open>fseek\<close> and \<^verbatim>\<open>ftell\<close> (by the name of the
  call), the size \<^verbatim>\<open>ftell\<close> reports, the bytes that can be read and whether reading ends with an error
  after them.\<close>

record input_file =
  in_failure :: "string option"
  in_size :: nat
  in_bytes :: "byte list"
  in_error :: bool

text \<open>The part of the path after the last separator of either kind.\<close>

definition base_name :: "string \<Rightarrow> string" where
  "base_name path = rev (takeWhile (\<lambda>c. c \<noteq> CHR ''/'' \<and> c \<noteq> CHR 0x5C) (rev path))"

text \<open>What \<^verbatim>\<open>fread\<close> gives for the next chunk.\<close>

definition read_chunk :: "input_file \<Rightarrow> nat \<Rightarrow> nat \<Rightarrow> byte list" where
  "read_chunk f file_size bytes_sent = take (min (file_size - bytes_sent) PUT_CHUNK_SIZE) (drop bytes_sent (in_bytes f))"

text \<open>The loop over the chunks: whether it had an error, the bytes sent, and the state; \<open>None\<close> when the
  socket blocks for ever.\<close>

function put_chunks :: "('c, 'm) transfer_api_scheme \<Rightarrow> bool \<Rightarrow> input_file \<Rightarrow> nat \<Rightarrow> nat \<Rightarrow> 'w cli_st_scheme
    \<Rightarrow> (bool \<times> nat \<times> 'w cli_st_scheme) option" where
  "put_chunks api tty f file_size bytes_sent st =
     (if bytes_sent < file_size then
        (let chunk = read_chunk f file_size bytes_sent in
         if chunk = [] then
           (if in_error f then Some (True, bytes_sent, say (Perror ''fread'') st) else Some (False, bytes_sent, st))
         else (case put_data_encode api chunk of
             None \<Rightarrow> Some (True, bytes_sent, err_line L10N_PUT_ENCODE_DATA st)
           | Some data_frame \<Rightarrow>
               do {
                 (send_rc, st1) \<leftarrow> st_send_frame api (Some data_frame) st;
                 case send_rc of
                   Some e \<Rightarrow> Some (True, bytes_sent, err_line (c_format L10N_PUT_SEND_DATA [FStr (strerror api e)]) st1)
                 | None \<Rightarrow>
                     put_chunks api tty f file_size (bytes_sent + length chunk)
                       (if tty then say (Progress (bytes_sent + length chunk) file_size) st1 else st1)
               }))
      else Some (False, bytes_sent, st))"
  by pat_completeness auto

termination
  by (relation "measure (\<lambda>(api, tty, f, file_size, bytes_sent, st). file_size - bytes_sent)")
    (auto intro!: diff_less_mono2)

declare put_chunks.simps [simp del]

definition put_reply :: "('c, 'm) transfer_api_scheme \<Rightarrow> 'c \<Rightarrow> 'w cli_st_scheme \<Rightarrow> int \<times> 'w cli_st_scheme" where
  "put_reply api response st =
     (let type = get_type api response in
      if type = CLIENT_API_PUT_RESPONSE api then
        (case put_response_decode api response of
           Some ori \<Rightarrow> (0, out_line (c_format L10N_PUT_IMPORTED [FStr ori]) st)
         | None \<Rightarrow> (1, err_line L10N_PUT_DECODE_RESPONSE st))
      else if type = CLIENT_API_ERROR api then
        (case error_decode api response of
           Some (status, message) \<Rightarrow> (1, err_line (error_text message) st)
         | None \<Rightarrow> (1, err_line L10N_PUT_UNDECODABLE_ERR st))
      else (1, err_line (c_format L10N_PUT_UNEXPECTED_TYPE [FNat (unat type)]) st))"

text \<open>After the chunks: the end frame and the answer.\<close>

definition put_finish :: "('c, 'm) transfer_api_scheme \<Rightarrow> 'w cli_st_scheme \<Rightarrow> (int \<times> 'w cli_st_scheme) option" where
  "put_finish api st =
     (case put_end_encode api of
        None \<Rightarrow> Some (1, err_line L10N_PUT_ENCODE_END st)
      | Some end_frame \<Rightarrow> do {
          (send_rc, st1) \<leftarrow> st_send_frame api (Some end_frame) st;
          case send_rc of
            Some e \<Rightarrow> Some (1, err_line (c_format L10N_PUT_SEND_END [FStr (strerror api e)]) st1)
          | None \<Rightarrow> do {
              (response, st2) \<leftarrow> st_recv_frame api st1;
              case response of
                None \<Rightarrow> Some (1, err_line L10N_PUT_NO_RESPONSE st2)
              | Some r \<Rightarrow> Some (put_reply api r st2)
            }
        })"

definition put_start :: "('c, 'm) transfer_api_scheme \<Rightarrow> put_args \<Rightarrow> string \<Rightarrow> nat \<Rightarrow> put_request" where
  "put_start api pa name file_size =
     \<lparr>pr_content_type = mime_type_from_extension api name, pr_file_name = name, pr_stream_length = file_size,
      pr_temporary = temporary pa, pr_tuple_size = tuple_size pa, pr_recycle_ephemeral = recycle_ephemeral pa,
      pr_recycler_urls = (case recycler_url pa of Some u \<Rightarrow> [u] | None \<Rightarrow> [])\<rparr>"

definition put_file :: "('c, 'm) transfer_api_scheme \<Rightarrow> bool \<Rightarrow> put_args \<Rightarrow> string \<Rightarrow> input_file \<Rightarrow> 'w cli_st_scheme
    \<Rightarrow> (int \<times> 'w cli_st_scheme) option" where
  "put_file api tty pa path f st =
     (case in_failure f of
        Some call \<Rightarrow> Some (1, say (Perror call) st)
      | None \<Rightarrow>
          if in_size f = 0 then Some (1, err_line L10N_PUT_EMPTY_FILE st)
          else if base_name path = [] then Some (1, err_line L10N_PUT_INVALID_PATH st)
          else (case put_request_encode api (put_start api pa (base_name path) (in_size f)) of
              None \<Rightarrow> Some (1, err_line L10N_PUT_ENCODE_START st)
            | Some start_frame \<Rightarrow> do {
                (send_rc, st1) \<leftarrow> st_send_frame api (Some start_frame) st;
                case send_rc of
                  Some e \<Rightarrow> Some (1, err_line (c_format L10N_PUT_SEND_START [FStr (strerror api e)]) st1)
                | None \<Rightarrow> do {
                    (had_error, bytes_sent, st2) \<leftarrow> put_chunks api tty f (in_size f) 0 st1;
                    let st3 = (if tty \<and> bytes_sent > 0 then say (Err newline) st2 else st2);
                    if had_error then Some (1, st3) else put_finish api st3
                  }
              }))"

definition cmd_put :: "('c, 'm) transfer_api_scheme \<Rightarrow> bool \<Rightarrow> (string \<Rightarrow> input_file) \<Rightarrow> string list \<Rightarrow> 'w cli_st_scheme
    \<Rightarrow> (int \<times> 'w cli_st_scheme) option" where
  "cmd_put api tty files argv st =
     (if argv = [] then Some (1, err_line L10N_PUT_USAGE st)
      else (case scan_put_args argv no_put_args of
          Wants_Help \<Rightarrow> Some (0, say (Out put_help) st)
        | Refused message \<Rightarrow> Some (1, err_line message st)
        | Accepted pa \<Rightarrow>
            (case file_path pa of
               None \<Rightarrow> Some (1, err_line L10N_PUT_USAGE st)
             | Some path \<Rightarrow>
                 if recycle_ephemeral pa \<noteq> 0 \<and> recycler_url pa = None then Some (1, err_line L10N_PUT_RECYCLE_NEEDS_RECYCLER st)
                 else put_file api tty pa path (files path) st)))"

section \<open>\<^verbatim>\<open>offs get\<close>\<close>

fun scan_get_args :: "string list \<Rightarrow> string option \<Rightarrow> string option scanned" where
  "scan_get_args [] out = Accepted out"
| "scan_get_args (x # rest) out =
     (case rest of
        v # rest' \<Rightarrow>
          if x = ''--output'' then scan_get_args rest' (Some v)
          else if x = ''--help'' then Wants_Help else scan_get_args rest out
      | [] \<Rightarrow> if x = ''--help'' then Wants_Help else Accepted out)"

text \<open>The loop over the frames: whether the end was seen, an error frame came and a write was short. An
  error frame that cannot be decoded leaves the message pointer null, which prints as \<^verbatim>\<open>(null)\<close>.\<close>

record get_result =
  saw_end :: bool
  had_error :: bool
  short_write :: bool

definition message_of :: "('c, 'm) wire_scheme \<Rightarrow> 'c \<Rightarrow> string" where
  "message_of w r = (case error_decode w r of Some (status, message) \<Rightarrow> message | None \<Rightarrow> ''(null)'')"

function get_frames :: "('c, 'm) transfer_api_scheme \<Rightarrow> bool \<Rightarrow> output_file \<Rightarrow> 'w cli_st_scheme
    \<Rightarrow> (get_result \<times> output_file \<times> 'w cli_st_scheme) option" where
  "get_frames api short out st =
     (case st_recv_frame api st of
        None \<Rightarrow> None
      | Some (None, st1) \<Rightarrow> Some (\<lparr>saw_end = False, had_error = False, short_write = short\<rparr>, out, st1)
      | Some (Some r, st1) \<Rightarrow>
          if get_type api r = CLIENT_API_GET_DATA api then
            (case get_data_decode api r of
               None \<Rightarrow> get_frames api short out st1
             | Some d \<Rightarrow>
                 (let (written, out1) = fwrite d out in
                  if written < length d then
                    get_frames api True out1 (err_line (L10N_ERROR @ '': short write ('' @ dec_nat written @ ''/'' @ dec_nat (length d) @ '' bytes)'') st1)
                  else get_frames api short out1 st1))
          else if get_type api r = CLIENT_API_GET_END api
          then Some (\<lparr>saw_end = True, had_error = False, short_write = short\<rparr>, out, st1)
          else if get_type api r = CLIENT_API_ERROR api
          then Some (\<lparr>saw_end = False, had_error = True, short_write = short\<rparr>, out, err_line (error_text (message_of api r)) st1)
          else get_frames api short out st1)"
  by pat_completeness auto

termination
  by (relation "measure (\<lambda>(api, short, out, st). length (coming_bytes st))")
    (auto dest: recv_frame_bytes(2))

declare get_frames.simps [simp del]

definition get_stream :: "('c, 'm) transfer_api_scheme \<Rightarrow> output_file option \<Rightarrow> 'w cli_st_scheme
    \<Rightarrow> (int \<times> output_file option \<times> 'w cli_st_scheme) option" where
  "get_stream api output st =
     (case output of
        None \<Rightarrow> Some (1, None, say (Perror ''fopen'') st)
      | Some out \<Rightarrow> do {
          (r, out', st1) \<leftarrow> get_frames api False out st;
          Some (if had_error r then (1, Some out', st1)
                else if \<not> saw_end r then (1, Some out', err_line (L10N_ERROR @ '': stream truncated (no GET_END frame)'') st1)
                else if short_write r then (1, Some out', st1)
                else (0, Some out', st1))
        })"

text \<open>\<open>opener\<close> gives the output for a path, or standard output for none.\<close>

definition cmd_get :: "('c, 'm) transfer_api_scheme \<Rightarrow> (string option \<Rightarrow> output_file option) \<Rightarrow> string list \<Rightarrow> 'w cli_st_scheme
    \<Rightarrow> (int \<times> output_file option \<times> 'w cli_st_scheme) option" where
  "cmd_get api opener argv st =
     (case argv of
        [] \<Rightarrow> Some (1, None, err_line L10N_GET_USAGE st)
      | ori # flags \<Rightarrow>
          (case scan_get_args flags None of
             Wants_Help \<Rightarrow> Some (0, None, out_line L10N_GET_USAGE st)
           | Refused m \<Rightarrow> Some (1, None, st)
           | Accepted path \<Rightarrow>
               (case get_request_encode api ori of
                  None \<Rightarrow> Some (1, None, err_line L10N_GET_ENCODE_REQUEST st)
                | Some request \<Rightarrow> do {
                    (send_rc, st1) \<leftarrow> st_send_frame api (Some request) st;
                    if send_rc \<noteq> None then Some (1, None, err_line L10N_DAEMON_UNREACHABLE st1)
                    else do {
                      (response, st2) \<leftarrow> st_recv_frame api st1;
                      case response of
                        None \<Rightarrow> Some (1, None, err_line L10N_DAEMON_UNREACHABLE st2)
                      | Some r \<Rightarrow>
                          if get_type api r = CLIENT_API_GET_RESPONSE_START api then get_stream api (opener path) st2
                          else Some (1, None, if get_type api r = CLIENT_API_ERROR api then print_error_frame api r st2 else st2)
                    }
                  })))"

section \<open>\<^verbatim>\<open>offs load\<close>\<close>

text \<open>How the loop over the frames ends: with the values of a \<^verbatim>\<open>LOAD_END\<close> frame, after an error, or because the
  connection gave no further frame.\<close>

datatype load_end = Load_Ended u8 nat nat | Load_Failed | Load_Truncated

function load_frames :: "('c, 'm) transfer_api_scheme \<Rightarrow> bool \<Rightarrow> bool \<Rightarrow> 'w cli_st_scheme
    \<Rightarrow> (load_end \<times> bool \<times> 'w cli_st_scheme) option" where
  "load_frames api tty shown st =
     (case st_recv_frame api st of
        None \<Rightarrow> None
      | Some (None, st1) \<Rightarrow> Some (Load_Truncated, shown, st1)
      | Some (Some r, st1) \<Rightarrow>
          if get_type api r = CLIENT_API_LOAD_PROGRESS api then
            (case load_progress_decode api r of
               Some (tuples_loaded, tuples_total) \<Rightarrow>
                 if tty then load_frames api tty True (say (Progress tuples_loaded tuples_total) st1)
                 else load_frames api tty shown st1
             | None \<Rightarrow> load_frames api tty shown st1)
          else if get_type api r = CLIENT_API_LOAD_END api then
            (case load_end_decode api r of
               Some (status, loaded, tuples) \<Rightarrow> Some (Load_Ended status loaded tuples, shown, st1)
             | None \<Rightarrow> Some (Load_Failed, shown, st1))
          else if get_type api r = CLIENT_API_ERROR api then Some (Load_Failed, shown, print_error_frame api r st1)
          else load_frames api tty shown st1)"
  by pat_completeness auto

termination
  by (relation "measure (\<lambda>(api, tty, shown, st). length (coming_bytes st))")
    (auto dest: recv_frame_bytes(2))

declare load_frames.simps [simp del]

definition load_outcome :: "('c, 'm) transfer_api_scheme \<Rightarrow> load_end \<Rightarrow> 'w cli_st_scheme \<Rightarrow> int \<times> 'w cli_st_scheme" where
  "load_outcome api e st =
     (case e of
        Load_Failed \<Rightarrow> (1, st)
      | Load_Truncated \<Rightarrow> (1, err_line (error_text L10N_LOAD_TRUNCATED) st)
      | Load_Ended status loaded tuples \<Rightarrow>
          if status = CLIENT_API_LOAD_STATUS_FAILED api
          then (1, err_line (c_format L10N_LOAD_FAILED [FNat loaded, FNat tuples]) st)
          else if status = CLIENT_API_LOAD_STATUS_PARTIAL api
          then (0, err_line (c_format L10N_LOAD_PARTIAL [FNat loaded, FNat tuples]) st)
          else (0, st))"

definition cmd_load :: "('c, 'm) transfer_api_scheme \<Rightarrow> bool \<Rightarrow> string list \<Rightarrow> 'w cli_st_scheme \<Rightarrow> (int \<times> 'w cli_st_scheme) option" where
  "cmd_load api tty argv st =
     (case argv of
        [] \<Rightarrow> Some (1, err_line L10N_LOAD_USAGE st)
      | ori # flags \<Rightarrow>
          if ''--help'' \<in> set argv then Some (0, out_line L10N_LOAD_USAGE st)
          else if flags \<noteq> [] then Some (1, err_line L10N_LOAD_USAGE st)
          else (case load_request_encode api ori of
              None \<Rightarrow> Some (1, err_line L10N_LOAD_ENCODE_REQUEST st)
            | Some request \<Rightarrow> do {
                (send_rc, st1) \<leftarrow> st_send_frame api (Some request) st;
                if send_rc \<noteq> None then Some (1, err_line L10N_DAEMON_UNREACHABLE st1)
                else do {
                  (e, shown, st2) \<leftarrow> load_frames api tty False st1;
                  Some (load_outcome api e (if shown then say (Err newline) st2 else st2))
                }
              }))"

section \<open>What \<^verbatim>\<open>offs put\<close> sends\<close>

lemma take_length_take: "take (length (take k xs)) xs = take k xs"
  by (cases "k \<le> length xs") (simp_all add: min_absorb1 min_absorb2)

lemma put_chunks_send:
  assumes "put_chunks api tty f fsize n st = Some (False, m, st')" "n \<le> fsize"
  shows "\<exists>chunks. sent_bytes st' = sent_bytes st @ concat (map (\<lambda>d. framed api (the (put_data_encode api d))) chunks) \<and>
    concat chunks = take (fsize - n) (drop n (in_bytes f)) \<and> m = n + length (concat chunks) \<and>
    (\<forall>d \<in> set chunks. d \<noteq> [] \<and> length d \<le> PUT_CHUNK_SIZE \<and> put_data_encode api d \<noteq> None)"
  using assms
proof (induction api tty f fsize n st rule: put_chunks.induct)
  case (1 api tty f fsize n st)
  define chunk where "chunk = read_chunk f fsize n"
  have chunk: "chunk = take (min (fsize - n) PUT_CHUNK_SIZE) (drop n (in_bytes f))" by (simp add: chunk_def read_chunk_def)
  show ?case
  proof (cases "n < fsize \<and> chunk \<noteq> []")
    case False
    then have "m = n \<and> st' = st \<and> take (fsize - n) (drop n (in_bytes f)) = []"
      using "1.prems" chunk by (auto simp: put_chunks.simps [of api tty f fsize n] chunk_def [symmetric] Let_def PUT_CHUNK_SIZE_def split: if_splits)
    then show ?thesis by (intro exI [of _ "[]"]) simp
  next
    case True
    with "1.prems" obtain fr st1 where enc: "put_data_encode api chunk = Some fr"
      and snd: "st_send_frame api (Some fr) st = Some (None, st1)"
      and rest: "put_chunks api tty f fsize (n + length chunk) (if tty then say (Progress (n + length chunk) fsize) st1 else st1) = Some (False, m, st')"
      by (auto simp: put_chunks.simps [of api tty f fsize n] chunk_def [symmetric] Let_def bind_Some_iff split: option.splits if_splits)
    let ?st1 = "if tty then say (Progress (n + length chunk) fsize) st1 else st1"
    have le: "n + length chunk \<le> fsize" using True by (auto simp: chunk)
    have "\<exists>chunks. sent_bytes st' = sent_bytes ?st1 @ concat (map (\<lambda>d. framed api (the (put_data_encode api d))) chunks) \<and>
      concat chunks = take (fsize - (n + length chunk)) (drop (n + length chunk) (in_bytes f)) \<and> m = n + length chunk + length (concat chunks) \<and>
      (\<forall>d \<in> set chunks. d \<noteq> [] \<and> length d \<le> PUT_CHUNK_SIZE \<and> put_data_encode api d \<noteq> None)"
      using "1.IH" [OF _ refl, unfolded chunk_def [symmetric], OF _ _ enc snd refl _ rest le] True by blast
    then obtain chunks where c: "sent_bytes st' = sent_bytes ?st1 @ concat (map (\<lambda>d. framed api (the (put_data_encode api d))) chunks)"
      "concat chunks = take (fsize - (n + length chunk)) (drop (n + length chunk) (in_bytes f))" "m = n + length chunk + length (concat chunks)"
      "\<forall>d \<in> set chunks. d \<noteq> [] \<and> length d \<le> PUT_CHUNK_SIZE \<and> put_data_encode api d \<noteq> None" by blast
    have "chunk @ take (fsize - (n + length chunk)) (drop (n + length chunk) (in_bytes f)) = take (fsize - n) (drop n (in_bytes f))"
    proof -
      have whole: "chunk = take (length chunk) (drop n (in_bytes f))" by (simp only: chunk take_length_take)
      have "take (fsize - n) (drop n (in_bytes f)) = take (length chunk + (fsize - (n + length chunk))) (drop n (in_bytes f))"
        using le by simp
      also have "\<dots> = take (length chunk) (drop n (in_bytes f)) @ take (fsize - (n + length chunk)) (drop (length chunk) (drop n (in_bytes f)))"
        by (rule take_add)
      finally show ?thesis using whole by (simp add: add.commute)
    qed
    then have all: "concat (chunk # chunks) = take (fsize - n) (drop n (in_bytes f))" by (simp add: c(2))
    have size: "length chunk \<le> PUT_CHUNK_SIZE" by (simp add: chunk)
    have sent: "sent_bytes ?st1 = sent_bytes st @ framed api fr" using send_frame_bytes [OF snd] by simp
    show ?thesis
    proof (intro exI [of _ "chunk # chunks"] conjI)
      show "concat (chunk # chunks) = take (fsize - n) (drop n (in_bytes f))" by (rule all)
      show "m = n + length (concat (chunk # chunks))" using c(3) by (simp only: concat.simps length_append add.assoc)
    qed (use c(1,4) enc True size sent in simp_all)
  qed
qed
lemma put_finish_sends:
  assumes "put_finish api st = Some (0, st')"
  shows "\<exists>end_frame. put_end_encode api = Some end_frame \<and> sent_bytes st' = sent_bytes st @ framed api end_frame"
proof -
  from assms obtain end_frame st1 r st2 where e: "put_end_encode api = Some end_frame"
    and s: "st_send_frame api (Some end_frame) st = Some (None, st1)"
    and r: "st_recv_frame api st1 = Some (Some r, st2)" and p: "put_reply api r st2 = (0, st')"
    by (auto simp: put_finish_def bind_Some_iff split: option.splits)
  have "sent_bytes st' = sent_bytes st2" using p by (auto simp: put_reply_def Let_def split: if_splits option.splits prod.splits)
  then show ?thesis using e send_frame_bytes [OF s] recv_frame_bytes(1) [OF r] by simp
qed

text \<open>A read error is never taken for the end of the file.\<close>

lemma put_chunks_complete:
  "put_chunks api tty f fsize n st = Some (False, m, st') \<Longrightarrow> in_error f \<Longrightarrow> fsize \<le> m"
proof (induction api tty f fsize n st rule: put_chunks.induct)
  case (1 api tty f fsize n st)
  define chunk where "chunk = read_chunk f fsize n"
  show ?case
  proof (cases "n < fsize")
    case True
    with "1.prems" have ne: "chunk \<noteq> []" by (auto simp: put_chunks.simps [of api tty f fsize n] chunk_def Let_def)
    with "1.prems" True obtain d st1 where d: "put_data_encode api chunk = Some d" "st_send_frame api (Some d) st = Some (None, st1)"
      "put_chunks api tty f fsize (n + length chunk) (if tty then say (Progress (n + length chunk) fsize) st1 else st1) = Some (False, m, st')"
      by (auto simp: put_chunks.simps [of api tty f fsize n] chunk_def [symmetric] Let_def bind_Some_iff split: option.splits)
    from "1.IH" [OF True chunk_def ne d(1) d(2) refl refl d(3) "1.prems"(2)] show ?thesis .
  qed (use "1.prems"(1) in \<open>simp add: put_chunks.simps [of api tty f fsize n]\<close>)
qed

text \<open>C12. What \<^verbatim>\<open>offs put\<close> has sent when it reports a file as imported: the connection carries a start frame with the
  base name and the size, data frames whose contents put together are the bytes of the file up to that
  size, in order (each at most one MiB and none empty), and the end frame, and nothing else. That is the
  announced size, unless the file has ended early without a read error; then fewer bytes than
  announced were sent and the file is reported as imported all the same.\<close>

theorem put_sends_file:
  assumes "put_file api tty pa path f st = Some (0, st')"
  shows "\<exists>start_frame end_frame chunks.
    put_request_encode api (put_start api pa (base_name path) (in_size f)) = Some start_frame \<and> put_end_encode api = Some end_frame \<and>
    sent_bytes st' = sent_bytes st @ framed api start_frame @ concat (map (\<lambda>d. framed api (the (put_data_encode api d))) chunks)
      @ framed api end_frame \<and>
    concat chunks = take (in_size f) (in_bytes f) \<and>
    (length (concat chunks) = in_size f \<or> length (in_bytes f) < in_size f \<and> \<not> in_error f) \<and>
    (\<forall>d \<in> set chunks. d \<noteq> [] \<and> length d \<le> 1024 * 1024)"
proof -
  from assms obtain start_frame st1 m st2 where s: "put_request_encode api (put_start api pa (base_name path) (in_size f)) = Some start_frame"
    "st_send_frame api (Some start_frame) st = Some (None, st1)" "put_chunks api tty f (in_size f) 0 st1 = Some (False, m, st2)"
    and e: "put_finish api (if tty \<and> m > 0 then say (Err newline) st2 else st2) = Some (0, st')"
    by (auto simp: put_file_def bind_Some_iff Let_def split: option.splits if_splits)
  obtain chunks where c: "sent_bytes st2 = sent_bytes st1 @ concat (map (\<lambda>d. framed api (the (put_data_encode api d))) chunks)"
    "concat chunks = take (in_size f) (in_bytes f)" "m = length (concat chunks)"
    "\<forall>d \<in> set chunks. d \<noteq> [] \<and> length d \<le> PUT_CHUNK_SIZE \<and> put_data_encode api d \<noteq> None"
    using put_chunks_send [OF s(3)] by auto
  have "length (concat chunks) = in_size f \<or> length (in_bytes f) < in_size f \<and> \<not> in_error f"
    using put_chunks_complete [OF s(3)] c(2,3) by (cases "in_error f") auto
  moreover obtain end_frame where "put_end_encode api = Some end_frame"
    "sent_bytes st' = sent_bytes (if tty \<and> m > 0 then say (Err newline) st2 else st2) @ framed api end_frame"
    using put_finish_sends [OF e] by blast
  ultimately show ?thesis
    using s(1) c send_frame_bytes [OF s(2)]
    by (intro exI [of _ start_frame] exI [of _ end_frame] exI [of _ chunks]) (simp add: PUT_CHUNK_SIZE_def)
qed

section \<open>What \<^verbatim>\<open>offs get\<close> writes\<close>

text \<open>The frames a connection delivers next.\<close>

fun receives :: "('c, 'm) transfer_api_scheme \<Rightarrow> 'w cli_st_scheme \<Rightarrow> 'c list \<Rightarrow> 'w cli_st_scheme \<Rightarrow> bool" where
  "receives api st [] st' \<longleftrightarrow> st' = st"
| "receives api st (r # rs) st' \<longleftrightarrow> 
     (case st_recv_frame api st of Some (Some r', st1) \<Rightarrow> r' = r \<and> receives api st1 rs st' | _ \<Rightarrow> False)"

lemma receives_Cons: "receives api st (r # rs) st' \<longleftrightarrow> (\<exists>st1. st_recv_frame api st = Some (Some r, st1) \<and> receives api st1 rs st')"
  by (auto split: option.splits prod.splits)

declare receives.simps(2) [simp del]

lemma get_frames_data:
  assumes "receives api st rs st1" and "\<forall>r \<in> set rs. get_type api r = CLIENT_API_GET_DATA api \<and> get_data_decode api r \<noteq> None"
    and "out_room out = None"
  shows "get_frames api short out st =
    get_frames api short (out\<lparr>out_bytes := out_bytes out @ concat (map (\<lambda>r. the (get_data_decode api r)) rs)\<rparr>) st1"
  using assms
proof (induction rs arbitrary: st out)
  case (Cons r rs)
  then obtain st0 d where r: "st_recv_frame api st = Some (Some r, st0)" "receives api st0 rs st1" "get_data_decode api r = Some d"
    by (auto simp: receives_Cons)
  have "get_frames api short out st = get_frames api short (out\<lparr>out_bytes := out_bytes out @ d\<rparr>) st0"
    using Cons.prems r by (simp add: get_frames.simps [of api short out st] fwrite_unlimited)
  with Cons.IH [OF r(2), of "out\<lparr>out_bytes := out_bytes out @ d\<rparr>"] Cons.prems r(3) show ?case by simp
qed simp

text \<open>C13. \<^verbatim>\<open>offs get\<close> delivers what the daemon sends: if the answer is a start frame, data frames that can be
  decoded and the end frame, the output receives exactly the contents of the data frames in their order, and
  the command succeeds.\<close>

theorem get_delivers:
  assumes "get_request_encode api ori = Some request" "st_send_frame api (Some request) st = Some (None, st1)"
    and "receives api st1 (start # rs @ [last_frame]) st2"
    and "get_type api start = CLIENT_API_GET_RESPONSE_START api" "get_type api last_frame = CLIENT_API_GET_END api"
    and "\<forall>r \<in> set rs. get_type api r = CLIENT_API_GET_DATA api \<and> get_data_decode api r \<noteq> None"
    and "CLIENT_API_GET_DATA api \<noteq> CLIENT_API_GET_END api"
    and "opener None = Some out" "out_room out = None"
  shows "cmd_get api opener [ori] st =
    Some (0, Some (out\<lparr>out_bytes := out_bytes out @ concat (map (\<lambda>r. the (get_data_decode api r)) rs)\<rparr>), st2)"
proof -
  have split: "receives api s (xs @ [y]) s2 \<longleftrightarrow> (\<exists>s1. receives api s xs s1 \<and> st_recv_frame api s1 = Some (Some y, s2))" for s xs y s2
    by (induction xs arbitrary: s) (auto simp: receives_Cons)
  obtain sa sb where "st_recv_frame api st1 = Some (Some start, sa)" "receives api sa rs sb" "st_recv_frame api sb = Some (Some last_frame, st2)"
    using assms(3) by (auto simp: split receives_Cons)
  moreover from this(3) assms(5,7) have "get_frames api False out' sb = Some (\<lparr>saw_end = True, had_error = False, short_write = False\<rparr>, out', st2)" for out'
    by (simp add: get_frames.simps [of api False out' sb])
  ultimately show ?thesis
    using assms(1,2,4,8) get_frames_data [OF _ assms(6,9), of sa sb False]
    by (simp add: cmd_get_def get_stream_def)
qed

section \<open>The receive loops end\<close>

text \<open>A peer that closes the connection at some point: then no receive blocks for ever.\<close>

lemma recv_all_closing:
  assumes "Avail [] \<in> set evs"
  shows "\<exists>rc d evs'. recv_all evs len data e = Some (rc, d, evs') \<and> (rc = 0 \<longrightarrow> Avail [] \<in> set evs')"
  using assms
proof (induction evs len data e rule: recv_all.induct)
  case (2 er evs len data e)
  then show ?case by auto
next
  case (3 bs evs len data e)
  show ?case
  proof (cases "length data < len \<and> bs \<noteq> []")
    case True
    define result where "result = min (length bs) (len - length data)"
    have "result \<noteq> 0" using True by (simp add: result_def)
    moreover have "Avail [] \<in> set (if result < length bs then Avail (drop result bs) # evs else evs)" using 3(2) True by auto
    moreover have "recv_all (Avail bs # evs) len data e =
        recv_all (if result < length bs then Avail (drop result bs) # evs else evs) len (data @ take result bs) 0"
      using True by (subst recv_all.simps) (simp add: Let_def result_def)
    ultimately show ?thesis using 3(1) [OF _ refl, folded result_def] True by simp
  qed (use 3(2) in \<open>cases "length data < len"; auto simp: recv_all_Avail\<close>)
qed simp

definition closes :: "'w cli_st_scheme \<Rightarrow> bool" where
  "closes st \<longleftrightarrow> (\<forall>s. the_socket st = Some s \<longrightarrow> Avail [] \<in> set (recv_evs s))"

lemma closes_say [simp]: "closes (say c st) = closes st" "closes (err_line s st) = closes st"
  by (simp_all add: closes_def the_socket_def)

lemma recv_frame_closing:
  assumes "closes st"
  shows "\<exists>r st1. st_recv_frame cd st = Some (r, st1) \<and> (r \<noteq> None \<longrightarrow> closes st1)"
proof (cases "usable (client st)")
  case False
  then show ?thesis by (simp add: st_recv_frame_def recv_frame_unusable)
next
  case True
  then obtain c s where c: "client st = Some c" "connected c \<noteq> 0" "socket c = Some s" by (auto simp: usable_def)
  with assms have "Avail [] \<in> set (recv_evs s)" by (simp add: closes_def the_socket_def)
  then obtain rc lb evs where h: "recv_all (recv_evs s) 4 [] 0 = Some (rc, lb, evs)" "rc = 0 \<longrightarrow> Avail [] \<in> set evs"
    using recv_all_closing by blast
  show ?thesis
  proof (cases "rc = 0")
    case True
    then obtain rc2 bd evs2 where "recv_all evs (unat (decode_length lb)) [] 0 = Some (rc2, bd, evs2)" "rc2 = 0 \<longrightarrow> Avail [] \<in> set evs2"
      using recv_all_closing h(2) by blast
    then show ?thesis using c h True by (auto simp: st_recv_frame_def cli_client_recv_frame_def Let_def closes_def the_socket_def)
  qed (use c h in \<open>simp add: st_recv_frame_def cli_client_recv_frame_def\<close>)
qed

lemma get_frames_ends:
  assumes "closes st"
  shows "get_frames api short out st \<noteq> None"
  using assms
proof (induction "length (coming_bytes st)" arbitrary: st short out rule: less_induct)
  case less
  obtain r st1 where r: "st_recv_frame api st = Some (r, st1)" "r \<noteq> None \<longrightarrow> closes st1" 
    using recv_frame_closing [OF less.prems, of api] by (elim exE conjE)
  show ?case
  proof (cases r)
    case (Some x)
    then have lt: "length (coming_bytes st1) < length (coming_bytes st)" and c: "closes st1" using recv_frame_bytes(2) [OF r(1)] r(2) by simp_all
    have n1: "get_frames api sh o' st1 \<noteq> None" for sh o' by (rule less.hyps [OF lt c])
    have n2: "get_frames api sh o' (err_line m st1) \<noteq> None" for sh o' m
      by (rule less.hyps) (simp_all add: lt c)
    show ?thesis
      by (subst get_frames.simps, simp only: r(1) Some option.case prod.case)
        (simp add: n1 n2 Let_def case_prod_beta split: option.split del: not_None_eq)
  qed (use r in \<open>simp add: get_frames.simps [of api short out st]\<close>)
qed

lemma load_frames_ends:
  assumes "closes st"
  shows "load_frames api tty shown st \<noteq> None"
  using assms
proof (induction "length (coming_bytes st)" arbitrary: st tty shown rule: less_induct)
  case less
  obtain r st1 where r: "st_recv_frame api st = Some (r, st1)" "r \<noteq> None \<longrightarrow> closes st1" 
    using recv_frame_closing [OF less.prems, of api] by (elim exE conjE)
  show ?case
  proof (cases r)
    case (Some x)
    then have lt: "length (coming_bytes st1) < length (coming_bytes st)" and c: "closes st1" using recv_frame_bytes(2) [OF r(1)] r(2) by simp_all
    have n1: "load_frames api t sh st1 \<noteq> None" for t sh by (rule less.hyps [OF lt c])
    have n2: "load_frames api t sh (say m st1) \<noteq> None" for t sh m
      by (rule less.hyps) (simp_all add: lt c)
    show ?thesis
      by (subst load_frames.simps, simp only: r(1) Some option.case prod.case)
        (simp add: n1 n2 case_prod_beta split: option.split del: not_None_eq)
  qed (use r in \<open>simp add: load_frames.simps [of api tty shown st]\<close>)
qed

text \<open>C25. The loops of \<^verbatim>\<open>offs get\<close> and \<^verbatim>\<open>offs load\<close> over the daemon's frames come to an end, whatever the frames
  are and in whatever pieces they arrive, as soon as the daemon closes the connection.\<close>

theorem receive_loops_end:
  assumes "closes st"
  shows "get_frames api short out st \<noteq> None \<and> load_frames api tty shown st \<noteq> None"
  using get_frames_ends [OF assms, of api short out] load_frames_ends [OF assms, of api tty shown] by (rule conjI)

section \<open>A small instance\<close>

text \<open>A codec over byte lists: the first byte of a frame is its type.\<close>

definition demo_transfer :: "byte list transfer_api" where
  "demo_transfer = \<lparr>cbor_serialize = (\<lambda>x. x), stream_frame_encode = (\<lambda>b. Some (be32 (length b) @ b)), cbor_load = Some,
     get_type = hd, CLIENT_API_ERROR = 9, error_decode = (\<lambda>_. None), CLIENT_API_STATUS_OK = 0, CLIENT_API_STATUS_NOT_FOUND = 1,
     CLIENT_API_STATUS_CONFLICT = 2, CLIENT_API_STATUS_BAD_REQUEST = 3, CLIENT_API_STATUS_INTERNAL_ERROR = 4,
     mime_type_from_extension = (\<lambda>_. ''text/plain''), strerror = (\<lambda>_. ''error''),
     put_request_encode = (\<lambda>_. Some [1]), put_data_encode = (\<lambda>d. Some (2 # d)), put_end_encode = Some [3],
     CLIENT_API_PUT_RESPONSE = 4, put_response_decode = (\<lambda>_. Some ''ori''),
     get_request_encode = (\<lambda>_. Some [5]), CLIENT_API_GET_RESPONSE_START = 6, CLIENT_API_GET_DATA = 7, CLIENT_API_GET_END = 8,
     get_data_decode = (\<lambda>r. Some (tl r)), load_request_encode = (\<lambda>_. Some [10]),
     CLIENT_API_LOAD_PROGRESS = 11, CLIENT_API_LOAD_END = 12, CLIENT_API_LOAD_STATUS_LOADED = 0,
     CLIENT_API_LOAD_STATUS_PARTIAL = 1, CLIENT_API_LOAD_STATUS_FAILED = 2,
     load_progress_decode = (\<lambda>_. None), load_end_decode = (\<lambda>_. None)\<rparr>"

lemma demo_plain [simp]: "plain_codec demo_transfer"
  by (simp add: plain_codec_def demo_transfer_def)

theorem receive_loops_end_witness:
  "get_frames demo_transfer False \<lparr>out_bytes = [], out_room = None\<rparr> (demo_session 0 [Avail [0, 0], Avail []] []) \<noteq> None \<and>
   load_frames demo_transfer False False (demo_session 0 [Avail [0, 0], Avail []] []) \<noteq> None"
  by (rule receive_loops_end) (simp add: closes_def the_socket_def demo_session_def)

theorem put_sends_file_witness:
  "\<exists>start_frame end_frame chunks st'.
    put_file demo_transfer False no_put_args ''d/a'' \<lparr>in_failure = None, in_size = 3, in_bytes = [65, 66], in_error = False\<rparr>
      (demo_session 3 [Avail [0, 0, 0, 1, 4]] []) = Some (0, st') \<and>
    sent_bytes st' = framed demo_transfer start_frame @ concat (map (\<lambda>d. framed demo_transfer (the (put_data_encode demo_transfer d))) chunks)
      @ framed demo_transfer end_frame \<and>
    concat chunks = [65, 66] \<and> (\<forall>d \<in> set chunks. d \<noteq> [] \<and> length d \<le> 1024 * 1024)"
proof -
  let ?f = "\<lparr>in_failure = None, in_size = 3, in_bytes = [65, 66], in_error = False\<rparr>"
  let ?st = "demo_session 3 [Avail [0, 0, 0, 1, 4]] []"
  note [simp] = demo_send demo_recv
  have chunk: "read_chunk ?f 3 0 = [65, 66]" "read_chunk ?f 3 (Suc (Suc 0)) = []" by (simp_all add: read_chunk_def PUT_CHUNK_SIZE_def)
  have enc: "put_request_encode demo_transfer r = Some [1]" "put_data_encode demo_transfer d = Some (2 # d)"
    "put_end_encode demo_transfer = Some [3]" "CLIENT_API_PUT_RESPONSE demo_transfer = 4" "get_type demo_transfer [4] = 4"
    "put_response_decode demo_transfer c = Some ''ori''" for r d c by (simp_all add: demo_transfer_def)
  have run: "\<exists>st'. put_file demo_transfer False no_put_args ''d/a'' ?f ?st = Some (0, st')"
    by (simp add: put_file_def base_name_def enc put_chunks.simps [of _ _ _ 3] chunk put_finish_def put_reply_def Let_def)
  then obtain st' where run: "put_file demo_transfer False no_put_args ''d/a'' ?f ?st = Some (0, st')" ..
  from put_sends_file [OF run] obtain s e ch where "sent_bytes st' = sent_bytes ?st @ framed demo_transfer s @
      concat (map (\<lambda>d. framed demo_transfer (the (put_data_encode demo_transfer d))) ch) @ framed demo_transfer e"
    "concat ch = take 3 [65, 66]" "\<forall>d \<in> set ch. d \<noteq> [] \<and> length d \<le> 1024 * 1024"
    by (simp only: input_file.simps list.size) (elim exE conjE, rule that, simp_all)
  moreover have "sent_bytes ?st = []" by (simp add: sent_bytes_def the_socket_def demo_session_def)
  ultimately show ?thesis
    by (intro exI [of _ s] exI [of _ e] exI [of _ ch] exI [of _ st'] conjI) (simp_all add: run)
qed

theorem get_delivers_witness:
  "cmd_get demo_transfer (\<lambda>_. Some \<lparr>out_bytes = [], out_room = None\<rparr>) [''ori'']
      (demo_session 1 [Avail [0, 0, 0, 1, 6], Avail [0, 0, 0, 2, 7, 65], Avail [0, 0, 0, 1, 8]] []) =
    Some (0, Some \<lparr>out_bytes = [65], out_room = None\<rparr>, demo_session 0 [] (be32 (Suc 0) @ [5]))"
proof -
  let ?evs = "[Avail [0, 0, 0, 1, 6], Avail [0, 0, 0, 2, 7, 65], Avail [0, 0, 0, 1, 8]]"
  have "receives demo_transfer (demo_session 0 ?evs (be32 (Suc 0) @ [5])) ([6] # [[7, 65]] @ [[8]]) (demo_session 0 [] (be32 (Suc 0) @ [5]))"
    by (simp add: receives_Cons demo_recv)
  from get_delivers [OF _ demo_send [OF demo_plain, of "[5]" 1 ?evs "[]", simplified] this, of "''ori''" "\<lambda>_. Some \<lparr>out_bytes = [], out_room = None\<rparr>"]
  show ?thesis by (simp add: demo_transfer_def)
qed

end
