(* ===== verification/Requests.thy ===== *)
theory Requests
  imports Cli_Base Config_Dirs
begin

text \<open>
  Commands that are one exchange with the daemon: a request frame, the answer, and a report of it. This
  theory holds the contract those commands share, as a locale, and the first of them: \<^verbatim>\<open>offs health\<close>,
  \<^verbatim>\<open>offs status\<close> and \<^verbatim>\<open>offs version\<close> (\<^verbatim>\<open>src/src/offs/commands/health.c\<close>, \<^verbatim>\<open>status.c\<close>).
\<close>

section \<open>One exchange and its report\<close>

definition exchange :: "('c, 'm) codec_scheme \<Rightarrow> 'c option \<Rightarrow> ('c option \<Rightarrow> 'w cli_st_scheme \<Rightarrow> int \<times> 'w cli_st_scheme)
    \<Rightarrow> 'w cli_st_scheme \<Rightarrow> (int \<times> 'w cli_st_scheme) option" where
  "exchange w request report st = do {
     (response, st1) \<leftarrow> st_send w request st;
     Some (report response st1)
   }"

text \<open>The messages for an error frame: nothing when it cannot be decoded, or, in the commands that are
  careful about it, the bare word.\<close>

definition print_error_or_word :: "('c, 'm) wire_scheme \<Rightarrow> 'c \<Rightarrow> 'w cli_st_scheme \<Rightarrow> 'w cli_st_scheme" where
  "print_error_or_word w response st =
     (case error_decode w response of
        Some (status, message) \<Rightarrow> err_line (error_text message) st
      | None \<Rightarrow> err_line L10N_ERROR st)"

definition unexpected_type :: "u8 \<Rightarrow> string" where
  "unexpected_type t = L10N_ERROR @ '': unexpected response type '' @ dec_nat (unat t)"

text \<open>The contract: a report prints and gives 0 or 1; it gives 0 for exactly the answers the command
  accepts, and 1 without an answer.\<close>

definition only_prints :: "'w cli_st_scheme \<Rightarrow> 'w cli_st_scheme \<Rightarrow> bool" where
  "only_prints st st' \<longleftrightarrow> (\<exists>lines. st' = st\<lparr>log := log st @ lines\<rparr>)"

lemma only_prints_refl [simp, intro]: "only_prints st st"
proof -
  have "st = st\<lparr>log := log st @ []\<rparr>" by simp
  then show ?thesis unfolding only_prints_def by blast
qed

lemma only_prints_say [simp]:
  "only_prints st (say c st') = only_prints st st'" if "only_prints st st'"
  using that by (auto simp: only_prints_def say_def)

lemma only_prints_line [simp]: "only_prints st st' \<Longrightarrow> only_prints st (out_line s st')" "only_prints st st' \<Longrightarrow> only_prints st (err_line s st')"
  by (simp_all add: out_line_def err_line_def)

lemma only_prints_error [simp]:
  "only_prints st (print_error_frame w r st)" "only_prints st (print_error_or_word w r st)"
  by (auto simp: print_error_frame_def print_error_or_word_def split: option.splits)

lemma only_printsD:
  assumes "only_prints st st'"
  shows "client st' = client st" "sent_bytes st' = sent_bytes st" "coming_bytes st' = coming_bytes st"
  using assms by (auto simp: only_prints_def sent_bytes_def coming_bytes_def the_socket_def)

locale reporter =
  fixes w :: "('c, 'm) wire_scheme"
    and report :: "'c option \<Rightarrow> 'w cli_st_scheme \<Rightarrow> int \<times> 'w cli_st_scheme"
    and accepts :: "'c \<Rightarrow> bool"
  assumes no_answer: "fst (report None st) = 1"
    and answer: "fst (report (Some r) st) = (if accepts r then 0 else 1)"
    and prints: "only_prints st (snd (report ro st))"
begin

lemma exit_status:
  assumes "exchange w request report st = Some (rc, st')"
  shows "rc = (if \<exists>r st1. st_send w request st = Some (Some r, st1) \<and> accepts r then 0 else 1)"
proof -
  from assms obtain ro st1 where s: "st_send w request st = Some (ro, st1)" and rep: "report ro st1 = (rc, st')"
    by (auto simp: exchange_def bind_Some_iff)
  show ?thesis
  proof (cases ro)
    case (Some a)
    with answer [of a st1] s rep show ?thesis by auto
  qed (use no_answer [of st1] s rep in auto)
qed

lemma success:
  assumes "exchange w request report st = Some (0, st')"
  obtains f r st1 where "request = Some f" "st_send w request st = Some (Some r, st1)" "accepts r"
    "sent_bytes st' = sent_bytes st @ framed w f"
proof -
  from exit_status [OF assms] obtain r st1 where r: "st_send w request st = Some (Some r, st1)" "accepts r" by (auto split: if_splits)
  from st.reply_needs_connection [OF r(1)] obtain f where f: "request = Some f" by auto
  from r(1) obtain st0 where st0: "st_send_frame w request st = Some (None, st0)" "st_recv_frame w st0 = Some (Some r, st1)"
    by (rule st.reply_was_received)
  have "sent_bytes st1 = sent_bytes st @ framed w f"
    using send_frame_bytes [of w f st st0] recv_frame_bytes(1) [OF st0(2)] st0(1) f by simp
  moreover have "st' = snd (report (Some r) st1)" using assms r(1) by (auto simp: exchange_def)
  ultimately have "sent_bytes st' = sent_bytes st @ framed w f" using only_printsD(2) [OF prints [of st1 "Some r"]] by simp
  with f r show thesis by (intro that) auto
qed

lemma exit_zero:
  "(\<exists>st1. exchange w (Some f) report st0 = Some (0, st1)) \<longleftrightarrow> (\<exists>r st1. st_send w (Some f) st0 = Some (Some r, st1) \<and> accepts r)"
proof
  assume "\<exists>st1. exchange w (Some f) report st0 = Some (0, st1)"
  then obtain st1 where "exchange w (Some f) report st0 = Some (0, st1)" ..
  from exit_status [OF this] show "\<exists>r st1. st_send w (Some f) st0 = Some (Some r, st1) \<and> accepts r" by (simp split: if_splits)
next
  assume "\<exists>r st1. st_send w (Some f) st0 = Some (Some r, st1) \<and> accepts r"
  then obtain r st1 where r: "st_send w (Some f) st0 = Some (Some r, st1)" "accepts r" by blast
  then have "fst (report (Some r) st1) = 0" by (simp add: answer)
  with r show "\<exists>st1. exchange w (Some f) report st0 = Some (0, st1)"
    by (intro exI [of _ "snd (report (Some r) st1)"]) (simp add: exchange_def prod_eq_iff)
qed

lemma dead_connection:
  assumes "\<not> st_usable st"
  shows "\<exists>st'. exchange w request report st = Some (1, st') \<and> sent_bytes st' = sent_bytes st"
proof -
  have "st_send w request st = Some (None, st)" using assms by (simp add: st.request_refused)
  moreover have "fst (report None st) = 1" by (rule no_answer)
  ultimately show ?thesis using only_printsD(2) [OF prints [of st None]]
    by (intro exI [of _ "snd (report None st)"]) (simp add: exchange_def prod_eq_iff)
qed

end

text \<open>A report that looks for an error frame first, and so never takes one for a success.\<close>

locale error_reporter = reporter +
  assumes error_frame: "get_type w r = CLIENT_API_ERROR w \<Longrightarrow> \<not> accepts r"
begin

lemma error_frame_fails:
  assumes "exchange w request report st = Some (rc, st')" and "st_send w request st = Some (Some r, st1)"
    and "get_type w r = CLIENT_API_ERROR w"
  shows "rc = 1"
  using exit_status [OF assms(1)] assms(2) error_frame [OF assms(3)] by (auto split: if_splits)

end

text \<open>A report that never fails without a message on standard error.\<close>

locale loud_reporter = reporter +
  assumes explains: "fst (report ro st) \<noteq> 0 \<Longrightarrow> \<exists>s. log (snd (report ro st)) = log st @ [Err s]"
begin

lemma failure_explained:
  assumes "exchange w request report st = Some (rc, st')" and "rc \<noteq> 0"
  shows "\<exists>s. Err s \<in> set (log st')"
proof -
  from assms(1) obtain ro st1 where "report ro st1 = (rc, st')" by (auto simp: exchange_def bind_Some_iff)
  with explains [of ro st1] assms(2) show ?thesis by auto
qed

end

section \<open>\<^verbatim>\<open>offs health\<close>\<close>

record ('c, 'j) status_api = "'c wire" +
  health_request_encode :: 'c
  CLIENT_API_HEALTH_RESPONSE :: u8
  health_response_decode :: "'c \<Rightarrow> string option option" \<comment> \<open>the member \<^verbatim>\<open>json_data\<close>, which may be null\<close>
  update_status_request_encode :: 'c
  CLIENT_API_UPDATE_STATUS_RESPONSE :: u8
  update_status_response_decode :: "'c \<Rightarrow> string option option"
  cJSON_Print :: "'j \<Rightarrow> string"
  print_hours :: "(int \<times> int) \<Rightarrow> string" \<comment> \<open>a number printed by \<^verbatim>\<open>%.0f\<close>\<close>

definition print_json :: "('c, 'j, 'm) status_api_scheme \<Rightarrow> ('j, 'w) host \<Rightarrow> string \<Rightarrow> 's cli_st_scheme \<Rightarrow> 's cli_st_scheme" where
  "print_json api h json_data = out_line (case cJSON_Parse h json_data of Some json \<Rightarrow> cJSON_Print api json | None \<Rightarrow> json_data)"

definition health_report :: "('c, 'j, 'm) status_api_scheme \<Rightarrow> ('j, 'w) host \<Rightarrow> 'c option \<Rightarrow> 's cli_st_scheme \<Rightarrow> int \<times> 's cli_st_scheme" where
  "health_report api h response st =
     (case response of
        None \<Rightarrow> (1, err_line L10N_DAEMON_UNREACHABLE st)
      | Some r \<Rightarrow>
          if get_type api r = CLIENT_API_HEALTH_RESPONSE api then
            (case health_response_decode api r of
               Some (Some json_data) \<Rightarrow> (0, print_json api h json_data st)
             | _ \<Rightarrow> (1, err_line (L10N_ERROR @ '': invalid health response'') st))
          else if get_type api r = CLIENT_API_ERROR api then (1, print_error_frame api r st)
          else (1, st))"

definition cmd_health :: "('c, 'j, 'm) status_api_scheme \<Rightarrow> ('j, 'w) host \<Rightarrow> string list \<Rightarrow> 's cli_st_scheme \<Rightarrow> (int \<times> 's cli_st_scheme) option" where
  "cmd_health api h argv = exchange api (Some (health_request_encode api)) (health_report api h)"

definition health_accepted :: "('c, 'j, 'm) status_api_scheme \<Rightarrow> 'c \<Rightarrow> bool" where
  "health_accepted api r \<longleftrightarrow> get_type api r = CLIENT_API_HEALTH_RESPONSE api \<and> (\<exists>s. health_response_decode api r = Some (Some s))"

section \<open>\<^verbatim>\<open>offs status\<close> and \<^verbatim>\<open>offs version\<close>\<close>

text \<open>The lines about automatic updates.\<close>

definition member_line :: "('j, 'w) host \<Rightarrow> 'j \<Rightarrow> string \<Rightarrow> string \<Rightarrow> string list" where
  "member_line h json name label =
     (case Option.bind (cJSON_GetObjectItem h json name) (cj_string h) of
        Some v \<Rightarrow> [''    '' @ label @ '': '' @ v @ newline]
      | None \<Rightarrow> [])"

definition update_lines :: "('c, 'j, 'm) status_api_scheme \<Rightarrow> ('j, 'w) host \<Rightarrow> 'j \<Rightarrow> string list" where
  "update_lines api h json =
     [newline @ ''  Update:'' @ newline,
      (if Option.bind (cJSON_GetObjectItem h json ''enabled'') (cj_bool h) = Some True
       then ''    Auto-update: enabled'' @ newline else ''    Auto-update: disabled'' @ newline)]
     @ member_line h json ''channel'' ''Channel''
     @ member_line h json ''current_version'' ''Current version''
     @ member_line h json ''state'' ''State''
     @ (if Option.bind (cJSON_GetObjectItem h json ''available_version'') (cj_string h) = Some ''none'' then []
        else member_line h json ''available_version'' ''Available version'')
     @ (case Option.bind (cJSON_GetObjectItem h json ''check_interval_hours'') (cj_number h) of
          Some v \<Rightarrow> [''    Check interval: '' @ print_hours api v @ '' hours'' @ newline]
        | None \<Rightarrow> [])"

definition update_report :: "('c, 'j, 'm) status_api_scheme \<Rightarrow> ('j, 'w) host \<Rightarrow> 'c option \<Rightarrow> 's cli_st_scheme \<Rightarrow> 's cli_st_scheme" where
  "update_report api h response st =
     (case response of
        None \<Rightarrow> say (Out (newline @ ''  Update: unavailable (daemon unreachable)'' @ newline)) st
      | Some r \<Rightarrow>
          if get_type api r = CLIENT_API_UPDATE_STATUS_RESPONSE api then
            (case update_status_response_decode api r of
               Some (Some json_data) \<Rightarrow>
                 (case cJSON_Parse h json_data of
                    Some json \<Rightarrow> foldl (\<lambda>s t. say (Out t) s) st (update_lines api h json)
                  | None \<Rightarrow> st)
             | _ \<Rightarrow> st)
          else st)"

definition cmd_status :: "('c, 'j, 'm) status_api_scheme \<Rightarrow> ('j, 'w) host \<Rightarrow> string list \<Rightarrow> 's cli_st_scheme \<Rightarrow> (int \<times> 's cli_st_scheme) option" where
  "cmd_status api h argv st = do {
     (result, st1) \<leftarrow> cmd_health api h argv st;
     (response, st2) \<leftarrow> st_send api (Some (update_status_request_encode api)) st1;
     Some (result, update_report api h response st2)
   }"

definition cmd_version :: "string list \<Rightarrow> 's cli_st_scheme \<Rightarrow> int \<times> 's cli_st_scheme" where
  "cmd_version argv st = (0, say (Out (''offs version 0.1.0'' @ newline)) st)"

interpretation health: reporter api "health_report api h" "health_accepted api"
  for api :: "('c, 'j, 'm) status_api_scheme" and h :: "('j, 'w) host"
  by unfold_locales (auto simp: health_report_def health_accepted_def print_json_def split: option.splits)

end
