(* ===== verification/Config_Command.thy ===== *)
theory Config_Command
  imports Requests
begin

text \<open>
  \<^verbatim>\<open>offs config\<close> (\<^verbatim>\<open>src/src/offs/commands/config.c\<close>): showing, reading and staging settings, the two ways to
  set the API key, and the reload. bcrypt and the messages of liboffs are parameters.
\<close>

section \<open>The messages and the help\<close>

record ('c, 'j) config_api = "('c, 'j) status_api" +
  config_show_request_encode :: 'c
  CLIENT_API_CONFIG_SHOW_RESPONSE :: u8
  config_show_response_decode :: "'c \<Rightarrow> string option option" \<comment> \<open>the member \<^verbatim>\<open>json_data\<close>, which may be null\<close>
  config_set_request_encode :: "string \<Rightarrow> string \<Rightarrow> 'c"
  CLIENT_API_CONFIG_SET_RESPONSE :: u8
  config_set_response_decode :: "'c \<Rightarrow> (u8 \<times> string option) option" \<comment> \<open>status and message\<close>
  config_reload_request_encode :: 'c
  CLIENT_API_CONFIG_RELOAD_RESPONSE :: u8
  config_reload_response_decode :: "'c \<Rightarrow> (u8 \<times> string option) option"
  cJSON_PrintUnformatted :: "'j \<Rightarrow> string"
  bcrypt_generate :: "string \<Rightarrow> int \<Rightarrow> string option" \<comment> \<open>key and cost, into a buffer of 64 bytes\<close>

definition config_help :: string where
  "config_help =
     ''offs config '' @ em_dash @ '' manage daemon configuration'' @ newline @ newline
     @ ''Usage: offs config <subcommand> [args]'' @ newline @ newline
     @ ''Subcommands:'' @ newline
     @ ''  show                              Print the current daemon configuration'' @ newline
     @ ''  get <field>                       Print the current value of one field'' @ newline
     @ ''  set <field>=<value>               Stage a field change (restart to apply)'' @ newline
     @ ''  add <field> <value>               Same as set, value is a separate arg'' @ newline
     @ ''  remove <field>                    Revert a field to its default (stages null)'' @ newline
     @ ''  set-auth <hash>                   Set api_key_hash to a pre-hashed bcrypt value'' @ newline
     @ ''  generate-auth <key> [--cost N]    Hash a key with bcrypt and set api_key_hash'' @ newline
     @ ''  reload                            Trigger an in-process config reload'' @ newline
     @ ''  help, --help                      Show this help'' @ newline @ newline
     @ ''Staged changes write to {config_dir}/pending_config.json and only take effect'' @ newline
     @ ''after a daemon restart. '' @ [CHR 0x27] @ ''reload'' @ [CHR 0x27] @ '' applies certain fields without a restart.'' @ newline @ newline
     @ ''Settable fields (type): description'' @ newline
     @ ''  String fields:'' @ newline
     @ ''    api_key_hash         bcrypt hash ($2b$ prefix) for client auth; NULL = disabled'' @ newline
     @ ''    https_cert_path       Path to the HTTPS server certificate PEM'' @ newline
     @ ''    https_key_path        Path to the HTTPS server private key PEM'' @ newline
     @ ''    tcp_tls_cert_path     Path to the TCP transport TLS certificate PEM'' @ newline
     @ ''    tcp_tls_key_path      Path to the TCP transport TLS private key PEM'' @ newline
     @ ''    cache_dir             Block cache directory (restart only; prefer offs cache move)'' @ newline @ newline
     @ ''  Bool fields (set to true/false or 1/0):'' @ newline
     @ ''    http_enabled          Enable the HTTP server'' @ newline
     @ ''    https_enabled         Enable the HTTPS server'' @ newline
     @ ''    unix_enabled          Enable the Unix socket transport'' @ newline
     @ ''    tcp_enabled           Enable the raw TCP transport'' @ newline
     @ ''    ws_enabled             Enable the WebSocket transport'' @ newline
     @ ''    wt_enabled             Enable the WebTransport (QUIC) transport'' @ newline
     @ ''    tcp_tls_enabled       Enable TLS on the TCP transport'' @ newline @ newline
     @ ''  Number fields (integer):'' @ newline
     @ ''    cache_size            Number of block sections held in the in-memory round-robin'' @ newline
     @ ''    max_snapshots         Max snapshot files retained by the persistent index'' @ newline
     @ ''    max_wals              Max WAL files retained by the persistent index'' @ newline
     @ ''    max_capacity_bytes    Max bytes the block cache will hold (0 = disabled);'' @ newline
     @ ''                          the pre-flight PUT check rejects oversized uploads'' @ newline
     @ ''                          when this is > 0 and wired to block_cache_create'' @ newline
     @ ''    scheduler_thread_count  Worker threads in the scheduler pool (0 = auto)'' @ newline
     @ ''    http_port             TCP port for the HTTP server (0 = disabled)'' @ newline
     @ ''    https_port            TCP port for the HTTPS server (0 = disabled)'' @ newline
     @ ''    tcp_port              TCP port for the raw TCP transport (0 = disabled)'' @ newline
     @ ''    ws_port               TCP port for the WebSocket transport (0 = disabled)'' @ newline
     @ ''    wt_port               UDP port for the WebTransport (0 = disabled)'' @ newline"

definition BCRYPT_HASH_LEN :: nat where
  "BCRYPT_HASH_LEN = 60"

definition is_bcrypt_hash :: "string \<Rightarrow> bool" where
  "is_bcrypt_hash s \<longleftrightarrow> length s = BCRYPT_HASH_LEN \<and>
     s ! 0 = CHR ''$'' \<and> s ! 1 = CHR ''2'' \<and> (s ! 2 = CHR ''a'' \<or> s ! 2 = CHR ''b'' \<or> s ! 2 = CHR ''y'') \<and> s ! 3 = CHR ''$''"

section \<open>The exchanges\<close>

text \<open>The configuration as JSON text; \<open>None\<close> when it could not be had.\<close>

definition config_show_result :: "('c, 'j, 'm) config_api_scheme \<Rightarrow> 'c option \<Rightarrow> 's cli_st_scheme \<Rightarrow> string option \<times> 's cli_st_scheme" where
  "config_show_result api response st =
     (case response of
        None \<Rightarrow> (None, err_line L10N_DAEMON_UNREACHABLE st)
      | Some r \<Rightarrow>
          if get_type api r = CLIENT_API_CONFIG_SHOW_RESPONSE api
          then (case config_show_response_decode api r of Some json_data \<Rightarrow> (json_data, st) | None \<Rightarrow> (None, st))
          else (None, snd (cli_print_error_if api r st)))"

definition config_show :: "('c, 'j, 'm) config_api_scheme \<Rightarrow> 's cli_st_scheme \<Rightarrow> (string option \<times> 's cli_st_scheme) option" where
  "config_show api st = do {
     (response, st1) \<leftarrow> st_send api (Some (config_show_request_encode api)) st;
     Some (config_show_result api response st1)
   }"

text \<open>The answers to \<^verbatim>\<open>set\<close> and \<^verbatim>\<open>reload\<close> have the same shape: a status, and a message that replaces the
  default one.\<close>

definition verdict_report :: "('c, 'm) wire_scheme \<Rightarrow> u8 \<Rightarrow> ('c \<Rightarrow> (u8 \<times> string option) option) \<Rightarrow> string \<Rightarrow> string
    \<Rightarrow> 'c option \<Rightarrow> 's cli_st_scheme \<Rightarrow> int \<times> 's cli_st_scheme" where
  "verdict_report w response_type decode default_text what response st =
     (case response of
        None \<Rightarrow> (1, err_line L10N_DAEMON_UNREACHABLE st)
      | Some r \<Rightarrow>
          if get_type w r = response_type then
            (case decode r of
               Some (status, message) \<Rightarrow>
                 if status = 0 then (0, out_line (case message of Some m \<Rightarrow> m | None \<Rightarrow> default_text) st)
                 else (1, err_line (error_text (case message of Some m \<Rightarrow> m | None \<Rightarrow> L10N_CONFIG_REJECTED)) st)
             | None \<Rightarrow> (1, err_line (L10N_ERROR @ '': invalid config '' @ what @ '' response'') st))
          else (1, snd (cli_print_error_if w r st)))"

definition config_send_set :: "('c, 'j, 'm) config_api_scheme \<Rightarrow> string \<Rightarrow> string \<Rightarrow> 's cli_st_scheme \<Rightarrow> (int \<times> 's cli_st_scheme) option" where
  "config_send_set api field value =
     exchange api (Some (config_set_request_encode api field value))
       (verdict_report api (CLIENT_API_CONFIG_SET_RESPONSE api) (config_set_response_decode api) L10N_CONFIG_STAGED ''set'')"

definition config_cmd_show :: "('c, 'j, 'm) config_api_scheme \<Rightarrow> ('j, 'w) host \<Rightarrow> 's cli_st_scheme \<Rightarrow> (int \<times> 's cli_st_scheme) option" where
  "config_cmd_show api h st = do {
     (json_str, st1) \<leftarrow> config_show api st;
     Some (case json_str of None \<Rightarrow> (1, st1) | Some s \<Rightarrow> (0, print_json api h s st1))
   }"

definition config_cmd_get :: "('c, 'j, 'm) config_api_scheme \<Rightarrow> ('j, 'w) host \<Rightarrow> string \<Rightarrow> 's cli_st_scheme \<Rightarrow> (int \<times> 's cli_st_scheme) option" where
  "config_cmd_get api h field st = do {
     (json_str, st1) \<leftarrow> config_show api st;
     Some (case json_str of
         None \<Rightarrow> (1, st1)
       | Some s \<Rightarrow>
           (case cJSON_Parse h s of
              None \<Rightarrow> (1, err_line (L10N_ERROR @ '': invalid config response'') st1)
            | Some json \<Rightarrow>
                (case cJSON_GetObjectItem h json field of
                   None \<Rightarrow> (1, err_line (error_text L10N_CONFIG_NO_FIELD) st1)
                 | Some item \<Rightarrow> (0, out_line (cJSON_PrintUnformatted api item) st1))))
   }"

definition config_cmd_reload :: "('c, 'j, 'm) config_api_scheme \<Rightarrow> 's cli_st_scheme \<Rightarrow> (int \<times> 's cli_st_scheme) option" where
  "config_cmd_reload api =
     exchange api (Some (config_reload_request_encode api))
       (verdict_report api (CLIENT_API_CONFIG_RELOAD_RESPONSE api) (config_reload_response_decode api) L10N_CONFIG_RELOADING ''reload'')"

section \<open>The API key\<close>

datatype auth_scan = Auth_Help | Auth_Refused string | Auth_Cost int

fun scan_auth_args :: "string list \<Rightarrow> int \<Rightarrow> auth_scan" where
  "scan_auth_args [] cost = Auth_Cost cost"
| "scan_auth_args (x # rest) cost =
     (case (x = ''--cost'', rest) of
        (True, v # rest') \<Rightarrow>
          (case strtol 10 v of
             (parsed, end) \<Rightarrow>
               if end = v \<or> end \<noteq> [] \<or> parsed < 4 \<or> parsed > 31 then Auth_Refused L10N_CONFIG_BAD_COST
               else scan_auth_args rest' parsed)
      | _ \<Rightarrow> if x = ''--help'' then Auth_Help else Auth_Refused L10N_CONFIG_USAGE)"

definition config_generate_auth :: "('c, 'j, 'm) config_api_scheme \<Rightarrow> string list \<Rightarrow> 's cli_st_scheme \<Rightarrow> (int \<times> 's cli_st_scheme) option" where
  "config_generate_auth api argv st =
     (case argv of
        [] \<Rightarrow> Some (1, err_line L10N_CONFIG_USAGE st)
      | key # flags \<Rightarrow>
          (case scan_auth_args flags 12 of
             Auth_Help \<Rightarrow> Some (0, out_line L10N_CONFIG_USAGE st)
           | Auth_Refused message \<Rightarrow> Some (1, err_line message st)
           | Auth_Cost cost \<Rightarrow>
               (case bcrypt_generate api key cost of
                  None \<Rightarrow> Some (1, err_line L10N_CONFIG_HASH_FAILED st)
                | Some hash \<Rightarrow> config_send_set api ''api_key_hash'' hash (out_line hash st))))"

section \<open>The command\<close>

definition cmd_config :: "('c, 'j, 'm) config_api_scheme \<Rightarrow> ('j, 'w) host \<Rightarrow> string list \<Rightarrow> 's cli_st_scheme \<Rightarrow> (int \<times> 's cli_st_scheme) option" where
  "cmd_config api h argv st =
     (case argv of
        [] \<Rightarrow> Some (1, err_line L10N_CONFIG_USAGE st)
      | subcommand # rest \<Rightarrow>
          if subcommand = ''help'' \<or> subcommand = ''--help'' then Some (0, say (Out config_help) st)
          else if subcommand = ''show'' then config_cmd_show api h st
          else if subcommand = ''get'' then
            (case rest of [] \<Rightarrow> Some (1, err_line L10N_CONFIG_USAGE st) | field # _ \<Rightarrow> config_cmd_get api h field st)
          else if subcommand = ''set'' then
            (case rest of
               [] \<Rightarrow> Some (1, err_line L10N_CONFIG_USAGE st)
             | pair # _ \<Rightarrow>
                 (case dropWhile (\<lambda>c. c \<noteq> CHR ''='') pair of
                    [] \<Rightarrow> Some (1, err_line L10N_CONFIG_USAGE st)
                  | _ # value \<Rightarrow> config_send_set api (takeWhile (\<lambda>c. c \<noteq> CHR ''='') pair) value st))
          else if subcommand = ''add'' then
            (case rest of field # value # _ \<Rightarrow> config_send_set api field value st | _ \<Rightarrow> Some (1, err_line L10N_CONFIG_USAGE st))
          else if subcommand = ''remove'' then
            (case rest of [] \<Rightarrow> Some (1, err_line L10N_CONFIG_USAGE st) | field # _ \<Rightarrow> config_send_set api field ''null'' st)
          else if subcommand = ''set-auth'' then
            (case rest of
               [] \<Rightarrow> Some (1, err_line L10N_CONFIG_USAGE st)
             | hash # _ \<Rightarrow>
                 if \<not> is_bcrypt_hash hash then Some (1, err_line L10N_CONFIG_BAD_HASH st)
                 else config_send_set api ''api_key_hash'' hash st)
          else if subcommand = ''generate-auth'' then config_generate_auth api rest st
          else if subcommand = ''reload'' then config_cmd_reload api st
          else Some (1, err_line L10N_CONFIG_USAGE st))"

section \<open>The shared contract\<close>

definition verdict_accepted :: "('c, 'm) wire_scheme \<Rightarrow> u8 \<Rightarrow> ('c \<Rightarrow> (u8 \<times> string option) option) \<Rightarrow> 'c \<Rightarrow> bool" where
  "verdict_accepted w response_type decode r \<longleftrightarrow> get_type w r = response_type \<and> (\<exists>m. decode r = Some (0, m))"

lemma only_prints_error_if [simp]: "only_prints st (snd (cli_print_error_if w r st))"
  by (simp add: cli_print_error_if_def)

interpretation verdict: reporter w "verdict_report w response_type decode default_text what" "verdict_accepted w response_type decode"
  for w :: "('c, 'm) wire_scheme" and response_type decode default_text what
  by unfold_locales (auto simp: verdict_report_def verdict_accepted_def split: option.splits)
section \<open>Properties\<close>

text \<open>The three ways to stage a setting agree: \<^verbatim>\<open>set field=value\<close> does what \<^verbatim>\<open>add field value\<close> does, for every
  value (also one with equal signs) and every field name without one, and \<^verbatim>\<open>remove field\<close> stages the value
  \<^verbatim>\<open>null\<close>; \<^verbatim>\<open>set-auth\<close> of a well-formed hash is \<^verbatim>\<open>add api_key_hash\<close>.\<close>

theorem config_set_add:
  assumes "CHR ''='' \<notin> set field"
  shows "cmd_config api h [''set'', field @ ''='' @ value] st = cmd_config api h [''add'', field, value] st \<and>
    cmd_config api h [''remove'', field] st = cmd_config api h [''add'', field, ''null''] st \<and>
    (is_bcrypt_hash hash \<longrightarrow> cmd_config api h [''set-auth'', hash] st = cmd_config api h [''add'', ''api_key_hash'', hash] st)"
proof -
  have "dropWhile (\<lambda>c. c \<noteq> CHR ''='') (field @ ''='' @ value) = CHR ''='' # value"
    "takeWhile (\<lambda>c. c \<noteq> CHR ''='') (field @ ''='' @ value) = field"
    using assms by (induction field) auto
  then show ?thesis by (simp add: cmd_config_def)
qed

theorem config_set_add_witness:
  "(\<lambda>(api :: (nat, nat) config_api) (h :: (nat, nat) host). cmd_config api h [''set'', ''a=b=c''] \<lparr>client = None, log = []\<rparr>) =
   (\<lambda>api h. cmd_config api h [''add'', ''a'', ''b=c''] \<lparr>client = None, log = []\<rparr>)"
  using config_set_add [of "''a''" _ _ "''b=c''" "\<lparr>client = None, log = []\<rparr>"] by (auto simp: fun_eq_iff)

lemma scan_auth_cost: "scan_auth_args flags c0 = Auth_Cost cost \<Longrightarrow> 4 \<le> c0 \<Longrightarrow> c0 \<le> 31 \<Longrightarrow> 4 \<le> cost \<and> cost \<le> 31"
  by (induction flags c0 rule: scan_auth_args.induct)
    (auto split: bool.splits list.splits prod.splits if_splits)

lemma scan_auth_help: "scan_auth_args flags c0 = Auth_Help \<Longrightarrow> ''--help'' \<in> set flags"
  by (induction flags c0 rule: scan_auth_args.induct)
    (auto split: bool.splits list.splits prod.splits if_splits)

text \<open>C34. \<^verbatim>\<open>offs config generate-auth\<close> keeps the key to itself: when it succeeds, the only thing that went to the
  daemon is a request to set \<^verbatim>\<open>api_key_hash\<close> to a bcrypt hash of the key, of a cost between 4 and 31, and a key
  with the same hashes would have left the same connection and the same output behind.\<close>

theorem generate_auth_sends_hash:
  assumes "cmd_config api h (''generate-auth'' # key # flags) st = Some (0, st')" and "''--help'' \<notin> set flags"
  shows "\<exists>cost hash. 4 \<le> cost \<and> cost \<le> 31 \<and> bcrypt_generate api key cost = Some hash \<and>
    sent_bytes st' = sent_bytes st @ framed api (config_set_request_encode api ''api_key_hash'' hash) \<and>
    (\<forall>key'. bcrypt_generate api key' = bcrypt_generate api key \<longrightarrow>
       cmd_config api h (''generate-auth'' # key' # flags) st = Some (0, st'))"
proof -
  have gen: "cmd_config api h (''generate-auth'' # k # flags) st = config_generate_auth api (k # flags) st" for k
    by (simp add: cmd_config_def)
  from assms obtain cost hash where c: "scan_auth_args flags 12 = Auth_Cost cost" "bcrypt_generate api key cost = Some hash"
    and s: "config_send_set api ''api_key_hash'' hash (out_line hash st) = Some (0, st')"
    by (auto simp: gen config_generate_auth_def dest: scan_auth_help split: auth_scan.splits option.splits)
  from s have "sent_bytes st' = sent_bytes (out_line hash st) @ framed api (config_set_request_encode api ''api_key_hash'' hash)"
    unfolding config_send_set_def by (auto elim: verdict.success)
  moreover have "\<forall>key'. bcrypt_generate api key' = bcrypt_generate api key \<longrightarrow> cmd_config api h (''generate-auth'' # key' # flags) st = Some (0, st')"
    using s c by (simp add: gen config_generate_auth_def)
  ultimately show ?thesis using scan_auth_cost [OF c(1)] c(2) by auto
qed

text \<open>A small instance: frames are byte lists, the first byte is the type.\<close>

definition demo_config :: "(byte list, nat) config_api" where
  "demo_config = \<lparr>cbor_serialize = (\<lambda>x. x), stream_frame_encode = (\<lambda>b. Some (be32 (length b) @ b)), cbor_load = Some,
     get_type = hd, CLIENT_API_ERROR = 9, error_decode = (\<lambda>_. None), CLIENT_API_STATUS_OK = 0, CLIENT_API_STATUS_NOT_FOUND = 1,
     CLIENT_API_STATUS_CONFLICT = 2, CLIENT_API_STATUS_BAD_REQUEST = 3, CLIENT_API_STATUS_INTERNAL_ERROR = 4,
     health_request_encode = [1], CLIENT_API_HEALTH_RESPONSE = 2, health_response_decode = (\<lambda>_. None),
     update_status_request_encode = [3], CLIENT_API_UPDATE_STATUS_RESPONSE = 4, update_status_response_decode = (\<lambda>_. None),
     cJSON_Print = dec_nat, print_hours = (\<lambda>_. ''1''), config_show_request_encode = [5], CLIENT_API_CONFIG_SHOW_RESPONSE = 6,
     config_show_response_decode = (\<lambda>_. None), config_set_request_encode = (\<lambda>f v. 7 # bytes_of v), CLIENT_API_CONFIG_SET_RESPONSE = 8,
     config_set_response_decode = (\<lambda>r. Some (last r, None)), config_reload_request_encode = [10], CLIENT_API_CONFIG_RELOAD_RESPONSE = 11,
     config_reload_response_decode = (\<lambda>_. None), cJSON_PrintUnformatted = dec_nat, bcrypt_generate = (\<lambda>key cost. Some ''hash'')\<rparr>"

definition demo_json :: "(nat, nat) host" where
  "demo_json = \<lparr>cJSON_Parse = (\<lambda>_. None), cJSON_GetObjectItem = (\<lambda>_ _. None), cj_string = (\<lambda>_. None), cj_number = (\<lambda>_. None),
     cj_bool = (\<lambda>_. None), read_file = (\<lambda>_ _. None), offs_default_config_path_get = (\<lambda>_. None), offs_default_dirs_get = (\<lambda>_. None),
     config_pending_load = (\<lambda>_ _. None), cast_out_of_range = (\<lambda>_ _. 0)\<rparr>"

lemma demo_config_plain [simp]: "plain_codec demo_config"
  by (simp add: plain_codec_def demo_config_def)

theorem generate_auth_sends_hash_witness:
  "\<exists>st'. cmd_config demo_config demo_json [''generate-auth'', ''key'', ''--cost'', ''5''] (demo_session 1 [Avail [0, 0, 0, 2, 8, 0]] []) = Some (0, st') \<and>
     (\<exists>cost hash. 4 \<le> cost \<and> cost \<le> 31 \<and> bcrypt_generate demo_config ''key'' cost = Some hash \<and>
        sent_bytes st' = sent_bytes (demo_session 1 [Avail [0, 0, 0, 2, 8, 0]] []) @ framed demo_config (config_set_request_encode demo_config ''api_key_hash'' hash))"
proof -
  let ?st = "demo_session 1 [Avail [0, 0, 0, 2, 8, 0]] []"
  have fields: "config_set_request_encode demo_config f v = 7 # bytes_of v" "get_type demo_config [8, 0] = 8" "CLIENT_API_CONFIG_SET_RESPONSE demo_config = 8"
    "config_set_response_decode demo_config [8, 0] = Some (0, None)" "bcrypt_generate demo_config key c = Some ''hash''" for f v key c
    by (simp_all add: demo_config_def)
  have scan: "scan_auth_args [''--cost'', ''5''] 12 = Auth_Cost 5" by code_simp
  have say: "st_send demo_config f (out_line s (demo_session n evs w)) =
      map_option (\<lambda>(r, st1). (r, st1\<lparr>log := [Out (nl s)]\<rparr>)) (st_send demo_config f (demo_session n evs w))" for f s n evs w
    by (auto simp: st_send_def out_line_def say_def demo_session_def split: bind_splits)
  have "\<exists>st'. cmd_config demo_config demo_json [''generate-auth'', ''key'', ''--cost'', ''5''] ?st = Some (0, st')"
    by (simp add: cmd_config_def config_generate_auth_def scan fields config_send_set_def exchange_def say demo_exchange bytes_of_def verdict_report_def
        del: scan_auth_args.simps)
  then obtain st' where run: "cmd_config demo_config demo_json [''generate-auth'', ''key'', ''--cost'', ''5''] ?st = Some (0, st')" ..
  from generate_auth_sends_hash [OF run] run show ?thesis by auto
qed

end
