(* ===== verification/Peers.thy ===== *)
theory Peers
  imports Requests File_Transfer
begin

text \<open>
  The commands on peers: \<^verbatim>\<open>offs peer\<close>, \<^verbatim>\<open>offs friend\<close> and \<^verbatim>\<open>offs bootstrap\<close>
  (\<^verbatim>\<open>src/src/offs/commands/peer.c\<close>, \<^verbatim>\<open>friend.c\<close>, \<^verbatim>\<open>bootstrap.c\<close>), with the reading of QR images they share.
\<close>

section \<open>The messages\<close>

text \<open>The lists of peers and friends are used for their length only; an entry of the bootstrap list is a
  CBOR item, seen through the access functions of libcbor.\<close>

record 'c peer_api = "'c wire" +
  peer_info_request_encode_format :: "u8 \<Rightarrow> 'c option"
  CLIENT_API_PEER_INFO_RESPONSE :: u8
  peer_info_response_decode :: "'c \<Rightarrow> byte list option"
  base58_encode :: "byte list \<Rightarrow> string option" \<comment> \<open>\<open>None\<close> when no character was produced\<close>
  peer_list_request_encode :: 'c
  CLIENT_API_PEER_LIST_RESPONSE :: u8
  peer_list_response_decode :: "'c \<Rightarrow> nat option option"
  peer_connect_encode :: "u8 \<Rightarrow> byte list \<Rightarrow> 'c option"
  friend_add_encode :: "u8 \<Rightarrow> byte list \<Rightarrow> 'c option"
  friend_remove_encode :: "byte list \<Rightarrow> 'c"
  friend_list_request_encode :: 'c
  CLIENT_API_FRIEND_LIST_RESPONSE :: u8
  friend_list_response_decode :: "'c \<Rightarrow> nat option option"
  bootstrap_add_encode :: "string \<Rightarrow> 'c option"
  bootstrap_remove_encode :: "string \<Rightarrow> 'c option"
  CLIENT_API_PEER_CONNECT_RESULT :: u8
  peer_connect_result_decode :: "'c \<Rightarrow> u8 option"
  bootstrap_list_request_encode :: 'c
  CLIENT_API_BOOTSTRAP_LIST_RESPONSE :: u8
  bootstrap_list_response_decode :: "'c \<Rightarrow> 'c option option" \<comment> \<open>the member \<^verbatim>\<open>entries\<close>, which may be null\<close>
  CLIENT_API_BOOTSTRAP_SOURCE_CONFIG :: u8
  cbor_elements :: "'c \<Rightarrow> 'c list option" \<comment> \<open>\<open>None\<close> when the item is not an array\<close>
  cbor_text :: "'c \<Rightarrow> string option" \<comment> \<open>\<open>None\<close> when the item is not a string\<close>
  cbor_isa_uint :: "'c \<Rightarrow> bool"
  cbor_get_uint8 :: "'c \<Rightarrow> u8"
  cbor_get_uint16 :: "'c \<Rightarrow> u16"
  endpoint_host_header :: "string \<Rightarrow> u16 \<Rightarrow> nat \<Rightarrow> string option"

section \<open>Reading a QR image\<close>

datatype read_result = READ_FILE_OK "byte list" | READ_FILE_IO_ERROR string | READ_FILE_EMPTY | READ_FILE_TOO_LARGE

definition QR_FILE_MAX_BYTES :: nat where
  "QR_FILE_MAX_BYTES = 2 * 1024 * 1024"

text \<open>The I/O errors carry the text handed to \<^verbatim>\<open>perror\<close>: the path when \<^verbatim>\<open>fopen\<close> fails, else the name of the call.\<close>

definition read_file_contents :: "string \<Rightarrow> input_file \<Rightarrow> read_result" where
  "read_file_contents path f =
     (case in_failure f of
        Some call \<Rightarrow> READ_FILE_IO_ERROR (if call = ''fopen'' then path else call)
      | None \<Rightarrow>
          if in_size f = 0 then READ_FILE_EMPTY
          else if in_size f > QR_FILE_MAX_BYTES then READ_FILE_TOO_LARGE
          else if length (take (in_size f) (in_bytes f)) \<noteq> in_size f then READ_FILE_IO_ERROR ''fread''
          else READ_FILE_OK (take (in_size f) (in_bytes f)))"

text \<open>The payload of \<^verbatim>\<open>peer connect\<close> and \<^verbatim>\<open>friend add\<close>: the text argument in the command's own format, or an
  image in format 2; on failure the result is 1 and the message is printed.\<close>

definition payload :: "(string \<Rightarrow> input_file) \<Rightarrow> u8 \<Rightarrow> string \<Rightarrow> string list \<Rightarrow> 's cli_st_scheme
    \<Rightarrow> (u8 \<times> byte list) option \<times> 's cli_st_scheme" where
  "payload files text_format usage args st =
     (case args of
        [] \<Rightarrow> (None, err_line usage st)
      | x # rest \<Rightarrow>
          if x = ''--qr'' then
            (case rest of
               [] \<Rightarrow> (None, err_line usage st)
             | path # _ \<Rightarrow>
                 (case read_file_contents path (files path) of
                    READ_FILE_EMPTY \<Rightarrow> (None, err_line L10N_PUT_EMPTY_FILE st)
                  | READ_FILE_TOO_LARGE \<Rightarrow> (None, err_line (path @ '': '' @ L10N_FILE_TOO_LARGE) st)
                  | READ_FILE_IO_ERROR call \<Rightarrow> (None, say (Perror call) st)
                  | READ_FILE_OK d \<Rightarrow> (Some (2, d), st)))
          else (Some (text_format, bytes_of x), st))"

text \<open>Both commands, and the removal of a friend, take every answer but an error frame for a success.\<close>

definition ack_report :: "('c, 'm) wire_scheme \<Rightarrow> 'c option \<Rightarrow> 's cli_st_scheme \<Rightarrow> int \<times> 's cli_st_scheme" where
  "ack_report w response st =
     (case response of
        None \<Rightarrow> (1, err_line L10N_DAEMON_UNREACHABLE st)
      | Some r \<Rightarrow>
          if get_type w r = CLIENT_API_ERROR w then (1, print_error_frame w r st)
          else (0, out_line L10N_OK st))"

definition send_payload :: "('c, 'm) peer_api_scheme \<Rightarrow> (u8 \<Rightarrow> byte list \<Rightarrow> 'c option)
    \<Rightarrow> (u8 \<times> byte list) option \<times> 's cli_st_scheme \<Rightarrow> (int \<times> 's cli_st_scheme) option" where
  "send_payload api encode p =
     (case p of
        (None, st) \<Rightarrow> Some (1, st)
      | (Some (format, d), st) \<Rightarrow>
          (case encode format d of
             None \<Rightarrow> Some (1, err_line L10N_ERROR st)
           | Some request \<Rightarrow> exchange api (Some request) (ack_report api) st))"

text \<open>The answers to the two list requests; whatever happens, the command returns 0.\<close>

definition count_report :: "('c, 'm) wire_scheme \<Rightarrow> u8 \<Rightarrow> ('c \<Rightarrow> nat option option) \<Rightarrow> string \<Rightarrow> string
    \<Rightarrow> 'c option \<Rightarrow> 's cli_st_scheme \<Rightarrow> int \<times> 's cli_st_scheme" where
  "count_report w response_type decode prompt noun response st =
     (0, case response of
           None \<Rightarrow> st
         | Some r \<Rightarrow>
             if get_type w r = response_type then
               (case decode r of
                  None \<Rightarrow> st
                | Some None \<Rightarrow> out_line prompt st
                | Some (Some n) \<Rightarrow> out_line (''  '' @ dec_nat n @ '' '' @ noun @ ''(s)'') (out_line prompt st))
             else st)"

section \<open>\<^verbatim>\<open>offs peer\<close>\<close>

text \<open>The arguments of \<^verbatim>\<open>peer info\<close>: \<open>None\<close> for an unknown one, else the path of the image if one is wanted.\<close>

fun scan_info_args :: "string list \<Rightarrow> string option \<Rightarrow> string option option" where
  "scan_info_args [] qr_path = Some qr_path"
| "scan_info_args [x] qr_path = None"
| "scan_info_args (x # v # rest) qr_path = (if x = ''--qr'' then scan_info_args rest (Some v) else None)"

definition peer_info_print :: "('c, 'm) peer_api_scheme \<Rightarrow> (string \<Rightarrow> output_file option) \<Rightarrow> string option \<Rightarrow> byte list
    \<Rightarrow> 's cli_st_scheme \<Rightarrow> int \<times> output_file option \<times> 's cli_st_scheme" where
  "peer_info_print api opener qr_path d st =
     (case qr_path of
        Some path \<Rightarrow>
          (case opener path of
             None \<Rightarrow> (1, None, say (Perror path) st)
           | Some out \<Rightarrow>
               (let (written, out1) = fwrite d out in
                if written < length d
                then (1, Some out1, err_line (L10N_ERROR @ '': short write ('' @ dec_nat written @ ''/'' @ dec_nat (length d) @ '' bytes)'') st)
                else (0, Some out1, st)))
      | None \<Rightarrow>
          (case base58_encode api d of
             Some b58 \<Rightarrow> (0, None, out_line (''  Data: '' @ b58) (out_line L10N_PEER_INFO_PROMPT st))
           | None \<Rightarrow> (1, None, err_line L10N_ERROR st)))"

definition peer_info :: "('c, 'm) peer_api_scheme \<Rightarrow> (string \<Rightarrow> output_file option) \<Rightarrow> string list \<Rightarrow> 's cli_st_scheme
    \<Rightarrow> (int \<times> output_file option \<times> 's cli_st_scheme) option" where
  "peer_info api opener args st =
     (case scan_info_args args None of
        None \<Rightarrow> Some (1, None, err_line L10N_PEER_INFO_USAGE st)
      | Some qr_path \<Rightarrow>
          (case peer_info_request_encode_format api (if qr_path = None then 0 else 2) of
             None \<Rightarrow> Some (1, None, err_line L10N_ERROR st)
           | Some request \<Rightarrow> do {
               (response, st1) \<leftarrow> st_send api (Some request) st;
               Some (case response of
                   None \<Rightarrow> (1, None, err_line L10N_DAEMON_UNREACHABLE st1)
                 | Some r \<Rightarrow>
                     if get_type api r = CLIENT_API_ERROR api then (1, None, print_error_frame api r st1)
                     else if get_type api r \<noteq> CLIENT_API_PEER_INFO_RESPONSE api
                     then (1, None, err_line (unexpected_type (get_type api r)) st1)
                     else (case peer_info_response_decode api r of
                         None \<Rightarrow> (1, None, err_line L10N_PEER_INFO_DECODE st1)
                       | Some d \<Rightarrow> peer_info_print api opener qr_path d st1))
             }))"

definition peer_usage :: string where
  "peer_usage = ''Usage: offs peer <info|list|connect> ...''"

definition no_output :: "(int \<times> 's) option \<Rightarrow> (int \<times> output_file option \<times> 's) option" where
  "no_output = map_option (\<lambda>(rc, st). (rc, None, st))"

definition cmd_peer :: "('c, 'm) peer_api_scheme \<Rightarrow> (string \<Rightarrow> output_file option) \<Rightarrow> (string \<Rightarrow> input_file) \<Rightarrow> string list
    \<Rightarrow> 's cli_st_scheme \<Rightarrow> (int \<times> output_file option \<times> 's cli_st_scheme) option" where
  "cmd_peer api opener files argv st =
     (case argv of
        [] \<Rightarrow> Some (1, None, out_line peer_usage st)
      | subcommand # rest \<Rightarrow>
          if subcommand = ''info'' then peer_info api opener rest st
          else if subcommand = ''list'' then
            no_output (exchange api (Some (peer_list_request_encode api))
              (count_report api (CLIENT_API_PEER_LIST_RESPONSE api) (peer_list_response_decode api) L10N_PEER_LIST_PROMPT ''peer'') st)
          else if subcommand = ''connect'' then
            no_output (send_payload api (peer_connect_encode api) (payload files 1 L10N_PEER_CONNECT_USAGE rest st))
          else Some (1, None, out_line peer_usage st))"

section \<open>\<^verbatim>\<open>offs friend\<close>\<close>

definition friend_usage :: string where
  "friend_usage = ''Usage: offs friend <add|remove|list> ...''"

definition cmd_friend :: "('c, 'm) peer_api_scheme \<Rightarrow> (string \<Rightarrow> input_file) \<Rightarrow> string list \<Rightarrow> 's cli_st_scheme \<Rightarrow> (int \<times> 's cli_st_scheme) option" where
  "cmd_friend api files argv st =
     (case argv of
        [] \<Rightarrow> Some (1, out_line friend_usage st)
      | subcommand # rest \<Rightarrow>
          if subcommand = ''add'' then send_payload api (friend_add_encode api) (payload files 0 L10N_FRIEND_ADD_USAGE rest st)
          else if subcommand = ''remove'' then
            (case rest of
               [] \<Rightarrow> Some (1, err_line L10N_FRIEND_REMOVE_USAGE st)
             | node_id # _ \<Rightarrow> exchange api (Some (friend_remove_encode api (bytes_of node_id))) (ack_report api) st)
          else if subcommand = ''list'' then
            exchange api (Some (friend_list_request_encode api))
              (count_report api (CLIENT_API_FRIEND_LIST_RESPONSE api) (friend_list_response_decode api) L10N_FRIEND_LIST_PROMPT ''friend'') st
          else Some (1, out_line friend_usage st))"

section \<open>\<^verbatim>\<open>offs bootstrap\<close>\<close>

definition bootstrap_report :: "('c, 'm) peer_api_scheme \<Rightarrow> bool \<Rightarrow> 'c option \<Rightarrow> 's cli_st_scheme \<Rightarrow> int \<times> 's cli_st_scheme" where
  "bootstrap_report api is_remove response st =
     (case response of
        None \<Rightarrow> (1, err_line L10N_DAEMON_UNREACHABLE st)
      | Some r \<Rightarrow>
          if get_type api r = CLIENT_API_ERROR api then (1, print_error_or_word api r st)
          else if get_type api r = CLIENT_API_PEER_CONNECT_RESULT api then
            (case peer_connect_result_decode api r of
               None \<Rightarrow> (1, err_line L10N_ERROR st)
             | Some status \<Rightarrow>
                 if status = CLIENT_API_STATUS_OK api then (0, out_line L10N_OK st)
                 else if status = CLIENT_API_STATUS_CONFLICT api
                 then (1, err_line (if is_remove then L10N_BOOTSTRAP_REMOVE_CONFLICT else L10N_BOOTSTRAP_CONFLICT) st)
                 else if status = CLIENT_API_STATUS_NOT_FOUND api then (1, err_line L10N_BOOTSTRAP_NOT_FOUND st)
                 else if status = CLIENT_API_STATUS_BAD_REQUEST api then (1, err_line L10N_BOOTSTRAP_BAD_ENDPOINT st)
                 else if status = CLIENT_API_STATUS_INTERNAL_ERROR api then (1, err_line L10N_ERROR st)
                 else (1, err_line (L10N_ERROR @ '': status '' @ dec_nat (unat status)) st))
          else (1, err_line (unexpected_type (get_type api r)) st))"

definition bootstrap_send_and_report :: "('c, 'm) peer_api_scheme \<Rightarrow> 'c option \<Rightarrow> bool \<Rightarrow> 's cli_st_scheme \<Rightarrow> (int \<times> 's cli_st_scheme) option" where
  "bootstrap_send_and_report api request is_remove st =
     (if request = None then Some (1, err_line L10N_ERROR st)
      else exchange api request (bootstrap_report api is_remove) st)"

text \<open>The line for one entry, if it is well formed. The host is copied into a buffer of 256 bytes.\<close>

definition bootstrap_entry :: "('c, 'm) peer_api_scheme \<Rightarrow> 'c \<Rightarrow> string option" where
  "bootstrap_entry api entry =
     (case cbor_elements api entry of
        Some (host_item # port_item # source_item # _) \<Rightarrow>
          (case cbor_text api host_item of
             Some host \<Rightarrow>
               if host \<noteq> [] \<and> cbor_isa_uint api port_item \<and> cbor_isa_uint api source_item then
                 map_option (\<lambda>shown. ''  '' @ shown @ '' ('' @
                     (if cbor_get_uint8 api source_item = CLIENT_API_BOOTSTRAP_SOURCE_CONFIG api then ''config'' else ''managed'') @ '')'')
                   (endpoint_host_header api (c_string_of (c_buf 256 host)) (cbor_get_uint16 api port_item) 280)
               else None
           | None \<Rightarrow> None)
      | _ \<Rightarrow> None)"

definition bootstrap_print_entry :: "('c, 'm) peer_api_scheme \<Rightarrow> 'c \<Rightarrow> 's cli_st_scheme \<Rightarrow> 's cli_st_scheme" where
  "bootstrap_print_entry api entry st = (case bootstrap_entry api entry of Some s \<Rightarrow> out_line s st | None \<Rightarrow> st)"

definition bootstrap_list_report :: "('c, 'm) peer_api_scheme \<Rightarrow> 'c option \<Rightarrow> 's cli_st_scheme \<Rightarrow> int \<times> 's cli_st_scheme" where
  "bootstrap_list_report api response st =
     (case response of
        None \<Rightarrow> (1, err_line L10N_DAEMON_UNREACHABLE st)
      | Some r \<Rightarrow>
          if get_type api r = CLIENT_API_ERROR api then (1, print_error_or_word api r st)
          else if get_type api r = CLIENT_API_BOOTSTRAP_LIST_RESPONSE api then
            (case bootstrap_list_response_decode api r of
               None \<Rightarrow> (1, err_line L10N_ERROR st)
             | Some entries \<Rightarrow>
                 (0, foldl (\<lambda>s e. bootstrap_print_entry api e s) (out_line L10N_BOOTSTRAP_LIST_PROMPT st)
                   (case Option.bind entries (cbor_elements api) of Some es \<Rightarrow> es | None \<Rightarrow> [])))
          else (1, err_line (unexpected_type (get_type api r)) st))"

definition bootstrap_usage :: string where
  "bootstrap_usage = ''Usage: offs bootstrap <add|remove|list> ...''"

definition cmd_bootstrap :: "('c, 'm) peer_api_scheme \<Rightarrow> string list \<Rightarrow> 's cli_st_scheme \<Rightarrow> (int \<times> 's cli_st_scheme) option" where
  "cmd_bootstrap api argv st =
     (case argv of
        [] \<Rightarrow> Some (1, out_line bootstrap_usage st)
      | subcommand # rest \<Rightarrow>
          if subcommand = ''add'' then
            (case rest of
               [] \<Rightarrow> Some (1, err_line L10N_BOOTSTRAP_ADD_USAGE st)
             | endpoint # _ \<Rightarrow> bootstrap_send_and_report api (bootstrap_add_encode api endpoint) False st)
          else if subcommand = ''remove'' then
            (case rest of
               [] \<Rightarrow> Some (1, err_line L10N_BOOTSTRAP_REMOVE_USAGE st)
             | endpoint # _ \<Rightarrow> bootstrap_send_and_report api (bootstrap_remove_encode api endpoint) True st)
          else if subcommand = ''list'' then exchange api (Some (bootstrap_list_request_encode api)) (bootstrap_list_report api) st
          else Some (1, out_line bootstrap_usage st))"
section \<open>The shared contract\<close>

definition ack_accepted :: "('c, 'm) wire_scheme \<Rightarrow> 'c \<Rightarrow> bool" where
  "ack_accepted w r \<longleftrightarrow> get_type w r \<noteq> CLIENT_API_ERROR w"

definition bootstrap_accepted :: "('c, 'm) peer_api_scheme \<Rightarrow> 'c \<Rightarrow> bool" where
  "bootstrap_accepted api r \<longleftrightarrow> get_type api r \<noteq> CLIENT_API_ERROR api \<and> get_type api r = CLIENT_API_PEER_CONNECT_RESULT api \<and>
     peer_connect_result_decode api r = Some (CLIENT_API_STATUS_OK api)"

definition bootstrap_list_accepted :: "('c, 'm) peer_api_scheme \<Rightarrow> 'c \<Rightarrow> bool" where
  "bootstrap_list_accepted api r \<longleftrightarrow> get_type api r \<noteq> CLIENT_API_ERROR api \<and> get_type api r = CLIENT_API_BOOTSTRAP_LIST_RESPONSE api \<and>
     bootstrap_list_response_decode api r \<noteq> None"

lemma only_prints_entries [simp]:
  "only_prints st st' \<Longrightarrow> only_prints st (foldl (\<lambda>s e. bootstrap_print_entry api e s) st' es)"
  by (induction es arbitrary: st') (simp_all add: bootstrap_print_entry_def split: option.split)

interpretation ack: error_reporter w "ack_report w" "ack_accepted w"
  for w :: "('c, 'm) wire_scheme"
  by unfold_locales (auto simp: ack_report_def ack_accepted_def split: option.splits)

interpretation boot: error_reporter api "bootstrap_report api is_remove" "bootstrap_accepted api"
  for api :: "('c, 'm) peer_api_scheme" and is_remove
  by unfold_locales (auto simp: bootstrap_report_def bootstrap_accepted_def split: option.splits)

interpretation boot_loud: loud_reporter api "bootstrap_report api is_remove" "bootstrap_accepted api"
  for api :: "('c, 'm) peer_api_scheme" and is_remove
  by unfold_locales
    (auto simp: bootstrap_report_def print_error_or_word_def split: option.splits if_splits)

interpretation boots: error_reporter api "bootstrap_list_report api" "bootstrap_list_accepted api"
  for api :: "('c, 'm) peer_api_scheme"
  by unfold_locales (auto simp: bootstrap_list_report_def bootstrap_list_accepted_def split: option.splits)

interpretation boots_loud: loud_reporter api "bootstrap_list_report api" "bootstrap_list_accepted api"
  for api :: "('c, 'm) peer_api_scheme"
  by unfold_locales
    (auto simp: bootstrap_list_report_def print_error_or_word_def split: option.splits if_splits)

section \<open>Properties\<close>

text \<open>A file is used only if it was read whole and fits the limit.\<close>

lemma read_file_contents_OK:
  "read_file_contents path f = READ_FILE_OK d \<longleftrightarrow>
     in_failure f = None \<and> d = take (in_size f) (in_bytes f) \<and> length d = in_size f \<and> 0 < in_size f \<and> in_size f \<le> 2 * 1024 * 1024"
  by (auto simp: read_file_contents_def QR_FILE_MAX_BYTES_def split: option.splits)

lemma cmd_bootstrap_cases:
  assumes "cmd_bootstrap api argv st = Some (rc, st')"
  obtains (usage) s where "rc = 1" "st' = out_line s st \<or> st' = err_line s st"
    | (edit) request is_remove where "exchange api request (bootstrap_report api is_remove) st = Some (rc, st')"
    | (listing) request where "exchange api request (bootstrap_list_report api) st = Some (rc, st')"
  using assms by (auto simp: cmd_bootstrap_def bootstrap_send_and_report_def split: list.splits if_splits)

text \<open>\<^verbatim>\<open>offs bootstrap\<close> never fails silently: when it exits with a status other than 0, a message went to
  standard error or, for a wrong subcommand, the usage to standard output; and it exits with 0 only after the
  request was sent whole and answered, not by an error frame.\<close>

theorem bootstrap_explained:
  assumes "cmd_bootstrap api argv st = Some (rc, st')"
  shows "(rc \<noteq> 0 \<longrightarrow> (\<exists>s. Err s \<in> set (log st') \<or> Out s \<in> set (log st'))) \<and>
    (rc = 0 \<longrightarrow> (\<exists>f r st1. st_send api (Some f) st = Some (Some r, st1) \<and> get_type api r \<noteq> CLIENT_API_ERROR api \<and>
       sent_bytes st' = sent_bytes st @ framed api f))"
  using assms
proof (cases rule: cmd_bootstrap_cases)
  case (usage s)
  then show ?thesis by (auto simp: out_line_def err_line_def)
next
  case (edit request is_remove)
  then show ?thesis
    using boot_loud.failure_explained [OF edit] boot.success [of api request is_remove st st'] boot.error_frame [of api]
    by (cases "rc = 0") (simp, metis, blast)
next
  case (listing request)
  then show ?thesis
    using boots_loud.failure_explained [OF listing] boots.success [of api request st st'] boots.error_frame [of api]
    by (cases "rc = 0") (simp, metis, blast)
qed
definition demo_peers :: "byte list peer_api" where
  "demo_peers = \<lparr>cbor_serialize = (\<lambda>x. x), stream_frame_encode = (\<lambda>b. Some (be32 (length b) @ b)), cbor_load = Some,
     get_type = hd, CLIENT_API_ERROR = 9, error_decode = (\<lambda>_. None), CLIENT_API_STATUS_OK = 0, CLIENT_API_STATUS_NOT_FOUND = 1,
     CLIENT_API_STATUS_CONFLICT = 2, CLIENT_API_STATUS_BAD_REQUEST = 3, CLIENT_API_STATUS_INTERNAL_ERROR = 4,
     peer_info_request_encode_format = (\<lambda>_. Some [1]), CLIENT_API_PEER_INFO_RESPONSE = 2, peer_info_response_decode = (\<lambda>r. Some (tl r)),
     base58_encode = (\<lambda>d. Some (text_of d)), peer_list_request_encode = [3], CLIENT_API_PEER_LIST_RESPONSE = 4,
     peer_list_response_decode = (\<lambda>_. None), peer_connect_encode = (\<lambda>_ _. Some [5]), friend_add_encode = (\<lambda>_ _. Some [6]),
     friend_remove_encode = (\<lambda>_. [7]), friend_list_request_encode = [8], CLIENT_API_FRIEND_LIST_RESPONSE = 10,
     friend_list_response_decode = (\<lambda>_. None), bootstrap_add_encode = (\<lambda>_. Some [11]), bootstrap_remove_encode = (\<lambda>_. Some [12]),
     CLIENT_API_PEER_CONNECT_RESULT = 13, peer_connect_result_decode = (\<lambda>r. Some (last r)), bootstrap_list_request_encode = [14],
     CLIENT_API_BOOTSTRAP_LIST_RESPONSE = 15, bootstrap_list_response_decode = (\<lambda>_. Some None), CLIENT_API_BOOTSTRAP_SOURCE_CONFIG = 0,
     cbor_elements = (\<lambda>_. None), cbor_text = (\<lambda>_. None), cbor_isa_uint = (\<lambda>_. False), cbor_get_uint8 = (\<lambda>_. 0),
     cbor_get_uint16 = (\<lambda>_. 0), endpoint_host_header = (\<lambda>_ _ _. None)\<rparr>"

lemma demo_peers_plain [simp]: "plain_codec demo_peers"
  by (simp add: plain_codec_def demo_peers_def)

theorem bootstrap_explained_witness:
  "\<exists>st'. cmd_bootstrap demo_peers [''add'', ''h:1''] (demo_session 1 [Avail [0, 0, 0, 2, 13, 0]] []) = Some (0, st') \<and>
     (\<exists>f r st1. st_send demo_peers (Some f) (demo_session 1 [Avail [0, 0, 0, 2, 13, 0]] []) = Some (Some r, st1) \<and>
        get_type demo_peers r \<noteq> CLIENT_API_ERROR demo_peers \<and>
        sent_bytes st' = sent_bytes (demo_session 1 [Avail [0, 0, 0, 2, 13, 0]] []) @ framed demo_peers f)"
proof -
  let ?st = "demo_session 1 [Avail [0, 0, 0, 2, 13, 0]] []"
  have fields: "bootstrap_add_encode demo_peers e = Some [11]" "get_type demo_peers [13, 0] = 13" "CLIENT_API_ERROR demo_peers = 9"
    "CLIENT_API_PEER_CONNECT_RESULT demo_peers = 13" "peer_connect_result_decode demo_peers [13, 0] = Some 0" "CLIENT_API_STATUS_OK demo_peers = 0"
    for e by (simp_all add: demo_peers_def)
  have run: "cmd_bootstrap demo_peers [''add'', ''h:1''] ?st = Some (0, out_line L10N_OK (demo_session 0 [] (be32 1 @ [11])))"
    by (simp add: cmd_bootstrap_def bootstrap_send_and_report_def exchange_def fields demo_exchange bootstrap_report_def)
  show ?thesis by (rule exI, rule conjI [OF run conjunct2 [OF bootstrap_explained [OF run], THEN mp, OF refl]])
qed

end
