(* ===== verification/Blocks.thy ===== *)
theory Blocks
  imports Requests
begin

text \<open>
  The commands on single blocks and on the blocks of a representation: \<^verbatim>\<open>offs block\<close>, \<^verbatim>\<open>offs pin\<close>,
  \<^verbatim>\<open>offs unpin\<close> and \<^verbatim>\<open>offs ephemeral\<close> (\<^verbatim>\<open>src/src/offs/commands/block.c\<close>, \<^verbatim>\<open>pin.c\<close>, \<^verbatim>\<open>ephemeral.c\<close>).
\<close>

section \<open>The messages\<close>

text \<open>\<open>type_frame\<close> is the frame that holds nothing but a type code, which \<^verbatim>\<open>ephemeral.c\<close> builds itself with
  libcbor. An entry of the ephemeral list is a hash with its numbers of claims and pins.\<close>

record 'c block_api = "'c wire" +
  block_put_request_encode :: "byte list \<Rightarrow> u8 \<Rightarrow> 'c" \<comment> \<open>the data and its encoding\<close>
  CLIENT_API_BLOCK_PUT_RESPONSE :: u8
  block_put_response_decode :: "'c \<Rightarrow> byte list option"
  block_get_request_encode :: "byte list \<Rightarrow> 'c"
  CLIENT_API_BLOCK_GET_RESPONSE :: u8
  block_get_response_decode :: "'c \<Rightarrow> byte list option"
  block_delete_request_encode :: "byte list \<Rightarrow> u8 \<Rightarrow> 'c" \<comment> \<open>the hash and the force flag\<close>
  CLIENT_API_BLOCK_DELETE_RESPONSE :: u8
  block_delete_response_decode :: "'c \<Rightarrow> u8 option"
  CLIENT_API_REP_PIN_REQUEST :: u8
  CLIENT_API_REP_UNPIN_REQUEST :: u8
  CLIENT_API_REP_MARK_PERMANENT_REQUEST :: u8
  CLIENT_API_REP_DELETE_EPHEMERAL_REQUEST :: u8
  rep_request_encode :: "u8 \<Rightarrow> string \<Rightarrow> 'c option"
  rep_response_decode :: "'c \<Rightarrow> (u8 \<times> nat) option" \<comment> \<open>the status and the number of blocks\<close>
  type_frame :: "u8 \<Rightarrow> 'c"
  CLIENT_API_EPHEMERAL_LIST_REQUEST :: u8
  CLIENT_API_EPHEMERAL_LIST_RESPONSE :: u8
  ephemeral_list_response_decode :: "'c \<Rightarrow> (u8 \<times> (byte list \<times> u32 \<times> u32) list) option"

section \<open>\<^verbatim>\<open>offs block\<close>\<close>

definition is_hex :: "char \<Rightarrow> bool" where
  "is_hex c \<longleftrightarrow> (48 \<le> ccode c \<and> ccode c \<le> 57) \<or> (97 \<le> ccode c \<and> ccode c \<le> 102) \<or> (65 \<le> ccode c \<and> ccode c \<le> 70)"

definition hex_decode_hash :: "string \<Rightarrow> byte list option" where
  "hex_decode_hash text =
     (if length text \<noteq> 64 then None
      else if \<not> list_all is_hex text then None
      else Some (map (\<lambda>i. ucast (fst (strtoull 16 [text ! (i * 2), text ! (i * 2 + 1)]))) [0..<32]))"

fun scan_encoding :: "string list \<Rightarrow> u8 \<Rightarrow> u8" where
  "scan_encoding [] encoding = encoding"
| "scan_encoding (x # rest) encoding =
     (case rest of
        v # rest' \<Rightarrow>
          if x = ''--encoding'' then scan_encoding rest' (if v = ''base58'' then 1 else encoding)
          else scan_encoding rest encoding
      | [] \<Rightarrow> encoding)"

text \<open>The answers to \<^verbatim>\<open>put\<close> and \<^verbatim>\<open>get\<close>; whatever happens, the command returns 0.\<close>

definition block_put_report :: "('c, 'm) block_api_scheme \<Rightarrow> 'c option \<Rightarrow> 's cli_st_scheme \<Rightarrow> int \<times> 's cli_st_scheme" where
  "block_put_report api response st =
     (0, case response of
           None \<Rightarrow> st
         | Some r \<Rightarrow>
             if get_type api r = CLIENT_API_BLOCK_PUT_RESPONSE api then
               (case block_put_response_decode api r of
                  Some hash \<Rightarrow> out_line (c_string_of (text_of hash)) st
                | None \<Rightarrow> st)
             else st)"

definition block_get_report :: "('c, 'm) block_api_scheme \<Rightarrow> 'c option \<Rightarrow> 's cli_st_scheme \<Rightarrow> int \<times> 's cli_st_scheme" where
  "block_get_report api response st =
     (0, case response of
           None \<Rightarrow> st
         | Some r \<Rightarrow>
             if get_type api r = CLIENT_API_BLOCK_GET_RESPONSE api then
               (case block_get_response_decode api r of
                  Some d \<Rightarrow> say (Out newline) (say (Out (text_of d)) st)
                | None \<Rightarrow> st)
             else st)"

definition block_delete_report :: "('c, 'm) block_api_scheme \<Rightarrow> 'c option \<Rightarrow> 's cli_st_scheme \<Rightarrow> int \<times> 's cli_st_scheme" where
  "block_delete_report api response st =
     (case response of
        None \<Rightarrow> (1, err_line L10N_DAEMON_UNREACHABLE st)
      | Some r \<Rightarrow>
          if get_type api r = CLIENT_API_ERROR api then
            (1, case error_decode api r of
                  Some (status, message) \<Rightarrow>
                    err_line (if status = CLIENT_API_STATUS_CONFLICT api
                              then c_format L10N_BLOCK_DELETE_CONFLICT [FStr message] else error_text message) st
                | None \<Rightarrow> st)
          else if get_type api r = CLIENT_API_BLOCK_DELETE_RESPONSE api then
            (case block_delete_response_decode api r of
               Some status \<Rightarrow>
                 if status = CLIENT_API_STATUS_OK api then (0, out_line L10N_OK st)
                 else if status = CLIENT_API_STATUS_NOT_FOUND api then (1, err_line L10N_BLOCK_DELETE_NOT_FOUND st)
                 else (1, err_line (c_format L10N_BLOCK_DELETE_STATUS [FNat (unat status)]) st)
             | None \<Rightarrow> (1, err_line L10N_BLOCK_DELETE_DECODE st))
          else (1, err_line (c_format L10N_BLOCK_DELETE_UNEXPECTED [FNat (unat (get_type api r))]) st))"

definition block_usage :: string where
  "block_usage = ''Usage: offs block <put|get|delete> ...''"

definition cmd_block :: "('c, 'm) block_api_scheme \<Rightarrow> string list \<Rightarrow> 's cli_st_scheme \<Rightarrow> (int \<times> 's cli_st_scheme) option" where
  "cmd_block api argv st =
     (case argv of
        [] \<Rightarrow> Some (1, out_line block_usage st)
      | subcommand # rest \<Rightarrow>
          if subcommand = ''put'' then
            (case rest of
               [] \<Rightarrow> Some (1, err_line L10N_BLOCK_PUT_USAGE st)
             | block_data_str # flags \<Rightarrow>
                 exchange api (Some (block_put_request_encode api (bytes_of block_data_str) (scan_encoding flags 0))) (block_put_report api) st)
          else if subcommand = ''get'' then
            (case rest of
               [] \<Rightarrow> Some (1, err_line L10N_BLOCK_GET_USAGE st)
             | hash # _ \<Rightarrow> exchange api (Some (block_get_request_encode api (bytes_of hash))) (block_get_report api) st)
          else if subcommand = ''delete'' then
            (case rest of
               [] \<Rightarrow> Some (1, err_line L10N_BLOCK_DELETE_USAGE st)
             | block_hash # flags \<Rightarrow>
                 if list_all (\<lambda>f. f = ''--force'') flags then
                   exchange api (Some (block_delete_request_encode api
                       (case hex_decode_hash block_hash of Some decoded \<Rightarrow> decoded | None \<Rightarrow> bytes_of block_hash)
                       (if flags = [] then 0 else 1))) (block_delete_report api) st
                 else Some (1, err_line L10N_BLOCK_DELETE_USAGE st))
          else Some (1, out_line block_usage st))"

section \<open>\<^verbatim>\<open>offs pin\<close> and \<^verbatim>\<open>offs unpin\<close>\<close>

text \<open>The answer to a request on a representation: the number of blocks it touched, or a message.\<close>

definition rep_result :: "('c, 'm) block_api_scheme \<Rightarrow> u8 \<Rightarrow> 'c option \<Rightarrow> 's cli_st_scheme \<Rightarrow> nat option \<times> 's cli_st_scheme" where
  "rep_result api op_code response st =
     (case response of
        None \<Rightarrow> (None, err_line L10N_DAEMON_UNREACHABLE st)
      | Some r \<Rightarrow>
          if get_type api r = CLIENT_API_ERROR api then (None, print_error_frame api r st)
          else if get_type api r \<noteq> op_code + 1 then (None, err_line (c_format L10N_REP_UNEXPECTED_TYPE [FNat (unat (get_type api r))]) st)
          else (case rep_response_decode api r of
              None \<Rightarrow> (None, err_line L10N_REP_DECODE_RESPONSE st)
            | Some (status, blocks) \<Rightarrow>
                if status \<noteq> CLIENT_API_STATUS_OK api then (None, err_line (c_format L10N_REP_OP_FAILED [FNat (unat status)]) st)
                else (Some blocks, st)))"

definition pin_op :: "('c, 'm) block_api_scheme \<Rightarrow> u8 \<Rightarrow> string \<Rightarrow> 's cli_st_scheme \<Rightarrow> (nat option \<times> 's cli_st_scheme) option" where
  "pin_op api op_code url st =
     (case rep_request_encode api op_code url of
        None \<Rightarrow> Some (None, err_line L10N_PIN_ENCODE_REQUEST st)
      | Some request \<Rightarrow> do {
          (response, st1) \<leftarrow> st_send api (Some request) st;
          Some (rep_result api op_code response st1)
        })"

definition pin_command :: "('c, 'm) block_api_scheme \<Rightarrow> u8 \<Rightarrow> string list \<Rightarrow> 's cli_st_scheme \<Rightarrow> (nat option \<times> 's cli_st_scheme) option" where
  "pin_command api op_code argv st =
     (case argv of
        [url] \<Rightarrow> pin_op api op_code url st
      | _ \<Rightarrow> Some (None, err_line (if op_code = CLIENT_API_REP_PIN_REQUEST api then L10N_PIN_USAGE else L10N_UNPIN_USAGE) st))"

text \<open>The end of a command on a representation.\<close>

definition touched :: "string \<Rightarrow> nat option \<times> 's cli_st_scheme \<Rightarrow> int \<times> 's cli_st_scheme" where
  "touched text r = (case r of (Some blocks, st) \<Rightarrow> (0, out_line (c_format text [FNat blocks]) st) | (None, st) \<Rightarrow> (1, st))"

definition cmd_pin :: "('c, 'm) block_api_scheme \<Rightarrow> string list \<Rightarrow> 's cli_st_scheme \<Rightarrow> (int \<times> 's cli_st_scheme) option" where
  "cmd_pin api argv st =
     (if ''--help'' \<in> set argv then Some (0, out_line L10N_PIN_USAGE st)
      else map_option (touched L10N_PINNED) (pin_command api (CLIENT_API_REP_PIN_REQUEST api) argv st))"

definition cmd_unpin :: "('c, 'm) block_api_scheme \<Rightarrow> string list \<Rightarrow> 's cli_st_scheme \<Rightarrow> (int \<times> 's cli_st_scheme) option" where
  "cmd_unpin api argv st =
     (if ''--help'' \<in> set argv then Some (0, out_line L10N_UNPIN_USAGE st)
      else map_option (touched L10N_UNPINNED) (pin_command api (CLIENT_API_REP_UNPIN_REQUEST api) argv st))"

section \<open>\<^verbatim>\<open>offs ephemeral\<close>\<close>

definition ephemeral_help :: string where
  "ephemeral_help =
     ''  list            Print every ephemeral block in the local cache, one'' @ newline
     @ ''                  per line, with its hash, ephemeral claim count, and'' @ newline
     @ ''                  pin count.'' @ newline
     @ ''  commit <url>    Mark the representation'' @ [CHR 0x27] @ ''s blocks permanent: drops'' @ newline
     @ ''                  their ephemeral claims so the cache can manage them.'' @ newline
     @ ''  delete <url>    Remove the blocks the representation claimed as'' @ newline
     @ ''                  ephemeral (pins still protect pinned blocks).''"

definition ephemeral_rep_op :: "('c, 'm) block_api_scheme \<Rightarrow> u8 \<Rightarrow> string \<Rightarrow> 's cli_st_scheme \<Rightarrow> (nat option \<times> 's cli_st_scheme) option" where
  "ephemeral_rep_op api op_code url st =
     (case rep_request_encode api op_code url of
        None \<Rightarrow> Some (None, err_line L10N_EPHEMERAL_ENCODE_REQUEST st)
      | Some request \<Rightarrow> do {
          (response, st1) \<leftarrow> st_send api (Some request) st;
          Some (rep_result api op_code response st1)
        })"

text \<open>The characters of a hash, and a row of the table with its columns of 64, 6 and 5 characters.\<close>

definition hash_text :: "byte list \<Rightarrow> string" where
  "hash_text hash = concat (map hex_byte hash)"

definition table_row :: "string \<Rightarrow> string \<Rightarrow> string \<Rightarrow> string" where
  "table_row hash claims pins = pad_right 64 hash @ '' '' @ pad_left 6 claims @ '' '' @ pad_left 5 pins"

definition ephemeral_rows :: "(byte list \<times> u32 \<times> u32) list \<Rightarrow> string list" where
  "ephemeral_rows entries =
     (if entries = [] then []
      else table_row ''hash'' ''claims'' ''pins''
        # map (\<lambda>(hash, claims, pins). table_row (hash_text hash) (dec_nat (unat claims)) (dec_nat (unat pins))) entries)"

definition ephemeral_list_report :: "('c, 'm) block_api_scheme \<Rightarrow> 'c option \<Rightarrow> 's cli_st_scheme \<Rightarrow> int \<times> 's cli_st_scheme" where
  "ephemeral_list_report api response st =
     (case response of
        None \<Rightarrow> (1, err_line L10N_DAEMON_UNREACHABLE st)
      | Some r \<Rightarrow>
          if get_type api r = CLIENT_API_ERROR api then (1, print_error_frame api r st)
          else if get_type api r \<noteq> CLIENT_API_EPHEMERAL_LIST_RESPONSE api
          then (1, err_line (c_format L10N_REP_UNEXPECTED_TYPE [FNat (unat (get_type api r))]) st)
          else (case ephemeral_list_response_decode api r of
              None \<Rightarrow> (1, err_line L10N_REP_DECODE_RESPONSE st)
            | Some (status, entries) \<Rightarrow>
                if status \<noteq> CLIENT_API_STATUS_OK api then (1, err_line (c_format L10N_EPHEMERAL_LIST_FAILED [FNat (unat status)]) st)
                else (0, foldl (\<lambda>s row. out_line row s) st (ephemeral_rows entries))))"

definition ephemeral_list :: "('c, 'm) block_api_scheme \<Rightarrow> 's cli_st_scheme \<Rightarrow> (int \<times> 's cli_st_scheme) option" where
  "ephemeral_list api = exchange api (Some (type_frame api (CLIENT_API_EPHEMERAL_LIST_REQUEST api))) (ephemeral_list_report api)"

definition cmd_ephemeral :: "('c, 'm) block_api_scheme \<Rightarrow> string list \<Rightarrow> 's cli_st_scheme \<Rightarrow> (int \<times> 's cli_st_scheme) option" where
  "cmd_ephemeral api argv st =
     (if ''--help'' \<in> set argv then Some (0, say (Out ephemeral_help) (out_line L10N_EPHEMERAL_USAGE st))
      else (case argv of
          [] \<Rightarrow> Some (1, err_line L10N_EPHEMERAL_USAGE st)
        | subcommand # rest \<Rightarrow>
            if subcommand = ''list'' then
              (if rest \<noteq> [] then Some (1, err_line L10N_EPHEMERAL_USAGE st) else ephemeral_list api st)
            else if subcommand = ''commit'' then
              (case rest of
                 [url] \<Rightarrow> map_option (touched L10N_EPHEMERAL_COMMITTED)
                   (ephemeral_rep_op api (CLIENT_API_REP_MARK_PERMANENT_REQUEST api) url st)
               | _ \<Rightarrow> Some (1, err_line L10N_EPHEMERAL_USAGE st))
            else if subcommand = ''delete'' then
              (case rest of
                 [url] \<Rightarrow> map_option (touched L10N_EPHEMERAL_DELETED)
                   (ephemeral_rep_op api (CLIENT_API_REP_DELETE_EPHEMERAL_REQUEST api) url st)
               | _ \<Rightarrow> Some (1, err_line L10N_EPHEMERAL_USAGE st))
            else Some (1, err_line L10N_EPHEMERAL_USAGE st)))"
section \<open>The shared contract\<close>

definition block_delete_accepted :: "('c, 'm) block_api_scheme \<Rightarrow> 'c \<Rightarrow> bool" where
  "block_delete_accepted api r \<longleftrightarrow> get_type api r \<noteq> CLIENT_API_ERROR api \<and> get_type api r = CLIENT_API_BLOCK_DELETE_RESPONSE api \<and>
     block_delete_response_decode api r = Some (CLIENT_API_STATUS_OK api)"

definition rep_accepted :: "('c, 'm) block_api_scheme \<Rightarrow> u8 \<Rightarrow> 'c \<Rightarrow> bool" where
  "rep_accepted api op_code r \<longleftrightarrow> get_type api r \<noteq> CLIENT_API_ERROR api \<and> get_type api r = op_code + 1 \<and>
     (\<exists>blocks. rep_response_decode api r = Some (CLIENT_API_STATUS_OK api, blocks))"

definition ephemeral_list_accepted :: "('c, 'm) block_api_scheme \<Rightarrow> 'c \<Rightarrow> bool" where
  "ephemeral_list_accepted api r \<longleftrightarrow> get_type api r \<noteq> CLIENT_API_ERROR api \<and> get_type api r = CLIENT_API_EPHEMERAL_LIST_RESPONSE api \<and>
     (\<exists>entries. ephemeral_list_response_decode api r = Some (CLIENT_API_STATUS_OK api, entries))"

lemma only_prints_rows [simp]: "only_prints st st' \<Longrightarrow> only_prints st (foldl (\<lambda>s row. out_line row s) st' rows)"
  by (induction rows arbitrary: st') simp_all

interpretation delete: error_reporter api "block_delete_report api" "block_delete_accepted api"
  for api :: "('c, 'm) block_api_scheme"
  by unfold_locales (auto simp: block_delete_report_def block_delete_accepted_def split: option.splits)

interpretation rep: error_reporter api "\<lambda>ro st. touched fmt (rep_result api op_code ro st)" "rep_accepted api op_code"
  for api :: "('c, 'm) block_api_scheme" and fmt op_code
  by unfold_locales (auto simp: rep_result_def rep_accepted_def touched_def split: option.splits)

interpretation ephemerals: error_reporter api "ephemeral_list_report api" "ephemeral_list_accepted api"
  for api :: "('c, 'm) block_api_scheme"
  by unfold_locales (auto simp: ephemeral_list_report_def ephemeral_list_accepted_def split: option.splits)

lemma rep_exchange:
  assumes "rep_request_encode api op_code url = Some request"
  shows "map_option (touched fmt) (pin_op api op_code url st) = exchange api (Some request) (\<lambda>ro st. touched fmt (rep_result api op_code ro st)) st"
    and "map_option (touched fmt) (ephemeral_rep_op api op_code url st) =
      exchange api (Some request) (\<lambda>ro st. touched fmt (rep_result api op_code ro st)) st"
  using assms by (auto simp: pin_op_def ephemeral_rep_op_def exchange_def option.map_comp split: option.splits bind_splits)

section \<open>Hashes that are listed can be deleted\<close>

lemma hex_digit_digit: "n < 16 \<Longrightarrow> is_hex (hex_digit n) \<and> digit_in_base 16 (hex_digit n) = Some n \<and> \<not> is_space (hex_digit n) \<and> hex_digit n \<noteq> CHR ''-'' \<and> hex_digit n \<noteq> CHR ''+''"
proof -
  assume "n < 16"
  then have "n \<in> set [0..<16]" by simp
  moreover have "\<forall>n\<in>set [0..<16]. is_hex (hex_digit n) \<and> digit_in_base 16 (hex_digit n) = Some n \<and> \<not> is_space (hex_digit n)
      \<and> hex_digit n \<noteq> CHR ''-'' \<and> hex_digit n \<noteq> CHR ''+''" by code_simp
  ultimately show ?thesis by blast
qed

lemma strtoull_hex_byte: "(ucast (fst (strtoull 16 (hex_byte b))) :: byte) = b"
proof -
  note d = hex_digit_digit [OF hex_parts(1) [of b]] hex_digit_digit [OF hex_parts(2) [of b]]
  have "strto_subject 16 (hex_byte b) = Some (False, 16 * unat (drop_bit 4 b) + unat (b AND 15), [])"
    using d by (simp add: strto_subject_def hex_byte_def Let_def)
  moreover have v: "16 * unat (drop_bit 4 b) + unat (b AND 15) < 256" using hex_parts(1,2) [of b] by linarith
  ultimately have "fst (strtoull 16 (hex_byte b)) = of_nat (16 * unat (drop_bit 4 b) + unat (b AND 15))"
    by (simp add: strtoull_def UINT64_MAX_def)
  moreover have "(ucast (of_nat (16 * unat (drop_bit 4 b) + unat (b AND 15)) :: u64) :: byte) = of_nat (16 * unat (drop_bit 4 b) + unat (b AND 15))"
    using v by (subst unsigned_of_nat, subst take_bit_nat_eq_self) simp_all
  moreover have "(of_nat (16 * unat (drop_bit 4 b) + unat (b AND 15)) :: byte) = b" using hex_parts(3) [of b] by simp
  ultimately show ?thesis by simp
qed

lemma nth_hash_text:
  assumes "i < length hash"
  shows "[hash_text hash ! (i * 2), hash_text hash ! (i * 2 + 1)] = hex_byte (hash ! i)"
  using assms
proof (induction hash arbitrary: i)
  case (Cons b hash)
  then show ?case by (cases i) (simp_all add: hash_text_def hex_byte_def)
qed simp

lemma hash_text_hex: "list_all is_hex (hash_text hash)" "length (hash_text hash) = 2 * length hash"
  by (induction hash) (simp_all add: hash_text_def hex_byte_def hex_digit_digit hex_parts)

lemma hex_decode_hash_text:
  assumes "length hash = 32"
  shows "hex_decode_hash (hash_text hash) = Some hash"
proof -
  have "map (\<lambda>i. ucast (fst (strtoull 16 [hash_text hash ! (i * 2), hash_text hash ! (i * 2 + 1)]))) [0..<32] = map (\<lambda>i. hash ! i) [0..<32]"
    using assms by (intro map_cong refl) (simp only: nth_hash_text strtoull_hex_byte set_upt atLeastLessThan_iff)
  also have "\<dots> = hash" using assms map_nth [of hash] by simp
  finally show ?thesis using assms by (simp add: hex_decode_hash_def hash_text_hex)
qed

text \<open>C33. The hashes that \<^verbatim>\<open>offs ephemeral list\<close> prints can be given to \<^verbatim>\<open>offs block delete\<close>: the first
  column of the row is the text of the hash, and the delete request carries exactly the 32 bytes of it, with
  the force flag as given. \<^verbatim>\<open>offs block get\<close> does not decode it and asks for its 64 characters.\<close>

theorem listed_hash_deletes:
  assumes "length hash = 32" and "(hash, claims, pins) \<in> set entries"
  shows "(\<exists>row \<in> set (ephemeral_rows entries). take 64 row = hash_text hash) \<and>
    cmd_block api ([''delete'', hash_text hash] @ flags) st =
      (if set flags \<subseteq> {''--force''}
       then exchange api (Some (block_delete_request_encode api hash (if flags = [] then 0 else 1))) (block_delete_report api) st
       else Some (1, err_line L10N_BLOCK_DELETE_USAGE st)) \<and>
    cmd_block api [''get'', hash_text hash] st =
      exchange api (Some (block_get_request_encode api (bytes_of (hash_text hash)))) (block_get_report api) st"
proof -
  have "table_row (hash_text hash) (dec_nat (unat claims)) (dec_nat (unat pins)) \<in> set (ephemeral_rows entries)"
    using assms(2) by (force simp: ephemeral_rows_def)
  moreover have "take 64 (table_row (hash_text hash) c p) = hash_text hash" for c p
    using assms(1) by (simp add: table_row_def pad_right_def hash_text_hex)
  ultimately show ?thesis
    using hex_decode_hash_text [OF assms(1)] by (auto simp: cmd_block_def list_all_iff)
qed

theorem listed_hash_deletes_witness:
  "(\<exists>row \<in> set (ephemeral_rows [(replicate 32 7, 1, 0)]). take 64 row = hash_text (replicate 32 7)) \<and>
   (\<lambda>api :: (nat, unit) block_api_scheme. cmd_block api [''delete'', hash_text (replicate 32 7)] \<lparr>client = None, log = []\<rparr>) =
     (\<lambda>api. exchange api (Some (block_delete_request_encode api (replicate 32 7) 0)) (block_delete_report api) \<lparr>client = None, log = []\<rparr>)"
  using listed_hash_deletes [of "replicate 32 7" 1 0 "[(replicate 32 7, 1, 0)]" _ "[]"] by (auto simp: fun_eq_iff)

end
