(* ===== verification/Offs_Main.thy ===== *)
theory Offs_Main
  imports Cache File_Transfer Config_Command Peers Blocks
begin

text \<open>
  The entry point of the command line tool (\<^verbatim>\<open>src/src/offs/main.c\<close>): the options that may stand anywhere,
  the connection, and the dispatch through the command table; then the whole program, with the models of
  all commands behind the table.
\<close>

section \<open>Options that may stand anywhere\<close>

text \<open>The arguments without \<^verbatim>\<open>--socket\<close>, \<^verbatim>\<open>--lang\<close> and their values, the socket path and the language. One of
  the two flags at the very end is dropped.\<close>

fun lift_globals :: "string list \<Rightarrow> string \<Rightarrow> string \<Rightarrow> string list \<times> string \<times> string" where
  "lift_globals [] sock lang = ([], sock, lang)"
| "lift_globals (x # rest) sock lang =
     (if x = ''--socket'' then
        (case rest of
           v # rest' \<Rightarrow> lift_globals rest' (cli_set_socket_path (Some v) sock) lang
         | [] \<Rightarrow> ([], sock, lang))
      else if x = ''--lang'' then
        (case rest of v # rest' \<Rightarrow> lift_globals rest' sock v | [] \<Rightarrow> ([], sock, lang))
      else (case lift_globals rest sock lang of (args, r) \<Rightarrow> (x # args, r)))"

section \<open>The connection and the dispatch\<close>

definition needs_client :: "string list \<Rightarrow> bool" where
  "needs_client args =
     (case args of
        [] \<Rightarrow> False
      | name # rest \<Rightarrow>
          (let first = (case rest of [] \<Rightarrow> None | x # _ \<Rightarrow> Some x) in
           if name \<in> {''start'', ''stop'', ''restart'', ''version'', ''cache''} then False
           else if name = ''config'' \<and> (first = Some ''help'' \<or> first = Some ''--help'') then False
           else if name = ''put'' \<and> first = Some ''--help'' then False
           else if name = ''load'' \<and> first = Some ''--help'' then False
           else if name \<in> {''ephemeral'', ''pin'', ''unpin''} \<and> first = Some ''--help'' then False
           else True))"

text \<open>The handler of the command the linear search over the table finds.\<close>

definition handler_of :: "string \<Rightarrow> handler option" where
  "handler_of name = Option.bind (find_command name) cmd_handler"

text \<open>\<open>run\<close> stands for the function pointers of the table; it also gets the global socket path.\<close>

definition dispatch :: "(string \<Rightarrow> handler \<Rightarrow> string list \<Rightarrow> 's cli_st_scheme \<Rightarrow> (int \<times> 's cli_st_scheme) option) \<Rightarrow> string
    \<Rightarrow> string \<Rightarrow> string list \<Rightarrow> 's cli_st_scheme \<Rightarrow> (int \<times> 's cli_st_scheme) option" where
  "dispatch run sock name rest st =
     (case handler_of name of
        Some h \<Rightarrow> map_option (\<lambda>(result, st1). (result, st1\<lparr>client := cli_client_destroy (client st1)\<rparr>)) (run sock h rest st)
      | None \<Rightarrow>
          (let st1 = (if find_command name = None then st else cli_print_help (Some name) st);
               st2 = err_line (L10N_UNKNOWN_COMMAND @ '' '' @ quoted name) st1
           in Some (1, st2\<lparr>client := cli_client_destroy (client st2)\<rparr>)))"

definition offs_main :: "(string \<Rightarrow> handler \<Rightarrow> string list \<Rightarrow> 's cli_st_scheme \<Rightarrow> (int \<times> 's cli_st_scheme) option)
    \<Rightarrow> (string \<Rightarrow> sock option) \<Rightarrow> string option \<Rightarrow> string option \<Rightarrow> string list \<Rightarrow> 's cli_st_scheme \<Rightarrow> (int \<times> 's cli_st_scheme) option" where
  "offs_main run local_connect offs_lang env_lang argv st =
     (case lift_globals argv OFFS_LOCAL_SOCKET_PATH (cli_detect_lang offs_lang env_lang) of
        ([], _) \<Rightarrow> Some (0, cli_print_help None st)
      | (name # rest, sock, lang) \<Rightarrow>
          if name = ''help'' then Some (0, cli_print_help (case rest of [] \<Rightarrow> None | x # _ \<Rightarrow> Some x) st)
          else if needs_client (name # rest) then
            (case cli_client_connect local_connect (Some (cli_client_create (Some sock))) of
               (rc, cl) \<Rightarrow>
                 if rc \<noteq> 0 then Some (1, (err_line (L10N_DAEMON_UNREACHABLE @ '': '' @ sock) st)\<lparr>client := cli_client_destroy cl\<rparr>)
                 else dispatch run sock name rest (st\<lparr>client := cl\<rparr>))
          else dispatch run sock name rest (st\<lparr>client := None\<rparr>))"

section \<open>The whole program\<close>

text \<open>What the commands are given: the parameters of their models. The outputs a command writes to are kept
  with the state.\<close>

record ('c, 'j, 'w) offs_env =
  cache_of :: "('c, 'j, 'w) cache_env"
  transfer_of :: "'c transfer_api"
  config_of :: "('c, 'j) config_api"
  peers_of :: "'c peer_api"
  blocks_of :: "'c block_api"
  stderr_tty :: bool
  file_at :: "string \<Rightarrow> input_file"
  output_at :: "string option \<Rightarrow> output_file option" \<comment> \<open>standard output for none\<close>

record 'w run_st = "'w sys_st" +
  written :: "output_file list"

definition keep_output :: "(int \<times> output_file option \<times> 'w run_st) option \<Rightarrow> (int \<times> 'w run_st) option" where
  "keep_output r = map_option (\<lambda>(rc, out, st). (rc, case out of Some f \<Rightarrow> st\<lparr>written := written st @ [f]\<rparr> | None \<Rightarrow> st)) r"

definition run_handler :: "('c, 'j, 'w) offs_env \<Rightarrow> string \<Rightarrow> handler \<Rightarrow> string list \<Rightarrow> 'w run_st \<Rightarrow> (int \<times> 'w run_st) option" where
  "run_handler env sock h argv st =
     (case h of
        Cmd_Start \<Rightarrow> Some (cmd_start (os_of (cache_of env)) argv st)
      | Cmd_Stop \<Rightarrow> Some (cmd_stop (os_of (cache_of env)) st)
      | Cmd_Restart \<Rightarrow> Some (cmd_restart (os_of (cache_of env)) argv st)
      | Cmd_Put \<Rightarrow> cmd_put (transfer_of env) (stderr_tty env) (file_at env) argv st
      | Cmd_Get \<Rightarrow> keep_output (cmd_get (transfer_of env) (output_at env) argv st)
      | Cmd_Load \<Rightarrow> cmd_load (transfer_of env) (stderr_tty env) argv st
      | Cmd_Block \<Rightarrow> cmd_block (blocks_of env) argv st
      | Cmd_Ephemeral \<Rightarrow> cmd_ephemeral (blocks_of env) argv st
      | Cmd_Pin \<Rightarrow> cmd_pin (blocks_of env) argv st
      | Cmd_Unpin \<Rightarrow> cmd_unpin (blocks_of env) argv st
      | Cmd_Peer \<Rightarrow> keep_output (cmd_peer (peers_of env)
          (\<lambda>path. if path = ''-'' then output_at env None else output_at env (Some path)) (file_at env) argv st)
      | Cmd_Config \<Rightarrow> cmd_config (config_of env) (host_of (cache_of env)) argv st
      | Cmd_Cache \<Rightarrow> cmd_cache (cache_of env\<lparr>g_socket_path := sock\<rparr>) argv st
      | Cmd_Friend \<Rightarrow> cmd_friend (peers_of env) (file_at env) argv st
      | Cmd_Health \<Rightarrow> cmd_health (config_of env) (host_of (cache_of env)) argv st
      | Cmd_Status \<Rightarrow> cmd_status (config_of env) (host_of (cache_of env)) argv st
      | Cmd_Version \<Rightarrow> Some (cmd_version argv st)
      | Cmd_Bootstrap \<Rightarrow> cmd_bootstrap (peers_of env) argv st)"

definition offs :: "('c, 'j, 'w) offs_env \<Rightarrow> string option \<Rightarrow> string option \<Rightarrow> string list \<Rightarrow> 'w run_st \<Rightarrow> (int \<times> 'w run_st) option" where
  "offs env offs_lang env_lang argv st =
     offs_main (run_handler env) (os_local_connect (os_of (cache_of env)) (world st)) offs_lang env_lang argv st"
section \<open>The options\<close>

definition no_globals :: "string list \<Rightarrow> bool" where
  "no_globals xs \<longleftrightarrow> ''--socket'' \<notin> set xs \<and> ''--lang'' \<notin> set xs"

lemma lift_globals_append:
  assumes "no_globals xs"
  shows "lift_globals (xs @ ys) sock lang = (xs @ fst (lift_globals ys sock lang), snd (lift_globals ys sock lang))"
  using assms by (induction xs) (auto simp: no_globals_def split: prod.splits)

lemma lift_globals_none [simp]: "no_globals xs \<Longrightarrow> lift_globals xs sock lang = (xs, sock, lang)"
  using lift_globals_append [of xs "[]"] by simp

text \<open>\<^verbatim>\<open>--socket\<close> and \<^verbatim>\<open>--lang\<close> may stand anywhere: behind the command and its arguments they do what they do
  in front, the last one counts, and the command never sees them.\<close>

theorem globals_anywhere:
  assumes "no_globals xs" and "flag \<in> {''--socket'', ''--lang''}"
  shows "offs_main run lc ol el (xs @ [flag, v] @ ys) st = offs_main run lc ol el ([flag, v] @ xs @ ys) st \<and>
    offs_main run lc ol el ([''--socket'', u, ''--socket'', v] @ ys) st = offs_main run lc ol el ([''--socket'', v] @ ys) st \<and>
    (no_globals ys \<longrightarrow> lift_globals (xs @ [''--socket'', v] @ ys) sock lang = (xs @ ys, v, lang))"
proof -
  have "lift_globals (xs @ [flag, v] @ ys) sock lang = lift_globals ([flag, v] @ xs @ ys) sock lang" for sock lang
    using assms by (auto simp: lift_globals_append cli_set_socket_path_def)
  then show ?thesis
    using assms(1) by (simp add: offs_main_def lift_globals_append cli_set_socket_path_def)
qed

theorem globals_anywhere_witness:
  "(\<lambda>run :: string \<Rightarrow> handler \<Rightarrow> string list \<Rightarrow> cli_st \<Rightarrow> (int \<times> cli_st) option.
      offs_main run (\<lambda>_. None) None None ([''status''] @ [''--socket'', ''/x''] @ []) \<lparr>client = None, log = []\<rparr>) =
   (\<lambda>run. offs_main run (\<lambda>_. None) None None ([''--socket'', ''/x''] @ [''status''] @ []) \<lparr>client = None, log = []\<rparr>)"
  using globals_anywhere [of "[''status'']" "''--socket''" _ "\<lambda>_. None" None None "''/x''" "[]" "\<lparr>client = None, log = []\<rparr>"]
  by (simp add: no_globals_def fun_eq_iff)

section \<open>Help without a daemon\<close>

declare lift_globals.simps(2) [simp del]

lemma destroyed [simp]: "cli_client_destroy c = None"
  by (simp add: cli_client_destroy_def split: option.splits)

lemma offs_offline:
  assumes "handler_of name = Some h" "no_globals (name # rest)" "\<not> needs_client (name # rest)" "name \<noteq> ''help''"
  shows "offs env ol el (name # rest) st = map_option (\<lambda>(rc, st1). (rc, st1\<lparr>client := None\<rparr>)) (run_handler env OFFS_LOCAL_SOCKET_PATH h rest (st\<lparr>client := None\<rparr>))"
  using assms by (simp add: offs_def offs_main_def dispatch_def Let_def)

lemma offs_online:
  assumes "handler_of name = Some h" "no_globals (name # rest)" "needs_client (name # rest)" "name \<noteq> ''help''"
  shows "offs env ol el (name # rest) st =
    (case os_local_connect (os_of (cache_of env)) (world st) OFFS_LOCAL_SOCKET_PATH of
       None \<Rightarrow> Some (1, (err_line (L10N_DAEMON_UNREACHABLE @ '': '' @ OFFS_LOCAL_SOCKET_PATH) st)\<lparr>client := None\<rparr>)
     | Some s \<Rightarrow> map_option (\<lambda>(rc, st1). (rc, st1\<lparr>client := None\<rparr>)) (run_handler env OFFS_LOCAL_SOCKET_PATH h rest
         (st\<lparr>client := Some \<lparr>socket = Some s, socket_path = Some OFFS_LOCAL_SOCKET_PATH, connected = 1\<rparr>\<rparr>)))"
  using assms
  by (simp add: offs_def offs_main_def dispatch_def Let_def cli_client_connect_def cli_client_create_def split: option.splits)

lemma handler_rows:
  "handler_of ''put'' = Some Cmd_Put"
  "handler_of ''get'' = Some Cmd_Get"
  "handler_of ''load'' = Some Cmd_Load"
  "handler_of ''block'' = Some Cmd_Block"
  "handler_of ''ephemeral'' = Some Cmd_Ephemeral"
  "handler_of ''pin'' = Some Cmd_Pin"
  "handler_of ''unpin'' = Some Cmd_Unpin"
  "handler_of ''peer'' = Some Cmd_Peer"
  "handler_of ''config'' = Some Cmd_Config"
  "handler_of ''cache'' = Some Cmd_Cache"
  "handler_of ''friend'' = Some Cmd_Friend"
  "handler_of ''bootstrap'' = Some Cmd_Bootstrap"
  "handler_of ''health'' = Some Cmd_Health"
  by (simp_all add: handler_of_def find_command_def g_commands_def)

lemma offs_prints:
  assumes "handler_of name = Some h" "no_globals (name # rest)" "\<not> needs_client (name # rest)" "name \<noteq> ''help''"
    and "client st = None" and "run_handler env OFFS_LOCAL_SOCKET_PATH h rest st = Some (0, st1)" "only_prints st st1" "log st1 \<noteq> log st"
  shows "\<exists>st'. offs env ol el (name # rest) st = Some (0, st') \<and> only_prints st st' \<and> st' \<noteq> st"
proof -
  have "st\<lparr>client := None\<rparr> = st" using assms(5) by (cases st) simp
  moreover have "st1\<lparr>client := None\<rparr> = st1" using only_printsD(1) [OF assms(7)] assms(5) by (cases st1) simp
  ultimately have "offs env ol el (name # rest) st = Some (0, st1)" by (simp add: offs_offline [OF assms(1-4)] assms(6))
  with assms(7,8) show ?thesis by auto
qed

lemmas help_simps = no_globals_def needs_client_def run_handler_def is_help_def

text \<open>The help of \<^verbatim>\<open>put\<close>, \<^verbatim>\<open>load\<close>, \<^verbatim>\<open>ephemeral\<close>, \<^verbatim>\<open>pin\<close>, \<^verbatim>\<open>unpin\<close>, \<^verbatim>\<open>config\<close> and \<^verbatim>\<open>cache\<close> needs no
  daemon: the program prints and exits with 0. The help of \<^verbatim>\<open>get\<close> does need one, and with the daemon down the
  program exits with 1.\<close>

theorem help_offline:
  assumes "client st = None"
  shows "(\<forall>name \<in> {''put'', ''load'', ''ephemeral'', ''pin'', ''unpin'', ''config'', ''cache''}.
      \<exists>st'. offs env ol el [name, ''--help''] st = Some (0, st') \<and> only_prints st st' \<and> st' \<noteq> st) \<and>
    (os_local_connect (os_of (cache_of env)) (world st) OFFS_LOCAL_SOCKET_PATH = None \<longrightarrow>
      (\<exists>st'. offs env ol el [''get'', ''--help''] st = Some (1, st')))"
proof (intro conjI impI)
  let ?ok = "\<lambda>name. \<exists>st'. offs env ol el [name, ''--help''] st = Some (0, st') \<and> only_prints st st' \<and> st' \<noteq> st"
  have put: "?ok ''put''"
    by (rule offs_prints [OF handler_rows(1) _ _ _ assms, of _ _ "say (Out put_help) st"]) (simp_all add: help_simps cmd_put_def)
  have load: "?ok ''load''"
    by (rule offs_prints [OF handler_rows(3) _ _ _ assms, of _ _ "out_line L10N_LOAD_USAGE st"]) (simp_all add: help_simps cmd_load_def)
  have ephemeral: "?ok ''ephemeral''"
    by (rule offs_prints [OF handler_rows(5) _ _ _ assms, of _ _ "say (Out ephemeral_help) (out_line L10N_EPHEMERAL_USAGE st)"]) (simp_all add: help_simps cmd_ephemeral_def)
  have pin: "?ok ''pin''"
    by (rule offs_prints [OF handler_rows(6) _ _ _ assms, of _ _ "out_line L10N_PIN_USAGE st"]) (simp_all add: help_simps cmd_pin_def)
  have unpin: "?ok ''unpin''"
    by (rule offs_prints [OF handler_rows(7) _ _ _ assms, of _ _ "out_line L10N_UNPIN_USAGE st"]) (simp_all add: help_simps cmd_unpin_def)
  have config: "?ok ''config''"
    by (rule offs_prints [OF handler_rows(9) _ _ _ assms, of _ _ "say (Out config_help) st"]) (simp_all add: help_simps cmd_config_def)
  have cache: "?ok ''cache''"
    by (rule offs_prints [OF handler_rows(10) _ _ _ assms, of _ _ "out_line L10N_CACHE_USAGE st"]) (simp_all add: help_simps cmd_cache_def)
  show "\<forall>name \<in> {''put'', ''load'', ''ephemeral'', ''pin'', ''unpin'', ''config'', ''cache''}. ?ok name"
    unfolding ball_simps using put load ephemeral pin unpin config cache by (intro conjI TrueI)
next
  assume "os_local_connect (os_of (cache_of env)) (world st) OFFS_LOCAL_SOCKET_PATH = None"
  then show "\<exists>st'. offs env ol el [''get'', ''--help''] st = Some (1, st')"
    by (simp add: offs_online [OF handler_rows(2)] no_globals_def needs_client_def)
qed
section \<open>The exit status of a request\<close>

text \<open>The state a command starts from when the daemon accepts the connection, and the success of a run.\<close>

definition connected_st :: "('c, 'j, 'w) offs_env \<Rightarrow> 'w run_st \<Rightarrow> 'w run_st option" where
  "connected_st env st =
     map_option (\<lambda>s. st\<lparr>client := Some \<lparr>socket = Some s, socket_path = Some OFFS_LOCAL_SOCKET_PATH, connected = 1\<rparr>\<rparr>)
       (os_local_connect (os_of (cache_of env)) (world st) OFFS_LOCAL_SOCKET_PATH)"

definition succeeds :: "('c, 'j, 'w) offs_env \<Rightarrow> string list \<Rightarrow> 'w run_st \<Rightarrow> bool" where
  "succeeds env argv st \<longleftrightarrow> (\<exists>st'. offs env None None argv st = Some (0, st'))"

text \<open>The daemon was reached, received the request and answered it with a frame of the kind.\<close>

definition acked :: "('c, 'j, 'w) offs_env \<Rightarrow> ('c, 'm) codec_scheme \<Rightarrow> 'c option \<Rightarrow> ('c \<Rightarrow> bool) \<Rightarrow> 'w run_st \<Rightarrow> bool" where
  "acked env w request accepts st \<longleftrightarrow>
     (\<exists>st0 f r st1. connected_st env st = Some st0 \<and> request = Some f \<and> st_send w (Some f) st0 = Some (Some r, st1) \<and> accepts r)"

definition zero :: "(int \<times> 's) option \<Rightarrow> bool" where
  "zero r \<longleftrightarrow> (\<exists>st1. r = Some (0, st1))"

lemma offs_connected:
  assumes "handler_of name = Some h" "no_globals (name # rest)" "needs_client (name # rest)" "name \<noteq> ''help''"
  shows "zero (offs env ol el (name # rest) st) \<longleftrightarrow>
    (\<exists>st0. connected_st env st = Some st0 \<and> zero (run_handler env OFFS_LOCAL_SOCKET_PATH h rest st0))"
  by (cases "os_local_connect (os_of (cache_of env)) (world st) OFFS_LOCAL_SOCKET_PATH")
    (auto simp: offs_online [OF assms] connected_st_def zero_def)

lemma rep_zero:
  "zero (map_option (touched fmt) (pin_op api op_code url st0)) \<longleftrightarrow>
     (\<exists>f r st1. rep_request_encode api op_code url = Some f \<and> st_send api (Some f) st0 = Some (Some r, st1) \<and> rep_accepted api op_code r)"
  "zero (map_option (touched fmt) (ephemeral_rep_op api op_code url st0)) \<longleftrightarrow>
     (\<exists>f r st1. rep_request_encode api op_code url = Some f \<and> st_send api (Some f) st0 = Some (Some r, st1) \<and> rep_accepted api op_code r)"
  unfolding zero_def
  by (cases "rep_request_encode api op_code url"; simp only: rep_exchange rep.exit_zero; simp add: pin_op_def ephemeral_rep_op_def touched_def)+

lemma bootstrap_zero:
  "zero (bootstrap_send_and_report api request is_remove st0) \<longleftrightarrow>
     (\<exists>f r st1. request = Some f \<and> st_send api (Some f) st0 = Some (Some r, st1) \<and> bootstrap_accepted api r)"
  unfolding zero_def by (cases request) (simp_all add: bootstrap_send_and_report_def boot.exit_zero)

lemma payload_zero:
  assumes "x \<noteq> ''--qr''"
  shows "zero (send_payload api encode (payload files format usage [x] st0)) \<longleftrightarrow>
     (\<exists>f r st1. encode format (bytes_of x) = Some f \<and> st_send api (Some f) st0 = Some (Some r, st1) \<and> ack_accepted api r)"
  using assms unfolding zero_def
  by (cases "encode format (bytes_of x)") (simp_all add: payload_def send_payload_def ack.exit_zero)

lemma zero_keep: "zero (keep_output (no_output r)) = zero r"
  by (cases r) (auto simp: zero_def keep_output_def no_output_def)

lemmas exchange_zero = delete.exit_zero [folded zero_def] ack.exit_zero [folded zero_def] health.exit_zero [folded zero_def]
  verdict.exit_zero [folded zero_def]

lemmas online_simps = succeeds_def [folded zero_def] acked_def run_handler_def no_globals_def needs_client_def rep_zero bootstrap_zero exchange_zero
  offs_connected [OF handler_rows(4)] offs_connected [OF handler_rows(5)] offs_connected [OF handler_rows(6)] offs_connected [OF handler_rows(7)]
  offs_connected [OF handler_rows(8)] offs_connected [OF handler_rows(9)]
  offs_connected [OF handler_rows(11)] offs_connected [OF handler_rows(12)] offs_connected [OF handler_rows(13)]

text \<open>C15. The exit status of the following commands, without global options and with arguments that are not themselves
  options, can be relied on: \<^verbatim>\<open>pin\<close>, \<^verbatim>\<open>unpin\<close>, \<^verbatim>\<open>ephemeral commit\<close>, \<^verbatim>\<open>ephemeral delete\<close>, \<^verbatim>\<open>block delete\<close>, \<^verbatim>\<open>bootstrap add\<close>,
  \<^verbatim>\<open>bootstrap remove\<close>, \<^verbatim>\<open>config add\<close>, \<^verbatim>\<open>config remove\<close>, \<^verbatim>\<open>config reload\<close> and \<^verbatim>\<open>health\<close> exit with 0 exactly if the daemon was
  reached, the request could be encoded and was sent, and the answer is the success frame of that request.
  \<^verbatim>\<open>friend add\<close>, \<^verbatim>\<open>friend remove\<close> and \<^verbatim>\<open>peer connect\<close> (with a text argument) are weaker: they exit with 0 exactly if the daemon was
  reached, the request was sent, and any frame but an error frame came back. \<^verbatim>\<open>block put\<close> and the commands of
  \<open>exit_status_lost\<close> are not among them.\<close>

theorem request_exit_status:
  assumes "no_globals [x, y]" "x \<noteq> ''--help''" "x \<noteq> ''--qr''"
  shows "(succeeds env [''pin'', x] st \<longleftrightarrow> acked env (blocks_of env)
      (rep_request_encode (blocks_of env) (CLIENT_API_REP_PIN_REQUEST (blocks_of env)) x) (rep_accepted (blocks_of env) (CLIENT_API_REP_PIN_REQUEST (blocks_of env))) st) \<and>
    (succeeds env [''unpin'', x] st \<longleftrightarrow> acked env (blocks_of env)
      (rep_request_encode (blocks_of env) (CLIENT_API_REP_UNPIN_REQUEST (blocks_of env)) x) (rep_accepted (blocks_of env) (CLIENT_API_REP_UNPIN_REQUEST (blocks_of env))) st) \<and>
    (succeeds env [''ephemeral'', ''commit'', x] st \<longleftrightarrow> acked env (blocks_of env)
      (rep_request_encode (blocks_of env) (CLIENT_API_REP_MARK_PERMANENT_REQUEST (blocks_of env)) x)
      (rep_accepted (blocks_of env) (CLIENT_API_REP_MARK_PERMANENT_REQUEST (blocks_of env))) st) \<and>
    (succeeds env [''ephemeral'', ''delete'', x] st \<longleftrightarrow> acked env (blocks_of env)
      (rep_request_encode (blocks_of env) (CLIENT_API_REP_DELETE_EPHEMERAL_REQUEST (blocks_of env)) x)
      (rep_accepted (blocks_of env) (CLIENT_API_REP_DELETE_EPHEMERAL_REQUEST (blocks_of env))) st) \<and>
    (succeeds env [''block'', ''delete'', x] st \<longleftrightarrow> acked env (blocks_of env)
      (Some (block_delete_request_encode (blocks_of env) (case hex_decode_hash x of Some d \<Rightarrow> d | None \<Rightarrow> bytes_of x) 0))
      (block_delete_accepted (blocks_of env)) st) \<and>
    (succeeds env [''bootstrap'', ''add'', x] st \<longleftrightarrow> acked env (peers_of env) (bootstrap_add_encode (peers_of env) x) (bootstrap_accepted (peers_of env)) st) \<and>
    (succeeds env [''bootstrap'', ''remove'', x] st \<longleftrightarrow> acked env (peers_of env) (bootstrap_remove_encode (peers_of env) x) (bootstrap_accepted (peers_of env)) st) \<and>
    (succeeds env [''config'', ''add'', x, y] st \<longleftrightarrow> acked env (config_of env) (Some (config_set_request_encode (config_of env) x y))
      (verdict_accepted (config_of env) (CLIENT_API_CONFIG_SET_RESPONSE (config_of env)) (config_set_response_decode (config_of env))) st) \<and>
    (succeeds env [''config'', ''remove'', x] st \<longleftrightarrow> acked env (config_of env) (Some (config_set_request_encode (config_of env) x ''null''))
      (verdict_accepted (config_of env) (CLIENT_API_CONFIG_SET_RESPONSE (config_of env)) (config_set_response_decode (config_of env))) st) \<and>
    (succeeds env [''config'', ''reload''] st \<longleftrightarrow> acked env (config_of env) (Some (config_reload_request_encode (config_of env)))
      (verdict_accepted (config_of env) (CLIENT_API_CONFIG_RELOAD_RESPONSE (config_of env)) (config_reload_response_decode (config_of env))) st) \<and>
    (succeeds env [''health''] st \<longleftrightarrow> acked env (config_of env) (Some (health_request_encode (config_of env))) (health_accepted (config_of env)) st) \<and>
    (succeeds env [''friend'', ''add'', x] st \<longleftrightarrow> acked env (peers_of env) (friend_add_encode (peers_of env) 0 (bytes_of x)) (ack_accepted (peers_of env)) st) \<and>
    (succeeds env [''friend'', ''remove'', x] st \<longleftrightarrow> acked env (peers_of env) (Some (friend_remove_encode (peers_of env) (bytes_of x))) (ack_accepted (peers_of env)) st) \<and>
    (succeeds env [''peer'', ''connect'', x] st \<longleftrightarrow> acked env (peers_of env) (peer_connect_encode (peers_of env) 1 (bytes_of x)) (ack_accepted (peers_of env)) st)"
  using assms
  by (intro conjI)
    (simp_all add: online_simps cmd_pin_def cmd_unpin_def pin_command_def cmd_ephemeral_def cmd_block_def cmd_bootstrap_def cmd_friend_def cmd_health_def
      cmd_config_def config_send_set_def config_cmd_reload_def cmd_peer_def payload_zero zero_keep)

text \<open>C38. Four commands lose it: \<^verbatim>\<open>offs block put\<close>, \<^verbatim>\<open>offs block get\<close>, \<^verbatim>\<open>offs peer list\<close> and \<^verbatim>\<open>offs friend list\<close>
  exit with 0 once they are connected, also when the daemon closes the connection or answers with an error.\<close>

theorem exit_status_lost:
  assumes "connected_st env st = Some st0" and "no_globals [x]"
    and "argv \<in> {[''block'', ''put'', x], [''block'', ''get'', x], [''peer'', ''list''], [''friend'', ''list'']}"
    and "offs env None None argv st = Some (rc, st')"
  shows "rc = 0"
proof -
  note simps = connected_st_def no_globals_def needs_client_def run_handler_def cmd_block_def cmd_peer_def cmd_friend_def
    exchange_def no_output_def keep_output_def block_put_report_def block_get_report_def count_report_def
  from assms(3) consider "argv = [''block'', ''put'', x]" | "argv = [''block'', ''get'', x]" | "argv = [''peer'', ''list'']" | "argv = [''friend'', ''list'']"
    by blast
  then show ?thesis
    by cases (use assms in \<open>auto simp: simps offs_online [OF handler_rows(4)] offs_online [OF handler_rows(8)] offs_online [OF handler_rows(11)]
      bind_Some_iff split: option.splits\<close>)
qed

section \<open>A small instance\<close>

definition demo_blocks :: "byte list block_api" where
  "demo_blocks = \<lparr>cbor_serialize = (\<lambda>x. x), stream_frame_encode = (\<lambda>b. Some (be32 (length b) @ b)), cbor_load = Some,
     get_type = hd, CLIENT_API_ERROR = 9, error_decode = (\<lambda>_. None), CLIENT_API_STATUS_OK = 0, CLIENT_API_STATUS_NOT_FOUND = 1,
     CLIENT_API_STATUS_CONFLICT = 2, CLIENT_API_STATUS_BAD_REQUEST = 3, CLIENT_API_STATUS_INTERNAL_ERROR = 4,
     block_put_request_encode = (\<lambda>d e. [1]), CLIENT_API_BLOCK_PUT_RESPONSE = 2, block_put_response_decode = (\<lambda>r. Some (tl r)),
     block_get_request_encode = (\<lambda>h. [3]), CLIENT_API_BLOCK_GET_RESPONSE = 4, block_get_response_decode = (\<lambda>r. Some (tl r)),
     block_delete_request_encode = (\<lambda>h f. [5]), CLIENT_API_BLOCK_DELETE_RESPONSE = 6, block_delete_response_decode = (\<lambda>r. Some (last r)),
     CLIENT_API_REP_PIN_REQUEST = 46, CLIENT_API_REP_UNPIN_REQUEST = 48, CLIENT_API_REP_MARK_PERMANENT_REQUEST = 42,
     CLIENT_API_REP_DELETE_EPHEMERAL_REQUEST = 44, rep_request_encode = (\<lambda>op u. Some [op]), rep_response_decode = (\<lambda>r. Some (last r, 1)),
     type_frame = (\<lambda>t. [t]), CLIENT_API_EPHEMERAL_LIST_REQUEST = 40, CLIENT_API_EPHEMERAL_LIST_RESPONSE = 41,
     ephemeral_list_response_decode = (\<lambda>r. Some (0, []))\<rparr>"

definition demo_cache :: "byte list cache_api" where
  "demo_cache = \<lparr>cbor_serialize = (\<lambda>x. x), stream_frame_encode = (\<lambda>b. Some (be32 (length b) @ b)), cbor_load = Some,
     get_type = hd, CLIENT_API_ERROR = 9, error_decode = (\<lambda>_. None), CLIENT_API_STATUS_OK = 0, CLIENT_API_STATUS_NOT_FOUND = 1,
     CLIENT_API_STATUS_CONFLICT = 2, CLIENT_API_STATUS_BAD_REQUEST = 3, CLIENT_API_STATUS_INTERNAL_ERROR = 4,
     cache_resize_request_encode = (\<lambda>_. None), CLIENT_API_CACHE_RESIZE_RESPONSE = 2, cache_resize_response_decode = (\<lambda>_. None),
     gc_request_encode = (\<lambda>_ _ _. None), CLIENT_API_GC_RESPONSE = 3, gc_response_decode = (\<lambda>_. None), CLIENT_API_GC_MAX_URLS_TEXT = 4194304\<rparr>"

text \<open>The daemon of the instance accepts the connection or does not; when it does, its side of it is given.\<close>

definition demo_offs :: "sock option \<Rightarrow> (byte list, nat, demo_world) offs_env" where
  "demo_offs daemon = \<lparr>cache_of = \<lparr>wire_of = demo_cache,
       os_of = (os_of demo_env)\<lparr>os_local_connect := (\<lambda>w p. daemon)\<rparr>, fs_of = fs_of demo_env, host_of = demo_host,
       g_socket_path = OFFS_LOCAL_SOCKET_PATH, getcwd = getcwd demo_env, dir_is_empty = dir_is_empty demo_env,
       json_number_object = json_number_object demo_env, json_string_object = json_string_object demo_env,
       config_pending_save = config_pending_save demo_env, open_keep_file = open_keep_file demo_env, stack_bytes = ''?''\<rparr>,
     transfer_of = demo_transfer, config_of = demo_config, peers_of = demo_peers, blocks_of = demo_blocks, stderr_tty = False,
     file_at = (\<lambda>_. \<lparr>in_failure = Some ''fopen'', in_size = 0, in_bytes = [], in_error = False\<rparr>),
     output_at = (\<lambda>_. Some \<lparr>out_bytes = [], out_room = None\<rparr>)\<rparr>"

definition demo_run :: "demo_world run_st" where
  "demo_run = \<lparr>client = None, log = [], world = (demo_start, []), written = []\<rparr>"

theorem help_offline_witness:
  "(\<exists>st'. offs (demo_offs None) None None [''pin'', ''--help''] demo_run = Some (0, st') \<and> only_prints demo_run st' \<and> st' \<noteq> demo_run) \<and>
   (\<exists>st'. offs (demo_offs None) None None [''get'', ''--help''] demo_run = Some (1, st'))"
proof -
  have "client demo_run = None" by (simp add: demo_run_def)
  moreover have "os_local_connect (os_of (cache_of (demo_offs None))) (world demo_run) OFFS_LOCAL_SOCKET_PATH = None"
    by (simp add: demo_offs_def)
  ultimately show ?thesis using help_offline [of demo_run "demo_offs None" None None] by blast
qed

text \<open>A daemon that accepts the connection and acknowledges a pin request.\<close>

theorem request_exit_status_witness:
  "succeeds (demo_offs (Some \<lparr>send_evs = [Sent 99], recv_evs = [Avail [0, 0, 0, 2, 47, 0]], wire_out = []\<rparr>)) [''pin'', ''u''] demo_run"
proof -
  let ?s = "\<lparr>send_evs = [Sent 99], recv_evs = [Avail [0, 0, 0, 2, 47, 0]], wire_out = []\<rparr>"
  let ?env = "demo_offs (Some ?s)"
  have globals: "no_globals [''u'', ''v'']" by (simp add: no_globals_def)
  have b: "blocks_of ?env = demo_blocks" "rep_request_encode demo_blocks op u = Some [op]" "CLIENT_API_REP_PIN_REQUEST demo_blocks = 46" for op u
    by (simp_all add: demo_offs_def demo_blocks_def)
  let ?st0 = "demo_run\<lparr>client := Some \<lparr>socket = Some ?s, socket_path = Some OFFS_LOCAL_SOCKET_PATH, connected = 1\<rparr>\<rparr>"
  have up: "connected_st ?env demo_run = Some ?st0" by (simp add: connected_st_def demo_offs_def)
  have "\<exists>st1. st_send demo_blocks (Some [46]) ?st0 = Some (Some [47, 0], st1)"
    by (simp add: st_send_def cli_client_send_def cli_client_send_frame_def cli_client_recv_frame_def demo_blocks_def be32_def Let_def recv_all.simps(3)
        decode_length_def MAX_RESPONSE_SIZE_def)
  then obtain st1 where sent: "st_send demo_blocks (Some [46]) ?st0 = Some (Some [47, 0], st1)" ..
  have "rep_accepted demo_blocks 46 [47, 0]" by (simp add: rep_accepted_def demo_blocks_def)
  with up sent have "acked ?env demo_blocks (Some [46]) (rep_accepted demo_blocks 46) demo_run" unfolding acked_def by blast
  with conjunct1 [OF request_exit_status [OF globals, of ?env demo_run]] show ?thesis by (simp add: b)
qed

theorem exit_status_lost_witness:
  "\<exists>st'. offs (demo_offs (Some \<lparr>send_evs = [Sent 99], recv_evs = [Avail []], wire_out = []\<rparr>)) None None [''block'', ''put'', ''x''] demo_run = Some (0, st')"
proof -
  let ?s = "\<lparr>send_evs = [Sent 99], recv_evs = [Avail []], wire_out = []\<rparr>"
  let ?env = "demo_offs (Some ?s)"
  have up: "\<exists>st0. connected_st ?env demo_run = Some st0" by (simp add: connected_st_def demo_offs_def)
  have "\<exists>rc st'. offs ?env None None [''block'', ''put'', ''x''] demo_run = Some (rc, st')"
    by (simp add: offs_online [OF handler_rows(4)] no_globals_def needs_client_def run_handler_def cmd_block_def exchange_def demo_offs_def
        st_send_def cli_client_send_def cli_client_send_frame_def cli_client_recv_frame_def demo_blocks_def be32_def Let_def recv_all.simps(3))
  then obtain rc st' where run: "offs ?env None None [''block'', ''put'', ''x''] demo_run = Some (rc, st')" by blast
  from up obtain st0 where "connected_st ?env demo_run = Some st0" ..
  from exit_status_lost [OF this _ _ run, of "''x''"] have "rc = 0" by (simp add: no_globals_def)
  with run show ?thesis by blast
qed

end
