(* ===== verification/Service.thy ===== *)
theory Service
  imports Start_Stop
begin

text \<open>
  The service manager behind one interface (\<^verbatim>\<open>src/src/Service/service.h\<close>): the table of operations, its
  implementations for systemd, launchd and the Windows service control manager (\<^verbatim>\<open>service_linux.c\<close>,
  \<^verbatim>\<open>service_macos.c\<close>, \<^verbatim>\<open>service_windows.c\<close>), and the contract a client of the table can rely on, as a locale.
\<close>

section \<open>The table of operations\<close>

datatype service_result = service_result_ok | service_result_error | service_result_timeout | service_result_not_installed

record 'w service_ops =
  svc_stop :: "'w \<Rightarrow> service_result \<times> 'w"
  svc_start :: "'w \<Rightarrow> service_result \<times> 'w"
  svc_is_running :: "'w \<Rightarrow> bool \<times> 'w"
  svc_install :: "string option \<Rightarrow> 'w \<Rightarrow> service_result \<times> 'w"
  svc_uninstall :: "'w \<Rightarrow> service_result \<times> 'w"
  svc_wait_for_stop :: "int \<Rightarrow> 'w \<Rightarrow> service_result \<times> 'w"
  svc_wait_for_start :: "int \<Rightarrow> 'w \<Rightarrow> service_result \<times> 'w"
  svc_name :: string

text \<open>A loop of \<open>n\<close> rounds that sleep and then ask.\<close>

fun wait_loop :: "('w \<Rightarrow> bool \<times> 'w) \<Rightarrow> ('w \<Rightarrow> 'w) \<Rightarrow> nat \<Rightarrow> 'w \<Rightarrow> service_result \<times> 'w" where
  "wait_loop probe nap 0 w = (service_result_timeout, w)"
| "wait_loop probe nap (Suc n) w =
     (case probe (nap w) of (hit, w1) \<Rightarrow> if hit then (service_result_ok, w1) else wait_loop probe nap n w1)"

text \<open>The \<^verbatim>\<open>for\<close> loops run \<^verbatim>\<open>timeout_ms / interval_ms\<close> times, not at all for a negative timeout.\<close>

definition iterations :: "int \<Rightarrow> int \<Rightarrow> nat" where
  "iterations timeout_ms interval_ms = nat (timeout_ms div interval_ms)"

section \<open>systemd\<close>

definition shell_result :: "'w machine \<Rightarrow> string \<Rightarrow> 'w \<Rightarrow> service_result \<times> 'w" where
  "shell_result os cmd w = (case os_system os cmd w of (rc, w1) \<Rightarrow> (if rc = 0 then service_result_ok else service_result_error, w1))"

definition service_linux_stop :: "'w machine \<Rightarrow> 'w \<Rightarrow> service_result \<times> 'w" where
  "service_linux_stop os = shell_result os ''systemctl stop offs-daemon 2>/dev/null''"

definition service_linux_start :: "'w machine \<Rightarrow> 'w \<Rightarrow> service_result \<times> 'w" where
  "service_linux_start os = shell_result os ''systemctl daemon-reload 2>/dev/null && systemctl start offs-daemon 2>/dev/null''"

definition service_linux_is_running :: "'w machine \<Rightarrow> 'w \<Rightarrow> bool \<times> 'w" where
  "service_linux_is_running os w = (case os_system os ''systemctl is-active --quiet offs-daemon'' w of (rc, w1) \<Rightarrow> (rc = 0, w1))"

definition service_linux_install :: "'w machine \<Rightarrow> string option \<Rightarrow> 'w \<Rightarrow> service_result \<times> 'w" where
  "service_linux_install os install_dir = shell_result os ''systemctl daemon-reload && systemctl enable offs-daemon''"

definition service_linux_uninstall :: "'w machine \<Rightarrow> 'w \<Rightarrow> service_result \<times> 'w" where
  "service_linux_uninstall os w =
     shell_result os ''systemctl daemon-reload''
       (snd (os_system os ''systemctl disable offs-daemon 2>/dev/null'' (snd (os_system os ''systemctl stop offs-daemon 2>/dev/null'' w))))"

definition service_linux_wait_for_stop :: "'w machine \<Rightarrow> int \<Rightarrow> 'w \<Rightarrow> service_result \<times> 'w" where
  "service_linux_wait_for_stop os timeout_ms =
     wait_loop (\<lambda>w. case os_system os ''systemctl is-active --quiet offs-daemon'' w of (running, w1) \<Rightarrow> (running \<noteq> 0, w1))
       (os_sleep_ms os 300) (iterations timeout_ms 300)"

definition service_linux_wait_for_start :: "'w machine \<Rightarrow> int \<Rightarrow> 'w \<Rightarrow> service_result \<times> 'w" where
  "service_linux_wait_for_start os timeout_ms =
     wait_loop (\<lambda>w. case os_system os ''systemctl is-active --quiet offs-daemon'' w of (running, w1) \<Rightarrow> (running = 0, w1))
       (os_sleep_ms os 500) (iterations timeout_ms 500)"

definition linux_service_ops :: "'w machine \<Rightarrow> 'w service_ops" where
  "linux_service_ops os =
     \<lparr>svc_stop = service_linux_stop os, svc_start = service_linux_start os, svc_is_running = service_linux_is_running os,
      svc_install = service_linux_install os, svc_uninstall = service_linux_uninstall os,
      svc_wait_for_stop = service_linux_wait_for_stop os, svc_wait_for_start = service_linux_wait_for_start os, svc_name = ''offs-daemon''\<rparr>"

section \<open>launchd\<close>

text \<open>The calls on files the installation makes; \<^verbatim>\<open>unlink\<close> reports success, a missing file or another error.\<close>

datatype unlink_result = Unlinked | Unlink_ENOENT | Unlink_Failed

record 'w mac_files =
  realpath :: "string \<Rightarrow> 'w \<Rightarrow> string option"
  plist_fopen :: "string \<Rightarrow> 'w \<Rightarrow> bool \<times> 'w"
  plist_fprintf :: "string \<Rightarrow> 'w \<Rightarrow> bool \<times> 'w"
  plist_fclose :: "'w \<Rightarrow> bool \<times> 'w"
  plist_chmod :: "string \<Rightarrow> nat \<Rightarrow> 'w \<Rightarrow> bool \<times> 'w"
  plist_unlink :: "string \<Rightarrow> 'w \<Rightarrow> unlink_result \<times> 'w"

definition PLIST_PATH :: string where
  "PLIST_PATH = ''/Library/LaunchDaemons/com.offs.daemon.plist''"

definition SERVICE_LABEL :: string where
  "SERVICE_LABEL = ''com.offs.daemon''"

definition service_macos_stop :: "'w machine \<Rightarrow> 'w \<Rightarrow> service_result \<times> 'w" where
  "service_macos_stop os = shell_result os (''launchctl bootout system '' @ PLIST_PATH @ '' 2>/dev/null'')"

definition service_macos_start :: "'w machine \<Rightarrow> 'w \<Rightarrow> service_result \<times> 'w" where
  "service_macos_start os = shell_result os (''launchctl bootstrap system '' @ PLIST_PATH @ '' 2>/dev/null'')"

definition launchctl_list :: string where
  "launchctl_list = ''launchctl list '' @ SERVICE_LABEL @ '' > /dev/null 2>&1''"

definition service_macos_is_running :: "'w machine \<Rightarrow> 'w \<Rightarrow> bool \<times> 'w" where
  "service_macos_is_running os w = (case os_system os launchctl_list w of (rc, w1) \<Rightarrow> (rc = 0, w1))"

text \<open>The buffer has \<^verbatim>\<open>PATH_MAX\<close>, that is 1024, bytes; a longer candidate is passed over.\<close>

definition service_macos_resolve_binary_path :: "'w mac_files \<Rightarrow> string option \<Rightarrow> 'w \<Rightarrow> string option" where
  "service_macos_resolve_binary_path fs install_dir w =
     (let candidate = (case install_dir of Some d \<Rightarrow> if d \<noteq> [] \<and> length (d @ ''/bin/offs-daemon'') < 1024 then Some (d @ ''/bin/offs-daemon'') else None
                       | None \<Rightarrow> None)
      in case Option.bind candidate (\<lambda>c. realpath fs c w) of
           Some p \<Rightarrow> Some p
         | None \<Rightarrow>
             (case realpath fs ''/usr/local/bin/offs-daemon'' w of
                Some p \<Rightarrow> Some p
              | None \<Rightarrow>
                  (case realpath fs ''/opt/offs/bin/offs-daemon'' w of
                     Some p \<Rightarrow> Some p
                   | None \<Rightarrow> realpath fs ''/usr/bin/offs-daemon'' w)))"

definition dquoted :: "string \<Rightarrow> string" where
  "dquoted s = [CHR 0x22] @ s @ [CHR 0x22]"

text \<open>The job starts the daemon with one argument.\<close>

definition plist_arguments :: "string \<Rightarrow> string list" where
  "plist_arguments binary_path = [binary_path, ''--daemon'']"

definition plist_text :: "string \<Rightarrow> string" where
  "plist_text binary_path =
     ''<?xml version='' @ dquoted ''1.0'' @ '' encoding='' @ dquoted ''UTF-8'' @ ''?>'' @ newline
     @ ''<!DOCTYPE plist PUBLIC '' @ dquoted ''-//Apple//DTD PLIST 1.0//EN'' @ '' '' @ dquoted ''http://www.apple.com/DTDs/PropertyList-1.0.dtd'' @ ''>'' @ newline
     @ ''<plist version='' @ dquoted ''1.0'' @ ''>'' @ newline
     @ ''<dict>'' @ newline
     @ ''  <key>Label</key>'' @ newline
     @ ''  <string>'' @ SERVICE_LABEL @ ''</string>'' @ newline
     @ ''  <key>ProgramArguments</key>'' @ newline
     @ ''  <array>'' @ newline
     @ concat (map (\<lambda>a. ''    <string>'' @ a @ ''</string>'' @ newline) (plist_arguments binary_path))
     @ ''  </array>'' @ newline
     @ ''  <key>RunAtLoad</key>'' @ newline
     @ ''  <true/>'' @ newline
     @ ''  <key>KeepAlive</key>'' @ newline
     @ ''  <true/>'' @ newline
     @ ''</dict>'' @ newline
     @ ''</plist>'' @ newline"

definition service_macos_install :: "'w machine \<Rightarrow> 'w mac_files \<Rightarrow> string option \<Rightarrow> 'w \<Rightarrow> service_result \<times> 'w" where
  "service_macos_install os fs install_dir w =
     (case service_macos_resolve_binary_path fs install_dir w of
        None \<Rightarrow> (service_result_error, w)
      | Some binary_path \<Rightarrow>
          (case plist_fopen fs PLIST_PATH w of
             (False, w1) \<Rightarrow> (service_result_error, w1)
           | (True, w1) \<Rightarrow>
               (case plist_fprintf fs (plist_text binary_path) w1 of
                  (False, w2) \<Rightarrow> (service_result_error, snd (plist_fclose fs w2))
                | (True, w2) \<Rightarrow>
                    (case plist_fclose fs w2 of
                       (False, w3) \<Rightarrow> (service_result_error, w3)
                     | (True, w3) \<Rightarrow>
                         (case plist_chmod fs PLIST_PATH 420 w3 of
                            (False, w4) \<Rightarrow> (service_result_error, w4)
                          | (True, w4) \<Rightarrow> shell_result os (''launchctl bootstrap system '' @ PLIST_PATH @ '' 2>/dev/null'') w4)))))"

definition service_macos_uninstall :: "'w machine \<Rightarrow> 'w mac_files \<Rightarrow> 'w \<Rightarrow> service_result \<times> 'w" where
  "service_macos_uninstall os fs w =
     (case plist_unlink fs PLIST_PATH (snd (os_system os (''launchctl bootout system '' @ PLIST_PATH @ '' 2>/dev/null'') w)) of
        (r, w2) \<Rightarrow> (if r = Unlink_Failed then service_result_error else service_result_ok, w2))"

definition service_macos_wait_for_stop :: "'w machine \<Rightarrow> int \<Rightarrow> 'w \<Rightarrow> service_result \<times> 'w" where
  "service_macos_wait_for_stop os timeout_ms =
     wait_loop (\<lambda>w. case os_system os launchctl_list w of (running, w1) \<Rightarrow> (running \<noteq> 0, w1)) (os_sleep_ms os 300) (iterations timeout_ms 300)"

definition service_macos_wait_for_start :: "'w machine \<Rightarrow> int \<Rightarrow> 'w \<Rightarrow> service_result \<times> 'w" where
  "service_macos_wait_for_start os timeout_ms =
     wait_loop (\<lambda>w. case os_system os launchctl_list w of (running, w1) \<Rightarrow> (running = 0, w1)) (os_sleep_ms os 500) (iterations timeout_ms 500)"

definition macos_service_ops :: "'w machine \<Rightarrow> 'w mac_files \<Rightarrow> 'w service_ops" where
  "macos_service_ops os fs =
     \<lparr>svc_stop = service_macos_stop os, svc_start = service_macos_start os, svc_is_running = service_macos_is_running os,
      svc_install = service_macos_install os fs, svc_uninstall = service_macos_uninstall os fs,
      svc_wait_for_stop = service_macos_wait_for_stop os, svc_wait_for_start = service_macos_wait_for_start os, svc_name = ''com.offs.daemon''\<rparr>"
section \<open>The contract\<close>

text \<open>What a client of the table relies on: \<open>down\<close> and \<open>up\<close> are states in which the service manager has just
  reported the daemon as stopped or as running.\<close>

locale service =
  fixes ops :: "'w service_ops" and down up :: "'w \<Rightarrow> bool"
  assumes stop_seen: "svc_wait_for_stop ops t w = (service_result_ok, w') \<Longrightarrow> down w'"
    and start_seen: "svc_wait_for_start ops t w = (service_result_ok, w') \<Longrightarrow> up w'"
    and running_seen: "svc_is_running ops w = (True, w') \<Longrightarrow> up w'"

text \<open>The states the shell commands report.\<close>

definition shell_reports :: "'w machine \<Rightarrow> string \<Rightarrow> bool \<Rightarrow> 'w \<Rightarrow> bool" where
  "shell_reports os cmd ok w' \<longleftrightarrow> (\<exists>w rc. os_system os cmd w = (rc, w') \<and> (rc = 0) = ok)"

lemma shell_reportsI: "os_system os cmd w = (rc, w') \<Longrightarrow> (rc = 0) = ok \<Longrightarrow> shell_reports os cmd ok w'"
  by (auto simp: shell_reports_def)

lemma wait_loop_ok: "wait_loop probe nap n w = (service_result_ok, w') \<Longrightarrow> \<exists>w1. probe w1 = (True, w')"
  by (induction n arbitrary: w) (auto split: prod.splits if_splits)

interpretation linux: service "linux_service_ops os"
    "shell_reports os ''systemctl is-active --quiet offs-daemon'' False" "shell_reports os ''systemctl is-active --quiet offs-daemon'' True"
  for os :: "'w machine"
  by unfold_locales
    (auto simp: linux_service_ops_def service_linux_wait_for_stop_def service_linux_wait_for_start_def service_linux_is_running_def
      dest!: wait_loop_ok intro: shell_reportsI split: prod.splits)

interpretation macos: service "macos_service_ops os fs" "shell_reports os launchctl_list False" "shell_reports os launchctl_list True"
  for os :: "'w machine" and fs
  by unfold_locales
    (auto simp: macos_service_ops_def service_macos_wait_for_stop_def service_macos_wait_for_start_def service_macos_is_running_def
      dest!: wait_loop_ok intro: shell_reportsI split: prod.splits)

section \<open>Properties of the waiting loops\<close>

text \<open>One round of a waiting loop, and the world after \<open>k\<close> rounds.\<close>

definition wait_round :: "('w \<Rightarrow> bool \<times> 'w) \<Rightarrow> ('w \<Rightarrow> 'w) \<Rightarrow> 'w \<Rightarrow> bool \<times> 'w" where
  "wait_round probe nap w = probe (nap w)"

definition after_rounds :: "('w \<Rightarrow> bool \<times> 'w) \<Rightarrow> ('w \<Rightarrow> 'w) \<Rightarrow> nat \<Rightarrow> 'w \<Rightarrow> 'w" where
  "after_rounds probe nap k = (\<lambda>w. snd (wait_round probe nap w)) ^^ k"

lemma after_rounds_Suc: "after_rounds probe nap (Suc k) w = after_rounds probe nap k (snd (wait_round probe nap w))"
  by (simp only: after_rounds_def funpow_Suc_right comp_apply)

lemma wait_loop_rounds:
  "fst (wait_loop probe nap n w) = service_result_ok \<longleftrightarrow> (\<exists>k<n. fst (wait_round probe nap (after_rounds probe nap k w)))"
  "fst (wait_loop probe nap n w) \<in> {service_result_ok, service_result_timeout}"
proof (induction n arbitrary: w)
  case (Suc n)
  have split: "(\<exists>k<Suc n. P k) \<longleftrightarrow> P 0 \<or> (\<exists>k<n. P (Suc k))" for P by (metis less_Suc_eq_0_disj)
  case 1
  show ?case
    using Suc(1) [of "snd (wait_round probe nap w)"] unfolding split after_rounds_Suc
    by (auto simp: wait_round_def after_rounds_def split: prod.splits)
  case 2
  show ?case using Suc(2) by (auto split: prod.splits)
qed simp_all

text \<open>Time passes in the naps, at least as long as asked for, and in the checks.\<close>

lemma wait_loop_time:
  assumes nap: "\<And>w. now w + d \<le> now (nap w)" "\<And>w. now (nap w) \<le> now w + d + (slack :: nat)"
    and probe: "\<And>w. now w \<le> now (snd (probe w))" "\<And>w. now (snd (probe w)) \<le> now w + D"
  shows "now (snd (wait_loop probe nap n w)) \<le> now w + n * (d + slack + D) \<and>
    (fst (wait_loop probe nap n w) = service_result_timeout \<longrightarrow> now w + n * d \<le> now (snd (wait_loop probe nap n w)))"
proof (induction n arbitrary: w)
  case (Suc n)
  obtain b w1 where r: "probe (nap w) = (b, w1)" by fastforce
  have t: "now w + d \<le> now w1" "now w1 \<le> now w + (d + slack + D)"
    using nap [of w] probe [of "nap w"] r by simp_all
  show ?case using Suc [of w1] t r by (cases b) auto
qed simp

text \<open>The check of the systemd backend after a nap of \<open>d\<close> milliseconds.\<close>

definition is_active :: "string" where
  "is_active = ''systemctl is-active --quiet offs-daemon''"

definition systemd_active :: "'w machine \<Rightarrow> nat \<Rightarrow> nat \<Rightarrow> 'w \<Rightarrow> bool" where
  "systemd_active os d k w =
     (fst (os_system os is_active (os_sleep_ms os d (((\<lambda>w. snd (os_system os is_active (os_sleep_ms os d w))) ^^ k) w))) = 0)"

lemma systemd_rounds:
  assumes "probe = (\<lambda>w. case os_system os is_active w of (running, w1) \<Rightarrow> (f running, w1))"
  shows "fst (wait_round probe (os_sleep_ms os d) (after_rounds probe (os_sleep_ms os d) k w)) =
    f (fst (os_system os is_active (os_sleep_ms os d (((\<lambda>w. snd (os_system os is_active (os_sleep_ms os d w))) ^^ k) w))))"
  by (simp add: assms wait_round_def after_rounds_def case_prod_beta)

text \<open>C32. The waits of the systemd backend, on any machine. With a timeout of \<open>timeout\<close> milliseconds they check at most
  \<open>timeout div 300\<close> times for a stop and \<open>timeout div 500\<close> times for a start, each time after a nap; they return
  with success exactly when one of these checks sees the state waited for and report a timeout otherwise.
  The timeout counts naps and not time: if a nap takes up to \<open>slack\<close> milliseconds more than asked for and a
  call of \<^verbatim>\<open>systemctl\<close> up to \<open>D\<close>, a wait takes at most \<open>slack + D\<close> more per check than its naps, so it can exceed the
  timeout; and a wait that reports a timeout has lasted at least the naps it was allowed.\<close>

theorem linux_waits_bounded:
  assumes "\<And>d w. now w + d \<le> now (os_sleep_ms os d w)" "\<And>d w. now (os_sleep_ms os d w) \<le> now w + d + (slack :: nat)"
    and "\<And>w. now w \<le> now (snd (os_system os is_active w))" "\<And>w. now (snd (os_system os is_active w)) \<le> now w + D"
  shows "(case svc_wait_for_stop (linux_service_ops os) timeout w of (r, w') \<Rightarrow>
      r = (if \<exists>k < nat (timeout div 300). \<not> systemd_active os 300 k w then service_result_ok else service_result_timeout) \<and>
      now w' \<le> now w + nat (timeout div 300) * (300 + slack + D) \<and>
      (r = service_result_timeout \<longrightarrow> now w + nat (timeout div 300) * 300 \<le> now w')) \<and>
    (case svc_wait_for_start (linux_service_ops os) timeout w of (r, w') \<Rightarrow>
      r = (if \<exists>k < nat (timeout div 500). systemd_active os 500 k w then service_result_ok else service_result_timeout) \<and>
      now w' \<le> now w + nat (timeout div 500) * (500 + slack + D) \<and>
      (r = service_result_timeout \<longrightarrow> now w + nat (timeout div 500) * 500 \<le> now w'))"
proof -
  have general: "(case wait_loop probe (os_sleep_ms os d) n w of (r, w') \<Rightarrow>
      r = (if \<exists>k<n. f (fst (os_system os is_active (os_sleep_ms os d (((\<lambda>w. snd (os_system os is_active (os_sleep_ms os d w))) ^^ k) w))))
           then service_result_ok else service_result_timeout) \<and>
      now w' \<le> now w + n * (d + slack + D) \<and> (r = service_result_timeout \<longrightarrow> now w + n * d \<le> now w'))"
    if probe: "probe = (\<lambda>w. case os_system os is_active w of (running, w1) \<Rightarrow> (f running, w1))" for probe f d n
  proof -
    note rounds = wait_loop_rounds [of probe "os_sleep_ms os d" n w, unfolded systemd_rounds [OF probe]]
    have "now w \<le> now (snd (probe w))" "now (snd (probe w)) \<le> now w + D" for w
      using assms(3,4) [of w] by (simp_all add: probe case_prod_beta)
    note time = wait_loop_time [of now d "os_sleep_ms os d" slack probe D n w, OF assms(1,2) this]
    show ?thesis using rounds time by (auto simp: case_prod_beta)
  qed
  have active: "''systemctl is-active --quiet offs-daemon'' = is_active" by (simp add: is_active_def)
  show ?thesis
    using general [OF refl, where f = "\<lambda>r. r \<noteq> 0" and d = 300 and n = "nat (timeout div 300)"]
      general [OF refl, where f = "\<lambda>r. r = 0" and d = 500 and n = "nat (timeout div 500)"]
    unfolding linux_service_ops_def service_linux_wait_for_stop_def service_linux_wait_for_start_def iterations_def service_ops.simps active
      systemd_active_def by (rule conjI)
qed

text \<open>A machine whose state is the time in milliseconds and whose daemon goes down at time 1000.\<close>

definition clock_machine :: "nat machine" where
  "clock_machine = \<lparr>os_kind = Linux, os_system = (\<lambda>c t. (if t < 1000 then 0 else 3, t)), os_sleep_ms = (\<lambda>d t. t + d),
     os_local_connect = (\<lambda>t p. None), os_fork_exec = (\<lambda>c t. (None, t)), os_waitpid_nohang = (\<lambda>p t. (None, t)),
     os_exe_path = (\<lambda>t. None), os_is_executable = (\<lambda>t p. False), os_pgrep_offsd = (\<lambda>t. None), os_cmdline = (\<lambda>t p. None), os_geteuid = (\<lambda>t. 0)\<rparr>"

text \<open>The same machine when each call of \<^verbatim>\<open>systemctl\<close> takes 200 milliseconds: a wait with a timeout of 900 milliseconds
  for a daemon that stays up takes 1500.\<close>

definition slow_machine :: "nat machine" where
  "slow_machine = clock_machine\<lparr>os_system := \<lambda>c t. (if t < 100000 then 0 else 3, t + 200)\<rparr>"

lemma slow_wait: "svc_wait_for_stop (linux_service_ops slow_machine) 900 0 = (service_result_timeout, 1500)"
proof -
  have "iterations 900 300 = Suc (Suc (Suc 0))" by (simp add: iterations_def)
  then show ?thesis
    by (simp add: linux_service_ops_def service_linux_wait_for_stop_def slow_machine_def clock_machine_def)
qed

theorem linux_waits_bounded_witness:
  "case svc_wait_for_stop (linux_service_ops slow_machine) 900 0 of (r, t) \<Rightarrow>
     r = service_result_timeout \<and> 900 < t \<and> t \<le> 0 + nat (900 div 300) * (300 + 0 + 200)"
proof -
  have clock: "t + d \<le> os_sleep_ms slow_machine d t" "os_sleep_ms slow_machine d t \<le> t + d + 0"
    "t \<le> snd (os_system slow_machine is_active t)" "snd (os_system slow_machine is_active t) \<le> t + 200" for d t
    by (simp_all add: slow_machine_def clock_machine_def)
  note b = linux_waits_bounded [where now = "\<lambda>t. t" and timeout = 900 and w = 0, OF clock]
  show ?thesis using conjunct1 [OF b] unfolding slow_wait by simp
qed

end
