(* ===== verification/Service_Windows.thy ===== *)
theory Service_Windows
  imports Service
begin

text \<open>
  The backend for the Windows service control manager (\<^verbatim>\<open>src/src/Service/service_windows.c\<close>), with the
  handles it opens and closes and the last error of the thread as part of the state.
\<close>

section \<open>The service control manager\<close>

datatype win_error =
    ERROR_SERVICE_DOES_NOT_EXIST | ERROR_SERVICE_NOT_ACTIVE | ERROR_SERVICE_ALREADY_RUNNING | ERROR_SERVICE_EXISTS
  | ERROR_SERVICE_MARKED_FOR_DELETE | ERROR_OTHER

datatype svc_state = SERVICE_STOPPED | SERVICE_RUNNING | SERVICE_OTHER_STATE

datatype svc_access = SC_MANAGER_CONNECT | SC_MANAGER_CREATE_SERVICE | SERVICE_STOP | SERVICE_START | SERVICE_QUERY_STATUS | DELETE_ACCESS

text \<open>The calls of the Windows API; a call that fails gives its error. \<open>close_error\<close> is what \<^verbatim>\<open>CloseServiceHandle\<close>
  leaves as last error.\<close>

record 'w scm_api =
  OpenSCManager :: "svc_access list \<Rightarrow> 'w \<Rightarrow> win_error option \<times> 'w"
  OpenService :: "svc_access list \<Rightarrow> 'w \<Rightarrow> win_error option \<times> 'w"
  ControlService_Stop :: "'w \<Rightarrow> (win_error + svc_state) \<times> 'w"
  QueryServiceStatus :: "'w \<Rightarrow> svc_state option \<times> 'w"
  StartService :: "'w \<Rightarrow> win_error option \<times> 'w"
  CreateService :: "string \<Rightarrow> 'w \<Rightarrow> win_error option \<times> 'w"
  ChangeServiceConfig2 :: "string \<Rightarrow> 'w \<Rightarrow> 'w"
  DeleteService :: "'w \<Rightarrow> win_error option \<times> 'w"
  MultiByteToWideChar :: "string \<Rightarrow> string option" \<comment> \<open>\<open>None\<close> when the text is not valid UTF-8\<close>
  close_error :: "win_error \<Rightarrow> win_error"
  Sleep :: "nat \<Rightarrow> 'w \<Rightarrow> 'w"

text \<open>The state: the world behind the interface, the handles that are open, the next handle to be given out, whether a
  handle that was not open has been used or closed, and the last error. A handle is a number that is never
  given out again; the null handle is \<open>None\<close>.\<close>

record 'w win_st =
  w_world :: 'w
  w_open :: "nat list"
  w_next :: nat
  w_misuse :: bool
  w_error :: win_error

definition CloseServiceHandle :: "'w scm_api \<Rightarrow> nat \<Rightarrow> 'w win_st \<Rightarrow> 'w win_st" where
  "CloseServiceHandle api h s =
     (if h \<in> set (w_open s) then s\<lparr>w_open := remove1 h (w_open s), w_error := close_error api (w_error s)\<rparr>
      else s\<lparr>w_misuse := True\<rparr>)"

text \<open>Passing a handle to a call.\<close>

definition use :: "nat \<Rightarrow> 'w win_st \<Rightarrow> 'w win_st" where
  "use h s = (if h \<in> set (w_open s) then s else s\<lparr>w_misuse := True\<rparr>)"

text \<open>A call that gives a handle, and one that only succeeds or fails.\<close>

definition win_open :: "win_error option \<times> 'w \<Rightarrow> 'w win_st \<Rightarrow> nat option \<times> 'w win_st" where
  "win_open r s = (case r of
     (None, w) \<Rightarrow> (Some (w_next s), s\<lparr>w_world := w, w_open := w_next s # w_open s, w_next := Suc (w_next s)\<rparr>)
   | (Some e, w) \<Rightarrow> (None, s\<lparr>w_world := w, w_error := e\<rparr>))"

definition win_call :: "win_error option \<times> 'w \<Rightarrow> 'w win_st \<Rightarrow> bool \<times> 'w win_st" where
  "win_call r s = (case r of
     (None, w) \<Rightarrow> (True, s\<lparr>w_world := w\<rparr>)
   | (Some e, w) \<Rightarrow> (False, s\<lparr>w_world := w, w_error := e\<rparr>))"

definition service_windows_open_scm :: "'w scm_api \<Rightarrow> svc_access list \<Rightarrow> 'w win_st \<Rightarrow> nat option \<times> 'w win_st" where
  "service_windows_open_scm api access s = win_open (OpenSCManager api access (w_world s)) s"

definition service_windows_open_service :: "'w scm_api \<Rightarrow> nat \<Rightarrow> svc_access list \<Rightarrow> 'w win_st \<Rightarrow> nat option \<times> 'w win_st" where
  "service_windows_open_service api scm access s = win_open (OpenService api access (w_world s)) (use scm s)"

definition query :: "'w scm_api \<Rightarrow> nat \<Rightarrow> 'w win_st \<Rightarrow> svc_state option \<times> 'w win_st" where
  "query api svc s = (case QueryServiceStatus api (w_world s) of (r, w) \<Rightarrow> (r, (use svc s)\<lparr>w_world := w\<rparr>))"

definition start :: "'w scm_api \<Rightarrow> nat \<Rightarrow> 'w win_st \<Rightarrow> bool \<times> 'w win_st" where
  "start api svc s = win_call (StartService api (w_world s)) (use svc s)"

section \<open>Stopping, starting, asking\<close>

definition STOP_POLL_TIMEOUT_MS :: nat where
  "STOP_POLL_TIMEOUT_MS = 30000"

definition STOP_POLL_INTERVAL_MS :: nat where
  "STOP_POLL_INTERVAL_MS = 200"

text \<open>The loop of \<^verbatim>\<open>service_windows_stop\<close>; each of its three ways out closes both handles.\<close>

function stop_poll :: "'w scm_api \<Rightarrow> nat \<Rightarrow> nat \<Rightarrow> nat \<Rightarrow> svc_state \<Rightarrow> 'w win_st \<Rightarrow> service_result \<times> 'w win_st" where
  "stop_poll api scm svc elapsed status s =
     (if status = SERVICE_STOPPED
      then (service_result_ok, CloseServiceHandle api scm (CloseServiceHandle api svc s))
      else
        (let s1 = s\<lparr>w_world := Sleep api STOP_POLL_INTERVAL_MS (w_world s)\<rparr>; elapsed1 = elapsed + STOP_POLL_INTERVAL_MS in
         if elapsed1 \<ge> STOP_POLL_TIMEOUT_MS
         then (service_result_timeout, CloseServiceHandle api scm (CloseServiceHandle api svc s1))
         else (case query api svc s1 of
             (None, s2) \<Rightarrow> (service_result_error, CloseServiceHandle api scm (CloseServiceHandle api svc s2))
           | (Some status1, s2) \<Rightarrow> stop_poll api scm svc elapsed1 status1 s2)))"
  by pat_completeness auto

termination
  by (relation "measure (\<lambda>(api, scm, svc, elapsed, status, s). STOP_POLL_TIMEOUT_MS - elapsed)") (auto simp: STOP_POLL_INTERVAL_MS_def)

declare stop_poll.simps [simp del]

definition service_windows_stop :: "'w scm_api \<Rightarrow> 'w win_st \<Rightarrow> service_result \<times> 'w win_st" where
  "service_windows_stop api s =
     (case service_windows_open_scm api [SC_MANAGER_CONNECT] s of
        (None, s1) \<Rightarrow> (service_result_error, s1)
      | (Some scm, s1) \<Rightarrow>
          (case service_windows_open_service api scm [SERVICE_STOP, SERVICE_QUERY_STATUS] s1 of
             (None, s2) \<Rightarrow>
               (let s3 = CloseServiceHandle api scm s2 in
                (if w_error s3 = ERROR_SERVICE_DOES_NOT_EXIST then service_result_not_installed else service_result_error, s3))
           | (Some svc, s2) \<Rightarrow>
               (case ControlService_Stop api (w_world s2) of
                  (Inl e, w) \<Rightarrow>
                    (if e = ERROR_SERVICE_NOT_ACTIVE then service_result_ok else service_result_error,
                     CloseServiceHandle api scm (CloseServiceHandle api svc ((use svc s2)\<lparr>w_world := w, w_error := e\<rparr>)))
                | (Inr status, w) \<Rightarrow> stop_poll api scm svc 0 status ((use svc s2)\<lparr>w_world := w\<rparr>))))"

definition service_windows_start :: "'w scm_api \<Rightarrow> 'w win_st \<Rightarrow> service_result \<times> 'w win_st" where
  "service_windows_start api s =
     (case service_windows_open_scm api [SC_MANAGER_CONNECT] s of
        (None, s1) \<Rightarrow> (service_result_error, s1)
      | (Some scm, s1) \<Rightarrow>
          (case service_windows_open_service api scm [SERVICE_START] s1 of
             (None, s2) \<Rightarrow>
               (let s3 = CloseServiceHandle api scm s2 in
                (if w_error s3 = ERROR_SERVICE_DOES_NOT_EXIST then service_result_not_installed else service_result_error, s3))
           | (Some svc, s2) \<Rightarrow>
               (let (started, s3) = start api svc s2;
                    result = (if \<not> started
                              then (if w_error s3 = ERROR_SERVICE_ALREADY_RUNNING then service_result_ok else service_result_error)
                              else service_result_ok)
                in (result, CloseServiceHandle api scm (CloseServiceHandle api svc s3)))))"

definition service_windows_is_running :: "'w scm_api \<Rightarrow> 'w win_st \<Rightarrow> bool \<times> 'w win_st" where
  "service_windows_is_running api s =
     (case service_windows_open_scm api [SC_MANAGER_CONNECT] s of
        (None, s1) \<Rightarrow> (False, s1)
      | (Some scm, s1) \<Rightarrow>
          (case service_windows_open_service api scm [SERVICE_QUERY_STATUS] s1 of
             (None, s2) \<Rightarrow> (False, CloseServiceHandle api scm s2)
           | (Some svc, s2) \<Rightarrow>
               (let (r, s3) = query api svc s2
                in (r = Some SERVICE_RUNNING, CloseServiceHandle api scm (CloseServiceHandle api svc s3)))))"

section \<open>Installing and removing\<close>

definition DEFAULT_BINARY_PATH :: string where
  "DEFAULT_BINARY_PATH = ''C:'' @ [CHR 0x5C] @ ''Program Files'' @ [CHR 0x5C] @ ''offs'' @ [CHR 0x5C] @ ''offs-daemon.exe''"

definition SERVICE_DESCRIPTION :: string where
  "SERVICE_DESCRIPTION = ''OFFS distributed overlay network daemon''"

definition service_windows_build_binary_path :: "'w scm_api \<Rightarrow> string option \<Rightarrow> string option" where
  "service_windows_build_binary_path api install_dir =
     (case install_dir of
        Some dir \<Rightarrow>
          if dir \<noteq> [] then
            map_option (\<lambda>wide_path. wide_path @ (if wide_path \<noteq> [] \<and> last wide_path = CHR 0x5C then ''offs-daemon.exe'' else [CHR 0x5C] @ ''offs-daemon.exe''))
              (MultiByteToWideChar api dir)
          else Some DEFAULT_BINARY_PATH
      | None \<Rightarrow> Some DEFAULT_BINARY_PATH)"

definition service_windows_install :: "'w scm_api \<Rightarrow> string option \<Rightarrow> 'w win_st \<Rightarrow> service_result \<times> 'w win_st" where
  "service_windows_install api install_dir s =
     (case service_windows_build_binary_path api install_dir of
        None \<Rightarrow> (service_result_error, s)
      | Some binary_path \<Rightarrow>
          (case service_windows_open_scm api [SC_MANAGER_CONNECT, SC_MANAGER_CREATE_SERVICE] s of
             (None, s1) \<Rightarrow> (service_result_error, s1)
           | (Some scm, s1) \<Rightarrow>
               (case win_open (CreateService api binary_path (w_world s1)) (use scm s1) of
                  (None, s2) \<Rightarrow>
                    (if w_error s2 = ERROR_SERVICE_EXISTS \<or> w_error s2 = ERROR_SERVICE_MARKED_FOR_DELETE then service_result_ok else service_result_error,
                     CloseServiceHandle api scm s2)
                | (Some svc, s2) \<Rightarrow>
                    (let s3 = (use svc s2)\<lparr>w_world := ChangeServiceConfig2 api SERVICE_DESCRIPTION (w_world s2)\<rparr>;
                         s4 = snd (start api svc s3)
                     in (service_result_ok, CloseServiceHandle api scm (CloseServiceHandle api svc s4))))))"

definition service_windows_uninstall :: "'w scm_api \<Rightarrow> 'w win_st \<Rightarrow> service_result \<times> 'w win_st" where
  "service_windows_uninstall api s =
     (case service_windows_open_scm api [SC_MANAGER_CONNECT] (snd (service_windows_stop api s)) of
        (None, s1) \<Rightarrow> (service_result_error, s1)
      | (Some scm, s1) \<Rightarrow>
          (case service_windows_open_service api scm [DELETE_ACCESS, SERVICE_QUERY_STATUS] s1 of
             (None, s2) \<Rightarrow>
               (if w_error s2 = ERROR_SERVICE_DOES_NOT_EXIST then service_result_ok else service_result_error,
                CloseServiceHandle api scm s2)
           | (Some svc, s2) \<Rightarrow>
               (let (deleted, s3) = win_call (DeleteService api (w_world s2)) (use svc s2);
                    result = (if \<not> deleted
                              then (if w_error s3 = ERROR_SERVICE_MARKED_FOR_DELETE then service_result_ok else service_result_error)
                              else service_result_ok)
                in (result, CloseServiceHandle api scm (CloseServiceHandle api svc s3)))))"

section \<open>Waiting\<close>

text \<open>The loop asks first and sleeps afterwards; each of its three ways out closes both handles. The two waits of
  the source differ in the state they wait for and in the interval.\<close>

fun win_wait_loop :: "'w scm_api \<Rightarrow> nat \<Rightarrow> nat \<Rightarrow> svc_state \<Rightarrow> nat \<Rightarrow> nat \<Rightarrow> 'w win_st \<Rightarrow> service_result \<times> 'w win_st" where
  "win_wait_loop api scm svc target interval_ms 0 s =
     (service_result_timeout, CloseServiceHandle api scm (CloseServiceHandle api svc s))"
| "win_wait_loop api scm svc target interval_ms (Suc n) s =
     (case query api svc s of
        (None, s1) \<Rightarrow> (service_result_error, CloseServiceHandle api scm (CloseServiceHandle api svc s1))
      | (Some status, s1) \<Rightarrow>
          if status = target then (service_result_ok, CloseServiceHandle api scm (CloseServiceHandle api svc s1))
          else win_wait_loop api scm svc target interval_ms n (s1\<lparr>w_world := Sleep api interval_ms (w_world s1)\<rparr>))"

definition win_wait :: "'w scm_api \<Rightarrow> svc_state \<Rightarrow> nat \<Rightarrow> int \<Rightarrow> 'w win_st \<Rightarrow> service_result \<times> 'w win_st" where
  "win_wait api target interval_ms timeout_ms s =
     (case service_windows_open_scm api [SC_MANAGER_CONNECT] s of
        (None, s1) \<Rightarrow> (service_result_error, s1)
      | (Some scm, s1) \<Rightarrow>
          (case service_windows_open_service api scm [SERVICE_QUERY_STATUS] s1 of
             (None, s2) \<Rightarrow> (service_result_not_installed, CloseServiceHandle api scm s2)
           | (Some svc, s2) \<Rightarrow> win_wait_loop api scm svc target interval_ms (iterations timeout_ms (int interval_ms)) s2))"

definition service_windows_wait_for_stop :: "'w scm_api \<Rightarrow> int \<Rightarrow> 'w win_st \<Rightarrow> service_result \<times> 'w win_st" where
  "service_windows_wait_for_stop api = win_wait api SERVICE_STOPPED 300"

definition service_windows_wait_for_start :: "'w scm_api \<Rightarrow> int \<Rightarrow> 'w win_st \<Rightarrow> service_result \<times> 'w win_st" where
  "service_windows_wait_for_start api = win_wait api SERVICE_RUNNING 500"

definition windows_service_ops :: "'w scm_api \<Rightarrow> 'w win_st service_ops" where
  "windows_service_ops api =
     \<lparr>svc_stop = service_windows_stop api, svc_start = service_windows_start api, svc_is_running = service_windows_is_running api,
      svc_install = service_windows_install api, svc_uninstall = service_windows_uninstall api,
      svc_wait_for_stop = service_windows_wait_for_stop api, svc_wait_for_start = service_windows_wait_for_start api, svc_name = ''offs-daemon''\<rparr>"

section \<open>The contract\<close>

definition scm_reports :: "'w scm_api \<Rightarrow> svc_state \<Rightarrow> 'w win_st \<Rightarrow> bool" where
  "scm_reports api status s \<longleftrightarrow> (\<exists>w. QueryServiceStatus api w = (Some status, w_world s))"

lemma w_world_simps [simp]: "w_world (CloseServiceHandle api h s) = w_world s" "w_world (use h s) = w_world s"
  by (simp_all add: CloseServiceHandle_def use_def)

lemma scm_reports_close [simp]: "scm_reports api status (CloseServiceHandle api' h s) = scm_reports api status s"
  by (simp add: scm_reports_def)

lemma query_reports: "query api svc s = (Some status, s') \<Longrightarrow> scm_reports api status s'"
  by (auto simp: query_def scm_reports_def split: prod.splits)

lemma win_wait_loop_ok: "win_wait_loop api scm svc target i n s = (service_result_ok, s') \<Longrightarrow> scm_reports api target s'"
  by (induction n arbitrary: s) (auto split: prod.splits option.splits if_splits dest: query_reports)

lemma win_wait_ok: "win_wait api target i t s = (service_result_ok, s') \<Longrightarrow> scm_reports api target s'"
  by (auto simp: win_wait_def split: prod.splits option.splits dest!: win_wait_loop_ok)

interpretation windows: service "windows_service_ops api" "scm_reports api SERVICE_STOPPED" "scm_reports api SERVICE_RUNNING"
  for api :: "'w scm_api"
proof unfold_locales
  fix s s' t
  show "svc_wait_for_stop (windows_service_ops api) t s = (service_result_ok, s') \<Longrightarrow> scm_reports api SERVICE_STOPPED s'"
    "svc_wait_for_start (windows_service_ops api) t s = (service_result_ok, s') \<Longrightarrow> scm_reports api SERVICE_RUNNING s'"
    by (auto simp: windows_service_ops_def service_windows_wait_for_stop_def service_windows_wait_for_start_def dest: win_wait_ok)
  show "svc_is_running (windows_service_ops api) s = (True, s') \<Longrightarrow> scm_reports api SERVICE_RUNNING s'"
    by (auto simp: windows_service_ops_def service_windows_is_running_def split: prod.splits option.splits dest: query_reports)
qed

section \<open>Handles\<close>

text \<open>Since \<open>s0\<close> the handles \<open>hs\<close> have been opened and not closed, and no handle was misused. Handles are fresh.\<close>

definition fresh_handles :: "'w win_st \<Rightarrow> bool" where
  "fresh_handles s \<longleftrightarrow> distinct (w_open s) \<and> (\<forall>h \<in> set (w_open s). h < w_next s)"

definition opened :: "nat list \<Rightarrow> 'w win_st \<Rightarrow> 'w win_st \<Rightarrow> bool" where
  "opened hs s0 s \<longleftrightarrow> w_open s = hs @ w_open s0 \<and> w_misuse s = w_misuse s0 \<and> fresh_handles s"

lemma opened_refl: "fresh_handles s \<Longrightarrow> opened [] s s"
  by (simp add: opened_def)

lemma opened_same:
  assumes "w_open s' = w_open s" "w_next s' = w_next s" "w_misuse s' = w_misuse s"
  shows "opened hs s0 s' = opened hs s0 s"
  using assms by (simp add: opened_def fresh_handles_def)

lemma opened_update [simp]:
  "opened hs s0 (s\<lparr>w_world := w\<rparr>) = opened hs s0 s" "opened hs s0 (s\<lparr>w_error := e\<rparr>) = opened hs s0 s"
  by (rule opened_same; simp)+

lemma opened_close: "opened (h # hs) s0 s \<Longrightarrow> opened hs s0 (CloseServiceHandle api h s)"
  by (auto simp: opened_def CloseServiceHandle_def fresh_handles_def)

lemma opened_use: "opened hs s0 s \<Longrightarrow> h \<in> set hs \<Longrightarrow> opened hs s0 (use h s)"
  by (simp add: opened_def use_def)

lemma opened_call: "opened hs s0 s \<Longrightarrow> opened hs s0 (snd (win_call r s))"
  by (simp add: win_call_def split: prod.split option.split)

lemma opened_start: "opened hs s0 s \<Longrightarrow> h \<in> set hs \<Longrightarrow> opened hs s0 (snd (start api h s))"
  unfolding start_def by (intro opened_call opened_use)

lemma opened_query: "opened hs s0 s \<Longrightarrow> h \<in> set hs \<Longrightarrow> opened hs s0 (snd (query api h s))"
  by (simp add: query_def opened_use split: prod.split)

lemma opened_both:
  "opened [svc, scm] s0 s \<Longrightarrow> opened [] s0 (CloseServiceHandle api scm (CloseServiceHandle api svc s))"
  by (intro opened_close)

text \<open>A call that gives a handle: either nothing has changed, or there is one more to close.\<close>

lemma opened_scope:
  assumes "opened hs s0 s" "\<And>s'. opened hs s0 s' \<Longrightarrow> opened [] s0 (snd (refused s'))"
    and "\<And>h s'. opened (h # hs) s0 s' \<Longrightarrow> opened [] s0 (snd (body h s'))"
  shows "opened [] s0 (snd (case win_open r s of (None, s') \<Rightarrow> refused s' | (Some h, s') \<Rightarrow> body h s'))"
proof (cases r)
  case (Pair e w)
  show ?thesis
  proof (cases e)
    case None
    have "opened (w_next s # hs) s0 (s\<lparr>w_world := w, w_open := w_next s # w_open s, w_next := Suc (w_next s)\<rparr>)"
      using assms(1) by (auto simp: opened_def fresh_handles_def less_Suc_eq)
    with assms(3) Pair None show ?thesis by (simp add: win_open_def)
  next
    case (Some x)
    have "opened hs s0 (s\<lparr>w_world := w, w_error := x\<rparr>)" using assms(1) by simp
    with assms(2) Pair Some show ?thesis by (simp add: win_open_def)
  qed
qed

lemma opened_stop_poll:
  "opened [svc, scm] s0 s \<Longrightarrow> opened [] s0 (snd (stop_poll api scm svc elapsed status s))"
proof (induction api scm svc elapsed status s rule: stop_poll.induct)
  case (1 api scm svc elapsed status s)
  let ?s1 = "s\<lparr>w_world := Sleep api STOP_POLL_INTERVAL_MS (w_world s)\<rparr>"
  obtain r s2 where q: "query api svc ?s1 = (r, s2)" by (cases "query api svc ?s1")
  have s2: "opened [svc, scm] s0 s2" using opened_query [of "[svc, scm]" s0 ?s1 svc api] q "1.prems" by simp
  show ?case
  proof (cases "status = SERVICE_STOPPED \<or> elapsed + STOP_POLL_INTERVAL_MS \<ge> STOP_POLL_TIMEOUT_MS")
    case True
    then show ?thesis using "1.prems" by (auto simp: stop_poll.simps [of api scm svc elapsed] Let_def intro: opened_both)
  next
    case False
    show ?thesis
    proof (cases r)
      case None
      then show ?thesis using False q opened_both [OF s2] by (simp add: stop_poll.simps [of api scm svc elapsed] Let_def)
    next
      case (Some status1)
      have "opened [] s0 (snd (stop_poll api scm svc (elapsed + STOP_POLL_INTERVAL_MS) status1 s2))"
        using "1.IH" [OF _ refl refl _ q [symmetric] Some s2] False by simp
      then show ?thesis using False q Some by (simp add: stop_poll.simps [of api scm svc elapsed] Let_def)
    qed
  qed
qed

lemma opened_wait_loop:
  "opened [svc, scm] s0 s \<Longrightarrow> opened [] s0 (snd (win_wait_loop api scm svc target i n s))"
proof (induction n arbitrary: s)
  case (Suc n)
  obtain r s1 where q: "query api svc s = (r, s1)" by (cases "query api svc s")
  have s1: "opened [svc, scm] s0 s1" using opened_query [OF Suc.prems, of svc api] q by simp
  with q Suc.IH show ?case by (cases r) (simp_all add: opened_both)
qed (simp add: opened_both)

text \<open>Each operation opens the manager, then the service, and closes both on every way out.\<close>

lemmas opened_intros = opened_scope opened_use opened_both opened_close opened_stop_poll opened_wait_loop opened_refl

lemma opened_stop: "fresh_handles s \<Longrightarrow> opened [] s (snd (service_windows_stop api s))"
  unfolding service_windows_stop_def service_windows_open_scm_def service_windows_open_service_def
  by (intro opened_scope opened_refl opened_use) (auto simp: Let_def split: prod.split sum.split intro!: opened_intros)

lemma opened_start_op: "fresh_handles s \<Longrightarrow> opened [] s (snd (service_windows_start api s))"
  unfolding service_windows_start_def service_windows_open_scm_def service_windows_open_service_def
  by (intro opened_scope opened_refl opened_use) (auto simp: Let_def case_prod_beta intro!: opened_refl opened_both opened_close opened_start)

lemma opened_is_running: "fresh_handles s \<Longrightarrow> opened [] s (snd (service_windows_is_running api s))"
  unfolding service_windows_is_running_def service_windows_open_scm_def service_windows_open_service_def
  by (intro opened_scope opened_refl opened_use) (auto simp: Let_def case_prod_beta intro!: opened_refl opened_both opened_close opened_query)

lemma opened_install: "fresh_handles s \<Longrightarrow> opened [] s (snd (service_windows_install api dir s))"
proof (cases "service_windows_build_binary_path api dir")
  case (Some path)
  assume "fresh_handles s"
  then show ?thesis
    unfolding service_windows_install_def service_windows_open_scm_def Some option.case
    by (intro opened_scope opened_refl opened_use) (auto simp: Let_def intro!: opened_refl opened_both opened_close opened_start opened_use)
qed (simp add: service_windows_install_def opened_refl)

lemma opened_uninstall: "fresh_handles s \<Longrightarrow> opened [] s (snd (service_windows_uninstall api s))"
  unfolding service_windows_uninstall_def service_windows_open_scm_def service_windows_open_service_def
  by (intro opened_scope opened_stop opened_use) (auto simp: Let_def case_prod_beta intro!: opened_stop opened_both opened_close opened_call opened_use)

lemma opened_wait: "fresh_handles s \<Longrightarrow> opened [] s (snd (win_wait api target i t s))"
  unfolding win_wait_def service_windows_open_scm_def service_windows_open_service_def
  by (intro opened_scope opened_refl opened_use) (auto intro!: opened_refl opened_wait_loop opened_close)

text \<open>C31. The Windows backend closes exactly what it opens: whichever calls of the service control manager fail, when an
  operation of the table returns, the open handles are those that were open before it, and it has neither
  used nor closed a handle that was not open at that moment (so none is closed twice and none is leaked). Handles
  are never given out twice.\<close>

theorem windows_handles_balanced:
  assumes "fresh_handles s"
    and "s' \<in> {snd (svc_stop (windows_service_ops api) s), snd (svc_start (windows_service_ops api) s),
      snd (svc_is_running (windows_service_ops api) s), snd (svc_install (windows_service_ops api) dir s),
      snd (svc_uninstall (windows_service_ops api) s), snd (svc_wait_for_stop (windows_service_ops api) t s),
      snd (svc_wait_for_start (windows_service_ops api) t s)}"
  shows "w_open s' = w_open s \<and> w_misuse s' = w_misuse s"
proof -
  note all = opened_stop opened_start_op opened_is_running opened_install opened_uninstall opened_wait
  have "opened [] s s'"
    using assms(2)
    by (auto simp: windows_service_ops_def service_windows_wait_for_stop_def service_windows_wait_for_start_def intro!: all assms(1))
  then show ?thesis by (simp add: opened_def)
qed

text \<open>A manager that lets everything be opened and whose service never stops.\<close>

definition demo_scm :: "unit scm_api" where
  "demo_scm = \<lparr>OpenSCManager = (\<lambda>_ w. (None, w)), OpenService = (\<lambda>_ w. (None, w)),
     ControlService_Stop = (\<lambda>w. (Inr SERVICE_OTHER_STATE, w)), QueryServiceStatus = (\<lambda>w. (Some SERVICE_OTHER_STATE, w)),
     StartService = (\<lambda>w. (None, w)), CreateService = (\<lambda>_ w. (None, w)), ChangeServiceConfig2 = (\<lambda>_ w. w),
     DeleteService = (\<lambda>w. (None, w)), MultiByteToWideChar = Some, close_error = (\<lambda>e. e), Sleep = (\<lambda>_ w. w)\<rparr>"

theorem windows_handles_balanced_witness:
  "let s = \<lparr>w_world = (), w_open = [1], w_next = 7, w_misuse = False, w_error = ERROR_OTHER\<rparr> in
   w_open (snd (svc_stop (windows_service_ops demo_scm) s)) = [1] \<and> \<not> w_misuse (snd (svc_stop (windows_service_ops demo_scm) s))"
  using windows_handles_balanced [of "\<lparr>w_world = (), w_open = [1], w_next = 7, w_misuse = False, w_error = ERROR_OTHER\<rparr>"
      "snd (svc_stop (windows_service_ops demo_scm) \<lparr>w_world = (), w_open = [1], w_next = 7, w_misuse = False, w_error = ERROR_OTHER\<rparr>)" demo_scm]
  by (simp add: fresh_handles_def)

end
