(* ===== verification/Updater.thy ===== *)
theory Updater
  imports Service Service_Windows
begin

text \<open>
  The updater (\<^verbatim>\<open>src/src/Updater/updater_main.c\<close>): stopping the service, replacing the binaries, handing over to
  the new updater, starting the service and rolling back. It uses the service manager through the table of
  \<^verbatim>\<open>service.h\<close>, so its properties are stated once for every table that keeps the contract.
\<close>

section \<open>Files\<close>

text \<open>The state: the files with content and mode, the space left on the disk, the service manager's world, the
  messages on standard error, and the lines of the log, which is kept apart from the files.\<close>

record 's upd_st =
  ufiles :: "string \<Rightarrow> (byte list \<times> nat) option"
  disk_room :: "nat option" \<comment> \<open>\<open>None\<close>: without limit\<close>
  service_world :: 's
  upd_stderr :: "string list"
  g_log :: "string list"

text \<open>What the updater is given: the platform, the table, the files that cannot be opened for writing, how much of a
  file can be read before \<^verbatim>\<open>fread\<close> fails (\<open>None\<close>: all of it), the mode of a new file, the shell, whether \<^verbatim>\<open>execl\<close> of a
  file succeeds, and whether the PID file can be unlinked.\<close>

record 's upd_env =
  on_windows :: bool
  svc :: "'s service_ops"
  unwritable :: "string \<Rightarrow> bool"
  read_limit :: "string \<Rightarrow> nat option"
  new_mode :: nat
  upd_system :: "string \<Rightarrow> 's upd_st \<Rightarrow> int \<times> 's upd_st"
  exec_ok :: "string \<Rightarrow> 's upd_st \<Rightarrow> bool"
  temp_dir :: "string option" \<comment> \<open>\<^verbatim>\<open>GetTempPath\<close>\<close>
  pid_text :: string
  pid_unlinks :: bool

text \<open>What \<^verbatim>\<open>fread\<close> delivers of a file before it returns 0, at the end or at an error; the code does not tell them
  apart.\<close>

definition readable :: "'s upd_env \<Rightarrow> string \<Rightarrow> byte list \<Rightarrow> byte list" where
  "readable env src content = (case read_limit env src of None \<Rightarrow> content | Some k \<Rightarrow> take k content)"

definition log_write :: "string \<Rightarrow> 's upd_st \<Rightarrow> 's upd_st" where
  "log_write msg st = st\<lparr>g_log := g_log st @ [msg]\<rparr>"

text \<open>The loop of \<^verbatim>\<open>_copy_file\<close>: blocks of 8192 bytes, the result of \<^verbatim>\<open>fwrite\<close> is not looked at.\<close>

function copy_chunks :: "byte list \<Rightarrow> output_file \<Rightarrow> output_file" where
  "copy_chunks content out =
     (if content = [] then out else copy_chunks (drop 8192 content) (snd (fwrite (take 8192 content) out)))"
  by pat_completeness auto

termination
  by (relation "measure (\<lambda>(content, out). length content)") auto

declare copy_chunks.simps [simp del]

text \<open>Opening the target for writing empties it, before the source is read.\<close>

definition copy_file :: "'s upd_env \<Rightarrow> string \<Rightarrow> string \<Rightarrow> 's upd_st \<Rightarrow> int \<times> 's upd_st" where
  "copy_file env src dst st =
     (case ufiles st src of
        None \<Rightarrow> (- 1, st)
      | Some _ \<Rightarrow>
          if unwritable env dst then (- 1, st)
          else
            (let mode0 = (case ufiles st dst of Some (_, m) \<Rightarrow> m | None \<Rightarrow> new_mode env);
                 opened = (ufiles st)(dst \<mapsto> ([], mode0));
                 content = readable env src (fst (the (opened src)));
                 out = copy_chunks content \<lparr>out_bytes = [], out_room = disk_room st\<rparr>;
                 written = opened(dst \<mapsto> (out_bytes out, mode0));
                 mode = (if on_windows env then mode0 else snd (the (written src)))
             in (0, st\<lparr>ufiles := written(dst \<mapsto> (out_bytes out, mode)), disk_room := out_room out\<rparr>)))"

definition exe_name :: "'s upd_env \<Rightarrow> string \<Rightarrow> string" where
  "exe_name env name = (if on_windows env then name @ ''.exe'' else name)"

text \<open>\<^verbatim>\<open>snprintf(buf, 1024, "%s/%s", dir, name)\<close>.\<close>

definition in_dir :: "'s upd_env \<Rightarrow> string \<Rightarrow> string \<Rightarrow> string" where
  "in_dir env dir name = c_buf 1024 (dir @ ''/'' @ exe_name env name)"

definition install_file :: "'s upd_env \<Rightarrow> string \<Rightarrow> string \<Rightarrow> string \<Rightarrow> 's upd_st \<Rightarrow> 's upd_st" where
  "install_file env staging_dir install_dir name st = snd (copy_file env (in_dir env staging_dir name) (in_dir env install_dir name) st)"

definition restore_backup :: "'s upd_env \<Rightarrow> string \<Rightarrow> string \<Rightarrow> 's upd_st \<Rightarrow> 's upd_st" where
  "restore_backup env backup_dir install_dir st =
     (let backup_prev = c_buf 1024 (backup_dir @ ''/previous'');
          q = [CHR 0x22];
          cmd = c_buf 2048 (if on_windows env
            then ''xcopy /E /I /Y '' @ q @ backup_prev @ q @ '' '' @ q @ install_dir @ q @ '' > nul''
            else ''cp -r '' @ q @ backup_prev @ q @ ''/* '' @ q @ install_dir @ q @ '' 2>/dev/null || true'')
      in case upd_system env cmd (log_write ''Restoring from backup'' st) of
           (result, st1) \<Rightarrow> if result \<noteq> 0 then log_write ''WARNING: backup restore may be incomplete'' st1 else st1)"

section \<open>The stages\<close>

definition on_service :: "('s \<Rightarrow> 'r \<times> 's) \<Rightarrow> 's upd_st \<Rightarrow> 'r \<times> 's upd_st" where
  "on_service op st = (case op (service_world st) of (r, w) \<Rightarrow> (r, st\<lparr>service_world := w\<rparr>))"

definition SHUTDOWN_TIMEOUT_MS :: int where
  "SHUTDOWN_TIMEOUT_MS = 30000"

definition STARTUP_TIMEOUT_MS :: int where
  "STARTUP_TIMEOUT_MS = 30000"

definition PID_FILE :: string where
  "PID_FILE = ''/var/run/offs-updater.pid''"

record upd_args =
  finish_mode :: bool
  staging_dir :: "string option"
  install_dir :: "string option"
  backup_dir :: "string option"

fun scan_upd_args :: "string list \<Rightarrow> upd_args \<Rightarrow> upd_args" where
  "scan_upd_args [] a = a"
| "scan_upd_args (x # rest) a = scan_upd_args rest
     (if x = ''--finish'' then a\<lparr>finish_mode := True\<rparr>
      else if staging_dir a = None then a\<lparr>staging_dir := Some x\<rparr>
      else if install_dir a = None then a\<lparr>install_dir := Some x\<rparr>
      else if backup_dir a = None then a\<lparr>backup_dir := Some x\<rparr>
      else a)"

definition no_upd_args :: upd_args where
  "no_upd_args = \<lparr>finish_mode = False, staging_dir = None, install_dir = None, backup_dir = None\<rparr>"

definition write_pid :: "'s upd_env \<Rightarrow> 's upd_st \<Rightarrow> 's upd_st" where
  "write_pid env st =
     (if unwritable env PID_FILE then st
      else
        (let mode = (case ufiles st PID_FILE of Some (_, m) \<Rightarrow> m | None \<Rightarrow> new_mode env);
             out = snd (fwrite (bytes_of (nl (pid_text env))) \<lparr>out_bytes = [], out_room = disk_room st\<rparr>)
         in st\<lparr>ufiles := (ufiles st)(PID_FILE \<mapsto> (out_bytes out, mode)), disk_room := out_room out\<rparr>))"

definition temp_updater :: "'s upd_env \<Rightarrow> string" where
  "temp_updater env =
     (if on_windows env then c_buf 1024 ((case temp_dir env of Some d \<Rightarrow> d | None \<Rightarrow> ''.'' @ [CHR 0x5C]) @ ''offs-updater-temp.exe'')
      else ''/tmp/offs-updater-temp'')"

text \<open>How a process ends: with a status, or by becoming another image with these arguments.\<close>

datatype upd_end = Exited int | Became "string list"

text \<open>Starting the daemon, the check and the rollback.\<close>

definition start_and_check :: "'s upd_env \<Rightarrow> string \<Rightarrow> string \<Rightarrow> 's upd_st \<Rightarrow> int \<times> 's upd_st" where
  "start_and_check env install backup st =
     (let st1 = snd (on_service (svc_start (svc env)) (log_write ''Starting daemon service'' st));
          (r, st2) = on_service (svc_wait_for_start (svc env) STARTUP_TIMEOUT_MS) st1;
          st3 = log_write (if r \<noteq> service_result_ok then ''ERROR: Daemon failed to start within timeout'' else ''Daemon started successfully'') st2;
          (daemon_ok, st4) = on_service (svc_is_running (svc env)) st3;
          st5 = (if \<not> daemon_ok then
                   (let a = snd (on_service (svc_stop (svc env)) (log_write ''Rolling back'' st4));
                        b = snd (on_service (svc_wait_for_stop (svc env) SHUTDOWN_TIMEOUT_MS) a);
                        c = restore_backup env backup install b;
                        d = snd (on_service (svc_start (svc env)) c);
                        e = snd (on_service (svc_wait_for_start (svc env) STARTUP_TIMEOUT_MS) d)
                    in log_write ''Rollback complete'' e)
                 else log_write ''Update complete'' st4)
      in (if daemon_ok then 0 else 1, if pid_unlinks env then st5\<lparr>ufiles := (ufiles st5)(PID_FILE := None)\<rparr> else st5))"

text \<open>The first half: stopping the daemon, replacing it and the CLI, and the new updater's copy.\<close>

definition replace_stage :: "'s upd_env \<Rightarrow> string \<Rightarrow> string \<Rightarrow> 's upd_st \<Rightarrow> service_result \<times> 's upd_st" where
  "replace_stage env staging install st =
     (let st1 = snd (on_service (svc_stop (svc env)) (log_write ''Stopping daemon service'' st));
          (r, st2) = on_service (svc_wait_for_stop (svc env) SHUTDOWN_TIMEOUT_MS) st1
      in if r \<noteq> service_result_ok then (r, log_write ''Timeout waiting for daemon to stop'' st2)
         else
           (let st3 = log_write ''Daemon stopped'' st2;
                st4 = install_file env staging install ''offs-cli'' (install_file env staging install ''offs-daemon'' st3);
                st5 = snd (copy_file env (in_dir env staging ''offs-updater'') (temp_updater env) st4);
                st6 = (if on_windows env then st5 else st5\<lparr>ufiles := (\<lambda>p. if p = temp_updater env then map_option (\<lambda>(c, _). (c, 493)) (ufiles st5 p) else ufiles st5 p)\<rparr>)
            in (service_result_ok, log_write ''Self-replacing via temp copy'' st6)))"

definition updater_main :: "'s upd_env \<Rightarrow> string list \<Rightarrow> 's upd_st \<Rightarrow> upd_end \<times> 's upd_st" where
  "updater_main env argv st =
     (let a = scan_upd_args argv no_upd_args in
      case (staging_dir a, install_dir a, backup_dir a) of
        (Some staging, Some install, Some backup) \<Rightarrow>
          (let st1 = log_write (if finish_mode a then ''Updater starting (finish mode)'' else ''Updater starting'') (write_pid env st) in
           if finish_mode a then
             (case start_and_check env install backup
                (install_file env staging install ''offs-cli'' (install_file env staging install ''offs-daemon''
                  (install_file env staging install ''offs-updater'' st1))) of
                (rc, st2) \<Rightarrow> (Exited rc, st2))
           else
             (case replace_stage env staging install st1 of
                (r, st2) \<Rightarrow>
                  if r \<noteq> service_result_ok then (Exited 1, st2)
                  else if exec_ok env (temp_updater env) st2 then (Became [''--finish'', staging, install, backup], st2)
                  else
                    (case start_and_check env install backup
                       (log_write ''ERROR: exec of temp updater failed, attempting direct service restart'' st2) of
                       (rc, st3) \<Rightarrow> (Exited rc, st3))))
      | _ \<Rightarrow> (Exited 1, st\<lparr>upd_stderr := upd_stderr st @ [nl ''Usage: offs-updater [--finish] <staging> <install> <backup>'']\<rparr>))"

text \<open>A whole update: the first process, and the image it becomes, which is the staged updater. That is a binary of
  the release being installed; what it does with its arguments is the parameter \<open>next\<close>.\<close>

definition update :: "(string list \<Rightarrow> 's upd_st \<Rightarrow> upd_end \<times> 's upd_st) \<Rightarrow> 's upd_env \<Rightarrow> string list \<Rightarrow> 's upd_st \<Rightarrow> upd_end \<times> 's upd_st" where
  "update next env argv st =
     (case updater_main env argv st of
        (Exited rc, st1) \<Rightarrow> (Exited rc, st1)
      | (Became argv', st1) \<Rightarrow> next argv' st1)"

section \<open>Copying\<close>

definition fits :: "nat option \<Rightarrow> byte list \<Rightarrow> byte list" where
  "fits room content = (case room of None \<Rightarrow> content | Some k \<Rightarrow> take k content)"

lemma take_length_min: "take (min k (length xs)) xs = take k xs"
  by (cases "k \<le> length xs") (simp_all add: min_absorb1 min_absorb2)

lemma fwrite_fits:
  "snd (fwrite d out) = out\<lparr>out_bytes := out_bytes out @ fits (out_room out) d, out_room := map_option (\<lambda>k. k - length d) (out_room out)\<rparr>"
  by (cases "out_room out") (simp_all add: fwrite_def fits_def Let_def take_length_min)

lemma fits_append: "fits room (xs @ ys) = fits room xs @ fits (map_option (\<lambda>k. k - length xs) room) ys"
  by (cases room) (simp_all add: fits_def)

lemma copy_chunks_eq: "copy_chunks content out =
    out\<lparr>out_bytes := out_bytes out @ fits (out_room out) content, out_room := map_option (\<lambda>k. k - length content) (out_room out)\<rparr>"
proof (induction content out rule: copy_chunks.induct)
  case (1 content out)
  show ?case
  proof (cases "content = []")
    case True
    then show ?thesis by (cases out) (auto simp: copy_chunks.simps [of "[]"] fits_def option.map_ident split: option.splits)
  next
    case False
    have "fits room content = fits room (take 8192 content) @ fits (map_option (\<lambda>k. k - length (take 8192 content)) room) (drop 8192 content)" for room
      using fits_append [of room "take 8192 content" "drop 8192 content"] by (simp only: append_take_drop_id)
    moreover have "k - min (length content) 8192 - (length content - 8192) = k - length content" for k by simp
    ultimately show ?thesis
      using False "1.IH" [OF False] by (simp add: copy_chunks.simps [of content] fwrite_fits option.map_comp comp_def)
  qed
qed

text \<open>A copy between different files.\<close>

lemma copy_file_eq:
  assumes "ufiles st src = Some (content, m)" "src \<noteq> dst" "\<not> unwritable env dst"
  shows "copy_file env src dst st =
    (0, st\<lparr>ufiles := (ufiles st)(dst \<mapsto> (fits (disk_room st) (readable env src content),
       if on_windows env then (case ufiles st dst of Some (_, m0) \<Rightarrow> m0 | None \<Rightarrow> new_mode env) else m)),
       disk_room := map_option (\<lambda>k. k - length (readable env src content)) (disk_room st)\<rparr>)"
  using assms by (simp add: copy_file_def Let_def copy_chunks_eq)

text \<open>An updater on a Unix system where nothing but the service manager can fail.\<close>

definition plain_env :: "'s service_ops \<Rightarrow> 's upd_env" where
  "plain_env ops = \<lparr>on_windows = False, svc = ops, unwritable = (\<lambda>_. False), read_limit = (\<lambda>_. None), new_mode = 420,
     upd_system = (\<lambda>_ st. (0, st)), exec_ok = (\<lambda>_ _. True), temp_dir = None, pid_text = ''1'', pid_unlinks = True\<rparr>"

text \<open>A failed write or read goes unnoticed: with room for only \<open>k\<close> more bytes on the disk, or a source of which only
  the first \<open>k\<close> bytes can be read, the updater's copy reports success and leaves the first \<open>k\<close> bytes of the file;
  copying a file to itself empties it.\<close>

theorem copy_truncates:
  assumes "ufiles st src = Some (content, m)" "\<not> unwritable env dst"
    and "disk_room st = Some k \<and> read_limit env src = None \<or> disk_room st = None \<and> read_limit env src = Some k"
  shows "fst (copy_file env src dst st) = 0 \<and>
    fst (the (ufiles (snd (copy_file env src dst st)) dst)) = (if src = dst then [] else take k content)"
  using assms by (auto simp: copy_file_def Let_def copy_chunks_eq fits_def readable_def split: option.splits)

theorem copy_truncates_witness:
  "let st = \<lparr>ufiles = [''a'' \<mapsto> ([1, 2, 3], 493)], disk_room = Some 2, service_world = 0, upd_stderr = [], g_log = []\<rparr>;
       env = plain_env (linux_service_ops clock_machine) in
   fst (copy_file env ''a'' ''b'' st) = 0 \<and> fst (the (ufiles (snd (copy_file env ''a'' ''b'' st)) ''b'')) = [1, 2]"
  using copy_truncates [of "\<lparr>ufiles = [''a'' \<mapsto> ([1, 2, 3], 493)], disk_room = Some 2, service_world = 0, upd_stderr = [], g_log = []\<rparr>" "''a''"
      "[1, 2, 3]" 493 "plain_env (linux_service_ops clock_machine)" "''b''" 2]
  by (simp add: plain_env_def)

section \<open>The service manager's part, for every table that keeps the contract\<close>

lemma service_world_simps [simp]:
  "service_world (log_write m st) = service_world st" "ufiles (log_write m st) = ufiles st" "disk_room (log_write m st) = disk_room st"
  "service_world (snd (copy_file env src dst st)) = service_world st"
  "ufiles (snd (on_service op st)) = ufiles st" "disk_room (snd (on_service op st)) = disk_room st"
  "service_world (install_file env s i n st) = service_world st"
  by (auto simp: log_write_def copy_file_def on_service_def install_file_def Let_def split: option.splits prod.splits)

context service
begin

lemma stops_first:
  assumes "svc env = ops" "replace_stage env staging install st = (r, st')"
  shows "(r = service_result_ok \<longrightarrow> down (service_world st')) \<and> (r \<noteq> service_result_ok \<longrightarrow> ufiles st' = ufiles st)"
proof -
  let ?st1 = "snd (on_service (svc_stop ops) (log_write ''Stopping daemon service'' st))"
  obtain r1 st2 where w: "on_service (svc_wait_for_stop ops SHUTDOWN_TIMEOUT_MS) ?st1 = (r1, st2)" by fastforce
  then have "down (service_world st2)" if "r1 = service_result_ok"
    using that stop_seen [of SHUTDOWN_TIMEOUT_MS "service_world ?st1"] by (auto simp: on_service_def split: prod.splits)
  moreover have "ufiles st2 = ufiles st" using w by (auto simp: on_service_def log_write_def split: prod.splits)
  ultimately show ?thesis using assms w by (auto simp: replace_stage_def Let_def split: if_splits)
qed

lemma success_is_up:
  assumes "svc env = ops" "start_and_check env install backup st = (0, st')"
  shows "up (service_world st') \<and> ufiles st' = (if pid_unlinks env then (ufiles st)(PID_FILE := None) else ufiles st)"
proof -
  let ?st1 = "snd (on_service (svc_start ops) (log_write ''Starting daemon service'' st))"
  obtain r st2 where s: "on_service (svc_wait_for_start ops STARTUP_TIMEOUT_MS) ?st1 = (r, st2)" by fastforce
  define st3 where "st3 = log_write (if r \<noteq> service_result_ok then ''ERROR: Daemon failed to start within timeout'' else ''Daemon started successfully'') st2"
  obtain ok st4 where q: "on_service (svc_is_running ops) st3 = (ok, st4)" by fastforce
  have ok: "ok" using assms s q by (auto simp: start_and_check_def Let_def st3_def split: if_splits)
  with q running_seen [of "service_world st3"] have "up (service_world st4)" by (auto simp: on_service_def split: prod.splits)
  moreover have "ufiles st4 = ufiles st"
    using q s service_world_simps(5) [of "svc_is_running ops" st3] service_world_simps(5) [of "svc_wait_for_start ops STARTUP_TIMEOUT_MS" ?st1]
    by (simp add: st3_def)
  moreover have "st' = (let st5 = log_write ''Update complete'' st4 in if pid_unlinks env then st5\<lparr>ufiles := (ufiles st4)(PID_FILE := None)\<rparr> else st5)"
    using assms s q ok by (cases "pid_unlinks env") (auto simp: start_and_check_def Let_def st3_def log_write_def)
  ultimately show ?thesis by (simp add: Let_def)
qed

end
section \<open>The whole update\<close>

lemma scan_upd_finish: "scan_upd_args [''--finish'', s, i, b] no_upd_args =
    \<lparr>finish_mode = True, staging_dir = Some s, install_dir = Some i, backup_dir = Some b\<rparr>"
  if "s \<noteq> ''--finish''" "i \<noteq> ''--finish''" "b \<noteq> ''--finish''"
  using that by (simp add: no_upd_args_def)

text \<open>C9. The updater replaces no binary of a running daemon: on systemd the first stage changes no file at all
  unless its wait ended because \<^verbatim>\<open>systemctl is-active\<close> reported the daemon as down, and that report is the last
  thing that happened to the service before the files are replaced. If the wait fails, the updater exits with
  status 1 and has touched nothing but its PID file, which it leaves behind.\<close>

theorem update_stops_first:
  assumes "svc env = linux_service_ops os"
    and "replace_stage env staging install (log_write ''Updater starting'' (write_pid env st)) = (r, st1)"
    and "staging \<noteq> ''--finish''" "install \<noteq> ''--finish''" "backup \<noteq> ''--finish''"
  shows "(r = service_result_ok \<longrightarrow> shell_reports os ''systemctl is-active --quiet offs-daemon'' False (service_world st1)) \<and>
    (r \<noteq> service_result_ok \<longrightarrow> updater_main env [staging, install, backup] st = (Exited 1, st1) \<and> ufiles st1 = ufiles (write_pid env st))"
proof -
  have "scan_upd_args [staging, install, backup] no_upd_args =
      \<lparr>finish_mode = False, staging_dir = Some staging, install_dir = Some install, backup_dir = Some backup\<rparr>"
    using assms(3-5) by (simp add: no_upd_args_def)
  then have "updater_main env [staging, install, backup] st = (Exited 1, st1)" if "r \<noteq> service_result_ok"
    using that assms(2) by (simp add: updater_main_def Let_def del: scan_upd_args.simps)
  then show ?thesis using linux.stops_first [OF assms(1,2)] by simp
qed

theorem update_stops_first_witness:
  "\<exists>st1. replace_stage (plain_env (linux_service_ops clock_machine)) ''s'' ''i''
       (log_write ''Updater starting'' (write_pid (plain_env (linux_service_ops clock_machine))
         \<lparr>ufiles = Map.empty, disk_room = None, service_world = 5000, upd_stderr = [], g_log = []\<rparr>)) = (service_result_ok, st1) \<and>
     shell_reports clock_machine ''systemctl is-active --quiet offs-daemon'' False (service_world st1)"
proof -
  let ?env = "plain_env (linux_service_ops clock_machine)"
  let ?st = "\<lparr>ufiles = Map.empty, disk_room = None, service_world = 5000, upd_stderr = [], g_log = []\<rparr>"
  let ?st0 = "log_write ''Updater starting'' (write_pid ?env ?st)"
  have "wait_loop p (os_sleep_ms clock_machine 300) (iterations SHUTDOWN_TIMEOUT_MS 300) 5000 = (case p 5300 of (h, t) \<Rightarrow> if h then (service_result_ok, t) else
      wait_loop p (os_sleep_ms clock_machine 300) 99 t)" for p
  proof -
    have "iterations SHUTDOWN_TIMEOUT_MS 300 = Suc 99" by (simp add: iterations_def SHUTDOWN_TIMEOUT_MS_def)
    then show ?thesis by (simp only: wait_loop.simps) (simp add: clock_machine_def)
  qed
  then have "\<exists>st1. replace_stage ?env ''s'' ''i'' ?st0 = (service_result_ok, st1)"
    by (simp add: plain_env_def replace_stage_def Let_def on_service_def linux_service_ops_def service_linux_stop_def shell_result_def
        service_linux_wait_for_stop_def clock_machine_def log_write_def write_pid_def)
  then obtain st1 where run: "replace_stage ?env ''s'' ''i'' ?st0 = (service_result_ok, st1)" ..
  have svc: "svc ?env = linux_service_ops clock_machine" by (simp add: plain_env_def)
  from update_stops_first [OF svc run, of "''b''"] run show ?thesis by auto
qed

section \<open>What is installed\<close>

lemma copy_file_other: "p \<noteq> dst \<Longrightarrow> ufiles (snd (copy_file env src dst st)) p = ufiles st p"
  by (simp add: copy_file_def Let_def split: option.splits)

lemma copy_file_room: "disk_room st = None \<Longrightarrow> disk_room (snd (copy_file env src dst st)) = None"
  by (simp add: copy_file_def Let_def copy_chunks_eq split: option.splits)

lemma write_pid_frame:
  "p \<noteq> PID_FILE \<Longrightarrow> ufiles (write_pid env st) p = ufiles st p" "disk_room st = None \<Longrightarrow> disk_room (write_pid env st) = None"
  by (simp_all add: write_pid_def Let_def fwrite_def)

lemma replace_stage_frame:
  assumes "replace_stage env staging install st = (r, st1)" "disk_room st = None"
    and "p \<noteq> in_dir env install ''offs-daemon''" "p \<noteq> in_dir env install ''offs-cli''" "p \<noteq> temp_updater env"
  shows "ufiles st1 p = ufiles st p"
  using assms
  by (auto simp: replace_stage_def Let_def case_prod_beta install_file_def copy_file_other copy_file_room split: if_splits)

lemma replace_stage_room:
  "replace_stage env staging install st = (r, st1) \<Longrightarrow> disk_room st = None \<Longrightarrow> disk_room st1 = None"
  by (auto simp: replace_stage_def Let_def case_prod_beta install_file_def copy_file_room split: if_splits)

text \<open>The content of one installed file after a copy from the staging directory: what can be read of the staged
  file, or what was there, if nothing is staged or the target cannot be opened.\<close>

definition installed :: "'s upd_env \<Rightarrow> string \<Rightarrow> string \<Rightarrow> string \<Rightarrow> 's upd_st \<Rightarrow> byte list option" where
  "installed env staging install n st =
     (case ufiles st (in_dir env staging n) of
        Some (c, _) \<Rightarrow> if unwritable env (in_dir env install n) then map_option fst (ufiles st (in_dir env install n))
                       else Some (readable env (in_dir env staging n) c)
      | None \<Rightarrow> map_option fst (ufiles st (in_dir env install n)))"

lemma install_file_effect:
  assumes "disk_room st = None" "in_dir env staging n \<noteq> in_dir env install n"
  shows "map_option fst (ufiles (install_file env staging install n st) (in_dir env install n)) = installed env staging install n st"
proof (cases "ufiles st (in_dir env staging n)")
  case None
  then show ?thesis by (simp add: install_file_def copy_file_def installed_def)
next
  case (Some x)
  then obtain c m where src: "ufiles st (in_dir env staging n) = Some (c, m)" by (cases x) simp
  show ?thesis
  proof (cases "unwritable env (in_dir env install n)")
    case True
    then show ?thesis using src by (simp add: install_file_def copy_file_def installed_def)
  next
    case False
    then show ?thesis using copy_file_eq [OF src assms(2) False] assms(1) src by (simp add: install_file_def installed_def fits_def)
  qed
qed

lemma installed_cong:
  "ufiles st (in_dir env staging n) = ufiles st' (in_dir env staging n) \<Longrightarrow>
   map_option fst (ufiles st (in_dir env install n)) = map_option fst (ufiles st' (in_dir env install n)) \<Longrightarrow>
   installed env staging install n st = installed env staging install n st'"
  by (simp add: installed_def split: option.split)

lemma installed_again:
  "ufiles st' (in_dir env staging n) = ufiles st (in_dir env staging n) \<Longrightarrow>
   map_option fst (ufiles st' (in_dir env install n)) = installed env staging install n st \<Longrightarrow>
   installed env staging install n st' = installed env staging install n st"
  by (simp add: installed_def split: option.split)

lemma install_file_frame:
  "p \<noteq> in_dir env install n \<Longrightarrow> ufiles (install_file env staging install n st) p = ufiles st p"
  "disk_room st = None \<Longrightarrow> disk_room (install_file env staging install n st) = None"
  by (simp_all add: install_file_def copy_file_other copy_file_room)

text \<open>The three files of an installation: what is staged does not overlap what is written.\<close>

definition upd_names :: "string list" where
  "upd_names = [''offs-updater'', ''offs-daemon'', ''offs-cli'']"

definition no_overlap :: "'s upd_env \<Rightarrow> string \<Rightarrow> string \<Rightarrow> bool" where
  "no_overlap env staging install \<longleftrightarrow>
     distinct (temp_updater env # PID_FILE # map (in_dir env install) upd_names @ map (in_dir env staging) upd_names)"

lemma no_overlapD:
  assumes "no_overlap env staging install" "n \<in> set upd_names" "m \<in> set upd_names"
  shows "in_dir env staging n \<noteq> in_dir env install m" "in_dir env install n \<noteq> in_dir env install m \<or> n = m"
    "in_dir env install n \<noteq> PID_FILE" "in_dir env staging n \<noteq> PID_FILE" "in_dir env install n \<noteq> temp_updater env"
    "in_dir env staging n \<noteq> temp_updater env"
proof -
  have d: "inj_on (in_dir env install) (set upd_names)" "in_dir env install ` set upd_names \<inter> in_dir env staging ` set upd_names = {}"
    "PID_FILE \<notin> in_dir env install ` set upd_names" "PID_FILE \<notin> in_dir env staging ` set upd_names"
    "temp_updater env \<notin> in_dir env install ` set upd_names" "temp_updater env \<notin> in_dir env staging ` set upd_names"
    using assms(1) by (simp_all add: no_overlap_def distinct_map)
  show "in_dir env staging n \<noteq> in_dir env install m" using d(2) assms(2,3) by blast
  show "in_dir env install n \<noteq> in_dir env install m \<or> n = m" using d(1) assms(2,3) by (auto dest: inj_onD)
  show "in_dir env install n \<noteq> PID_FILE" "in_dir env staging n \<noteq> PID_FILE" "in_dir env install n \<noteq> temp_updater env"
    "in_dir env staging n \<noteq> temp_updater env" using d(3-6) assms(2) by force+
qed

lemma upd_names_mem: "''offs-updater'' \<in> set upd_names" "''offs-daemon'' \<in> set upd_names" "''offs-cli'' \<in> set upd_names"
  by (simp_all add: upd_names_def)

lemma install_seq:
  assumes "no_overlap env staging install" "disk_room st = None" "n \<in> set ns" "distinct ns" "set ns \<subseteq> set upd_names"
  shows "map_option fst (ufiles (fold (install_file env staging install) ns st) (in_dir env install n)) = installed env staging install n st"
  using assms(2-)
proof (induction ns arbitrary: st)
  case (Cons m ns)
  have mem: "n \<in> set upd_names" "m \<in> set upd_names" using Cons.prems(2,4) by auto
  have ne: "in_dir env staging n \<noteq> in_dir env install m" "in_dir env install n \<noteq> in_dir env install m \<or> n = m"
    "in_dir env staging m \<noteq> in_dir env install m"
    using no_overlapD [OF assms(1)] mem by blast+
  show ?case
  proof (cases "n = m")
    case True
    have "ufiles (fold (install_file env staging install) ns st') (in_dir env install m) = ufiles st' (in_dir env install m)" for st'
      using Cons.prems(3,4)
    proof (induction ns arbitrary: st')
      case (Cons k ns)
      then have "in_dir env install m \<noteq> in_dir env install k" using no_overlapD(2) [OF assms(1) mem(2), of k] by auto
      with Cons show ?case by (simp add: install_file_frame)
    qed simp
    then show ?thesis using install_file_effect [OF Cons.prems(1) ne(3)] True by simp
  next
    case False
    with Cons ne have "map_option fst (ufiles (fold (install_file env staging install) ns (install_file env staging install m st)) (in_dir env install n)) =
        installed env staging install n (install_file env staging install m st)"
      by (intro Cons.IH) (auto simp: install_file_frame)
    also have "\<dots> = installed env staging install n st"
      using ne False by (intro installed_cong) (simp_all add: install_file_frame)
    finally show ?thesis by simp
  qed
qed simp

lemma install_seq_frame:
  "(\<And>n. n \<in> set ns \<Longrightarrow> p \<noteq> in_dir env install n) \<Longrightarrow> ufiles (fold (install_file env staging install) ns st) p = ufiles st p"
  "disk_room st = None \<Longrightarrow> disk_room (fold (install_file env staging install) ns st) = None"
  by (induction ns arbitrary: st) (simp_all add: install_file_frame)

lemma replace_stage_installs:
  assumes "replace_stage env staging install st = (service_result_ok, st1)" "no_overlap env staging install" "disk_room st = None"
    and "n \<in> set upd_names"
  shows "map_option fst (ufiles st1 (in_dir env install n)) =
      (if n = ''offs-updater'' then map_option fst (ufiles st (in_dir env install n)) else installed env staging install n st)"
proof -
  note ov = no_overlapD [OF assms(2)] and mem = upd_names_mem
  define st2 where "st2 = snd (on_service (svc_wait_for_stop (svc env) SHUTDOWN_TIMEOUT_MS)
      (snd (on_service (svc_stop (svc env)) (log_write ''Stopping daemon service'' st))))"
  have u: "ufiles st2 = ufiles st" "disk_room st2 = None" by (simp_all add: st2_def assms(3))
  let ?copied = "fold (install_file env staging install) [''offs-daemon'', ''offs-cli''] (log_write ''Daemon stopped'' st2)"
  have ne: "in_dir env install n \<noteq> temp_updater env" using ov(5) [OF assms(4) assms(4)] .
  have "ufiles st1 (in_dir env install n) = ufiles ?copied (in_dir env install n)"
    using assms(1) ne by (auto simp: replace_stage_def Let_def case_prod_beta copy_file_other st2_def split: if_splits)
  moreover have "map_option fst (ufiles ?copied (in_dir env install n)) = installed env staging install n (log_write ''Daemon stopped'' st2)"
    if "n \<noteq> ''offs-updater''"
    by (rule install_seq [OF assms(2)]) (use that assms(4) u in \<open>auto simp: upd_names_def\<close>)
  moreover have "ufiles ?copied (in_dir env install ''offs-updater'') = ufiles st2 (in_dir env install ''offs-updater'')"
    using ov(2) [OF mem(1,2)] ov(2) [OF mem(1,3)] by (simp add: install_file_frame)
  moreover have "installed env staging install n (log_write ''Daemon stopped'' st2) = installed env staging install n st"
    by (rule installed_cong) (simp_all add: u)
  ultimately show ?thesis using u by simp
qed

text \<open>C8. What an update that ends with status 0 has done, on systemd, with room on the disk, with staging directory,
  installation directory, temporary updater and PID file at different paths, and with a staged updater that is this
  program: each of the daemon, the CLI and the updater in the installation directory has the content that could be
  read of its staged file, if there is a staged file and the target could be opened; otherwise it is unchanged, and the
  status is 0 all the same. For the updater this also needs the hand-over by \<^verbatim>\<open>execl\<close> to have worked; without it
  the installed updater is unchanged. The PID file is gone if it could be unlinked, and the last
  thing systemd has reported is that the daemon is running.\<close>

theorem update_installs:
  assumes svc: "svc env = linux_service_ops os" and room: "disk_room st = None" and ov: "no_overlap env staging install"
    and args: "staging \<noteq> ''--finish''" "install \<noteq> ''--finish''" "backup \<noteq> ''--finish''"
    and same_program: "next = updater_main env"
    and first: "replace_stage env staging install (log_write ''Updater starting'' (write_pid env st)) = (r, st1)"
    and run: "update next env [staging, install, backup] st = (Exited 0, st')"
  shows "(\<forall>n \<in> set upd_names. map_option fst (ufiles st' (in_dir env install n)) =
      (if n = ''offs-updater'' \<and> \<not> exec_ok env (temp_updater env) st1 then map_option fst (ufiles st (in_dir env install n))
       else installed env staging install n st)) \<and>
    (pid_unlinks env \<longrightarrow> ufiles st' PID_FILE = None) \<and>
    shell_reports os ''systemctl is-active --quiet offs-daemon'' True (service_world st')"
proof -
  let ?st0 = "log_write ''Updater starting'' (write_pid env st)"
  note mem = upd_names_mem
  have scan: "scan_upd_args [staging, install, backup] no_upd_args =
      \<lparr>finish_mode = False, staging_dir = Some staging, install_dir = Some install, backup_dir = Some backup\<rparr>"
    using args by (simp add: no_upd_args_def)
  note main = update_def updater_main_def [of env "[staging, install, backup]"] Let_def scan first
  have ok: "r = service_result_ok" using run by (auto simp: main simp del: scan_upd_args.simps split: if_splits)
  have pids: "in_dir env install n \<noteq> PID_FILE" "in_dir env staging n \<noteq> PID_FILE" "in_dir env staging n \<noteq> temp_updater env"
    "in_dir env staging n \<noteq> in_dir env install ''offs-daemon''" "in_dir env staging n \<noteq> in_dir env install ''offs-cli''"
    if "n \<in> set upd_names" for n
    using no_overlapD [OF ov that mem(2)] no_overlapD(1) [OF ov that mem(3)] by simp_all
  have st0: "installed env staging install n ?st0 = installed env staging install n st"
    "map_option fst (ufiles ?st0 (in_dir env install n)) = map_option fst (ufiles st (in_dir env install n))" if "n \<in> set upd_names" for n
    using pids [OF that] by (auto intro!: installed_cong simp: write_pid_frame)
  have room0: "disk_room ?st0 = None" by (simp add: write_pid_frame room)
  have one: "map_option fst (ufiles st1 (in_dir env install n)) =
      (if n = ''offs-updater'' then map_option fst (ufiles st (in_dir env install n)) else installed env staging install n st)" if "n \<in> set upd_names" for n
    using replace_stage_installs [OF first [unfolded ok] ov room0 that] st0 [OF that] by (simp only: if_cancel split: if_split)
  obtain st2 where check: "start_and_check env install backup st2 = (0, st')"
    and files: "\<And>n. n \<in> set upd_names \<Longrightarrow> map_option fst (ufiles st2 (in_dir env install n)) =
      (if n = ''offs-updater'' \<and> \<not> exec_ok env (temp_updater env) st1 then map_option fst (ufiles st (in_dir env install n))
       else installed env staging install n st)"
  proof (cases "exec_ok env (temp_updater env) st1")
    case False
    let ?st2 = "log_write ''ERROR: exec of temp updater failed, attempting direct service restart'' st1"
    have "start_and_check env install backup ?st2 = (0, st')"
      using run False by (simp add: main ok case_prod_beta prod_eq_iff del: scan_upd_args.simps)
    then show thesis by (rule that) (use one False in simp)
  next
    case True
    let ?A = "log_write ''Updater starting (finish mode)'' (write_pid env st1)"
    have second: "updater_main env [''--finish'', staging, install, backup] st1 = (Exited 0, st')"
      using run True by (simp add: main ok same_program del: scan_upd_args.simps)
    then have check: "start_and_check env install backup (fold (install_file env staging install) upd_names ?A) = (0, st')"
      using args by (simp add: updater_main_def scan_upd_finish upd_names_def Let_def case_prod_beta prod_eq_iff del: scan_upd_args.simps)
    have room1: "disk_room ?A = None"
      using replace_stage_room [OF first room0] by (simp add: write_pid_frame)
    have "map_option fst (ufiles (fold (install_file env staging install) upd_names ?A) (in_dir env install n)) =
        installed env staging install n st" if n: "n \<in> set upd_names" for n
    proof -
      note p = pids [OF n]
      have src: "ufiles ?A (in_dir env staging n) = ufiles st (in_dir env staging n)"
        using replace_stage_frame [OF first room0 p(4,5,3)] p by (simp add: write_pid_frame)
      have at: "map_option fst (ufiles ?A (in_dir env install n)) = map_option fst (ufiles st1 (in_dir env install n))"
        using p by (simp add: write_pid_frame)
      have "installed env staging install n ?A = installed env staging install n st"
      proof (cases "n = ''offs-updater''")
        case True
        with one [OF n] at show ?thesis by (intro installed_cong src) simp
      next
        case False
        with one [OF n] at show ?thesis by (intro installed_again src) simp
      qed
      moreover have "map_option fst (ufiles (fold (install_file env staging install) upd_names ?A) (in_dir env install n)) =
          installed env staging install n ?A"
        by (rule install_seq [OF ov room1 n]) (simp_all add: upd_names_def)
      ultimately show ?thesis by simp
    qed
    with check True show thesis by (intro that) simp_all
  qed
  from linux.success_is_up [OF svc check] files pids(1) show ?thesis by simp
qed

text \<open>A machine whose state is whether the daemon runs.\<close>

definition switch_machine :: "bool machine" where
  "switch_machine = \<lparr>os_kind = Linux,
     os_system = (\<lambda>c w. if c = ''systemctl stop offs-daemon 2>/dev/null'' then (0, False)
       else if c = ''systemctl is-active --quiet offs-daemon'' then (if w then 0 else 3, w) else (0, True)),
     os_sleep_ms = (\<lambda>d w. w), os_local_connect = (\<lambda>t p. None), os_fork_exec = (\<lambda>c t. (None, t)), os_waitpid_nohang = (\<lambda>p t. (None, t)),
     os_exe_path = (\<lambda>t. None), os_is_executable = (\<lambda>t p. False), os_pgrep_offsd = (\<lambda>t. None), os_cmdline = (\<lambda>t p. None), os_geteuid = (\<lambda>t. 0)\<rparr>"

definition switch_env :: "bool upd_env" where
  "switch_env = plain_env (linux_service_ops switch_machine)"

text \<open>The staged CLI is missing.\<close>

definition switch_st :: "bool upd_st" where
  "switch_st = \<lparr>ufiles = (\<lambda>p. if p = ''s/offs-daemon'' \<or> p = ''s/offs-updater'' then Some (bytes_of p, 493) else None), disk_room = None, service_world = True,
     upd_stderr = [], g_log = []\<rparr>"

lemma wait_loop_now: "probe (nap w) = (True, w') \<Longrightarrow> 0 < n \<Longrightarrow> wait_loop probe nap n w = (service_result_ok, w')"
  by (cases n) simp_all

lemma switch_ops:
  "svc_stop (svc switch_env) w = (service_result_ok, False)" "svc_start (svc switch_env) w = (service_result_ok, True)"
  "svc_is_running (svc switch_env) w = (w, w)" "svc_wait_for_stop (svc switch_env) SHUTDOWN_TIMEOUT_MS False = (service_result_ok, False)"
  "svc_wait_for_start (svc switch_env) STARTUP_TIMEOUT_MS True = (service_result_ok, True)"
  by (simp_all add: switch_env_def plain_env_def linux_service_ops_def service_linux_stop_def service_linux_start_def service_linux_is_running_def
      service_linux_wait_for_stop_def service_linux_wait_for_start_def shell_result_def switch_machine_def wait_loop_now iterations_def
      SHUTDOWN_TIMEOUT_MS_def STARTUP_TIMEOUT_MS_def)

lemma switch_stages: "fst (replace_stage switch_env s i st) = service_result_ok" "fst (start_and_check switch_env i b st) = 0"
  by (simp_all add: replace_stage_def start_and_check_def on_service_def switch_ops Let_def log_write_def)

theorem update_installs_witness:
  "\<exists>st'. update (updater_main switch_env) switch_env [''s'', ''i'', ''b''] switch_st = (Exited 0, st') \<and>
     map_option fst (ufiles st' ''i/offs-daemon'') = Some (bytes_of ''s/offs-daemon'') \<and> ufiles st' ''i/offs-cli'' = None \<and> ufiles st' PID_FILE = None"
proof -
  note env = switch_env_def plain_env_def
  have fields: "svc switch_env = linux_service_ops switch_machine" "disk_room switch_st = None" by (simp_all add: env switch_st_def)
  have dirs: "in_dir switch_env d n = d @ ''/'' @ n" if "length (d @ n) < 1000" for d n
    using that by (simp add: in_dir_def exe_name_def env)
  have ov: "no_overlap switch_env ''s'' ''i''"
    by (simp add: no_overlap_def upd_names_def dirs temp_updater_def PID_FILE_def) (simp add: env)
  have "\<exists>st'. update (updater_main switch_env) switch_env [''s'', ''i'', ''b''] switch_st = (Exited 0, st')"
    using switch_stages
    by (simp add: update_def updater_main_def no_upd_args_def Let_def case_prod_beta prod_eq_iff)
  then obtain st' where run: "update (updater_main switch_env) switch_env [''s'', ''i'', ''b''] switch_st = (Exited 0, st')" by blast
  obtain r st1 where first: "replace_stage switch_env ''s'' ''i'' (log_write ''Updater starting'' (write_pid switch_env switch_st)) = (r, st1)"
    by fastforce
  have "installed switch_env ''s'' ''i'' ''offs-daemon'' switch_st = Some (bytes_of ''s/offs-daemon'')"
    "installed switch_env ''s'' ''i'' ''offs-cli'' switch_st = None"
    by (simp_all add: installed_def dirs switch_st_def) (simp add: env readable_def)
  moreover have "pid_unlinks switch_env" by (simp add: env)
  ultimately show ?thesis
    using update_installs [OF fields ov _ _ _ refl first run] run by (auto simp: upd_names_def dirs)
qed

end
