(* ===== verification/Daemon_Args.thy ===== *)
theory Daemon_Args
  imports Config_Dirs Cli_Base
begin

text \<open>
  The arguments of the daemon (\<^verbatim>\<open>src/src/offsd/main.c\<close>): the command line, the JSON configuration file and
  the defaults, as \<^verbatim>\<open>_parse_args\<close> combines them; the generation of the API key and the soft
  authentication of requests. cJSON and the files are the parameter of \<open>Config_Dirs\<close>.
\<close>

section \<open>The argument structure\<close>

record offsd_args =
  arg_config_path :: "string option"
  arg_host :: "string option"
  arg_port :: u16
  arg_quic_port :: u16
  arg_unix_path :: "string option"
  arg_cache_dir :: "string option"
  arg_config_dir :: "string option"
  arg_pid_file :: "string option"
  arg_worker_count :: int
  arg_foreground :: bool
  arg_log_file :: "string option"
  arg_log_level_str :: "string option"
  arg_log_structured :: bool
  arg_metrics_server_url :: "string option"
  arg_ca_cert_path :: "string option"
  arg_node_cert_path :: "string option"
  arg_node_key_path :: "string option"
  arg_relay_url :: "string option"
  arg_max_capacity_bytes :: u64
  arg_eabf_base_ttl_ms :: u32
  arg_respiration_tau_min_ms :: u32
  arg_respiration_tau_max_ms :: u32
  arg_unix_socket_mode :: u32
  arg_api_key :: "string option"
  arg_bootstrap_peers :: "string option"
  arg_ws_port :: u16
  arg_wt_port :: u16
  arg_wt_h3_port :: u16
  arg_ws_cert_path :: "string option"
  arg_ws_key_path :: "string option"
  arg_wt_cert_path :: "string option"
  arg_wt_key_path :: "string option"
  arg_allow_secure :: bool

text \<open>The defaults \<^verbatim>\<open>_run_offsd\<close> sets before parsing; \<open>config_path\<close> is the default configuration file when
  there is one.\<close>

definition default_args :: "string option \<Rightarrow> offsd_args" where
  "default_args config_path = \<lparr>
     arg_config_path = config_path, arg_host = Some ''0.0.0.0'', arg_port = 23402, arg_quic_port = 23401,
     arg_unix_path = None, arg_cache_dir = None, arg_config_dir = None, arg_pid_file = None,
     arg_worker_count = 0, arg_foreground = False, arg_log_file = None, arg_log_level_str = None,
     arg_log_structured = False, arg_metrics_server_url = None, arg_ca_cert_path = None,
     arg_node_cert_path = None, arg_node_key_path = None, arg_relay_url = None, arg_max_capacity_bytes = 0,
     arg_eabf_base_ttl_ms = 0, arg_respiration_tau_min_ms = 0, arg_respiration_tau_max_ms = 0,
     arg_unix_socket_mode = 0, arg_api_key = None, arg_bootstrap_peers = None, arg_ws_port = 0,
     arg_wt_port = 0, arg_wt_h3_port = 0, arg_ws_cert_path = None, arg_ws_key_path = None,
     arg_wt_cert_path = None, arg_wt_key_path = None, arg_allow_secure = False\<rparr>"

section \<open>Worker count\<close>

definition get_worker_count :: "int \<Rightarrow> int" where
  "get_worker_count nprocs_long =
     (let nprocs = (if nprocs_long < 1 then 1 else nprocs_long) in if nprocs < 2 then 2 else nprocs)"

section \<open>The configuration file\<close>

text \<open>A failure is a printed message.\<close>

datatype cfg_error = Cfg_Message string

text \<open>\<^verbatim>\<open>if (cJSON_IsString(item) && field == NULL) field = strdup(item->valuestring)\<close>\<close>

definition fill :: "string option \<Rightarrow> string option \<Rightarrow> string option" where
  "fill field item = (case field of Some v \<Rightarrow> Some v | None \<Rightarrow> item)"

definition sub_item :: "('j, 'w) host \<Rightarrow> 'j option \<Rightarrow> string \<Rightarrow> 'j option" where
  "sub_item h sec key = do { s \<leftarrow> sec; cJSON_GetObjectItem h s key }"

definition sub_string :: "('j, 'w) host \<Rightarrow> 'j option \<Rightarrow> string \<Rightarrow> string option" where
  "sub_string h sec key = do { i \<leftarrow> sub_item h sec key; cj_string h i }"

definition sub_number :: "('j, 'w) host \<Rightarrow> 'j option \<Rightarrow> string \<Rightarrow> (int \<times> int) option" where
  "sub_number h sec key = do { i \<leftarrow> sub_item h sec key; cj_number h i }"

definition cfg_daemon :: "('j, 'w) host \<Rightarrow> 'j \<Rightarrow> offsd_args \<Rightarrow> offsd_args" where
  "cfg_daemon h root args =
     (let daemon = cJSON_GetObjectItem h root ''daemon'' in
      args\<lparr>arg_config_dir := fill (arg_config_dir args) (sub_string h daemon ''config-dir''),
           arg_pid_file := fill (arg_pid_file args) (sub_string h daemon ''pid-file'')\<rparr>)"

text \<open>The conversion of \<^verbatim>\<open>valuedouble\<close> to an unsigned integer of \<open>n\<close> bits. Out of range C does not define it; the code
  goes on with whatever bits come out, which are a parameter.\<close>

definition cast_unsigned :: "('j, 'w) host \<Rightarrow> nat \<Rightarrow> int \<Rightarrow> int" where
  "cast_unsigned h n v = (if 0 \<le> v \<and> v < 2 ^ n then v else cast_out_of_range h n v)"

definition cfg_port :: "('j, 'w) host \<Rightarrow> 'j option \<Rightarrow> u16 \<Rightarrow> u16 \<Rightarrow> u16" where
  "cfg_port h sec unset field =
     (case sub_number h sec ''port'' of
        Some (valueint, _) \<Rightarrow> if field = unset then to_u16 valueint else field
      | None \<Rightarrow> field)"

definition cfg_capacity :: "('j, 'w) host \<Rightarrow> 'j option \<Rightarrow> offsd_args \<Rightarrow> offsd_args" where
  "cfg_capacity h network args =
     (case sub_number h network ''max-capacity-bytes'' of
        Some (_, v) \<Rightarrow>
          if arg_max_capacity_bytes args = 0 then args\<lparr>arg_max_capacity_bytes := of_int (cast_unsigned h 64 v)\<rparr> else args
      | None \<Rightarrow> args)"

definition cfg_eabf :: "('j, 'w) host \<Rightarrow> 'j option \<Rightarrow> offsd_args \<Rightarrow> cfg_error + offsd_args" where
  "cfg_eabf h network args =
     (case sub_number h network ''eabf-base-ttl-ms'' of
        Some (_, v) \<Rightarrow>
          if arg_eabf_base_ttl_ms args = 0 then
            (let ttl = of_int (cast_unsigned h 32 v) in
             if ttl < 64000
             then Inl (Cfg_Message (''Invalid network[eabf-base-ttl-ms]: '' @ dec_nat (unat ttl)
                    @ '' ms is below the 64-slot wheel floor (min 64000)''))
             else Inr (args\<lparr>arg_eabf_base_ttl_ms := ttl\<rparr>))
          else Inr args
      | None \<Rightarrow> Inr args)"

definition cfg_tau :: "('j, 'w) host \<Rightarrow> 'j option \<Rightarrow> string \<Rightarrow> u32 \<Rightarrow> u32" where
  "cfg_tau h network key field =
     (case sub_number h network key of
        Some (_, v) \<Rightarrow> if field = 0 then of_int (cast_unsigned h 32 v) else field
      | None \<Rightarrow> field)"

definition cfg_taus :: "('j, 'w) host \<Rightarrow> 'j option \<Rightarrow> offsd_args \<Rightarrow> cfg_error + offsd_args" where
  "cfg_taus h network args =
     (let tau_min = cfg_tau h network ''respiration-tau-min-ms'' (arg_respiration_tau_min_ms args);
          tau_max = cfg_tau h network ''respiration-tau-max-ms'' (arg_respiration_tau_max_ms args) in
      if tau_min > 0 \<and> tau_max > 0 \<and> tau_min > tau_max
      then Inl (Cfg_Message (''Invalid network[respiration-tau-*]: min ('' @ dec_nat (unat tau_min)
             @ '' ms) exceeds max ('' @ dec_nat (unat tau_max) @ '' ms)''))
      else Inr (args\<lparr>arg_respiration_tau_min_ms := tau_min, arg_respiration_tau_max_ms := tau_max\<rparr>))"

text \<open>An octal permission: everything must be consumed, and at most 0777.\<close>

definition parse_mode :: "string \<Rightarrow> u64 option" where
  "parse_mode text = (let (mode, rest) = strtoull 8 text in if rest \<noteq> [] \<or> mode > 511 then None else Some mode)"

definition cfg_unix_mode :: "('j, 'w) host \<Rightarrow> 'j option \<Rightarrow> offsd_args \<Rightarrow> cfg_error + offsd_args" where
  "cfg_unix_mode h network args =
     (case sub_item h network ''unix-socket-mode'' of
        None \<Rightarrow> Inr args
      | Some item \<Rightarrow>
          (case cj_string h item of
             None \<Rightarrow> Inl (Cfg_Message ''Invalid network[unix-socket-mode]: must be an octal string like \"0666\"'')
           | Some text \<Rightarrow>
               if text = [] then Inr args
               else (case parse_mode text of
                   None \<Rightarrow> Inl (Cfg_Message (''Invalid network[unix-socket-mode]: '' @ quoted text
                             @ '' (octal string like \"0666\")''))
                 | Some mode \<Rightarrow>
                     Inr (if arg_unix_socket_mode args = 0 then args\<lparr>arg_unix_socket_mode := ucast mode\<rparr> else args))))"

definition andthen :: "'e + 'a \<Rightarrow> ('a \<Rightarrow> 'e + 'b) \<Rightarrow> 'e + 'b" where
  "andthen r f = (case r of Inl e \<Rightarrow> Inl e | Inr a \<Rightarrow> f a)"

definition cfg_network :: "('j, 'w) host \<Rightarrow> 'j \<Rightarrow> offsd_args \<Rightarrow> cfg_error + offsd_args" where
  "cfg_network h root args =
     (let network = cJSON_GetObjectItem h root ''network'';
          args1 = args\<lparr>arg_host := fill (arg_host args) (sub_string h network ''host''),
                       arg_port := cfg_port h network 23402 (arg_port args),
                       arg_relay_url := fill (arg_relay_url args) (sub_string h network ''relay-url'')\<rparr>
      in if network = None then Inr args
         else andthen (cfg_eabf h network (cfg_capacity h network args1)) (\<lambda>a3.
              andthen (cfg_taus h network a3) (\<lambda>a4.
              andthen (cfg_unix_mode h network a4) (\<lambda>a5.
                Inr (a5\<lparr>arg_bootstrap_peers := fill (arg_bootstrap_peers a5) (sub_string h network ''bootstrap-peers'')\<rparr>)))))"

definition cfg_auth_to_tls :: "('j, 'w) host \<Rightarrow> 'j \<Rightarrow> offsd_args \<Rightarrow> offsd_args" where
  "cfg_auth_to_tls h root args =
     (let sec = cJSON_GetObjectItem h root in
      args\<lparr>arg_api_key := fill (arg_api_key args) (sub_string h (sec ''auth'') ''api-key''),
           arg_unix_path := fill (arg_unix_path args) (sub_string h (sec ''unix'') ''socket-path''),
           arg_cache_dir := fill (arg_cache_dir args) (sub_string h (sec ''cache'') ''dir''),
           arg_worker_count := (case sub_number h (sec ''workers'') ''count'' of
              Some (valueint, _) \<Rightarrow> if arg_worker_count args = 0 then valueint else arg_worker_count args
            | None \<Rightarrow> arg_worker_count args),
           arg_metrics_server_url := fill (arg_metrics_server_url args) (sub_string h (sec ''metrics'') ''server-url''),
           arg_ca_cert_path := fill (arg_ca_cert_path args) (sub_string h (sec ''tls'') ''ca-cert''),
           arg_node_cert_path := fill (arg_node_cert_path args) (sub_string h (sec ''tls'') ''node-cert''),
           arg_node_key_path := fill (arg_node_key_path args) (sub_string h (sec ''tls'') ''node-key'')\<rparr>)"

definition cfg_transports :: "('j, 'w) host \<Rightarrow> 'j \<Rightarrow> offsd_args \<Rightarrow> offsd_args" where
  "cfg_transports h root args =
     (let sec = cJSON_GetObjectItem h root in
      args\<lparr>arg_ws_port := cfg_port h (sec ''websocket'') 0 (arg_ws_port args),
           arg_ws_cert_path := fill (arg_ws_cert_path args) (sub_string h (sec ''websocket'') ''cert''),
           arg_ws_key_path := fill (arg_ws_key_path args) (sub_string h (sec ''websocket'') ''key''),
           arg_wt_port := cfg_port h (sec ''webtransport'') 0 (arg_wt_port args),
           arg_wt_cert_path := fill (arg_wt_cert_path args) (sub_string h (sec ''webtransport'') ''cert''),
           arg_wt_key_path := fill (arg_wt_key_path args) (sub_string h (sec ''webtransport'') ''key''),
           arg_allow_secure := (case Option.bind (sub_item h (sec ''security'') ''allow-secure'') (cj_bool h) of
              Some b \<Rightarrow> if arg_allow_secure args then arg_allow_secure args else b
            | None \<Rightarrow> arg_allow_secure args)\<rparr>)"

definition parse_config_file :: "('j, 'w) host \<Rightarrow> 'w \<Rightarrow> string \<Rightarrow> offsd_args \<Rightarrow> cfg_error + offsd_args" where
  "parse_config_file h w path args =
     (case read_file h w path of
        None \<Rightarrow> Inl (Cfg_Message (''Failed to open config file: '' @ path))
      | Some buffer \<Rightarrow>
          (case cJSON_Parse h (c_string_of buffer) of
             None \<Rightarrow> Inl (Cfg_Message ''Failed to parse config file: '')
           | Some root \<Rightarrow>
               andthen (cfg_network h root (cfg_daemon h root args)) (\<lambda>a.
                 Inr (cfg_transports h root (cfg_auth_to_tls h root a)))))"

section \<open>The command line\<close>

datatype parse_stop = Stop_Help | Stop_Unknown string | Stop_Mode string

text \<open>\<^verbatim>\<open>_arg_string_set\<close>: the copy always succeeds here.\<close>

definition arg_string_set :: "string \<Rightarrow> string option" where
  "arg_string_set value = Some value"

text \<open>The options that take a value; \<open>None\<close> when the name is not one of them.\<close>

definition set_value :: "string \<Rightarrow> string \<Rightarrow> offsd_args \<Rightarrow> (parse_stop + offsd_args) option" where
  "set_value opt v a =
     (if opt = ''--config'' then Some (Inr (a\<lparr>arg_config_path := Some v\<rparr>))
      else if opt = ''--host'' then Some (Inr (a\<lparr>arg_host := arg_string_set v\<rparr>))
      else if opt = ''--port'' then Some (Inr (a\<lparr>arg_port := to_u16 (atoi v)\<rparr>))
      else if opt = ''--quic-port'' then Some (Inr (a\<lparr>arg_quic_port := to_u16 (atoi v)\<rparr>))
      else if opt = ''--unix'' then Some (Inr (a\<lparr>arg_unix_path := arg_string_set v\<rparr>))
      else if opt = ''--cache-dir'' then Some (Inr (a\<lparr>arg_cache_dir := arg_string_set v\<rparr>))
      else if opt = ''--config-dir'' then Some (Inr (a\<lparr>arg_config_dir := arg_string_set v\<rparr>))
      else if opt = ''--pid-file'' then Some (Inr (a\<lparr>arg_pid_file := arg_string_set v\<rparr>))
      else if opt = ''--workers'' then Some (Inr (a\<lparr>arg_worker_count := (if atoi v < 0 then 0 else atoi v)\<rparr>))
      else if opt = ''--log-file'' then Some (Inr (a\<lparr>arg_log_file := Some v\<rparr>))
      else if opt = ''--log-level'' then Some (Inr (a\<lparr>arg_log_level_str := Some v\<rparr>))
      else if opt = ''--metrics-server'' then Some (Inr (a\<lparr>arg_metrics_server_url := arg_string_set v\<rparr>))
      else if opt = ''--ca-cert'' then Some (Inr (a\<lparr>arg_ca_cert_path := arg_string_set v\<rparr>))
      else if opt = ''--node-cert'' then Some (Inr (a\<lparr>arg_node_cert_path := arg_string_set v\<rparr>))
      else if opt = ''--node-key'' then Some (Inr (a\<lparr>arg_node_key_path := arg_string_set v\<rparr>))
      else if opt = ''--relay-url'' then Some (Inr (a\<lparr>arg_relay_url := arg_string_set v\<rparr>))
      else if opt = ''--max-capacity-bytes'' then Some (Inr (a\<lparr>arg_max_capacity_bytes := fst (strtoull 10 v)\<rparr>))
      else if opt = ''--unix-socket-mode'' then
        Some (case parse_mode v of
            None \<Rightarrow> Inl (Stop_Mode v)
          | Some mode \<Rightarrow> Inr (a\<lparr>arg_unix_socket_mode := ucast mode\<rparr>))
      else if opt = ''--api-key'' then Some (Inr (a\<lparr>arg_api_key := arg_string_set v\<rparr>))
      else if opt = ''--bootstrap'' then Some (Inr (a\<lparr>arg_bootstrap_peers := arg_string_set v\<rparr>))
      else if opt = ''--ws-port'' then Some (Inr (a\<lparr>arg_ws_port := to_u16 (atoi v)\<rparr>))
      else if opt = ''--wt-port'' then Some (Inr (a\<lparr>arg_wt_port := to_u16 (atoi v)\<rparr>))
      else if opt = ''--wt-h3-port'' then Some (Inr (a\<lparr>arg_wt_h3_port := to_u16 (atoi v)\<rparr>))
      else if opt = ''--ws-cert'' then Some (Inr (a\<lparr>arg_ws_cert_path := arg_string_set v\<rparr>))
      else if opt = ''--ws-key'' then Some (Inr (a\<lparr>arg_ws_key_path := arg_string_set v\<rparr>))
      else if opt = ''--wt-cert'' then Some (Inr (a\<lparr>arg_wt_cert_path := arg_string_set v\<rparr>))
      else if opt = ''--wt-key'' then Some (Inr (a\<lparr>arg_wt_key_path := arg_string_set v\<rparr>))
      else None)"

definition set_switch :: "string \<Rightarrow> offsd_args \<Rightarrow> offsd_args option" where
  "set_switch opt a =
     (if opt = ''--foreground'' then Some (a\<lparr>arg_foreground := True\<rparr>)
      else if opt = ''--log-structured'' then Some (a\<lparr>arg_log_structured := True\<rparr>)
      else if opt = ''--allow-secure'' then Some (a\<lparr>arg_allow_secure := True\<rparr>)
      else None)"

text \<open>The loop over the arguments. An option that needs a value and is the last argument falls through
  the chain of comparisons to the unknown options.\<close>

fun parse_flags :: "string list \<Rightarrow> offsd_args \<Rightarrow> parse_stop + offsd_args" where
  "parse_flags [] a = Inr a"
| "parse_flags [opt] a =
     (case set_switch opt a of
        Some a' \<Rightarrow> Inr a'
      | None \<Rightarrow> Inl (if opt = ''--help'' then Stop_Help else Stop_Unknown opt))"
| "parse_flags (opt # v # rest) a =
     (case set_value opt v a of
        Some (Inl e) \<Rightarrow> Inl e
      | Some (Inr a') \<Rightarrow> parse_flags rest a'
      | None \<Rightarrow>
          (case set_switch opt a of
             Some a' \<Rightarrow> parse_flags (v # rest) a'
           | None \<Rightarrow> Inl (if opt = ''--help'' then Stop_Help else Stop_Unknown opt)))"

text \<open>\<^verbatim>\<open>_print_usage\<close>, as the lines it prints.\<close>

definition usage_lines :: "string \<Rightarrow> string list" where
  "usage_lines program =
     [''Usage: '' @ program @ '' [options]'',
      ''Options:'',
      ''  --config <path>      Config file path (JSON). Default: $OFFS_CONFIG or the'',
      ''                       platform default (%ProgramData%'' @ [CHR 0x5C] @ ''offs'' @ [CHR 0x5C] @ ''offs.json on'',
      ''                       Windows, /etc/offs/offs.json otherwise) when present'',
      ''  --host <addr>        Bind address (default: 0.0.0.0; use :: for dual-stack)'',
      ''  --port <port>        HTTP port, 0 to disable (default: 23402)'',
      ''  --quic-port <port>   QUIC/P2P listener port, 0 to disable (default: 23401)'',
      ''  --unix <path>        Local RPC socket path, '' @ OFFS_LOCAL_SOCKET_PATH @ '' by default on'',
      ''                       both platforms (POSIX unix socket; on Windows'',
      ''                       platform_local maps the path to the named pipe'',
      ''                       '' @ [CHR 0x5C] @ ''.'' @ [CHR 0x5C] @ ''pipe'' @ [CHR 0x5C] @ ''liboffs-<basename>)'',
      ''  --unix-socket-mode <mode>  Local socket permissions, octal (POSIX only;'',
      ''                       default: 0666). Config file: network['' @ [CHR 0x22] @ ''unix-socket-mode'' @ [CHR 0x22] @ '']'',
      ''                       as an octal string, e.g. '' @ [CHR 0x22] @ ''0666'' @ [CHR 0x22],
      ''  --cache-dir <dir>    Block cache directory'',
      ''  --config-dir <dir>   Node config/state directory (certs, peer store,'',
      ''                       pending config). Default: machine state dir '' @ em_dash,
      ''                       %ProgramData%'' @ [CHR 0x5C] @ ''offs on Windows (always), /etc/offs'',
      ''                       as root (macOS /Library/Application Support/offs),'',
      ''                       ~/.config/offs otherwise'',
      ''  --pid-file <path>    PID file path'',
      ''  --workers <n>        Worker count, 0=auto (default: 0)'',
      ''  --foreground         Run in foreground (do not daemonize)'',
      ''  --log-file <path>    Redirect daemonized stdout/stderr to this file'',
      ''  --log-level <lvl>    Log level: trace, debug, info, warn, error, fatal (default: info)'',
      ''  --log-structured     Enable key=value structured log output'',
      ''  --metrics-server <url>  Metrics server URL for topology reports'',
      ''  --ca-cert <path>      CA certificate PEM path'',
      ''  --node-cert <path>    Node certificate PEM path'',
      ''  --node-key <path>     Node private key PEM path'',
      ''  --relay-url <url>     Relay server URL (host:port, [ipv6]:port, or offs://host:port)'',
      ''  --max-capacity-bytes <n>  Block cache capacity in bytes (default: 5368709120 = 5 GiB)'',
      ''  --api-key <key>       API key for /peer/* routes. If omitted, a random key'',
      ''                       is generated and printed to stdout on startup.'',
      ''  --bootstrap <csv>     Comma-separated bootstrap entry points (host:port or [ipv6]:port)'',
      ''  --ws-port <port>      WebSocket port, 0 to disable (default: 0)'',
      ''  --wt-port <port>      WebTransport (custom QUIC) port, 0 to disable (default: 0)'',
      ''  --wt-h3-port <port>  HTTP/3 WebTransport port, 0 to disable (default: 0)'',
      ''  --ws-cert <path>      WebSocket TLS certificate PEM path'',
      ''  --ws-key <path>       WebSocket TLS private key PEM path'',
      ''  --wt-cert <path>      WebTransport TLS certificate PEM path'',
      ''  --wt-key <path>       WebTransport TLS private key PEM path'',
      ''  --allow-secure        Require CA validation for TLS transports'',
      ''  --help               Show this help'']"

text \<open>What ends the parsing early: the result code and the lines written to standard error.\<close>

definition stop_result :: "string \<Rightarrow> parse_stop \<Rightarrow> int \<times> string list" where
  "stop_result program e =
     (case e of
        Stop_Help \<Rightarrow> (1, usage_lines program)
      | Stop_Unknown opt \<Rightarrow> (- 1, (''Unknown option: '' @ opt) # usage_lines program)
      | Stop_Mode v \<Rightarrow> (- 1, [''Invalid --unix-socket-mode '' @ quoted v @ '' (octal, e.g. 0666)'']))"

definition cfg_result :: "cfg_error \<Rightarrow> int \<times> string list" where
  "cfg_result e = (- 1, case e of Cfg_Message m \<Rightarrow> [m])"

definition finish_args :: "int \<Rightarrow> offsd_args \<Rightarrow> offsd_args" where
  "finish_args nprocs a =
     (let workers = (if arg_worker_count a = 0 then get_worker_count nprocs else arg_worker_count a) in
      a\<lparr>arg_worker_count := (if workers < 1 then 1 else workers),
        arg_unix_path := (case arg_unix_path a of None \<Rightarrow> arg_string_set OFFS_LOCAL_SOCKET_PATH | Some p \<Rightarrow> Some p)\<rparr>)"

text \<open>\<^verbatim>\<open>_parse_args\<close> on the arguments after the program name: \<open>Inl\<close> with the non-zero result.\<close>

definition parse_args :: "('j, 'w) host \<Rightarrow> 'w \<Rightarrow> int \<Rightarrow> string \<Rightarrow> string list \<Rightarrow> offsd_args
    \<Rightarrow> (int \<times> string list) + offsd_args" where
  "parse_args h w nprocs program argv args =
     (case parse_flags argv args of
        Inl e \<Rightarrow> Inl (stop_result program e)
      | Inr a \<Rightarrow>
          (case arg_config_path a of
             None \<Rightarrow> Inr (finish_args nprocs a)
           | Some path \<Rightarrow>
               (case parse_config_file h w path a of
                  Inl e \<Rightarrow> Inl (cfg_result e)
                | Inr a' \<Rightarrow> Inr (finish_args nprocs a'))))"

section \<open>What parsing guarantees\<close>

text \<open>The values the daemon relies on: at least one worker, a local socket, a permission within 0777, a
  usable base time and ordered throttle bounds.\<close>

definition limits_ok :: "offsd_args \<Rightarrow> bool" where
  "limits_ok a \<longleftrightarrow>
     unat (arg_unix_socket_mode a) \<le> 511 \<and>
     (arg_eabf_base_ttl_ms a = 0 \<or> 64000 \<le> unat (arg_eabf_base_ttl_ms a)) \<and>
     (arg_respiration_tau_min_ms a > 0 \<and> arg_respiration_tau_max_ms a > 0 \<longrightarrow>
        arg_respiration_tau_min_ms a \<le> arg_respiration_tau_max_ms a)"

lemma parse_mode_bound: "parse_mode v = Some m \<Longrightarrow> unat (ucast m :: u32) \<le> 511"
proof -
  assume "parse_mode v = Some m"
  then have "m \<le> 511" by (auto simp: parse_mode_def Let_def split: prod.splits if_splits)
  then have "unat m \<le> 511" by (simp add: word_le_nat_alt)
  then show ?thesis by (simp add: unsigned_ucast_eq take_bit_nat_eq_self)
qed

text \<open>Flags and switches keep the limits; only the permission can change them.\<close>

lemma set_value_limits:
  assumes "set_value opt v a = Some (Inr a')" "limits_ok a"
  shows "limits_ok a'"
proof (cases "opt = ''--unix-socket-mode''")
  case True
  then obtain mode where "parse_mode v = Some mode" "a' = a\<lparr>arg_unix_socket_mode := ucast mode\<rparr>"
    using assms(1) by (auto simp: set_value_def split: option.splits)
  with parse_mode_bound [of v mode] assms(2) show ?thesis by (simp add: limits_ok_def)
next
  case False
  have "arg_unix_socket_mode a' = arg_unix_socket_mode a \<and> arg_eabf_base_ttl_ms a' = arg_eabf_base_ttl_ms a \<and>
      arg_respiration_tau_min_ms a' = arg_respiration_tau_min_ms a \<and> arg_respiration_tau_max_ms a' = arg_respiration_tau_max_ms a"
    using assms(1) False by (auto simp: set_value_def split: if_splits)
  with assms(2) show ?thesis by (simp add: limits_ok_def)
qed

lemma set_switch_limits: "set_switch opt a = Some a' \<Longrightarrow> limits_ok a \<Longrightarrow> limits_ok a'"
  by (auto simp: set_switch_def limits_ok_def split: if_splits)

lemma parse_flags_limits: "parse_flags argv a = Inr a' \<Longrightarrow> limits_ok a \<Longrightarrow> limits_ok a'"
proof (induction argv a rule: parse_flags.induct)
  case (3 opt v rest a)
  then show ?case
    by (auto split: option.splits sum.splits dest: set_value_limits set_switch_limits)
qed (auto split: option.splits dest: set_switch_limits)

lemma andthen_Inr [simp]: "andthen r f = Inr b \<longleftrightarrow> (\<exists>a. r = Inr a \<and> f a = Inr b)"
  by (cases r) (auto simp: andthen_def)

lemma cfg_eabf_limits: "cfg_eabf h n a = Inr a' \<Longrightarrow> limits_ok a \<Longrightarrow> limits_ok a'"
  by (auto simp: cfg_eabf_def limits_ok_def Let_def word_less_nat_alt split: option.splits if_splits)

lemma cfg_capacity_limits [simp]: "limits_ok (cfg_capacity h n a) = limits_ok a"
  by (simp add: cfg_capacity_def limits_ok_def split: option.splits)

lemma cfg_taus_limits: "cfg_taus h n a = Inr a' \<Longrightarrow> limits_ok a \<Longrightarrow> limits_ok a'"
  by (auto simp: cfg_taus_def limits_ok_def Let_def split: if_splits)

lemma cfg_unix_mode_limits: "cfg_unix_mode h n a = Inr a' \<Longrightarrow> limits_ok a \<Longrightarrow> limits_ok a'"
  using parse_mode_bound
  by (auto simp: cfg_unix_mode_def limits_ok_def split: option.splits if_splits)

lemma plain_sections_limits:
  "limits_ok (cfg_daemon h root a) = limits_ok a" "limits_ok (cfg_auth_to_tls h root a) = limits_ok a"
  "limits_ok (cfg_transports h root a) = limits_ok a"
  by (simp_all add: cfg_daemon_def cfg_auth_to_tls_def cfg_transports_def limits_ok_def Let_def)

lemma cfg_network_limits: "cfg_network h root a = Inr a' \<Longrightarrow> limits_ok a \<Longrightarrow> limits_ok a'"
proof -
  have frame: "limits_ok (a\<lparr>arg_host := x, arg_port := y, arg_relay_url := z\<rparr>) = limits_ok a"
    "limits_ok (a\<lparr>arg_bootstrap_peers := x\<rparr>) = limits_ok a" for a x y z
    by (simp_all add: limits_ok_def)
  show "cfg_network h root a = Inr a' \<Longrightarrow> limits_ok a \<Longrightarrow> limits_ok a'"
    by (auto simp: cfg_network_def Let_def frame split: if_splits
        dest!: cfg_eabf_limits cfg_taus_limits cfg_unix_mode_limits)
qed

lemma parse_config_cases:
  assumes "parse_config_file h w p a = Inr a'"
  obtains buffer root a1 where "read_file h w p = Some buffer" "cJSON_Parse h (c_string_of buffer) = Some root"
    "cfg_network h root (cfg_daemon h root a) = Inr a1" "a' = cfg_transports h root (cfg_auth_to_tls h root a1)"
  using assms by (auto simp: parse_config_file_def split: option.splits)

lemma parse_config_limits: "parse_config_file h w p a = Inr a' \<Longrightarrow> limits_ok a \<Longrightarrow> limits_ok a'"
  by (erule parse_config_cases) (auto simp: plain_sections_limits dest: cfg_network_limits)

lemma parse_args_cases:
  assumes "parse_args h w n prog argv a = Inr a'"
  obtains (no_file) a1 where "parse_flags argv a = Inr a1" "arg_config_path a1 = None" "a' = finish_args n a1"
  | (read_cfg) a1 path a2 where "parse_flags argv a = Inr a1" "arg_config_path a1 = Some path"
      "parse_config_file h w path a1 = Inr a2" "a' = finish_args n a2"
  using assms by (auto simp: parse_args_def split: sum.splits option.splits)

lemma finish_args_simps:
  "limits_ok (finish_args n a) = limits_ok a" "1 \<le> arg_worker_count (finish_args n a)"
  "arg_unix_path (finish_args n a) \<noteq> None"
  by (simp_all add: finish_args_def limits_ok_def arg_string_set_def Let_def split: option.splits)

text \<open>C21. Whatever the command line and the configuration file contain, arguments that \<^verbatim>\<open>_parse_args\<close>
  accepts are within the daemon's limits: at least one worker, a local socket path, a socket permission
  of at most 0777, a base time of 0 or at least 64000 ms and throttle bounds in order.\<close>

theorem parse_args_valid:
  assumes "parse_args h w nprocs program argv (default_args config_path) = Inr a"
  shows "limits_ok a \<and> 1 \<le> arg_worker_count a \<and> arg_unix_path a \<noteq> None"
proof -
  have start: "limits_ok (default_args config_path)" by (simp add: default_args_def limits_ok_def)
  from assms show ?thesis
    by (cases rule: parse_args_cases)
      (use start in \<open>auto simp: finish_args_simps dest: parse_flags_limits parse_config_limits\<close>)
qed

section \<open>Precedence\<close>

text \<open>The string settings that the configuration file can fill.\<close>

definition string_settings :: "(offsd_args \<Rightarrow> string option) list" where
  "string_settings = [arg_host, arg_unix_path, arg_cache_dir, arg_config_dir, arg_pid_file, arg_metrics_server_url,
     arg_ca_cert_path, arg_node_cert_path, arg_node_key_path, arg_relay_url, arg_api_key, arg_bootstrap_peers,
     arg_ws_cert_path, arg_ws_key_path, arg_wt_cert_path, arg_wt_key_path]"

definition keeps_set :: "offsd_args \<Rightarrow> offsd_args \<Rightarrow> bool" where
  "keeps_set a a' \<longleftrightarrow> list_all (\<lambda>f. f a = None \<or> f a' = f a) string_settings"

lemma fill_set [simp]: "v = None \<or> fill v x = v"
  by (simp add: fill_def split: option.splits)

lemma keeps_set_refl: "keeps_set a a"
  by (simp add: keeps_set_def list_all_iff)

lemma keeps_set_trans: "keeps_set a b \<Longrightarrow> keeps_set b c \<Longrightarrow> keeps_set a c"
  unfolding keeps_set_def list_all_iff by metis

lemma cfg_plain_keep: "keeps_set a (cfg_daemon h root a)" "keeps_set a (cfg_auth_to_tls h root a)" "keeps_set a (cfg_transports h root a)"
  by (simp_all add: keeps_set_def string_settings_def cfg_daemon_def cfg_auth_to_tls_def cfg_transports_def Let_def)

lemma cfg_steps_keep:
  "keeps_set a (cfg_capacity h n a)" "cfg_eabf h n a = Inr a' \<Longrightarrow> keeps_set a a'"
  "cfg_taus h n a = Inr a' \<Longrightarrow> keeps_set a a'" "cfg_unix_mode h n a = Inr a' \<Longrightarrow> keeps_set a a'"
  by (auto simp: keeps_set_def string_settings_def cfg_capacity_def cfg_eabf_def cfg_taus_def cfg_unix_mode_def
      Let_def split: option.splits if_splits)

lemma cfg_network_keeps:
  assumes "cfg_network h root a = Inr a'"
  shows "keeps_set a a'"
proof (cases "cJSON_GetObjectItem h root ''network''")
  case None
  then show ?thesis using assms by (simp add: cfg_network_def keeps_set_refl)
next
  case (Some net)
  have first: "keeps_set a (a\<lparr>arg_host := fill (arg_host a) x, arg_port := p, arg_relay_url := fill (arg_relay_url a) y\<rparr>)" for x y p
    by (simp add: keeps_set_def string_settings_def)
  have last: "keeps_set b (b\<lparr>arg_bootstrap_peers := fill (arg_bootstrap_peers b) x\<rparr>)" for b x
    by (simp add: keeps_set_def string_settings_def)
  define b where "b = a\<lparr>arg_host := fill (arg_host a) (sub_string h (Some net) ''host''),
      arg_port := cfg_port h (Some net) 23402 (arg_port a),
      arg_relay_url := fill (arg_relay_url a) (sub_string h (Some net) ''relay-url'')\<rparr>"
  have start: "keeps_set a b" unfolding b_def by (rule first)
  obtain b1 b2 b3 b4 where chain: "b1 = cfg_capacity h (Some net) b" "cfg_eabf h (Some net) b1 = Inr b2"
      "cfg_taus h (Some net) b2 = Inr b3" "cfg_unix_mode h (Some net) b3 = Inr b4"
      "a' = b4\<lparr>arg_bootstrap_peers := fill (arg_bootstrap_peers b4) (sub_string h (Some net) ''bootstrap-peers'')\<rparr>"
    using assms Some unfolding b_def by (auto simp: cfg_network_def Let_def)
  have final: "keeps_set b4 a'" unfolding chain(5) by (rule last)
  note keep = cfg_steps_keep(1) [of b h "Some net", folded chain(1)] cfg_steps_keep(2) [OF chain(2)] cfg_steps_keep(3) [OF chain(3)]
    cfg_steps_keep(4) [OF chain(4)]
  show ?thesis
    by (rule keeps_set_trans [OF start keeps_set_trans [OF keep(1) keeps_set_trans [OF keep(2)
        keeps_set_trans [OF keep(3) keeps_set_trans [OF keep(4) final]]]]])
qed

lemma parse_config_keeps: "parse_config_file h w p a = Inr a' \<Longrightarrow> keeps_set a a'"
  by (erule parse_config_cases) (use cfg_network_keeps cfg_plain_keep keeps_set_trans in metis)

text \<open>C22. The command line wins over the configuration file: no string setting that a flag (or a default)
  has given a value is changed by reading the file.\<close>

theorem config_file_never_overrides:
  assumes "parse_config_file h w path a = Inr a'" "f \<in> set string_settings" "f a = Some v"
  shows "f a' = Some v"
  using parse_config_keeps [OF assms(1)] assms(2,3) by (auto simp: keeps_set_def list_all_iff)


text \<open>A concrete configuration: JSON values as a tree, the file \<^verbatim>\<open>offs.json\<close> holding \<open>root\<close>.\<close>

datatype json = JObj "(string \<times> json) list" | JStr string | JNum int | JBool bool

definition json_host :: "json \<Rightarrow> (json, unit) host" where
  "json_host root = \<lparr>
     cJSON_Parse = (\<lambda>text. Some root),
     cJSON_GetObjectItem = (\<lambda>j k. case j of JObj kvs \<Rightarrow> map_of kvs k | _ \<Rightarrow> None),
     cj_string = (\<lambda>j. case j of JStr s \<Rightarrow> Some s | _ \<Rightarrow> None),
     cj_number = (\<lambda>j. case j of JNum n \<Rightarrow> Some (n, n) | _ \<Rightarrow> None),
     cj_bool = (\<lambda>j. case j of JBool b \<Rightarrow> Some b | _ \<Rightarrow> None),
     read_file = (\<lambda>w p. if p = ''offs.json'' then Some ''{}'' else None),
     offs_default_config_path_get = (\<lambda>w. Some ''offs.json''),
     offs_default_dirs_get = (\<lambda>w. Some (''/etc/offs'', ''/var/cache/offs'')),
     config_pending_load = (\<lambda>w d. None), cast_out_of_range = (\<lambda>n v. 0)\<rparr>"

lemma json_host_simps [simp]:
  "cJSON_Parse (json_host root) t = Some root"
  "cJSON_GetObjectItem (json_host root) (JObj kvs) k = map_of kvs k"
  "cj_string (json_host root) (JStr s) = Some s" "cj_string (json_host root) (JNum n) = None"
  "cj_number (json_host root) (JNum n) = Some (n, n)" "cj_number (json_host root) (JStr s) = None"
  "cj_bool (json_host root) (JBool b) = Some b"
  "read_file (json_host root) w ''offs.json'' = Some ''{}''"
  by (simp_all add: json_host_def)

definition demo_root :: json where
  "demo_root = JObj [(''network'', JObj [(''host'', JStr ''127.0.0.1''), (''port'', JNum 8080),
                                        (''eabf-base-ttl-ms'', JNum 90000)]),
                     (''cache'', JObj [(''dir'', JStr ''/srv/cache'')])]"

lemmas cfg_defs = parse_config_file_def cfg_network_def cfg_daemon_def cfg_auth_to_tls_def cfg_transports_def
  cfg_capacity_def cfg_eabf_def cfg_taus_def cfg_tau_def cfg_unix_mode_def cfg_port_def sub_item_def sub_string_def
  sub_number_def cast_unsigned_def andthen_def fill_def

lemma demo_parsed:
  "\<exists>a. parse_config_file (json_host demo_root) () ''offs.json'' (default_args (Some ''offs.json'')) = Inr a \<and>
     arg_host a = Some ''0.0.0.0'' \<and> arg_port a = 8080 \<and> arg_cache_dir a = Some ''/srv/cache'' \<and> arg_eabf_base_ttl_ms a = 90000"
  by (simp add: cfg_defs demo_root_def default_args_def to_u16_def)

theorem config_file_never_overrides_witness:
  "\<exists>a'. parse_config_file (json_host demo_root) () ''offs.json'' (default_args (Some ''offs.json'')) = Inr a'
     \<and> arg_host a' = Some ''0.0.0.0''"
proof -
  obtain a' where a': "parse_config_file (json_host demo_root) () ''offs.json'' (default_args (Some ''offs.json'')) = Inr a'"
    using demo_parsed by blast
  have "arg_host a' = Some ''0.0.0.0''"
    by (rule config_file_never_overrides [OF a']) (simp_all add: string_settings_def default_args_def)
  with a' show ?thesis by blast
qed

theorem parse_args_valid_witness:
  "\<exists>a. parse_args (json_host demo_root) () 1 ''offsd'' [''--unix-socket-mode'', ''0600''] (default_args (Some ''offs.json'')) = Inr a
     \<and> limits_ok a \<and> 1 \<le> arg_worker_count a"
proof -
  have "parse_mode ''0600'' = Some 384"
    by (simp add: parse_mode_def strtoull_def strto_subject_def is_space_def digit_in_base_def is_digit_def digit_val_def
        UINT64_MAX_def)
  then obtain a where a: "parse_args (json_host demo_root) () 1 ''offsd'' [''--unix-socket-mode'', ''0600''] (default_args (Some ''offs.json'')) = Inr a"
    by (simp add: parse_args_def set_value_def cfg_defs demo_root_def default_args_def to_u16_def)
  from a parse_args_valid [OF a] show ?thesis by blast
qed

text \<open>The host of the configuration file is never used: the default is set before parsing, and the
  file only fills settings without a value, so the daemon binds to the last \<^verbatim>\<open>--host\<close> flag or to
  \<^verbatim>\<open>0.0.0.0\<close> whatever the file's \<^verbatim>\<open>[network]\<close> section says.\<close>

theorem config_host_ignored:
  assumes "parse_args h w nprocs program argv (default_args config_path) = Inr a"
    and "''--host'' \<notin> set argv"
  shows "arg_host a = Some ''0.0.0.0''"
proof -
  have value_host: "arg_host b' = arg_host b" if "set_value opt v b = Some (Inr b')" "opt \<noteq> ''--host''" for opt v b b'
    using that by (auto simp: set_value_def split: if_splits option.splits)
  have switch_host: "arg_host b' = arg_host b" if "set_switch opt b = Some b'" for opt b b'
    using that by (auto simp: set_switch_def split: if_splits)
  have flags: "arg_host b' = arg_host b" if "parse_flags as b = Inr b'" "''--host'' \<notin> set as" for as b b'
    using that
  proof (induction as b rule: parse_flags.induct)
    case (3 opt v rest b)
    then show ?case
      by (auto split: option.splits sum.splits dest: value_host switch_host)
  qed (auto split: option.splits dest: switch_host)
  have finish: "arg_host (finish_args nprocs b) = arg_host b" for b by (simp add: finish_args_def Let_def)
  from assms(1) show ?thesis
  proof (cases rule: parse_args_cases)
    case (no_file a1)
    then show ?thesis using flags [OF no_file(1) assms(2)] by (simp add: finish default_args_def)
  next
    case (read_cfg a1 path a2)
    have "arg_host a1 = Some ''0.0.0.0''" using flags [OF read_cfg(1) assms(2)] by (simp add: default_args_def)
    then have "arg_host a2 = Some ''0.0.0.0''"
      using parse_config_keeps [OF read_cfg(3)] by (simp add: keeps_set_def string_settings_def)
    with read_cfg(4) show ?thesis by (simp add: finish)
  qed
qed

theorem config_host_ignored_witness:
  "\<exists>a. parse_args (json_host demo_root) () 4 ''offsd'' [''--foreground''] (default_args (Some ''offs.json'')) = Inr a
     \<and> arg_host a = Some ''0.0.0.0''"
proof -
  obtain a where a: "parse_args (json_host demo_root) () 4 ''offsd'' [''--foreground''] (default_args (Some ''offs.json'')) = Inr a"
    by (simp add: parse_args_def set_switch_def cfg_defs demo_root_def default_args_def to_u16_def)
  from config_host_ignored [OF a] a show ?thesis by simp
qed

text \<open>An explicit \<^verbatim>\<open>--port 23402\<close> does not win over the file: the default port doubles as the mark for
  \<open>not set\<close>, so a file with a port of its own replaces it.\<close>

theorem explicit_default_port_lost:
  assumes "parse_args h w nprocs program [''--port'', dec_nat 23402] (default_args (Some path)) = Inr a"
    and "read_file h w path = Some text" "cJSON_Parse h (c_string_of text) = Some root"
    and "sub_number h (cJSON_GetObjectItem h root ''network'') ''port'' = Some (p, q)"
  shows "arg_port a = to_u16 p"
proof -
  have port: "to_u16 (atoi (dec_nat 23402)) = 23402" using atoi_dec_nat [of 23402] by (simp add: to_u16_def)
  have flags: "parse_flags [''--port'', dec_nat 23402] (default_args (Some path)) = Inr (default_args (Some path))"
    by (simp add: set_value_def port default_args_def)
  have steps: "arg_port (cfg_capacity h n b) = arg_port b" "cfg_eabf h n b = Inr b' \<Longrightarrow> arg_port b' = arg_port b"
    "cfg_taus h n b = Inr b' \<Longrightarrow> arg_port b' = arg_port b" "cfg_unix_mode h n b = Inr b' \<Longrightarrow> arg_port b' = arg_port b" for n b b'
    by (auto simp: cfg_capacity_def cfg_eabf_def cfg_taus_def cfg_unix_mode_def Let_def split: option.splits if_splits)
  have net: "cJSON_GetObjectItem h root ''network'' \<noteq> None"
    using assms(4) by (cases "cJSON_GetObjectItem h root ''network''") (simp_all add: sub_number_def sub_item_def)
  from assms(1) show ?thesis
  proof (cases rule: parse_args_cases)
    case (no_file a1)
    then show ?thesis using flags by (simp add: default_args_def)
  next
    case (read_cfg a1 path' a2)
    then have eq: "a1 = default_args (Some path)" "path' = path" using flags by (auto simp: default_args_def)
    from read_cfg(3) obtain a3 where a3: "cfg_network h root (cfg_daemon h root (default_args (Some path))) = Inr a3"
      and a2: "a2 = cfg_transports h root (cfg_auth_to_tls h root a3)"
      using assms(2,3) eq by (auto elim: parse_config_cases)
    have "arg_port a3 = to_u16 p"
      using a3 net assms(4) by (auto simp: cfg_network_def Let_def cfg_port_def cfg_daemon_def default_args_def steps(1) dest!: steps(2-4))
    then show ?thesis using read_cfg(4) a2 by (simp add: finish_args_def cfg_transports_def cfg_auth_to_tls_def Let_def)
  qed
qed

theorem explicit_default_port_lost_witness:
  "\<exists>a. parse_args (json_host demo_root) () 4 ''offsd'' [''--port'', dec_nat 23402] (default_args (Some ''offs.json'')) = Inr a
     \<and> arg_port a = 8080"
proof -
  obtain a where a: "parse_args (json_host demo_root) () 4 ''offsd'' [''--port'', dec_nat 23402] (default_args (Some ''offs.json'')) = Inr a"
    using atoi_dec_nat [of 23402] by (simp add: parse_args_def set_value_def cfg_defs demo_root_def default_args_def to_u16_def)
  from explicit_default_port_lost [OF a, of "''{}''" demo_root 8080 8080] a show ?thesis
    by (simp add: to_u16_def demo_root_def sub_number_def sub_item_def)
qed

end
