(* ===== verification/Daemon_Auth.thy ===== *)
theory Daemon_Auth
  imports Prelude
begin

text \<open>
  The API key of the daemon (\<^verbatim>\<open>src/src/offsd/main.c\<close>): its random generation and the soft authentication
  middleware, which marks requests with a valid bearer token and rejects none. \<^verbatim>\<open>bcrypt_check\<close> is a
  parameter.
\<close>

section \<open>The middleware\<close>

record http_request =
  authorization :: "string option" \<comment> \<open>\<^verbatim>\<open>http_headers_get(headers, "Authorization")\<close>\<close>
  is_authenticated :: bool

text \<open>The context is \<open>None\<close> for a null pointer, and so is its hash; the first component of the result is
  the value returned to the HTTP server, which goes on with the request when it is 0.\<close>

definition soft_auth_handler :: "(string \<Rightarrow> string \<Rightarrow> bool) \<Rightarrow> string option option \<Rightarrow> http_request \<Rightarrow> int \<times> http_request" where
  "soft_auth_handler bcrypt_check ctx request =
     (case ctx of
        None \<Rightarrow> (0, request)
      | Some None \<Rightarrow> (0, request)
      | Some (Some bcrypt_hash) \<Rightarrow>
          (case authorization request of
             None \<Rightarrow> (0, request)
           | Some auth_header \<Rightarrow>
               if take 7 auth_header \<noteq> ''Bearer '' then (0, request)
               else
                 (let token = drop 7 auth_header in
                  if token = [] then (0, request)
                  else if bcrypt_check token bcrypt_hash then (0, request\<lparr>is_authenticated := True\<rparr>)
                  else (0, request))))"

section \<open>The random key\<close>

text \<open>The 32 bytes are those \<^verbatim>\<open>platform_random_bytes\<close> delivered, \<open>None\<close> when it failed.\<close>

definition generate_random_api_key :: "byte list option \<Rightarrow> string option" where
  "generate_random_api_key random = map_option (\<lambda>bytes. concat (map hex_byte bytes)) random"

section \<open>Properties\<close>

lemma soft_auth_result:
  "soft_auth_handler chk ctx r =
     (0, r\<lparr>is_authenticated := is_authenticated r \<or>
            (\<exists>hash token. ctx = Some (Some hash) \<and> authorization r = Some (''Bearer '' @ token) \<and> token \<noteq> [] \<and> chk token hash)\<rparr>)"
proof -
  have bearer: "(\<exists>token. h = ''Bearer '' @ token \<and> P token) \<longleftrightarrow> take 7 h = ''Bearer '' \<and> P (drop 7 h)" for h P
  proof
    assume "take 7 h = ''Bearer '' \<and> P (drop 7 h)"
    then show "\<exists>token. h = ''Bearer '' @ token \<and> P token" by (metis append_take_drop_id)
  qed auto
  show ?thesis
  proof (cases ctx)
    case None
    then show ?thesis by (simp add: soft_auth_handler_def)
  next
    case (Some c)
    note ctx = Some
    show ?thesis
    proof (cases c)
      case None
      then show ?thesis using ctx by (simp add: soft_auth_handler_def)
    next
      case (Some hash)
      show ?thesis
      proof (cases "authorization r")
        case None
        then show ?thesis using ctx Some by (simp add: soft_auth_handler_def)
      next
        case (Some h)
        then show ?thesis
          using ctx \<open>c = Some hash\<close> bearer [of h "\<lambda>t. t \<noteq> [] \<and> chk t hash"]
          by (auto simp: soft_auth_handler_def Let_def)
      qed
    qed
  qed
qed

text \<open>The soft authentication never rejects a request, and marks one as authenticated only when a hash
  is configured and the request carries a non-empty bearer token that matches it (or it was marked
  already); nothing else in the request changes.\<close>

theorem soft_auth_correct:
  "soft_auth_handler chk ctx r =
     (0, r\<lparr>is_authenticated := is_authenticated r \<or>
            (\<exists>hash token. ctx = Some (Some hash) \<and> authorization r = Some (''Bearer '' @ token) \<and> token \<noteq> [] \<and> chk token hash)\<rparr>)"
  by (rule soft_auth_result)

text \<open>The value of a hexadecimal digit, and the bytes of a string of them.\<close>

definition unhex_digit :: "char \<Rightarrow> byte" where
  "unhex_digit c = of_nat (if is_digit c then digit_val c else ccode c - 87)"

fun unhex :: "string \<Rightarrow> byte list" where
  "unhex (a # b # cs) = (16 * unhex_digit a + unhex_digit b) # unhex cs"
| "unhex _ = []"

lemma unhex_hex_digit: "n < 16 \<Longrightarrow> unhex_digit (hex_digit n) = of_nat n"
proof -
  assume "n < 16"
  then have "n \<in> set [0..<16]" by simp
  moreover have "\<forall>n\<in>set [0..<16]. unhex_digit (hex_digit n) = of_nat n" by code_simp
  ultimately show ?thesis by blast
qed

lemma unhex_key: "unhex (concat (map hex_byte bs)) = bs"
proof (induction bs)
  case (Cons b bs)
  then show ?case by (simp add: hex_byte_def unhex_hex_digit hex_parts)
qed simp

text \<open>The generated API key keeps all of its randomness: it is twice as long as the bytes it was
  made of, and they can be read back from it, so two different draws never give the same key.\<close>

theorem api_key_roundtrip:
  assumes "generate_random_api_key (Some bytes) = Some key"
  shows "length key = 2 * length bytes \<and> unhex key = bytes"
proof -
  have key: "key = concat (map hex_byte bytes)" using assms by (simp add: generate_random_api_key_def)
  have "length (concat (map hex_byte bytes)) = 2 * length bytes" by (induction bytes) (simp_all add: hex_byte_def)
  with key unhex_key show ?thesis by simp
qed

theorem api_key_roundtrip_witness:
  "generate_random_api_key (Some [0x0f, 0xa5]) = Some ''0fa5'' \<and> unhex ''0fa5'' = [0x0f, 0xa5]"
proof -
  have "generate_random_api_key (Some [0x0f, 0xa5]) = Some ''0fa5''" by code_simp
  with api_key_roundtrip [OF this] show ?thesis by simp
qed

end
