(* ===== verification/Daemon_Startup.thy ===== *)
theory Daemon_Startup
  imports Daemon_Args Daemon_Auth
begin

text \<open>
  Bringing the daemon's subsystems up and down (\<^verbatim>\<open>_startup\<close> and \<^verbatim>\<open>_shutdown\<close> of
  \<^verbatim>\<open>src/src/offsd/main.c\<close>). The subsystems belong to liboffs; what the daemon does is call them in an order
  and clean up after a failure, so both functions are modelled by the sequence of calls they make, under an
  environment that says which of the calls succeed. Every failure path of \<^verbatim>\<open>_startup\<close> has its own list of
  clean-up calls in the source, and its own here.
\<close>

section \<open>Subsystems and calls\<close>

datatype subsystem =
    Pool | Timer | Config | Authority | Block_Cache | Ofd_Cache | Tuple_Cache | Http_Server | Network
  | Ws_Transport | Wt_Transport | Wt_H3_Transport | Unix_Transport | Update_Actor

text \<open>\<open>Destroy_Null\<close> is a destroy call on a pointer that is still null.\<close>

datatype call =
    Create subsystem | Start subsystem | Stop subsystem | Destroy subsystem | Destroy_Null subsystem
  | Free_Override | Set_Timeouts nat nat | Save_Peers | Update_Capacity | Init_Local_Id | Use_Soft_Auth string
  | Register_Routes | Stop_Mdns | Stop_Peer_Book
  | Start_Quic | Start_Mdns | Connect_Relay string u16 | Load_Peers | Start_Peer_Book | Start_Connections
  | Shutdown_Connections | Remove_Pid_File | Arm_Watchdog | Disarm_Watchdog | Print console

record startup_env =
  can_mkdir :: "string \<Rightarrow> bool"
  can_create :: "subsystem \<Rightarrow> bool"
  config_default :: config_t
  random_bytes :: "byte list option" \<comment> \<open>the 32 bytes of \<^verbatim>\<open>platform_random_bytes\<close>\<close>
  bcrypt_generate :: "string \<Rightarrow> string option" \<comment> \<open>with cost 12\<close>
  can_load_ca :: "string \<Rightarrow> bool"
  file_exists :: "string \<Rightarrow> bool" \<comment> \<open>\<^verbatim>\<open>access(path, F_OK)\<close>\<close>
  can_generate_cert :: "string \<Rightarrow> string \<Rightarrow> bool"
  can_seed :: "string \<Rightarrow> bool" \<comment> \<open>\<^verbatim>\<open>authority_set_bootstrap_peers\<close> accepts the list\<close>
  path_join :: "string \<Rightarrow> string \<Rightarrow> string"
  is_posix :: bool

text \<open>A step makes calls and either goes on with a value or has failed.\<close>

type_synonym 'a step = "call list \<times> 'a option"

definition step_bind :: "'a step \<Rightarrow> ('a \<Rightarrow> 'b step) \<Rightarrow> 'b step" where
  "step_bind m f = (case m of (cs, None) \<Rightarrow> (cs, None) | (cs, Some a) \<Rightarrow> (let (ds, r) = f a in (cs @ ds, r)))"

definition err :: "string \<Rightarrow> call" where
  "err s = Print (Err (nl s))"

section \<open>Clean-up lists\<close>

definition drop_base :: "call list" where
  "drop_base = [Destroy Timer, Stop Pool, Destroy Pool]"

definition drop_caches :: "call list" where
  "drop_caches = [Destroy Tuple_Cache, Destroy Ofd_Cache, Destroy Block_Cache]"

definition drop_http :: "offsd_args \<Rightarrow> call list" where
  "drop_http args = (if arg_port args \<noteq> 0 then [Destroy Http_Server] else [])"

text \<open>After the network exists, every failure of a transport ends with this tail.\<close>

definition drop_node :: "offsd_args \<Rightarrow> call list" where
  "drop_node args = [Save_Peers, Destroy Network, Destroy Authority] @ drop_http args @ drop_caches @ drop_base"

definition drop_ws :: "offsd_args \<Rightarrow> call list" where
  "drop_ws args = (if arg_ws_port args \<noteq> 0 then [Destroy Ws_Transport] else [])"

definition drop_wt :: "offsd_args \<Rightarrow> call list" where
  "drop_wt args = (if arg_wt_port args \<noteq> 0 then [Destroy Wt_Transport] else [])"

definition drop_h3 :: "offsd_args \<Rightarrow> call list" where
  "drop_h3 args = (if arg_wt_h3_port args \<noteq> 0 then [Destroy Wt_H3_Transport] else [])"

section \<open>The stages of \<^verbatim>\<open>_startup\<close>\<close>

definition free_override :: "config_t option \<Rightarrow> call list" where
  "free_override override_config = (if override_config \<noteq> None then [Free_Override] else [])"

definition start_dirs :: "startup_env \<Rightarrow> offsd_args \<Rightarrow> config_t option \<Rightarrow> unit step" where
  "start_dirs env args ov =
     (case (arg_cache_dir args, arg_config_dir args) of
        (cache, cfg) \<Rightarrow>
          if cache \<noteq> None \<and> \<not> can_mkdir env (the cache)
          then (err (''Failed to create cache directory: '' @ the cache) # free_override ov, None)
          else if cfg \<noteq> None \<and> \<not> can_mkdir env (the cfg)
          then (err (''Failed to create data directory: '' @ the cfg) # free_override ov, None)
          else ([], Some ()))"

definition start_pool :: "startup_env \<Rightarrow> config_t option \<Rightarrow> unit step" where
  "start_pool env ov =
     (if can_create env Pool then ([Create Pool, Start Pool, Create Timer], Some ())
      else (err ''Failed to create scheduler pool'' # free_override ov, None))"

text \<open>The configuration: the pending one or the default, with the values of the arguments on top.\<close>

definition startup_config :: "startup_env \<Rightarrow> offsd_args \<Rightarrow> config_t option \<Rightarrow> config_t" where
  "startup_config env args ov =
     (let c = (case ov of Some c \<Rightarrow> c | None \<Rightarrow> config_default env) in
      c\<lparr>cfg_max_capacity_bytes := (if arg_max_capacity_bytes args > 0 then arg_max_capacity_bytes args else cfg_max_capacity_bytes c),
        cfg_eabf_base_ttl_ms := (if arg_eabf_base_ttl_ms args > 0 then arg_eabf_base_ttl_ms args else cfg_eabf_base_ttl_ms c),
        cfg_respiration_tau_min_ms :=
          (if arg_respiration_tau_min_ms args > 0 then arg_respiration_tau_min_ms args else cfg_respiration_tau_min_ms c),
        cfg_respiration_tau_max_ms :=
          (if arg_respiration_tau_max_ms args > 0 then arg_respiration_tau_max_ms args else cfg_respiration_tau_max_ms c),
        cfg_bootstrap_peers := (case arg_bootstrap_peers args of Some b \<Rightarrow> Some b | None \<Rightarrow> cfg_bootstrap_peers c)\<rparr>)"

definition start_api_key :: "startup_env \<Rightarrow> offsd_args \<Rightarrow> config_t \<Rightarrow> config_t step" where
  "start_api_key env args c =
     (let plaintext = (case arg_api_key args of
            Some k \<Rightarrow> Some k
          | None \<Rightarrow> generate_random_api_key (random_bytes env))
      in case plaintext of
        None \<Rightarrow> (err ''Failed to generate random API key'' # drop_base, None)
      | Some key \<Rightarrow>
          (case bcrypt_generate env key of
             None \<Rightarrow> (err ''Failed to hash API key'' # drop_base, None)
           | Some hash \<Rightarrow>
               (if arg_api_key args = None
                then [Print (Out (nl (''Generated API key for /peer/* routes: '' @ key))),
                      Print (Out (nl (''Pass this key to clients as: Authorization: Bearer '' @ key)))]
                else [Print (Out (nl ''Using configured API key for /peer/* routes''))],
                Some (c\<lparr>cfg_api_key_hash := Some hash\<rparr>))))"

text \<open>In the failure path of the authority, the two caches have not been created yet.\<close>

definition start_authority :: "startup_env \<Rightarrow> unit step" where
  "start_authority env =
     (if can_create env Authority then ([Create Authority], Some ())
      else (err ''Failed to create authority'' # Destroy_Null Tuple_Cache # Destroy_Null Ofd_Cache # drop_base, None))"

definition start_block_cache :: "startup_env \<Rightarrow> unit step" where
  "start_block_cache env =
     (if can_create env Block_Cache
      then ([Create Block_Cache, Update_Capacity, Create Ofd_Cache, Create Tuple_Cache], Some ())
      else (err ''Failed to create block cache'' # Destroy Authority # drop_base, None))"

definition on_port :: "string \<Rightarrow> offsd_args \<Rightarrow> u16 \<Rightarrow> string" where
  "on_port what args port = what @ '' on '' @ the (arg_host args) @ '':'' @ dec_nat (unat port)"

definition start_http :: "startup_env \<Rightarrow> offsd_args \<Rightarrow> config_t \<Rightarrow> unit step" where
  "start_http env args c =
     (if arg_port args = 0 then ([], Some ())
      else if can_create env Http_Server
      then ([Create Http_Server, Set_Timeouts (cfg_http_idle_timeout_ms c) (cfg_http_hard_timeout_ms c)], Some ())
      else (err (on_port ''Failed to create HTTP server'' args (arg_port args)) # drop_caches @ drop_base, None))"

definition start_ca_cert :: "startup_env \<Rightarrow> offsd_args \<Rightarrow> unit step" where
  "start_ca_cert env args =
     (case arg_ca_cert_path args of
        None \<Rightarrow> ([], Some ())
      | Some p \<Rightarrow>
          if can_load_ca env p then ([], Some ())
          else (err (''Failed to load CA certificate: '' @ p) # Destroy Authority # drop_http args @ drop_caches @ drop_base, None))"

text \<open>The node certificate: generated where it is missing, at the configured or the default place.\<close>

definition generate_if_missing :: "startup_env \<Rightarrow> string \<Rightarrow> string \<Rightarrow> string \<Rightarrow> call list" where
  "generate_if_missing env cert key note =
     (if file_exists env cert \<and> file_exists env key then []
      else if can_generate_cert env cert key then [err (''Generated self-signed node cert at '' @ cert)]
      else [err (''Failed to generate self-signed node cert at '' @ cert @ note)])"

definition start_node_cert :: "startup_env \<Rightarrow> offsd_args \<Rightarrow> offsd_args step" where
  "start_node_cert env args =
     (case (arg_node_cert_path args, arg_node_key_path args, arg_config_dir args) of
        (None, None, Some dir) \<Rightarrow>
          (let cert = path_join env dir ''certs/node.pem''; key = path_join env dir ''certs/node-key.pem'' in
           (generate_if_missing env cert key '' (QUIC will be unavailable)'',
            Some (args\<lparr>arg_node_cert_path := Some cert, arg_node_key_path := Some key\<rparr>)))
      | (Some cert, Some key, _) \<Rightarrow> (generate_if_missing env cert key [], Some args)
      | _ \<Rightarrow> ([], Some args))"

text \<open>A list of bootstrap peers the authority does not accept is reported and left out.\<close>

definition start_bootstrap :: "startup_env \<Rightarrow> config_t \<Rightarrow> unit step" where
  "start_bootstrap env c =
     ((case cfg_bootstrap_peers c of
         None \<Rightarrow> []
       | Some b \<Rightarrow> if can_seed env b then [] else [err (''Failed to seed bootstrap peers from config: '' @ b)])
      @ [Init_Local_Id], Some ())"

text \<open>The routes are registered behind the soft authentication with the hash of the configuration.\<close>

definition start_network :: "startup_env \<Rightarrow> offsd_args \<Rightarrow> config_t \<Rightarrow> unit step" where
  "start_network env args c =
     (if can_create env Network
      then ([Create Network]
            @ (if arg_port args \<noteq> 0 then [Use_Soft_Auth (the (cfg_api_key_hash c)), Register_Routes] else []), Some ())
      else (err ''Failed to create network'' # Destroy Authority # drop_http args @ drop_caches @ drop_base, None))"

definition start_ws :: "startup_env \<Rightarrow> offsd_args \<Rightarrow> unit step" where
  "start_ws env args =
     (if arg_ws_port args = 0 then ([], Some ())
      else if can_create env Ws_Transport then ([Create Ws_Transport], Some ())
      else (err (on_port ''Failed to create WebSocket transport'' args (arg_ws_port args)) # drop_node args, None))"

definition start_wt :: "startup_env \<Rightarrow> offsd_args \<Rightarrow> unit step" where
  "start_wt env args =
     (if arg_wt_port args = 0 then ([], Some ())
      else if can_create env Wt_Transport then ([Create Wt_Transport], Some ())
      else (err (on_port ''Failed to create WebTransport transport'' args (arg_wt_port args)) # drop_ws args @ drop_node args, None))"

definition start_h3 :: "startup_env \<Rightarrow> offsd_args \<Rightarrow> unit step" where
  "start_h3 env args =
     (if arg_wt_h3_port args = 0 then ([], Some ())
      else if can_create env Wt_H3_Transport then ([Create Wt_H3_Transport], Some ())
      else (err (on_port ''Failed to create WebTransport H3 transport'' args (arg_wt_h3_port args))
              # drop_wt args @ drop_ws args @ drop_node args, None))"

definition start_unix :: "startup_env \<Rightarrow> offsd_args \<Rightarrow> unit step" where
  "start_unix env args =
     (case arg_unix_path args of
        None \<Rightarrow> ([], Some ())
      | Some p \<Rightarrow>
          if can_create env Unix_Transport then ([Create Unix_Transport], Some ())
          else (err (''Failed to create Unix transport on '' @ p) # drop_wt args @ drop_h3 args @ drop_ws args @ drop_node args, None))"

definition start_update_actor :: "startup_env \<Rightarrow> unit step" where
  "start_update_actor env = (if is_posix env \<and> can_create env Update_Actor then ([Create Update_Actor], Some ()) else ([], Some ()))"

text \<open>\<^verbatim>\<open>_startup\<close>: the arguments it leaves (it adopts the default certificate paths) and the
  configuration. The embedded configuration is owned by the server from the moment the pool runs.\<close>

definition startup :: "startup_env \<Rightarrow> offsd_args \<Rightarrow> config_t option \<Rightarrow> (offsd_args \<times> config_t) step" where
  "startup env args ov =
     step_bind (start_dirs env args ov) (\<lambda>_.
     step_bind (start_pool env ov) (\<lambda>_.
     step_bind ([Create Config], Some (startup_config env args ov)) (\<lambda>c.
     step_bind (start_api_key env args c) (\<lambda>c.
     step_bind (start_authority env) (\<lambda>_.
     step_bind (start_block_cache env) (\<lambda>_.
     step_bind (start_http env args c) (\<lambda>_.
     step_bind (start_ca_cert env args) (\<lambda>_.
     step_bind (start_node_cert env args) (\<lambda>args.
     step_bind (start_bootstrap env c) (\<lambda>_.
     step_bind (start_network env args c) (\<lambda>_.
     step_bind (start_ws env args) (\<lambda>_.
     step_bind (start_wt env args) (\<lambda>_.
     step_bind (start_h3 env args) (\<lambda>_.
     step_bind (start_unix env args) (\<lambda>_.
     step_bind (start_update_actor env) (\<lambda>_.
       ([], Some (args, c))))))))))))))))))"

section \<open>\<^verbatim>\<open>_shutdown\<close>\<close>

text \<open>Which optional subsystems a started server has.\<close>

definition has :: "startup_env \<Rightarrow> offsd_args \<Rightarrow> subsystem \<Rightarrow> bool" where
  "has env args s =
     (case s of
        Http_Server \<Rightarrow> arg_port args \<noteq> 0
      | Ws_Transport \<Rightarrow> arg_ws_port args \<noteq> 0
      | Wt_Transport \<Rightarrow> arg_wt_port args \<noteq> 0
      | Wt_H3_Transport \<Rightarrow> arg_wt_h3_port args \<noteq> 0
      | Unix_Transport \<Rightarrow> arg_unix_path args \<noteq> None
      | Update_Actor \<Rightarrow> is_posix env \<and> can_create env Update_Actor
      | _ \<Rightarrow> True)"

definition if_has :: "startup_env \<Rightarrow> offsd_args \<Rightarrow> (subsystem \<Rightarrow> call) \<Rightarrow> subsystem \<Rightarrow> call list" where
  "if_has env args c s = (if has env args s then [c s] else [])"

definition shutdown :: "startup_env \<Rightarrow> offsd_args \<Rightarrow> call list" where
  "shutdown env args =
     [Print (Out (nl ''Shutting down...'')), Arm_Watchdog]
     @ concat (map (if_has env args Stop) [Unix_Transport, Ws_Transport, Wt_Transport, Wt_H3_Transport])
     @ [Stop_Mdns, Stop_Peer_Book, Save_Peers, Stop Network, Shutdown_Connections]
     @ if_has env args Stop Http_Server
     @ [Stop Pool]
     @ concat (map (if_has env args Destroy)
         [Unix_Transport, Ws_Transport, Wt_Transport, Wt_H3_Transport, Http_Server, Network, Tuple_Cache, Ofd_Cache,
          Block_Cache, Update_Actor, Timer, Pool, Authority])
     @ [Destroy Config, Remove_Pid_File, Disarm_Watchdog, Print (Out (nl ''Server stopped''))]"
section \<open>The discipline the calls follow\<close>

text \<open>What each subsystem is given at its creation and keeps using, from the arguments of the create calls.\<close>

fun deps :: "subsystem \<Rightarrow> subsystem set" where
  "deps Timer = {Pool}"
| "deps Authority = {Config}"
| "deps Block_Cache = {Timer, Pool, Authority}"
| "deps Ofd_Cache = {Pool, Block_Cache}"
| "deps Tuple_Cache = {Pool}"
| "deps Http_Server = {Pool}"
| "deps Network = {Authority, Block_Cache, Timer, Pool, Config}"
| "deps Ws_Transport = {Pool, Block_Cache, Ofd_Cache, Tuple_Cache}"
| "deps Wt_Transport = {Pool, Block_Cache, Ofd_Cache, Tuple_Cache}"
| "deps Wt_H3_Transport = {Pool, Block_Cache, Ofd_Cache, Tuple_Cache}"
| "deps Unix_Transport = {Pool, Block_Cache, Ofd_Cache, Tuple_Cache}"
| "deps Update_Actor = {Pool, Timer}"
| "deps _ = {}"

text \<open>The subsystems that exist after a sequence of calls.\<close>

primrec exists_after :: "call \<Rightarrow> subsystem set \<Rightarrow> subsystem set" where
  "exists_after (Create s) l = insert s l"
| "exists_after (Destroy s) l = l - {s}"
| "exists_after (Start s) l = l"
| "exists_after (Stop s) l = l"
| "exists_after (Destroy_Null s) l = l"
| "exists_after Free_Override l = l"
| "exists_after (Set_Timeouts a b) l = l"
| "exists_after Save_Peers l = l"
| "exists_after Update_Capacity l = l"
| "exists_after Init_Local_Id l = l"
| "exists_after (Use_Soft_Auth a) l = l"
| "exists_after Register_Routes l = l"
| "exists_after Stop_Mdns l = l"
| "exists_after Stop_Peer_Book l = l"
| "exists_after Start_Quic l = l"
| "exists_after Start_Mdns l = l"
| "exists_after (Connect_Relay a b) l = l"
| "exists_after Load_Peers l = l"
| "exists_after Start_Peer_Book l = l"
| "exists_after Start_Connections l = l"
| "exists_after Shutdown_Connections l = l"
| "exists_after Remove_Pid_File l = l"
| "exists_after Arm_Watchdog l = l"
| "exists_after Disarm_Watchdog l = l"
| "exists_after (Print p) l = l"

definition alive :: "call list \<Rightarrow> subsystem set \<Rightarrow> subsystem set" where
  "alive cs l = fold exists_after cs l"

text \<open>A call is in order when it creates what does not exist out of parts that do, uses what exists, and
  destroys what exists and nothing else still uses.\<close>

definition in_order :: "subsystem set \<Rightarrow> call \<Rightarrow> bool" where
  "in_order l c =
     (case c of
        Create s \<Rightarrow> s \<notin> l \<and> deps s \<subseteq> l
      | Start s \<Rightarrow> s \<in> l
      | Stop s \<Rightarrow> s \<in> l
      | Destroy s \<Rightarrow> s \<in> l \<and> (\<forall>t\<in>l. s \<notin> deps t)
      | Destroy_Null s \<Rightarrow> False
      | Save_Peers \<Rightarrow> {Authority, Network} \<subseteq> l
      | Update_Capacity \<Rightarrow> Block_Cache \<in> l
      | Init_Local_Id \<Rightarrow> Authority \<in> l
      | Use_Soft_Auth _ \<Rightarrow> Http_Server \<in> l
      | Set_Timeouts _ _ \<Rightarrow> Http_Server \<in> l
      | Register_Routes \<Rightarrow> {Http_Server, Network} \<subseteq> l
      | Stop_Mdns \<Rightarrow> Network \<in> l
      | Stop_Peer_Book \<Rightarrow> Network \<in> l
      | Shutdown_Connections \<Rightarrow> Network \<in> l
      | Start_Quic \<Rightarrow> Network \<in> l
      | Start_Mdns \<Rightarrow> Network \<in> l
      | Connect_Relay _ _ \<Rightarrow> Network \<in> l
      | Load_Peers \<Rightarrow> {Authority, Network} \<subseteq> l
      | Start_Peer_Book \<Rightarrow> Network \<in> l
      | Start_Connections \<Rightarrow> Network \<in> l
      | _ \<Rightarrow> True)"

fun orderly :: "subsystem set \<Rightarrow> call list \<Rightarrow> bool" where
  "orderly l [] = True"
| "orderly l (c # cs) = (in_order l c \<and> orderly (exists_after c l) cs)"

lemma alive_simps [simp]:
  "alive [] l = l" "alive (c # cs) l = alive cs (exists_after c l)" "alive (cs @ ds) l = alive ds (alive cs l)"
  by (simp_all add: alive_def)

lemma orderly_append [simp]: "orderly l (cs @ ds) \<longleftrightarrow> orderly l cs \<and> orderly (alive cs l) ds"
  by (induction cs arbitrary: l) auto

lemma step_bind_simps [simp]:
  "step_bind (cs, None) f = (cs, None)" "step_bind (cs, Some a) f = (cs @ fst (f a), snd (f a))"
  by (simp_all add: step_bind_def split_beta)

text \<open>\<open>stage l m l' F\<close>: from the subsystems \<open>l\<close>, a stage that goes on made its calls in order and leaves \<open>l'\<close>;
  one that fails leaves a set with \<open>F\<close>.\<close>

definition stage :: "subsystem set \<Rightarrow> 'a step \<Rightarrow> subsystem set \<Rightarrow> (subsystem set \<Rightarrow> bool) \<Rightarrow> bool" where
  "stage l m l' F \<longleftrightarrow>
     (case m of (cs, None) \<Rightarrow> F (alive cs l) | (cs, Some _) \<Rightarrow> orderly l cs \<and> alive cs l = l')"

lemma stage_bind:
  assumes "stage l m l' F" and "\<And>a cs. m = (cs, Some a) \<Longrightarrow> stage l' (f a) l'' F"
  shows "stage l (step_bind m f) l'' F"
  using assms by (cases m; cases "snd m"; cases "f (the (snd m))"; cases "snd (f (the (snd m)))")
    (auto simp: stage_def split: option.splits)

lemma stage_weaken: "stage l m l' F \<Longrightarrow> (\<And>x. F x \<Longrightarrow> G x) \<Longrightarrow> stage l m l' G"
  by (auto simp: stage_def split: option.splits)
text \<open>The subsystems after the stages; the optional ones are those of \<open>has\<close>.\<close>

abbreviation base :: "subsystem set" where
  "base \<equiv> {Config, Timer, Pool}"

abbreviation core :: "subsystem set" where
  "core \<equiv> {Tuple_Cache, Ofd_Cache, Block_Cache, Authority, Config, Timer, Pool}"

definition opt :: "startup_env \<Rightarrow> offsd_args \<Rightarrow> subsystem set \<Rightarrow> subsystem set" where
  "opt env args S = {s \<in> S. has env args s}"

text \<open>What a failed start leaves behind.\<close>

definition left_behind :: "startup_env \<Rightarrow> offsd_args \<Rightarrow> subsystem set \<Rightarrow> bool" where
  "left_behind env args x \<longleftrightarrow>
     x = {Config} \<or> x = {Config, Authority} \<and> arg_port args \<noteq> 0 \<and> \<not> can_create env Http_Server"

lemmas drop_defs = drop_base_def drop_caches_def drop_http_def drop_node_def drop_ws_def drop_wt_def drop_h3_def err_def
lemmas stage_defs = stage_def in_order_def drop_defs opt_def has_def left_behind_def

lemma opt_insert: "opt env args (insert s S) = (if has env args s then insert s (opt env args S) else opt env args S)"
  by (auto simp: opt_def)

lemma opt_empty [simp]: "opt env args {} = {}"
  by (simp add: opt_def)

lemma stage_begin:
  "stage {} (start_dirs env args ov) {} (\<lambda>x. x = {})" "stage {} (start_pool env ov) {Pool, Timer} (\<lambda>x. x = {})"
  by (auto simp: stage_defs start_dirs_def start_pool_def free_override_def split: option.splits)

lemma stage_base:
  "stage {Pool, Timer} ([Create Config], Some c) base (left_behind env args)"
  "stage base (start_api_key env args c) base (left_behind env args)"
  "stage base (start_authority env) (insert Authority base) (left_behind env args)"
  "stage (insert Authority base) (start_block_cache env) core (left_behind env args)"
  by (auto simp: stage_defs start_api_key_def start_authority_def start_block_cache_def Let_def split: option.splits)

lemma stage_http: "stage core (start_http env args c) (core \<union> opt env args {Http_Server}) (left_behind env args)"
  by (auto simp: stage_defs start_http_def)

lemma drop_node_leaves:
  "alive (drop_node args) (core \<union> opt env args {Http_Server} \<union> {Network}) = {Config}"
  by (auto simp: drop_defs opt_def has_def)

lemma stage_ca:
  "stage (core \<union> opt env args {Http_Server}) (start_ca_cert env args) (core \<union> opt env args {Http_Server}) (left_behind env args)"
  by (auto simp: stage_defs start_ca_cert_def split: option.splits)

lemma stage_cert: "stage l (start_node_cert env args) l F"
  by (auto simp: stage_defs start_node_cert_def generate_if_missing_def Let_def split: option.splits)

lemma stage_bootstrap: "Authority \<in> l \<Longrightarrow> stage l (start_bootstrap env c) l F"
  by (auto simp: stage_defs start_bootstrap_def split: option.splits)

lemma stage_network:
  "stage (core \<union> opt env args {Http_Server}) (start_network env args c) (core \<union> opt env args {Http_Server} \<union> {Network})
     (left_behind env args)"
  by (auto simp: stage_defs start_network_def)
abbreviation node :: "startup_env \<Rightarrow> offsd_args \<Rightarrow> subsystem set" where
  "node env args \<equiv> core \<union> opt env args {Http_Server} \<union> {Network}"

lemma drop_transport:
  "Ws_Transport \<notin> l \<Longrightarrow> alive (drop_ws args) (l \<union> opt env args {Ws_Transport}) = l"
  "Wt_Transport \<notin> l \<Longrightarrow> alive (drop_wt args) (l \<union> opt env args {Wt_Transport}) = l"
  "Wt_H3_Transport \<notin> l \<Longrightarrow> alive (drop_h3 args) (l \<union> opt env args {Wt_H3_Transport}) = l"
  by (auto simp: drop_defs opt_def has_def)

lemma in_opt: "x \<in> opt env args S \<longleftrightarrow> x \<in> S \<and> has env args x"
  by (simp add: opt_def)

lemma alive_err [simp]: "exists_after (err s) l = l"
  by (simp add: err_def)

lemma drop_wt_under:
  "alive (drop_wt args) (node env args \<union> opt env args {Ws_Transport} \<union> opt env args {Wt_Transport} \<union> opt env args {Wt_H3_Transport})
     = node env args \<union> opt env args {Ws_Transport} \<union> opt env args {Wt_H3_Transport}"
  by (auto simp: drop_wt_def in_opt has_def)

lemma stage_ws: "stage (node env args) (start_ws env args) (node env args \<union> opt env args {Ws_Transport}) (left_behind env args)"
  by (simp add: stage_def start_ws_def drop_node_leaves left_behind_def del: Un_insert_left Un_insert_right)
    (auto simp: in_order_def in_opt has_def)

lemma stage_wt:
  "stage (node env args \<union> opt env args {Ws_Transport}) (start_wt env args)
     (node env args \<union> opt env args {Ws_Transport} \<union> opt env args {Wt_Transport}) (left_behind env args)"
  by (simp add: stage_def start_wt_def drop_transport drop_node_leaves left_behind_def in_opt del: Un_insert_left Un_insert_right)
    (auto simp: in_order_def in_opt has_def)

lemma stage_h3:
  "stage (node env args \<union> opt env args {Ws_Transport} \<union> opt env args {Wt_Transport}) (start_h3 env args)
     (node env args \<union> opt env args {Ws_Transport} \<union> opt env args {Wt_Transport} \<union> opt env args {Wt_H3_Transport})
     (left_behind env args)"
  by (simp add: stage_def start_h3_def drop_transport drop_node_leaves left_behind_def in_opt del: Un_insert_left Un_insert_right)
    (auto simp: in_order_def in_opt has_def)

lemma stage_unix:
  "stage (node env args \<union> opt env args {Ws_Transport} \<union> opt env args {Wt_Transport} \<union> opt env args {Wt_H3_Transport})
     (start_unix env args)
     (node env args \<union> opt env args {Ws_Transport} \<union> opt env args {Wt_Transport} \<union> opt env args {Wt_H3_Transport}
        \<union> opt env args {Unix_Transport}) (left_behind env args)"
  by (simp add: stage_def start_unix_def drop_wt_under drop_transport drop_node_leaves left_behind_def in_opt
      split: option.split del: Un_insert_left Un_insert_right)
    (auto simp: in_order_def in_opt has_def)

lemma stage_update:
  "\<lbrakk>Pool \<in> l; Timer \<in> l; Update_Actor \<notin> l\<rbrakk> \<Longrightarrow> stage l (start_update_actor env) (l \<union> opt env args {Update_Actor}) F"
  by (auto simp: stage_defs start_update_actor_def)
definition started :: "startup_env \<Rightarrow> offsd_args \<Rightarrow> subsystem set" where
  "started env args =
     node env args \<union> opt env args {Ws_Transport} \<union> opt env args {Wt_Transport} \<union> opt env args {Wt_H3_Transport}
       \<union> opt env args {Unix_Transport} \<union> opt env args {Update_Actor}"

text \<open>Adopting the default certificate paths changes no port.\<close>

lemma cert_same:
  assumes "start_node_cert env args = (cs, Some a)"
  shows "has env a = has env args" "opt env a = opt env args" "left_behind env a = left_behind env args" "started env a = started env args"
proof -
  have "\<exists>c k. a = args\<lparr>arg_node_cert_path := c, arg_node_key_path := k\<rparr>"
  proof (cases "a = args")
    case True
    have "args = args\<lparr>arg_node_cert_path := arg_node_cert_path args, arg_node_key_path := arg_node_key_path args\<rparr>" by simp
    with True show ?thesis by metis
  next
    case False
    with assms show ?thesis by (auto simp: start_node_cert_def Let_def split: option.splits)
  qed
  then obtain c k where a: "a = args\<lparr>arg_node_cert_path := c, arg_node_key_path := k\<rparr>" by blast
  show h: "has env a = has env args" proof
    show "has env a s = has env args s" for s by (cases s) (simp_all add: a has_def)
  qed
  show o: "opt env a = opt env args" by (rule ext) (simp only: opt_def h)
  show "left_behind env a = left_behind env args" by (rule ext) (simp add: a left_behind_def)
  show "started env a = started env args" by (simp only: started_def o)
qed

lemma stage_final:
  assumes "opt env a = opt env args" "left_behind env a = left_behind env args"
  shows "stage (core \<union> opt env args {Http_Server})
      (step_bind (start_bootstrap env c) (\<lambda>_.
       step_bind (start_network env a c) (\<lambda>_.
       step_bind (start_ws env a) (\<lambda>_.
       step_bind (start_wt env a) (\<lambda>_.
       step_bind (start_h3 env a) (\<lambda>_.
       step_bind (start_unix env a) (\<lambda>_.
       step_bind (start_update_actor env) (\<lambda>_. ([], Some (a, c)))))))))) (started env args) (left_behind env args)"
  unfolding assms(1,2) [symmetric] started_def
  apply (rule stage_bind [OF stage_bootstrap], simp)
  apply (rule stage_bind [OF stage_network], rule stage_bind [OF stage_ws], rule stage_bind [OF stage_wt],
      rule stage_bind [OF stage_h3], rule stage_bind [OF stage_unix])
  apply (rule stage_bind [OF stage_update [where args = a]])
  apply (simp_all add: in_opt) [3]
  apply (simp add: stage_def)
  done

lemma startup_stage:
  "stage {} (startup env args ov) (started env args) (\<lambda>x. x = {} \<or> left_behind env args x)"
  unfolding startup_def
  apply (rule stage_bind [OF stage_weaken [OF stage_begin(1)]], simp)
  apply (rule stage_bind [OF stage_weaken [OF stage_begin(2)]], simp)
  apply (rule stage_weaken [where F = "left_behind env args"])
   apply (rule stage_bind [OF stage_base(1)], rule stage_bind [OF stage_base(2)], rule stage_bind [OF stage_base(3)],
      rule stage_bind [OF stage_base(4)], rule stage_bind [OF stage_http], rule stage_bind [OF stage_ca],
      rule stage_bind [OF stage_cert], rule stage_final)
  apply (simp_all add: cert_same)
  done
section \<open>Start followed by shutdown\<close>

lemma bind_ok: "step_bind m f = (cs, Some b) \<longleftrightarrow> (\<exists>ds a es. m = (ds, Some a) \<and> f a = (es, Some b) \<and> cs = ds @ es)"
  by (cases m; cases "snd m"; cases "f (the (snd m))") auto

lemma startup_args:
  assumes "startup env args ov = (cs, Some (args', c))"
  obtains ds where "start_node_cert env args = (ds, Some args')"
  using assms unfolding startup_def bind_ok
  by (elim exE conjE) (simp only: prod.inject option.inject)

text \<open>A list of subsystems can be destroyed one after the other when nothing later in it, and nothing that
  stays, uses an earlier one.\<close>

fun destroy_order :: "subsystem set \<Rightarrow> subsystem list \<Rightarrow> bool" where
  "destroy_order R [] = True"
| "destroy_order R (s # xs) =
     (s \<notin> set xs \<and> s \<notin> R \<and> s \<notin> deps s \<and> (\<forall>t \<in> set xs \<union> R. s \<notin> deps t) \<and> destroy_order R xs)"

lemma destroy_all:
  assumes "destroy_order R xs"
  shows "orderly (opt env args (set xs \<union> R)) (concat (map (if_has env args Destroy) xs)) \<and>
    alive (concat (map (if_has env args Destroy) xs)) (opt env args (set xs \<union> R)) = opt env args R"
  using assms
proof (induction xs)
  case (Cons s xs)
  then have "opt env args (set (s # xs) \<union> R) - {s} = opt env args (set xs \<union> R)"
    by (auto simp: in_opt)
  moreover have "\<not> has env args s \<Longrightarrow> opt env args (set (s # xs) \<union> R) = opt env args (set xs \<union> R)"
    by (auto simp: in_opt)
  ultimately show ?case using Cons by (auto simp: if_has_def in_order_def in_opt)
qed simp

lemma stop_all:
  "alive (concat (map (if_has env args Stop) xs)) l = l"
  "opt env args (set xs) \<subseteq> l \<Longrightarrow> orderly l (concat (map (if_has env args Stop) xs))"
proof -
  show a: "alive (concat (map (if_has env args Stop) xs)) l = l" for xs
    by (induction xs) (simp_all add: if_has_def)
  show "opt env args (set xs) \<subseteq> l \<Longrightarrow> orderly l (concat (map (if_has env args Stop) xs))"
    by (induction xs) (simp_all add: if_has_def in_order_def opt_insert split: if_splits)
qed

lemma has_core:
  "has env args Tuple_Cache" "has env args Ofd_Cache" "has env args Block_Cache" "has env args Authority"
  "has env args Config" "has env args Timer" "has env args Pool" "has env args Network"
  by (simp_all add: has_def)

lemma started_opt: "started env args = opt env args UNIV"
proof -
  have "s \<in> started env args \<longleftrightarrow> has env args s" for s
    unfolding started_def Un_iff insert_iff in_opt by (cases s) (simp_all only: has_core subsystem.distinct simp_thms empty_iff)
  then show ?thesis by (simp add: set_eq_iff in_opt)
qed

lemma subsystem_UNIV:
  "UNIV = set [Unix_Transport, Ws_Transport, Wt_Transport, Wt_H3_Transport, Http_Server, Network, Tuple_Cache, Ofd_Cache,
      Block_Cache, Update_Actor, Timer, Pool, Authority] \<union> {Config}" (is "_ = ?S")
proof -
  have "s \<in> ?S" for s by (cases s) simp_all
  then show ?thesis by blast
qed

lemma in_started: "s \<in> started env args \<longleftrightarrow> has env args s"
  by (simp add: started_opt in_opt)

lemma shutdown_clean:
  "orderly (started env args) (shutdown env args) \<and> alive (shutdown env args) (started env args) = {}"
proof -
  define xs where "xs = [Unix_Transport, Ws_Transport, Wt_Transport, Wt_H3_Transport, Http_Server, Network, Tuple_Cache,
      Ofd_Cache, Block_Cache, Update_Actor, Timer, Pool, Authority]"
  define D where "D = concat (map (if_has env args Destroy) xs)"
  define S where "S = concat (map (if_has env args Stop) [Unix_Transport, Ws_Transport, Wt_Transport, Wt_H3_Transport])"
  have U: "UNIV = set xs \<union> {Config}" unfolding xs_def by (rule subsystem_UNIV)
  have "destroy_order {Config} xs" by (simp add: xs_def)
  from destroy_all [OF this] have D: "orderly (started env args) D" "alive D (started env args) = {Config}"
    by (simp_all add: started_opt U D_def opt_insert has_def)
  have S: "orderly (started env args) S" "alive S (started env args) = started env args"
    unfolding S_def by (simp_all only: stop_all) (rule stop_all, auto simp: in_started in_opt)
  have "shutdown env args = [Print (Out (nl ''Shutting down...'')), Arm_Watchdog] @ S
      @ [Stop_Mdns, Stop_Peer_Book, Save_Peers, Stop Network, Shutdown_Connections] @ if_has env args Stop Http_Server @ [Stop Pool]
      @ D @ [Destroy Config, Remove_Pid_File, Disarm_Watchdog, Print (Out (nl ''Server stopped''))]"
    by (simp only: shutdown_def D_def S_def xs_def)
  then show ?thesis by (simp add: D S in_order_def in_started has_def if_has_def)
qed

text \<open>C6. A daemon that has come up and is shut down makes every call in order: no subsystem is created twice
  or before what it is built on, none is used after it is gone, and none is destroyed while another that was
  given it still exists; and when the shutdown returns, nothing is left.\<close>

theorem startup_shutdown_clean:
  assumes "startup env args ov = (cs, Some (args', c))"
  shows "orderly {} (cs @ shutdown env args') \<and> alive (cs @ shutdown env args') {} = {}"
proof -
  have "orderly {} cs \<and> alive cs {} = started env args"
    using startup_stage [of env args ov] by (simp add: assms stage_def)
  moreover obtain ds where "start_node_cert env args = (ds, Some args')" by (rule startup_args [OF assms])
  then have "started env args' = started env args" by (rule cert_same)
  ultimately show ?thesis using shutdown_clean [of env args'] by simp
qed

text \<open>C24. A start that fails takes down what it had built: nothing is left when the directories or the pool
  could not be made, and only the configuration after that, with one exception: when the HTTP server
  cannot be created, the authority stays behind too.\<close>

theorem failed_startup_leaves:
  assumes "startup env args ov = (cs, None)"
  shows "alive cs {} = {} \<or> alive cs {} = {Config} \<or>
    alive cs {} = {Config, Authority} \<and> arg_port args \<noteq> 0 \<and> \<not> can_create env Http_Server"
  using startup_stage [of env args ov] by (simp add: assms stage_def left_behind_def)
section \<open>The order of a late clean-up\<close>

text \<open>\<open>disordered m\<close>: where a block cache exists, a failure of \<open>m\<close> makes a call out of order, and otherwise the
  block cache is still there.\<close>

definition disordered :: "'a step \<Rightarrow> bool" where
  "disordered m \<longleftrightarrow>
     (\<forall>l. Block_Cache \<in> l \<longrightarrow>
        (case m of (cs, None) \<Rightarrow> \<not> orderly l cs | (cs, Some _) \<Rightarrow> Block_Cache \<in> alive cs l))"

lemma disordered_bind:
  assumes "disordered m" "\<And>a. disordered (f a)"
  shows "disordered (step_bind m f)"
proof (cases "snd m")
  case None
  with assms(1) show ?thesis by (cases m) (simp add: disordered_def)
next
  case (Some a)
  then obtain cs where m: "m = (cs, Some a)" by (cases m) simp
  show ?thesis unfolding disordered_def
  proof (intro allI impI)
    fix l :: "subsystem set"
    assume "Block_Cache \<in> l"
    with assms(1) m have "Block_Cache \<in> alive cs l" by (simp add: disordered_def)
    with assms(2) [of a] m show "case step_bind m f of (cs, None) \<Rightarrow> \<not> orderly l cs | (cs, Some _) \<Rightarrow> Block_Cache \<in> alive cs l"
      by (cases "f a"; cases "snd (f a)") (simp_all add: disordered_def)
  qed
qed

lemma drop_node_disorderly:
  assumes "Block_Cache \<in> l"
  shows "\<not> orderly l (drop_node args)"
proof -
  from assms have "\<not> in_order (l - {Network}) (Destroy Authority)"
    by (auto simp: in_order_def intro!: bexI [of _ Block_Cache])
  then show ?thesis by (simp add: drop_node_def)
qed

lemma disordered_transports:
  "disordered (start_ws env args)" "disordered (start_wt env args)" "disordered (start_h3 env args)"
  "disordered (start_unix env args)" "disordered (start_update_actor env)" "disordered ([], Some x)"
  by (simp_all add: disordered_def start_ws_def start_wt_def start_h3_def start_unix_def start_update_actor_def
      drop_node_disorderly drop_ws_def drop_wt_def drop_h3_def split: option.split)

lemma failed_bind:
  "step_bind m f = (cs, None) \<longleftrightarrow>
     m = (cs, None) \<or> (\<exists>ds a es. m = (ds, Some a) \<and> f a = (es, None) \<and> cs = ds @ es)"
  by (cases m; cases "snd m"; cases "f (the (snd m))") auto

text \<open>The stages before the network never create it.\<close>

lemma no_network:
  "start_dirs env args ov = (cs, r1) \<Longrightarrow> Create Network \<notin> set cs"
  "start_pool env ov = (cs, r1) \<Longrightarrow> Create Network \<notin> set cs"
  "start_api_key env args c = (cs, r2) \<Longrightarrow> Create Network \<notin> set cs"
  "start_authority env = (cs, r1) \<Longrightarrow> Create Network \<notin> set cs"
  "start_block_cache env = (cs, r1) \<Longrightarrow> Create Network \<notin> set cs"
  "start_http env args c = (cs, r1) \<Longrightarrow> Create Network \<notin> set cs"
  "start_ca_cert env args = (cs, r1) \<Longrightarrow> Create Network \<notin> set cs"
  "start_node_cert env args = (cs, r3) \<Longrightarrow> Create Network \<notin> set cs"
  "start_bootstrap env c = (cs, r1) \<Longrightarrow> Create Network \<notin> set cs"
  "start_network env args c = (cs, None) \<Longrightarrow> Create Network \<notin> set cs"
  by (auto simp: start_dirs_def start_pool_def start_api_key_def start_authority_def start_block_cache_def start_http_def
      start_ca_cert_def start_node_cert_def start_bootstrap_def start_network_def generate_if_missing_def free_override_def
      drop_defs Let_def split: option.splits if_splits)

definition late :: "subsystem set \<Rightarrow> 'a step \<Rightarrow> bool" where
  "late l m \<longleftrightarrow> (\<forall>cs. m = (cs, None) \<longrightarrow> Create Network \<in> set cs \<longrightarrow> \<not> orderly l cs)"

lemma late_bind:
  assumes "stage l m l' F" and "\<And>cs r. m = (cs, r) \<Longrightarrow> Create Network \<notin> set cs"
    and "\<And>cs a. m = (cs, Some a) \<Longrightarrow> late l' (f a)"
  shows "late l (step_bind m f)"
  unfolding late_def failed_bind
proof (intro allI impI, elim disjE exE conjE)
  fix cs ds a es
  assume *: "m = (ds, Some a)" "f a = (es, None)" "cs = ds @ es" "Create Network \<in> set cs"
  from * assms(2) have "Create Network \<in> set es" by auto
  with * assms(3) have "\<not> orderly l' es" by (auto simp: late_def)
  with * assms(1) show "\<not> orderly l cs" by (simp add: stage_def)
qed (use assms(2) in blast)

lemma late_network:
  assumes "Block_Cache \<in> l" and "disordered m"
  shows "late l (step_bind (start_network env args c) (\<lambda>_. m))"
  unfolding late_def failed_bind
proof (intro allI impI, elim disjE exE conjE)
  fix cs ds a es
  assume *: "start_network env args c = (ds, Some a)" "m = (es, None)" "cs = ds @ es"
  then have "Block_Cache \<in> alive ds l" using assms(1) by (auto simp: start_network_def split: if_splits)
  with * assms(2) show "\<not> orderly l cs" by (simp add: disordered_def)
qed (use no_network(10) in blast)

lemma late_final:
  assumes "Block_Cache \<in> l" "Authority \<in> l"
  shows "late l
      (step_bind (start_bootstrap env c) (\<lambda>_.
       step_bind (start_network env a c) (\<lambda>_.
       step_bind (start_ws env a) (\<lambda>_.
       step_bind (start_wt env a) (\<lambda>_.
       step_bind (start_h3 env a) (\<lambda>_.
       step_bind (start_unix env a) (\<lambda>_.
       step_bind (start_update_actor env) (\<lambda>_. ([], Some (a, c))))))))))"
  by (rule late_bind [OF stage_bootstrap [OF assms(2)] no_network(9)], assumption,
      rule late_network [OF assms(1)]) (intro disordered_bind disordered_transports)

text \<open>A start that fails once the network exists cleans up out of order: it destroys the authority while the
  block cache, which was given the authority and is still running in the pool, exists. (The shutdown of a
  running daemon destroys the authority after both.)\<close>

theorem late_failure_out_of_order:
  assumes "startup env args ov = (cs, None)" and "Create Network \<in> set cs"
  shows "\<not> orderly {} cs"
proof -
  have config: "c = [Create Config] \<Longrightarrow> Create Network \<notin> set c" for c by simp
  have "late {} (startup env args ov)"
    unfolding startup_def
    apply (rule late_bind [OF stage_begin(1) no_network(1)], assumption)
    apply (rule late_bind [OF stage_begin(2) no_network(2)], assumption)
    apply (rule late_bind [OF stage_base(1)], simp add: config)
    apply (rule late_bind [OF stage_base(2) no_network(3)], assumption)
    apply (rule late_bind [OF stage_base(3) no_network(4)], assumption)
    apply (rule late_bind [OF stage_base(4) no_network(5)], assumption)
    apply (rule late_bind [OF stage_http no_network(6)], assumption)
    apply (rule late_bind [OF stage_ca no_network(7)], assumption)
    apply (rule late_bind [OF stage_cert no_network(8)], assumption)
    apply (rule late_final; simp)
    done
  with assms show ?thesis by (simp add: late_def)
qed

section \<open>A start with everything in place\<close>

definition demo_config :: config_t where
  "demo_config = \<lparr>cfg_max_capacity_bytes = 0, cfg_eabf_base_ttl_ms = 0, cfg_respiration_tau_min_ms = 0,
     cfg_respiration_tau_max_ms = 0, cfg_bootstrap_peers = None, cfg_api_key_hash = None, cfg_cache_dir = None,
     cfg_http_idle_timeout_ms = 30000, cfg_http_hard_timeout_ms = 60000\<rparr>"

definition demo_startup :: "subsystem list \<Rightarrow> startup_env" where
  "demo_startup missing = \<lparr>can_mkdir = (\<lambda>_. True), can_create = (\<lambda>s. s \<notin> set missing), config_default = demo_config,
     random_bytes = Some [171, 205], bcrypt_generate = (\<lambda>k. Some (''2b:'' @ k)), can_load_ca = (\<lambda>_. True),
     file_exists = (\<lambda>_. True), can_generate_cert = (\<lambda>_ _. True), can_seed = (\<lambda>_. True), path_join = (\<lambda>d f. d @ ''/'' @ f),
     is_posix = True\<rparr>"

definition demo_args :: offsd_args where
  "demo_args = (default_args None)\<lparr>arg_cache_dir := Some ''/c'', arg_config_dir := Some ''/d'', arg_ws_port := 9000,
     arg_unix_path := Some ''/run/offs.sock''\<rparr>"

lemmas demo_startup_defs = startup_def demo_startup_def demo_args_def default_args_def demo_config_def startup_config_def
  start_dirs_def start_pool_def start_api_key_def start_authority_def start_block_cache_def start_http_def start_ca_cert_def
  start_node_cert_def generate_if_missing_def start_bootstrap_def start_network_def start_ws_def start_wt_def start_h3_def
  start_unix_def start_update_actor_def drop_defs generate_random_api_key_def hex_byte_def

theorem startup_shutdown_clean_witness:
  "\<exists>cs args c. startup (demo_startup []) demo_args None = (cs, Some (args, c)) \<and>
     alive (cs @ shutdown (demo_startup []) args) {} = {} \<and> Create Unix_Transport \<in> set cs"
proof -
  have "\<exists>cs args c. startup (demo_startup []) demo_args None = (cs, Some (args, c)) \<and> Create Unix_Transport \<in> set cs"
    by (simp add: demo_startup_defs)
  then show ?thesis using startup_shutdown_clean by blast
qed

theorem failed_startup_leaves_witness:
  "\<exists>cs. startup (demo_startup [Http_Server]) demo_args None = (cs, None) \<and> alive cs {} = {Config, Authority}"
proof -
  obtain cs where cs: "startup (demo_startup [Http_Server]) demo_args None = (cs, None)" "Authority \<in> alive cs {}"
    by (simp add: demo_startup_defs)
  with failed_startup_leaves [OF cs(1)] show ?thesis by auto
qed

theorem late_failure_out_of_order_witness:
  "\<exists>cs. startup (demo_startup [Ws_Transport]) demo_args None = (cs, None) \<and> \<not> orderly {} cs"
proof -
  obtain cs where cs: "startup (demo_startup [Ws_Transport]) demo_args None = (cs, None)" "Create Network \<in> set cs"
    by (simp add: demo_startup_defs)
  with late_failure_out_of_order [OF cs] show ?thesis by blast
qed
section \<open>The key of a started daemon\<close>

lemma api_key_hash:
  assumes "start_api_key env args c = (cs, Some c')"
  obtains key hash where "(case arg_api_key args of Some k \<Rightarrow> Some k | None \<Rightarrow> generate_random_api_key (random_bytes env)) = Some key"
    "bcrypt_generate env key = Some hash" "c' = c\<lparr>cfg_api_key_hash := Some hash\<rparr>"
  using assms by (auto simp: start_api_key_def Let_def split: option.splits)

lemma cert_port: "start_node_cert env args = (cs, Some a) \<Longrightarrow> arg_port a = arg_port args"
  by (auto simp: start_node_cert_def Let_def split: option.splits)

lemma startup_uses_key:
  assumes "startup env args ov = (cs, Some (args', c))" and "arg_port args \<noteq> 0"
  obtains ds es where "start_api_key env args (startup_config env args ov) = (ds, Some c)"
    "Use_Soft_Auth (the (cfg_api_key_hash c)) \<in> set cs"
proof -
  from assms(1) obtain ds es fs where key: "start_api_key env args (startup_config env args ov) = (ds, Some c)"
    and cert: "start_node_cert env args = (es, Some args')"
    and net: "start_network env args' c = (fs, Some ())" and sub: "set fs \<subseteq> set cs"
    unfolding startup_def bind_ok
    by (elim exE conjE) (simp, blast)
  from net cert_port [OF cert] assms(2) have "Use_Soft_Auth (the (cfg_api_key_hash c)) \<in> set fs"
    by (auto simp: start_network_def split: if_splits)
  with sub key that show ?thesis by blast
qed

text \<open>C23. The key the daemon was given, or else the key it has generated and printed, opens the protected
  routes: the middleware it installs marks a request that carries this key as authenticated. (What is
  assumed of bcrypt is that a password matches the hash made from it.)\<close>

theorem api_key_authenticates:
  assumes "startup env args ov = (cs, Some (args', c))" and "arg_port args \<noteq> 0"
    and "(case arg_api_key args of Some k \<Rightarrow> Some k | None \<Rightarrow> generate_random_api_key (random_bytes env)) = Some key" and "key \<noteq> []"
    and "\<And>k h. bcrypt_generate env k = Some h \<Longrightarrow> bcrypt_check k h"
    and "authorization request = Some (''Bearer '' @ key)"
  shows "\<exists>hash. Use_Soft_Auth hash \<in> set cs \<and>
    soft_auth_handler bcrypt_check (Some (Some hash)) request = (0, request\<lparr>is_authenticated := True\<rparr>)"
proof -
  obtain ds where "start_api_key env args (startup_config env args ov) = (ds, Some c)"
    and use: "Use_Soft_Auth (the (cfg_api_key_hash c)) \<in> set cs"
    by (rule startup_uses_key [OF assms(1,2)])
  then obtain hash where "bcrypt_generate env key = Some hash" "cfg_api_key_hash c = Some hash"
    using assms(3) by (auto elim!: api_key_hash)
  with assms(4-6) use show ?thesis by (intro exI [of _ hash]) (simp add: soft_auth_handler_def)
qed

theorem api_key_authenticates_witness:
  "\<exists>cs args c hash. startup (demo_startup []) demo_args None = (cs, Some (args, c)) \<and> Use_Soft_Auth hash \<in> set cs \<and>
     soft_auth_handler (\<lambda>k h. h = ''2b:'' @ k) (Some (Some hash)) \<lparr>authorization = Some ''Bearer abcd'', is_authenticated = False\<rparr>
       = (0, \<lparr>authorization = Some ''Bearer abcd'', is_authenticated = True\<rparr>)"
proof -
  obtain cs args c where s: "startup (demo_startup []) demo_args None = (cs, Some (args, c))"
    by (simp add: demo_startup_defs)
  have k: "(case arg_api_key demo_args of Some k \<Rightarrow> Some k
      | None \<Rightarrow> generate_random_api_key (random_bytes (demo_startup []))) = Some ''abcd''"
  proof -
    have "generate_random_api_key (Some [171, 205]) = Some ''abcd''" by code_simp
    then show ?thesis by (simp add: demo_args_def default_args_def demo_startup_def)
  qed
  from api_key_authenticates [OF s _ k, where bcrypt_check = "\<lambda>k h. h = ''2b:'' @ k"
      and request = "\<lparr>authorization = Some ''Bearer abcd'', is_authenticated = False\<rparr>"]
  show ?thesis using s by (auto simp: demo_args_def default_args_def demo_startup_def)
qed

end
