(* ===== verification/Daemon_Process.thy ===== *)
theory Daemon_Process
  imports Daemon_Startup
begin

text \<open>
  The daemon as a process (\<^verbatim>\<open>src/src/offsd/main.c\<close>): opening its listeners, detaching from the terminal,
  the shutdown watchdog and the removal of its state directories. The operating system and the listeners of
  liboffs are parameters.
\<close>

section \<open>Listening\<close>

record listen_env =
  quic_listener :: bool \<comment> \<open>the network has one\<close>
  quic_listener_start :: bool
  network_start_mdns :: bool
  endpoint_parse :: "string \<Rightarrow> (string \<times> u16) option"
  endpoint_host_header :: "string \<Rightarrow> u16 \<Rightarrow> string option"
  network_connect_relay :: "string \<Rightarrow> u16 \<Rightarrow> bool"
  peer_book :: bool

definition tell :: "string \<Rightarrow> call" where
  "tell s = Print (Out (nl s))"

definition url :: "string \<Rightarrow> offsd_args \<Rightarrow> u16 \<Rightarrow> string" where
  "url scheme args port = ''Listening on '' @ scheme @ ''://'' @ the (arg_host args) @ '':'' @ dec_nat (unat port)"

definition listen_quic :: "listen_env \<Rightarrow> offsd_args \<Rightarrow> call list" where
  "listen_quic le args =
     (if arg_quic_port args > 0 \<and> quic_listener le then
        (if quic_listener_start le then [Start_Quic, tell (url ''quic'' args (arg_quic_port args))]
         else [Start_Quic, err (''Warning: failed to start QUIC listener on '' @ the (arg_host args) @ '':''
                             @ dec_nat (unat (arg_quic_port args)))])
        @ (if network_start_mdns le
           then [Start_Mdns, tell (''mDNS discovery started (announcing on '' @ dec_nat (unat (arg_quic_port args)) @ '')'')]
           else [Start_Mdns, err (''Warning: failed to start mDNS responder '' @ em_dash @ '' LAN auto-discovery disabled'')])
      else [])"

definition listen_port :: "subsystem \<Rightarrow> string \<Rightarrow> string \<Rightarrow> offsd_args \<Rightarrow> u16 \<Rightarrow> string option \<Rightarrow> string option \<Rightarrow> call list" where
  "listen_port s scheme suff args port cert key =
     (if port \<noteq> 0 then
        [Start s, tell (url scheme args port @ suff)]
        @ (if cert \<noteq> None \<and> key \<noteq> None then [tell (url (scheme @ ''s'') args port @ suff)] else [])
      else [])"

definition listen_relay :: "listen_env \<Rightarrow> offsd_args \<Rightarrow> call list" where
  "listen_relay le args =
     (case arg_relay_url args of
        None \<Rightarrow> []
      | Some relay_url \<Rightarrow>
          (let u = (if take 7 relay_url = ''offs://'' then drop 7 relay_url else relay_url) in
           case endpoint_parse le u of
             None \<Rightarrow> [err (''Warning: invalid relay URL '' @ relay_url @ '' (expected host:port or [ipv6]:port)'')]
           | Some (relay_host, relay_port) \<Rightarrow>
               (let display = (case endpoint_host_header le relay_host relay_port of Some d \<Rightarrow> d | None \<Rightarrow> []) in
                [Connect_Relay relay_host relay_port,
                 if network_connect_relay le relay_host relay_port then tell (''Connected to relay '' @ display)
                 else err (''Warning: failed to connect to relay '' @ display)])))"

definition start_listening :: "listen_env \<Rightarrow> offsd_args \<Rightarrow> call list" where
  "start_listening le args =
     (if arg_port args \<noteq> 0 then [Start Http_Server] else [])
     @ listen_quic le args
     @ listen_port Ws_Transport ''ws'' [] args (arg_ws_port args) (arg_ws_cert_path args) (arg_ws_key_path args)
     @ listen_port Wt_Transport ''wt'' [] args (arg_wt_port args) (arg_wt_cert_path args) (arg_wt_key_path args)
     @ listen_port Wt_H3_Transport ''wt'' '' (HTTP/3)'' args (arg_wt_h3_port args) (arg_wt_cert_path args) (arg_wt_key_path args)
     @ (case arg_unix_path args of None \<Rightarrow> [] | Some p \<Rightarrow> [Start Unix_Transport, tell (''Listening on unix://'' @ p)])
     @ listen_relay le args
     @ [Load_Peers] @ (if peer_book le then [Start_Peer_Book] else []) @ [Start_Connections]
     @ (if arg_port args \<noteq> 0 then [tell (url ''http'' args (arg_port args))] else [])
     @ [tell ''Press Ctrl+C to stop'']"

lemma tell_neutral [simp]: "exists_after (tell s) l = l" "in_order l (tell s)" "in_order l (err s)"
  by (simp_all add: tell_def err_def in_order_def)

lemma listen_parts_keep [simp]:
  "alive (listen_quic le args) l = l" "alive (listen_relay le args) l = l" "alive (listen_port s a b args p c k) l = l"
proof -
  show "alive (listen_quic le args) l = l" by (simp add: listen_quic_def)
  show "alive (listen_relay le args) l = l" by (simp add: listen_relay_def Let_def split: option.split)
  show "alive (listen_port s a b args p c k) l = l" by (simp add: listen_port_def)
qed

lemma listen_parts_orderly:
  "Network \<in> l \<Longrightarrow> orderly l (listen_quic le args)" "Network \<in> l \<Longrightarrow> orderly l (listen_relay le args)"
  "orderly l (listen_port s a b args p c k) \<longleftrightarrow> p = 0 \<or> s \<in> l"
proof -
  show "Network \<in> l \<Longrightarrow> orderly l (listen_quic le args)" by (simp add: listen_quic_def in_order_def [of _ Start_Quic] in_order_def [of _ Start_Mdns])
  show "Network \<in> l \<Longrightarrow> orderly l (listen_relay le args)"
    by (simp add: listen_relay_def in_order_def [of _ "Connect_Relay _ _"] Let_def split: option.split)
  show "orderly l (listen_port s a b args p c k) \<longleftrightarrow> p = 0 \<or> s \<in> l" by (simp add: listen_port_def in_order_def [of _ "Start _"])
qed

text \<open>Listening uses only what the start has created, and creates or destroys nothing.\<close>

lemma listening_orderly:
  "orderly (started env args) (start_listening le args)" "alive (start_listening le args) (started env args) = started env args"
proof -
  have h: "has env args Http_Server = (arg_port args \<noteq> 0)" "has env args Ws_Transport = (arg_ws_port args \<noteq> 0)"
    "has env args Wt_Transport = (arg_wt_port args \<noteq> 0)" "has env args Wt_H3_Transport = (arg_wt_h3_port args \<noteq> 0)"
    "has env args Unix_Transport = (arg_unix_path args \<noteq> None)"
    by (simp_all add: has_def)
  define U where "U = (case arg_unix_path args of None \<Rightarrow> [] | Some p \<Rightarrow> [Start Unix_Transport, tell (''Listening on unix://'' @ p)])"
  have U: "orderly (started env args) U" "alive U (started env args) = started env args"
    by (cases "arg_unix_path args"; simp add: U_def in_order_def [of _ "Start _"] in_started h)+
  show "orderly (started env args) (start_listening le args)" "alive (start_listening le args) (started env args) = started env args"
    by (simp_all add: start_listening_def U_def [symmetric] U listen_parts_orderly in_started has_core h
        in_order_def [of _ "Start _"] in_order_def [of _ Load_Peers] in_order_def [of _ Start_Peer_Book] in_order_def [of _ Start_Connections])
qed

section \<open>Removing the state directories\<close>

record 'w dir_ops =
  dir_present :: "'w \<Rightarrow> string \<Rightarrow> bool" \<comment> \<open>\<^verbatim>\<open>stat\<close> succeeds\<close>
  rm_rf :: "'w \<Rightarrow> string \<Rightarrow> bool \<times> 'w"
  default_dirs :: "'w \<Rightarrow> (string \<times> string) option"

record uninstall_args =
  remove_config :: bool
  remove_cache :: bool
  un_config_dir :: "string option"
  un_cache_dir :: "string option"

definition no_uninstall :: uninstall_args where
  "no_uninstall = \<lparr>remove_config = False, remove_cache = False, un_config_dir = None, un_cache_dir = None\<rparr>"

fun scan_uninstall :: "string list \<Rightarrow> uninstall_args \<Rightarrow> string + uninstall_args" where
  "scan_uninstall [] u = Inr u"
| "scan_uninstall (x # rest) u =
     (if x = ''--config'' then scan_uninstall rest (u\<lparr>remove_config := True\<rparr>)
      else if x = ''--cache'' then scan_uninstall rest (u\<lparr>remove_cache := True\<rparr>)
      else (case rest of
          v # rest' \<Rightarrow>
            if x = ''--config-dir'' then scan_uninstall rest' (u\<lparr>un_config_dir := Some v\<rparr>)
            else if x = ''--cache-dir'' then scan_uninstall rest' (u\<lparr>un_cache_dir := Some v\<rparr>)
            else Inl x
        | [] \<Rightarrow> Inl x))"

definition uninstall_usage :: console where
  "uninstall_usage = Err (nl ''Usage: offsd uninstall [--config] [--cache] [--config-dir <dir>] [--cache-dir <dir>]'')"

text \<open>One directory: the world after it, whether the removal failed, and the message.\<close>

definition remove_dir :: "'w dir_ops \<Rightarrow> string \<Rightarrow> string \<Rightarrow> string \<Rightarrow> 'w \<Rightarrow> 'w \<times> bool \<times> console" where
  "remove_dir ops big small dir w =
     (if \<not> dir_present ops w dir then (w, False, Out (nl (big @ '' dir already absent: '' @ dir)))
      else (case rm_rf ops w dir of
          (False, w') \<Rightarrow> (w', True, Err (nl (''offsd uninstall: failed to remove '' @ small @ '' dir '' @ dir)))
        | (True, w') \<Rightarrow> (w', False, Out (nl (''Removed '' @ small @ '' dir: '' @ dir)))))"

definition remove_if :: "'w dir_ops \<Rightarrow> bool \<Rightarrow> string \<Rightarrow> string \<Rightarrow> string \<Rightarrow> 'w \<Rightarrow> 'w \<times> bool \<times> console list" where
  "remove_if ops chosen big small dir w =
     (if chosen then (case remove_dir ops big small dir w of (w', f, m) \<Rightarrow> (w', f, [m])) else (w, False, []))"

definition run_uninstall :: "'w dir_ops \<Rightarrow> string list \<Rightarrow> 'w \<Rightarrow> int \<times> console list \<times> 'w" where
  "run_uninstall ops argv w =
     (case scan_uninstall argv no_uninstall of
        Inl x \<Rightarrow> (1, [Err (nl (''offsd uninstall: unknown option '' @ x)), uninstall_usage], w)
      | Inr u \<Rightarrow>
          if \<not> remove_config u \<and> \<not> remove_cache u
          then (1, [Err (nl ''offsd uninstall: choose what to remove''),
                    Err (nl ''  --config   node identity (certs, peer store, pending config)''),
                    Err (nl ''  --cache    block cache''), uninstall_usage], w)
          else (case default_dirs ops w of
              None \<Rightarrow> (1, [Err (nl (''offsd uninstall: cannot determine default state directories (no HOME?) '' @ em_dash @ '' pass --config-dir/--cache-dir''))], w)
            | Some (def_config, def_cache) \<Rightarrow>
                (let config_dir = (case un_config_dir u of Some d \<Rightarrow> d | None \<Rightarrow> def_config);
                     cache_dir = (case un_cache_dir u of Some d \<Rightarrow> d | None \<Rightarrow> def_cache);
                     (w1, f1, o1) = remove_if ops (remove_cache u) ''Cache'' ''cache'' cache_dir w;
                     (w2, f2, o2) = remove_if ops (remove_config u) ''Config'' ''config'' config_dir w1
                 in (if f1 \<or> f2 then 1 else 0, o1 @ o2, w2))))"
text \<open>What the scan can have chosen.\<close>

lemma scan_uninstall_chosen:
  "scan_uninstall argv u = Inr u' \<Longrightarrow>
     (remove_config u' \<longrightarrow> remove_config u \<or> ''--config'' \<in> set argv) \<and> (remove_cache u' \<longrightarrow> remove_cache u \<or> ''--cache'' \<in> set argv)"
proof (induction argv u rule: scan_uninstall.induct)
  case (2 x rest u)
  show ?case
  proof (cases "x = ''--config'' \<or> x = ''--cache''")
    case True
    with 2 show ?thesis by auto
  next
    case False
    then obtain v rest' where "rest = v # rest'" using 2(5) by (cases rest) auto
    with False 2 show ?thesis by (auto split: if_splits)
  qed
qed simp

text \<open>The directories a run may touch, and what is known of one that returned 0.\<close>

lemma run_uninstall_cases:
  assumes "run_uninstall ops argv w = (rc, out, w')"
  obtains (refused) "rc = 1" "w' = w"
  | (ran) u def_config def_cache f1 f2 w1 o1 o2 where
      "scan_uninstall argv no_uninstall = Inr u" "remove_config u \<or> remove_cache u"
      "default_dirs ops w = Some (def_config, def_cache)" "rc = (if f1 \<or> f2 then 1 else 0)"
      "remove_if ops (remove_cache u) ''Cache'' ''cache'' (case un_cache_dir u of Some d \<Rightarrow> d | None \<Rightarrow> def_cache) w = (w1, f1, o1)"
      "remove_if ops (remove_config u) ''Config'' ''config'' (case un_config_dir u of Some d \<Rightarrow> d | None \<Rightarrow> def_config) w1 = (w', f2, o2)"
proof (cases "scan_uninstall argv no_uninstall")
  case (Inl x)
  with assms refused show thesis by (simp add: run_uninstall_def)
next
  case (Inr u)
  show thesis
  proof (cases "(remove_config u \<or> remove_cache u) \<and> default_dirs ops w \<noteq> None")
    case False
    with assms Inr refused show thesis by (cases "default_dirs ops w") (auto simp: run_uninstall_def split: if_splits)
  next
    case True
    then obtain def_config def_cache where "default_dirs ops w = Some (def_config, def_cache)" by auto
    with assms Inr True ran [of u def_config def_cache] show thesis
      by (fastforce simp: run_uninstall_def Let_def split: prod.splits)
  qed
qed

lemma remove_if_frame:
  assumes "remove_if ops chosen a b d w = (w', f, m)" and "\<And>w. chosen \<Longrightarrow> P (snd (rm_rf ops w d)) = P w"
  shows "P w' = P w"
  using assms(1) assms(2) [of w] by (auto simp: remove_if_def remove_dir_def split: if_splits prod.splits bool.splits)

lemma remove_if_done:
  assumes "remove_if ops True a b d w = (w', False, m)" and "\<And>w w'. rm_rf ops w d = (True, w') \<Longrightarrow> \<not> dir_present ops w' d"
  shows "\<not> dir_present ops w' d"
  using assms by (auto simp: remove_if_def remove_dir_def split: if_splits prod.splits bool.splits)

lemma remove_absent:
  assumes "remove_if ops chosen a b d w = (w', f, m)" and "\<And>w. \<not> dir_present ops w e \<Longrightarrow> \<not> dir_present ops (snd (rm_rf ops w d)) e"
    and "\<not> dir_present ops w e"
  shows "\<not> dir_present ops w' e"
  using assms(1,3) assms(2) [of w] by (auto simp: remove_if_def remove_dir_def split: if_splits prod.splits bool.splits)

text \<open>C30. \<^verbatim>\<open>offsd uninstall\<close> removes what was asked for and nothing else: whatever lies outside the chosen
  directories is as before, nothing is touched without \<^verbatim>\<open>--config\<close> or \<^verbatim>\<open>--cache\<close>, and when it reports
  success the chosen directories are gone. \<open>content\<close> reads what lies at a path; what is assumed of
  \<^verbatim>\<open>rm_rf\<close> is that it changes nothing apart from its argument, that it removes it when it succeeds, and that it
  creates nothing.\<close>

theorem uninstall_exact:
  assumes run: "run_uninstall ops argv w = (rc, out, w')"
    and frame: "\<And>w d e. apart_dirs d e \<Longrightarrow> content (snd (rm_rf ops w d)) e = content w e"
    and works: "\<And>w w' d. rm_rf ops w d = (True, w') \<Longrightarrow> \<not> dir_present ops w' d"
    and creates_nothing: "\<And>w d e. \<not> dir_present ops w e \<Longrightarrow> \<not> dir_present ops (snd (rm_rf ops w d)) e"
    and scan: "scan_uninstall argv no_uninstall = Inr u" and dirs: "default_dirs ops w = Some (def_config, def_cache)"
    and config: "config_dir = (case un_config_dir u of Some d \<Rightarrow> d | None \<Rightarrow> def_config)"
    and cache: "cache_dir = (case un_cache_dir u of Some d \<Rightarrow> d | None \<Rightarrow> def_cache)"
  shows "(w' \<noteq> w \<longrightarrow> ''--config'' \<in> set argv \<or> ''--cache'' \<in> set argv) \<and>
    (\<forall>e. (remove_config u \<longrightarrow> apart_dirs config_dir e) \<and> (remove_cache u \<longrightarrow> apart_dirs cache_dir e) \<longrightarrow> content w' e = content w e) \<and>
    (rc = 0 \<longrightarrow> (remove_config u \<longrightarrow> \<not> dir_present ops w' config_dir) \<and> (remove_cache u \<longrightarrow> \<not> dir_present ops w' cache_dir))"
  using run
proof (cases rule: run_uninstall_cases)
  case refused
  then show ?thesis by simp
next
  case (ran u' c k f1 f2 w1 o1 o2)
  have eq: "u' = u" "c = def_config" "k = def_cache" using ran(1,3) scan dirs by simp_all
  note r1 = ran(5) [unfolded eq cache [symmetric]]
  note r2 = ran(6) [unfolded eq config [symmetric]]
  have same: "content w' e = content w e"
    if "remove_cache u \<longrightarrow> apart_dirs cache_dir e" "remove_config u \<longrightarrow> apart_dirs config_dir e" for e
    using remove_if_frame [OF r1, where P = "\<lambda>w. content w e"] remove_if_frame [OF r2, where P = "\<lambda>w. content w e"] frame that
    by simp
  have gone: "\<not> dir_present ops w' config_dir" if "rc = 0" "remove_config u"
    using that ran(4) r2 works remove_if_done [of ops _ _ config_dir w1 w'] by (auto split: if_splits)
  have "\<not> dir_present ops w1 cache_dir" if "rc = 0" "remove_cache u"
    using that ran(4) r1 works remove_if_done [of ops _ _ cache_dir w w1] by (auto split: if_splits)
  then have gone': "\<not> dir_present ops w' cache_dir" if "rc = 0" "remove_cache u"
    using that remove_absent [OF r2] creates_nothing by blast
  have "''--config'' \<in> set argv \<or> ''--cache'' \<in> set argv"
    using scan_uninstall_chosen [OF scan] ran(2) eq by (auto simp: no_uninstall_def)
  then show ?thesis using same gone gone' by blast
qed
text \<open>A world of directories, where a removal succeeds.\<close>

definition demo_dirs :: "string list dir_ops" where
  "demo_dirs = \<lparr>dir_present = (\<lambda>w d. d \<in> set w), rm_rf = (\<lambda>w d. (True, removeAll d w)), default_dirs = (\<lambda>_. Some (''/etc/o'', ''/var/o''))\<rparr>"

theorem uninstall_exact_witness:
  "run_uninstall demo_dirs [''--cache''] [''/etc/o'', ''/var/o''] =
     (0, [Out (nl ''Removed cache dir: /var/o'')], [''/etc/o'']) \<and> ''/etc/o'' \<in> set [''/etc/o'']"
proof -
  have run: "run_uninstall demo_dirs [''--cache''] [''/etc/o'', ''/var/o''] =
      (0, [Out (nl ''Removed cache dir: /var/o'')], [''/etc/o''])"
    by (simp add: run_uninstall_def demo_dirs_def no_uninstall_def remove_if_def remove_dir_def Let_def)
  have "(''/etc/o'' \<in> set [''/etc/o'']) = (''/etc/o'' \<in> set [''/etc/o'', ''/var/o''])"
    using uninstall_exact [OF run, of "(\<noteq>)" "\<lambda>w e. e \<in> set w" "no_uninstall\<lparr>remove_cache := True\<rparr>" "''/etc/o''" "''/var/o''" "''/etc/o''" "''/var/o''"]
    by (auto simp: demo_dirs_def no_uninstall_def)
  with run show ?thesis by simp
qed

section \<open>Detaching from the terminal\<close>

text \<open>Open files by descriptor; descriptors beyond the list are free.\<close>

type_synonym fd_table = "string option list"

definition fd_file :: "nat \<Rightarrow> fd_table \<Rightarrow> string option" where
  "fd_file n t = (if n < length t then t ! n else None)"

definition set_fd :: "nat \<Rightarrow> string option \<Rightarrow> fd_table \<Rightarrow> fd_table" where
  "set_fd n v t = (if n < length t then t[n := v] else t @ replicate (n - length t) None @ [v])"

text \<open>\<^verbatim>\<open>open\<close> gives the lowest free descriptor.\<close>

fun lowest_free :: "fd_table \<Rightarrow> nat" where
  "lowest_free [] = 0"
| "lowest_free (None # t) = 0"
| "lowest_free (Some _ # t) = Suc (lowest_free t)"

definition fd_dup2 :: "nat \<Rightarrow> nat \<Rightarrow> fd_table \<Rightarrow> fd_table" where
  "fd_dup2 a b t = (case fd_file a t of None \<Rightarrow> t | Some f \<Rightarrow> set_fd b (Some f) t)"

definition fd_close :: "nat \<Rightarrow> fd_table \<Rightarrow> fd_table" where
  "fd_close n t = (if fd_file n t = None then t else set_fd n None t)"

datatype fork_result = Fork_Failed string | Fork_Parent | Fork_Child

record proc_env =
  fork1 :: fork_result
  fork2 :: fork_result
  setsid_error :: "string option"
  chdir_error :: "string option"
  open_error :: "string \<Rightarrow> string option"

record process =
  fds :: fd_table
  cwd :: string
  umask_of :: nat
  own_session :: bool
  said :: "console list"

datatype proc_end = Exits int | Returns int

definition fails_with :: "string \<Rightarrow> string \<Rightarrow> process \<Rightarrow> proc_end \<times> process" where
  "fails_with what strerror p = (Returns (- 1), p\<lparr>said := said p @ [Err (nl (what @ '': '' @ strerror))]\<rparr>)"

text \<open>The descriptors of the detached process. \<^verbatim>\<open>dev_null\<close> is closed without a condition, and again when it
  is above 2.\<close>

definition redirect :: "proc_env \<Rightarrow> string option \<Rightarrow> fd_table \<Rightarrow> fd_table" where
  "redirect env log_file t =
     (let dev_null = lowest_free t;
          t1 = fd_dup2 dev_null 0 (set_fd dev_null (Some ''/dev/null'') t);
          to_null = fd_dup2 dev_null 2 (fd_dup2 dev_null 1 t1);
          t2 = (case log_file of
              None \<Rightarrow> to_null
            | Some f \<Rightarrow>
                if open_error env f \<noteq> None then to_null
                else (let log_fd = lowest_free t1 in
                      fd_close log_fd (fd_dup2 log_fd 2 (fd_dup2 log_fd 1 (set_fd log_fd (Some f) t1)))));
          t3 = fd_close dev_null t2
      in if dev_null > 2 then fd_close dev_null t3 else t3)"

definition daemonize :: "proc_env \<Rightarrow> string option \<Rightarrow> process \<Rightarrow> proc_end \<times> process" where
  "daemonize env log_file p =
     (case fork1 env of
        Fork_Failed e \<Rightarrow> fails_with ''First fork failed'' e p
      | Fork_Parent \<Rightarrow> (Exits 0, p)
      | Fork_Child \<Rightarrow>
          (case setsid_error env of
             Some e \<Rightarrow> fails_with ''setsid failed'' e p
           | None \<Rightarrow>
               (let p1 = p\<lparr>own_session := True\<rparr> in
                case fork2 env of
                  Fork_Failed e \<Rightarrow> fails_with ''Second fork failed'' e p1
                | Fork_Parent \<Rightarrow> (Exits 0, p1)
                | Fork_Child \<Rightarrow>
                    (let p2 = p1\<lparr>umask_of := 0\<rparr> in
                     case chdir_error env of
                       Some e \<Rightarrow> fails_with ''chdir(/) failed'' e p2
                     | None \<Rightarrow>
                         (let p3 = p2\<lparr>cwd := ''/''\<rparr> in
                          case open_error env ''/dev/null'' of
                            Some e \<Rightarrow> fails_with ''Failed to open /dev/null'' e p3
                          | None \<Rightarrow> (Returns 0, p3\<lparr>fds := redirect env log_file (fds p3)\<rparr>))))))"

text \<open>Reading the table after an update.\<close>

lemma fd_file_set: "fd_file n (set_fd m v t) = (if n = m then v else fd_file n t)"
  by (auto simp: fd_file_def set_fd_def nth_append nth_Cons split: nat.splits)

lemma fd_file_lowest [simp]: "fd_file (lowest_free t) t = None"
  by (induction t rule: lowest_free.induct) (auto simp: fd_file_def)

lemma lowest_free_above: "(\<And>i. i < n \<Longrightarrow> fd_file i t \<noteq> None) \<Longrightarrow> n \<le> lowest_free t"
  using fd_file_lowest not_le_imp_less by blast

lemma lowest_free_used: "fd_file n t \<noteq> None \<Longrightarrow> lowest_free t \<noteq> n"
  using fd_file_lowest by metis

lemma fd_file_ops:
  "fd_file n (fd_close m t) = (if n = m then None else fd_file n t)"
  "fd_file n (fd_dup2 a b t) = (if n = b \<and> fd_file a t \<noteq> None then fd_file a t else fd_file n t)"
  by (auto simp: fd_close_def fd_dup2_def fd_file_set split: option.split)

lemma daemonize_ok:
  assumes "daemonize env log_file p = (Returns 0, p')"
  shows "p' = p\<lparr>fds := redirect env log_file (fds p), cwd := ''/'', umask_of := 0, own_session := True\<rparr>"
  using assms by (auto simp: daemonize_def fails_with_def Let_def split: fork_result.splits option.splits)

text \<open>A daemon that detaches from a terminal with its three standard descriptors open runs in its own
  session, in the root directory, reads from \<^verbatim>\<open>/dev/null\<close>, writes both outputs to the log file where it
  could be opened and to \<^verbatim>\<open>/dev/null\<close> otherwise, and holds no other descriptor than before.\<close>

theorem daemonize_detaches:
  assumes "daemonize env log_file p = (Returns 0, p')" and "\<And>i. i < 3 \<Longrightarrow> fd_file i (fds p) \<noteq> None"
  shows "own_session p' \<and> cwd p' = ''/'' \<and> umask_of p' = 0 \<and> fd_file 0 (fds p') = Some ''/dev/null'' \<and>
    (\<forall>i\<in>{1, 2}. fd_file i (fds p') = (case log_file of Some f \<Rightarrow> if open_error env f = None then Some f else Some ''/dev/null''
      | None \<Rightarrow> Some ''/dev/null'')) \<and>
    (\<forall>n>2. fd_file n (fds p') = fd_file n (fds p))"
proof -
  define d where "d = lowest_free (fds p)"
  define t1 where "t1 = fd_dup2 d 0 (set_fd d (Some ''/dev/null'') (fds p))"
  define l where "l = lowest_free t1"
  have d: "d > 2" using lowest_free_above [of 3 "fds p"] assms(2) by (simp add: d_def)
  have dfree: "fd_file d (fds p) = None" by (simp add: d_def)
  have t1: "fd_file n t1 = (if n = 0 \<or> n = d then Some ''/dev/null'' else fd_file n (fds p))" for n
    using d by (simp add: t1_def fd_file_ops fd_file_set)
  have "3 \<le> lowest_free t1" by (rule lowest_free_above) (use assms(2) in \<open>simp add: t1\<close>)
  then have l: "l > 2" "l \<noteq> d" using lowest_free_used [of d t1] by (simp_all add: l_def t1)
  have lfree: "fd_file l (fds p) = None" using fd_file_lowest [of t1] l by (simp add: l_def [symmetric] t1)
  have "fds p' = redirect env log_file (fds p)" using daemonize_ok [OF assms(1)] by simp
  then have r: "fd_file n (fds p') =
      (if n = d then None else fd_file n (case log_file of None \<Rightarrow> fd_dup2 d 2 (fd_dup2 d 1 t1)
         | Some f \<Rightarrow> if open_error env f \<noteq> None then fd_dup2 d 2 (fd_dup2 d 1 t1)
             else fd_close l (fd_dup2 l 2 (fd_dup2 l 1 (set_fd l (Some f) t1)))))" for n
    by (cases log_file) (simp_all add: redirect_def Let_def d_def t1_def l_def fd_file_ops(1))
  have "fd_file n (fds p') = (if n = 0 then Some ''/dev/null'' else if n = 1 \<or> n = 2 then
      (case log_file of Some f \<Rightarrow> if open_error env f = None then Some f else Some ''/dev/null'' | None \<Rightarrow> Some ''/dev/null'')
      else fd_file n (fds p))" for n
    using d l dfree lfree by (auto simp: r t1 fd_file_ops fd_file_set split: option.split)
  then show ?thesis using daemonize_ok [OF assms(1)] by simp
qed

text \<open>Started with its standard input closed, the daemon does not get \<^verbatim>\<open>/dev/null\<close> there: the descriptor it
  opens is 0 itself, and the unconditional close leaves standard input closed again.\<close>

theorem daemonize_loses_stdin:
  assumes "daemonize env log_file p = (Returns 0, p')" and "fd_file 0 (fds p) = None"
  shows "fd_file 0 (fds p') = None"
proof -
  have "lowest_free (fds p) = 0" using assms(2) by (cases "fds p" rule: lowest_free.cases) (auto simp: fd_file_def)
  then show ?thesis using daemonize_ok [OF assms(1)] by (simp add: redirect_def Let_def fd_file_ops)
qed

definition demo_proc :: "fd_table \<Rightarrow> process" where
  "demo_proc t = \<lparr>fds = t, cwd = ''/home'', umask_of = 18, own_session = False, said = []\<rparr>"

definition demo_proc_env :: proc_env where
  "demo_proc_env = \<lparr>fork1 = Fork_Child, fork2 = Fork_Child, setsid_error = None, chdir_error = None, open_error = (\<lambda>_. None)\<rparr>"

theorem daemonize_detaches_witness:
  "fds (snd (daemonize demo_proc_env (Some ''/var/log/o'') (demo_proc [Some ''tty'', Some ''tty'', Some ''tty''])))
     = [Some ''/dev/null'', Some ''/var/log/o'', Some ''/var/log/o'', None, None]"
proof -
  let ?r = "daemonize demo_proc_env (Some ''/var/log/o'') (demo_proc [Some ''tty'', Some ''tty'', Some ''tty''])"
  have r: "?r = (Returns 0, (demo_proc [Some ''/dev/null'', Some ''/var/log/o'', Some ''/var/log/o'', None, None])
      \<lparr>cwd := ''/'', umask_of := 0, own_session := True\<rparr>)"
    by code_simp
  have "\<forall>i\<in>{1, 2}. fd_file i [Some ''/dev/null'', Some ''/var/log/o'', Some ''/var/log/o'', None, None] = Some ''/var/log/o''"
    using daemonize_detaches [OF r] by (simp add: demo_proc_def demo_proc_env_def fd_file_def less_Suc_eq numeral_3_eq_3)
  with r show ?thesis by (simp add: demo_proc_def)
qed

theorem daemonize_loses_stdin_witness:
  "fd_file 0 (fds (snd (daemonize demo_proc_env None (demo_proc [None, Some ''tty'', Some ''tty''])))) = None"
proof -
  have "\<exists>p'. daemonize demo_proc_env None (demo_proc [None, Some ''tty'', Some ''tty'']) = (Returns 0, p')"
    by (simp add: daemonize_def demo_proc_env_def Let_def)
  then obtain p' where "daemonize demo_proc_env None (demo_proc [None, Some ''tty'', Some ''tty'']) = (Returns 0, p')" by blast
  with daemonize_loses_stdin [OF this] show ?thesis by (simp add: demo_proc_def fd_file_def)
qed

end
