(* ===== verification/Daemon_Run.thy ===== *)
theory Daemon_Run
  imports Daemon_Process
begin

text \<open>
  The life of the daemon (\<^verbatim>\<open>src/src/offsd/main.c\<close>): the shutdown watchdog, the PID file, the preparation
  of a run up to the first start, and the main loop with its signals and reloads as a transition system. A step of
  the main thread is one call of the loop body; signals, reload requests, changes of the outside world and the
  watchdog, which can end the process while a shutdown is under way, come between any two of them.
\<close>

section \<open>The shutdown watchdog\<close>

definition SHUTDOWN_WATCHDOG_MS :: nat where
  "SHUTDOWN_WATCHDOG_MS = 45000"

text \<open>The thread, launched at time \<open>t\<close> and watched for \<open>n\<close> periods: the time at which it ends the process.
  \<open>active\<close> is the value of \<^verbatim>\<open>g_shutdown_active\<close> over time.\<close>

fun shutdown_watchdog_thread :: "(nat \<Rightarrow> bool) \<Rightarrow> nat \<Rightarrow> nat \<Rightarrow> nat option" where
  "shutdown_watchdog_thread active t 0 = None"
| "shutdown_watchdog_thread active t (Suc n) =
     (let wake = t + SHUTDOWN_WATCHDOG_MS in if active wake then Some (wake + 100) else shutdown_watchdog_thread active wake n)"

lemma watchdog_fires:
  "shutdown_watchdog_thread active t n \<noteq> None \<longleftrightarrow> (\<exists>k. 1 \<le> k \<and> k \<le> n \<and> active (t + k * SHUTDOWN_WATCHDOG_MS))"
proof (induction n arbitrary: t)
  case (Suc n)
  have shift: "(\<exists>k. 1 \<le> k \<and> k \<le> Suc n \<and> active (t + k * m)) \<longleftrightarrow>
      active (t + m) \<or> (\<exists>k. 1 \<le> k \<and> k \<le> n \<and> active (t + m + k * m))" for m
  proof
    assume "\<exists>k. 1 \<le> k \<and> k \<le> Suc n \<and> active (t + k * m)"
    then obtain k where k: "1 \<le> k" "k \<le> Suc n" "active (t + k * m)" by blast
    then obtain j where j: "k = Suc j" by (cases k) auto
    with k show "active (t + m) \<or> (\<exists>k. 1 \<le> k \<and> k \<le> n \<and> active (t + m + k * m))"
      by (cases "j = 0") (auto simp: add.assoc intro!: exI [of _ j])
  next
    assume "active (t + m) \<or> (\<exists>k. 1 \<le> k \<and> k \<le> n \<and> active (t + m + k * m))"
    then show "\<exists>k. 1 \<le> k \<and> k \<le> Suc n \<and> active (t + k * m)"
    proof
      assume "\<exists>k. 1 \<le> k \<and> k \<le> n \<and> active (t + m + k * m)"
      then obtain k where "1 \<le> k" "k \<le> n" "active (t + m + k * m)" by blast
      then show ?thesis by (intro exI [of _ "Suc k"]) (simp add: add.assoc)
    qed (intro exI [of _ 1], simp)
  qed
  show ?case unfolding shift using Suc [of "t + SHUTDOWN_WATCHDOG_MS"] by (simp add: Let_def)
qed simp

text \<open>The watchdog holds its promise for the first shutdown, which launches it: it ends the process exactly
  when the teardown takes longer than 45 seconds. For a later shutdown its period is not restarted, so it
  ends the process when one of its wake-ups falls into the teardown, however short that is.\<close>

theorem watchdog_period:
  "((\<exists>n. shutdown_watchdog_thread (\<lambda>t. s \<le> t \<and> t < e) s n \<noteq> None) \<longleftrightarrow> 45000 < e - s) \<and>
   ((\<exists>n. shutdown_watchdog_thread (\<lambda>t. s \<le> t \<and> t < e) launched n \<noteq> None) \<longleftrightarrow>
      (\<exists>k\<ge>1. s \<le> launched + k * 45000 \<and> launched + k * 45000 < e))"
proof -
  have any: "(\<exists>n. shutdown_watchdog_thread (\<lambda>t. s \<le> t \<and> t < e) l n \<noteq> None) \<longleftrightarrow>
      (\<exists>k\<ge>1. s \<le> l + k * 45000 \<and> l + k * 45000 < e)" for l
    unfolding watchdog_fires SHUTDOWN_WATCHDOG_MS_def by auto
  have "(\<exists>k\<ge>1. s + k * 45000 < e) \<longleftrightarrow> 45000 < e - s" (is "?L \<longleftrightarrow> ?R")
  proof
    assume ?L
    then obtain k where "1 \<le> k" "s + k * 45000 < e" by blast
    moreover from this(1) have "1 * 45000 \<le> k * 45000" by (rule mult_le_mono1)
    ultimately show ?R by linarith
  qed (intro exI [of _ 1], simp)
  then show ?thesis unfolding any by simp
qed

section \<open>The PID file\<close>

type_synonym files = "string \<Rightarrow> string option"

definition write_pid_file :: "(string \<Rightarrow> string option) \<Rightarrow> int \<Rightarrow> string option \<Rightarrow> files \<Rightarrow> console + files" where
  "write_pid_file open_err pid path fs =
     (case path of
        None \<Rightarrow> Inr fs
      | Some p \<Rightarrow>
          (case open_err p of
             Some e \<Rightarrow> Inl (Err (nl (''Failed to open PID file '' @ p @ '': '' @ e)))
           | None \<Rightarrow> Inr (fs(p \<mapsto> nl (dec_int pid)))))"

text \<open>\<open>unlinked\<close> tells whether \<^verbatim>\<open>unlink\<close> removes a path; its result is ignored.\<close>

definition remove_pid_file :: "(string \<Rightarrow> bool) \<Rightarrow> string option \<Rightarrow> files \<Rightarrow> files" where
  "remove_pid_file unlinked path fs = (case path of None \<Rightarrow> fs | Some p \<Rightarrow> if unlinked p then fs(p := None) else fs)"

section \<open>The pending configuration\<close>

record ('j, 'w) run_env =
  the_host :: "('j, 'w) host"
  is_regular :: "'w \<Rightarrow> string \<Rightarrow> bool"
  nprocs :: int
  config_pending_exists :: "'w \<Rightarrow> string \<Rightarrow> bool"
  config_pending_mark_applied :: "'w \<Rightarrow> string \<Rightarrow> 'w"
  dirs :: "'w dir_ops"
  proc :: proc_env
  start_env :: "nat \<Rightarrow> startup_env" \<comment> \<open>of each start\<close>
  listener :: "nat \<Rightarrow> listen_env"
  own_pid :: int
  pid_open_error :: "nat \<Rightarrow> string \<Rightarrow> string option"
  pid_unlinked :: "nat \<Rightarrow> string \<Rightarrow> bool"
  files_at_start :: files \<comment> \<open>a PID file of an earlier process may be there\<close>

definition load_pending_override :: "('j, 'w) run_env \<Rightarrow> 'w \<Rightarrow> string option \<Rightarrow> config_t option \<times> 'w" where
  "load_pending_override E w config_dir =
     (case config_dir of
        None \<Rightarrow> (None, w)
      | Some d \<Rightarrow>
          if \<not> config_pending_exists E w d then (None, w)
          else (case config_pending_load (the_host E) w d of
              None \<Rightarrow> (None, w)
            | Some cfg \<Rightarrow> (Some cfg, config_pending_mark_applied E w d)))"
section \<open>From the command line to the first start\<close>

text \<open>The configuration file used when none is named: the default one, when it is a regular file.\<close>

definition default_config_file :: "('j, 'w) run_env \<Rightarrow> 'w \<Rightarrow> string option" where
  "default_config_file E w =
     (case offs_default_config_path_get (the_host E) w of
        Some p \<Rightarrow> if is_regular E w p then Some p else None
      | None \<Rightarrow> None)"

text \<open>The state directories: the configured ones, else those of the context.\<close>

definition fill_dirs :: "('j, 'w) run_env \<Rightarrow> 'w \<Rightarrow> offsd_args \<Rightarrow> offsd_args option" where
  "fill_dirs E w a =
     (if arg_cache_dir a = None \<or> arg_config_dir a = None then
        (case offs_default_dirs_get (the_host E) w of
           None \<Rightarrow> None
         | Some (def_config, def_cache) \<Rightarrow>
             Some (a\<lparr>arg_config_dir := fill (arg_config_dir a) (Some def_config),
                     arg_cache_dir := fill (arg_cache_dir a) (Some def_cache)\<rparr>))
      else Some a)"

definition port_line :: "string \<Rightarrow> string \<Rightarrow> u16 \<Rightarrow> string" where
  "port_line disabled label p = (if p = 0 then disabled else label @ dec_nat (unat p))"

definition banner :: "offsd_args \<Rightarrow> console list" where
  "banner a =
     map (\<lambda>s. Out (nl s))
       ([''OFF System Daemon (offsd)'', ''  Host: '' @ the (arg_host a),
         port_line ''  HTTP: disabled'' ''  Port: '' (arg_port a), port_line ''  QUIC: disabled'' ''  QUIC: '' (arg_quic_port a),
         ''  Cache: '' @ the (arg_cache_dir a), ''  Config: '' @ the (arg_config_dir a), ''  Workers: '' @ dec_int (arg_worker_count a)]
        @ (if arg_ws_port a \<noteq> 0 then [''  WebSocket: '' @ dec_nat (unat (arg_ws_port a))] else [])
        @ (if arg_wt_port a \<noteq> 0 then [''  WebTransport: '' @ dec_nat (unat (arg_wt_port a))] else [])
        @ (case arg_unix_path a of Some p \<Rightarrow> [''  Unix: '' @ p] | None \<Rightarrow> [])
        @ (case arg_pid_file a of Some p \<Rightarrow> [''  PID file: '' @ p] | None \<Rightarrow> []))"

text \<open>A staged cache directory counts only where neither a flag nor the configuration file names one.\<close>

definition pending_relocation :: "string option \<Rightarrow> config_t option \<Rightarrow> offsd_args \<Rightarrow> offsd_args" where
  "pending_relocation explicit_cache_dir cfg a =
     (case cfg of
        None \<Rightarrow> a
      | Some c \<Rightarrow>
          (case cfg_cache_dir c of
             Some d \<Rightarrow> if explicit_cache_dir = None then a\<lparr>arg_cache_dir := Some d\<rparr> else a
           | None \<Rightarrow> a))"

datatype phase =
    Begin_Cycle "config_t option" | Starting "config_t option" | Listening | Polling | Leaving | Deciding | Ended int | Killed | Forced_Exit

record 'w daemon =
  phase :: phase
  cur_args :: offsd_args
  running :: bool
  restart_requested :: bool
  stop_requested :: bool
  g_node :: bool \<comment> \<open>the handlers are installed\<close>
  g_update_actor :: bool
  calls :: "call list"
  pid_files :: files
  watchdog_woken :: bool \<comment> \<open>the watchdog has seen a shutdown under way and is about to end the process\<close>
  world :: 'w
  cycle :: nat

datatype 'w run_start = Run_Exit int "console list" 'w | Run_Daemon process "'w daemon"

definition first_cycle :: "files \<Rightarrow> offsd_args \<Rightarrow> config_t option \<Rightarrow> 'w \<Rightarrow> 'w daemon" where
  "first_cycle fs a cfg w =
     \<lparr>phase = Begin_Cycle cfg, cur_args = a, running = False, restart_requested = False, stop_requested = False,
      g_node = False, g_update_actor = False, calls = [], pid_files = fs, watchdog_woken = False, world = w, cycle = 0\<rparr>"

definition run_offsd :: "('j, 'w) run_env \<Rightarrow> process \<Rightarrow> 'w \<Rightarrow> string \<Rightarrow> string list \<Rightarrow> 'w run_start" where
  "run_offsd E p w program argv =
     (if argv \<noteq> [] \<and> hd argv = ''uninstall''
      then (case run_uninstall (dirs E) (tl argv) w of (rc, out, w') \<Rightarrow> Run_Exit rc out w')
      else (case parse_args (the_host E) w (nprocs E) program argv (default_args (default_config_file E w)) of
          Inl (rc, out) \<Rightarrow> Run_Exit (if rc > 0 then 0 else 1) (map (\<lambda>s. Err (nl s)) out) w
        | Inr args \<Rightarrow>
            (case fill_dirs E w args of
               None \<Rightarrow> Run_Exit 1 [Err (nl (''Cannot determine default state directories (no HOME?) '' @ em_dash @ '' pass --config-dir/--cache-dir''))] w
             | Some a \<Rightarrow>
                 (case (if arg_foreground a then (Returns 0, p) else daemonize (proc E) (arg_log_file a) p) of
                    (Exits rc, p') \<Rightarrow> Run_Exit rc (banner a) w
                  | (Returns rc, p') \<Rightarrow>
                      if rc \<noteq> 0 then Run_Exit 1 (banner a) w
                      else (case load_pending_override E w (arg_config_dir a) of
                          (cfg, w') \<Rightarrow> Run_Daemon p' (first_cycle (files_at_start E) (pending_relocation (arg_cache_dir args) cfg a) cfg w'))))))"

text \<open>\<^verbatim>\<open>main\<close>: \<open>service_rc\<close> is the result of \<^verbatim>\<open>daemon_service_try_run\<close>.\<close>

definition offsd_main :: "int \<Rightarrow> ('j, 'w) run_env \<Rightarrow> process \<Rightarrow> 'w \<Rightarrow> string \<Rightarrow> string list \<Rightarrow> 'w run_start" where
  "offsd_main service_rc E p w program argv =
     (if service_rc > 0 then Run_Exit 0 [] w else if service_rc < 0 then Run_Exit 1 [] w else run_offsd E p w program argv)"

section \<open>The main loop\<close>

definition main_step :: "('j, 'w) run_env \<Rightarrow> 'w daemon \<Rightarrow> 'w daemon" where
  "main_step E d =
     (case phase d of
        Begin_Cycle cfg \<Rightarrow>
          (case write_pid_file (pid_open_error E (cycle d)) (own_pid E) (arg_pid_file (cur_args d)) (pid_files d) of
             Inl msg \<Rightarrow> d\<lparr>phase := Ended 1, calls := calls d @ Print msg # free_override cfg\<rparr>
           | Inr fs \<Rightarrow> d\<lparr>phase := Starting cfg, pid_files := fs\<rparr>)
      | Starting cfg \<Rightarrow>
          (case startup (start_env E (cycle d)) (cur_args d) cfg of
             (cs, None) \<Rightarrow>
               d\<lparr>phase := Ended 1, calls := calls d @ cs @ [Remove_Pid_File],
                 pid_files := remove_pid_file (pid_unlinked E (cycle d)) (arg_pid_file (cur_args d)) (pid_files d)\<rparr>
           | (cs, Some (args, c)) \<Rightarrow>
               d\<lparr>phase := Listening, cur_args := args, running := True, g_node := True,
                 g_update_actor := has (start_env E (cycle d)) args Update_Actor, calls := calls d @ cs\<rparr>)
      | Listening \<Rightarrow> d\<lparr>phase := Polling, calls := calls d @ start_listening (listener E (cycle d)) (cur_args d)\<rparr>
      | Polling \<Rightarrow>
          if running d \<and> \<not> stop_requested d \<and> \<not> restart_requested d then d else d\<lparr>phase := Leaving\<rparr>
      | Leaving \<Rightarrow>
          d\<lparr>phase := Deciding, calls := calls d @ shutdown (start_env E (cycle d)) (cur_args d), g_update_actor := False,
            pid_files := remove_pid_file (pid_unlinked E (cycle d)) (arg_pid_file (cur_args d)) (pid_files d)\<rparr>
      | Deciding \<Rightarrow>
          if restart_requested d then
            (case load_pending_override E (world d) (arg_config_dir (cur_args d)) of
               (cfg, w) \<Rightarrow> d\<lparr>phase := Begin_Cycle cfg, restart_requested := False, world := w, cycle := Suc (cycle d)\<rparr>)
          else d\<lparr>phase := Ended 0\<rparr>
      | Ended rc \<Rightarrow> d
      | Killed \<Rightarrow> d
      | Forced_Exit \<Rightarrow> d)"

text \<open>What can happen between two steps. Before the handlers are installed a signal ends the process; a
  reload request comes from a worker, so only while the subsystems exist. (A signal during the start is the
  same as one before it: the start sets \<^verbatim>\<open>running\<close> again.) A stop by the service manager raises a flag and
  then calls the handler the daemon has registered; \<open>Service_Stop\<close> is both at once.\<close>

datatype 'w event = Terminate | Hangup | Service_Stop | Service_Flag | Service_Call | Reload | Outside 'w

definition over :: "phase \<Rightarrow> bool" where
  "over ph = (case ph of Ended _ \<Rightarrow> True | Killed \<Rightarrow> True | Forced_Exit \<Rightarrow> True | _ \<Rightarrow> False)"

definition signal_handler :: "bool \<Rightarrow> 'w daemon \<Rightarrow> 'w daemon" where
  "signal_handler is_hup d =
     (if is_hup \<and> g_update_actor d then d else if g_node d then d\<lparr>running := False\<rparr> else d)"

definition service_stop_handler :: "'w daemon \<Rightarrow> 'w daemon" where
  "service_stop_handler d = (if g_node d then d\<lparr>running := False\<rparr> else d)"

definition request_restart :: "'w daemon \<Rightarrow> 'w daemon" where
  "request_restart d = d\<lparr>restart_requested := True\<rparr>"

fun deliver :: "'w event \<Rightarrow> 'w daemon \<Rightarrow> 'w daemon" where
  "deliver Terminate d = (if over (phase d) then d else if g_node d then signal_handler False d else d\<lparr>phase := Killed\<rparr>)"
| "deliver Hangup d = (if over (phase d) then d else if g_node d then signal_handler True d else d\<lparr>phase := Killed\<rparr>)"
| "deliver Service_Stop d = (if over (phase d) then d else service_stop_handler (d\<lparr>stop_requested := True\<rparr>))"
| "deliver Service_Flag d = (if over (phase d) then d else d\<lparr>stop_requested := True\<rparr>)"
| "deliver Service_Call d = (if over (phase d) then d else service_stop_handler d)"
| "deliver Reload d = (if phase d \<in> {Listening, Polling, Leaving} then request_restart d else d)"
| "deliver (Outside w) d = d\<lparr>world := w\<rparr>"

text \<open>The watchdog: a wake-up that finds \<^verbatim>\<open>g_shutdown_active\<close> set, that is while the main thread is in
  \<^verbatim>\<open>_shutdown\<close>, and then, after a pause in which the main thread may go on, \<^verbatim>\<open>_exit(1)\<close>. A teardown that blocks
  or is slow has by then made some of its calls, here the first \<open>n\<close>.\<close>

definition watchdog_wakes :: "'w daemon \<Rightarrow> 'w daemon" where
  "watchdog_wakes d = (if phase d = Leaving then d\<lparr>watchdog_woken := True\<rparr> else d)"

definition watchdog_exits :: "('j, 'w) run_env \<Rightarrow> nat \<Rightarrow> 'w daemon \<Rightarrow> 'w daemon" where
  "watchdog_exits E n d =
     (if \<not> watchdog_woken d \<or> over (phase d) then d
      else if phase d = Leaving then
        (let cs = take n (shutdown (start_env E (cycle d)) (cur_args d)) in
         d\<lparr>phase := Forced_Exit, calls := calls d @ cs,
           pid_files := (if Remove_Pid_File \<in> set cs
             then remove_pid_file (pid_unlinked E (cycle d)) (arg_pid_file (cur_args d)) (pid_files d) else pid_files d)\<rparr>)
      else d\<lparr>phase := Forced_Exit\<rparr>)"

inductive reachable :: "('j, 'w) run_env \<Rightarrow> 'w daemon \<Rightarrow> 'w daemon \<Rightarrow> bool" for E d0 where
  reach_init: "reachable E d0 d0"
| reach_main: "reachable E d0 d \<Longrightarrow> reachable E d0 (main_step E d)"
| reach_event: "reachable E d0 d \<Longrightarrow> reachable E d0 (deliver e d)"
| reach_wakes: "reachable E d0 d \<Longrightarrow> reachable E d0 (watchdog_wakes d)"
| reach_exits: "reachable E d0 d \<Longrightarrow> reachable E d0 (watchdog_exits E n d)"

section \<open>The invariant of the loop\<close>

definition pid_there :: "'w daemon \<Rightarrow> bool" where
  "pid_there d \<longleftrightarrow> arg_pid_file (cur_args d) = None \<or> pid_files d (the (arg_pid_file (cur_args d))) \<noteq> None"

definition pid_gone :: "'w daemon \<Rightarrow> bool" where
  "pid_gone d \<longleftrightarrow> arg_pid_file (cur_args d) = None \<or> pid_files d (the (arg_pid_file (cur_args d))) = None"

text \<open>The PID file of the current cycle could not be opened or could not be removed.\<close>

definition pid_trouble :: "('j, 'w) run_env \<Rightarrow> 'w daemon \<Rightarrow> bool" where
  "pid_trouble E d \<longleftrightarrow> (\<exists>path. arg_pid_file (cur_args d) = Some path \<and>
     (pid_open_error E (cycle d) path \<noteq> None \<or> \<not> pid_unlinked E (cycle d) path))"

definition pid_opened :: "('j, 'w) run_env \<Rightarrow> 'w daemon \<Rightarrow> bool" where
  "pid_opened E d \<longleftrightarrow> (\<forall>path. arg_pid_file (cur_args d) = Some path \<longrightarrow> pid_open_error E (cycle d) path = None)"

definition tidy :: "'w daemon \<Rightarrow> subsystem set \<Rightarrow> bool" where
  "tidy d l \<longleftrightarrow> orderly {} (calls d) \<and> alive (calls d) {} = l"

definition up :: "('j, 'w) run_env \<Rightarrow> 'w daemon \<Rightarrow> bool" where
  "up E d \<longleftrightarrow> tidy d (started (start_env E (cycle d)) (cur_args d)) \<and> pid_there d \<and> pid_opened E d \<and> g_node d"

definition consistent :: "('j, 'w) run_env \<Rightarrow> 'w daemon \<Rightarrow> bool" where
  "consistent E d =
     (case phase d of
        Begin_Cycle _ \<Rightarrow> tidy d {}
      | Starting _ \<Rightarrow> tidy d {} \<and> pid_there d \<and> pid_opened E d
      | Listening \<Rightarrow> up E d
      | Polling \<Rightarrow> up E d
      | Leaving \<Rightarrow> up E d
      | Deciding \<Rightarrow> tidy d {} \<and> (pid_gone d \<or> pid_trouble E d) \<and> pid_opened E d \<and> g_node d
      | Ended rc \<Rightarrow> (pid_gone d \<or> pid_trouble E d) \<and>
          (rc = 0 \<and> tidy d {} \<and> pid_opened E d \<or> rc = 1 \<and> alive (calls d) {} \<subseteq> {Config, Authority})
      | Killed \<Rightarrow> tidy d {} \<and> \<not> g_node d
      | Forced_Exit \<Rightarrow> orderly {} (calls d))"

lemmas pid_defs = pid_there_def pid_gone_def pid_trouble_def pid_opened_def

lemma startup_ok:
  assumes "startup env args ov = (cs, Some (args', c))"
  shows "orderly {} cs" "alive cs {} = started env args'" "arg_pid_file args' = arg_pid_file args" "arg_cache_dir args' = arg_cache_dir args"
    "arg_config_dir args' = arg_config_dir args"
proof -
  obtain ds where c: "start_node_cert env args = (ds, Some args')" by (rule startup_args [OF assms])
  show "orderly {} cs" "alive cs {} = started env args'"
    using startup_stage [of env args ov] cert_same(4) [OF c] by (simp_all add: assms stage_def)
  show "arg_pid_file args' = arg_pid_file args" "arg_cache_dir args' = arg_cache_dir args" "arg_config_dir args' = arg_config_dir args"
    using c by (auto simp: start_node_cert_def Let_def split: option.splits)
qed

lemma startup_failed: "startup env args ov = (cs, None) \<Longrightarrow> alive cs {} \<subseteq> {Config, Authority}"
  using startup_stage [of env args ov] by (auto simp: stage_def left_behind_def)

lemma free_override_alive [simp]: "alive (free_override cfg) l = l" "orderly l (free_override cfg)"
  by (simp_all add: free_override_def in_order_def)

lemma removed_or_trouble:
  fixes E :: "('j, 'w) run_env"
  assumes "d' = d\<lparr>phase := ph, calls := cs, pid_files := remove_pid_file (pid_unlinked E (cycle d)) (arg_pid_file (cur_args d)) (pid_files d)\<rparr>"
  shows "pid_gone d' \<or> pid_trouble E d'"
  by (simp add: assms pid_defs remove_pid_file_def split: option.split)

lemma consistent_begin:
  assumes "consistent E d" "phase d = Begin_Cycle cfg"
  shows "consistent E (main_step E d)"
proof (cases "write_pid_file (pid_open_error E (cycle d)) (own_pid E) (arg_pid_file (cur_args d)) (pid_files d)")
  case (Inl msg)
  then have "pid_trouble E d" by (auto simp: pid_trouble_def write_pid_file_def split: option.splits)
  with Inl assms show ?thesis by (simp add: consistent_def main_step_def tidy_def pid_trouble_def)
next
  case (Inr fs)
  then have "pid_there (d\<lparr>pid_files := fs\<rparr>)" "pid_opened E d"
    by (auto simp: pid_defs write_pid_file_def split: option.splits)
  with Inr assms show ?thesis by (simp add: consistent_def main_step_def tidy_def pid_there_def pid_opened_def)
qed

lemma consistent_starting:
  assumes "consistent E d" "phase d = Starting cfg"
  shows "consistent E (main_step E d)"
proof (cases "startup (start_env E (cycle d)) (cur_args d) cfg")
  case (Pair cs r)
  show ?thesis
  proof (cases r)
    case None
    with Pair have "alive cs {} \<subseteq> {Config, Authority}" using startup_failed by simp
    with assms Pair None removed_or_trouble [OF refl, where d = d and E = E and ph = "Ended 1" and cs = "calls d @ cs @ [Remove_Pid_File]"] show ?thesis
      by (simp add: consistent_def main_step_def tidy_def)
  next
    case (Some x)
    then obtain args c where x: "startup (start_env E (cycle d)) (cur_args d) cfg = (cs, Some (args, c))"
      using Pair by (cases x) simp
    from startup_ok [OF x] assms show ?thesis
      by (simp add: consistent_def main_step_def tidy_def pid_there_def pid_opened_def up_def x)
  qed
qed

lemma consistent_main: "consistent E d \<Longrightarrow> consistent E (main_step E d)"
proof (cases "phase d")
  case Leaving
  assume "consistent E d"
  with Leaving shutdown_clean [of "start_env E (cycle d)" "cur_args d"] show ?thesis
    by (simp add: consistent_def main_step_def up_def tidy_def pid_defs remove_pid_file_def split: option.split)
next
  case Deciding
  assume "consistent E d"
  with Deciding show ?thesis by (simp add: consistent_def main_step_def tidy_def pid_defs split: prod.split)
next
  case Listening
  assume "consistent E d"
  with Listening listening_orderly [where env = "start_env E (cycle d)" and args = "cur_args d"] show ?thesis
    by (simp add: consistent_def main_step_def up_def tidy_def pid_there_def pid_opened_def)
next
  case Polling
  assume "consistent E d"
  with Polling show ?thesis by (simp add: consistent_def main_step_def up_def tidy_def pid_there_def pid_opened_def)
next
  case (Begin_Cycle cfg)
  assume "consistent E d"
  then show ?thesis using Begin_Cycle by (rule consistent_begin)
next
  case (Starting cfg)
  assume "consistent E d"
  then show ?thesis using Starting by (rule consistent_starting)
qed (simp_all add: main_step_def)

lemma consistent_event: "consistent E d \<Longrightarrow> consistent E (deliver e d)"
  by (cases e; cases "phase d")
    (simp_all add: consistent_def signal_handler_def service_stop_handler_def request_restart_def over_def up_def tidy_def pid_defs)

lemma orderly_take: "orderly l cs \<Longrightarrow> orderly l (take n cs)"
  using orderly_append [of l "take n cs" "drop n cs"] by simp

lemma consistent_orderly: "consistent E d \<Longrightarrow> \<not> over (phase d) \<Longrightarrow> orderly {} (calls d)"
  by (cases "phase d") (simp_all add: consistent_def up_def tidy_def over_def)

lemma consistent_watchdog:
  assumes "consistent E d"
  shows "consistent E (watchdog_wakes d)" "consistent E (watchdog_exits E n d)"
proof -
  show "consistent E (watchdog_wakes d)"
    using assms
    by (cases "phase d") (simp_all add: watchdog_wakes_def consistent_def up_def tidy_def pid_there_def pid_opened_def)
  have sh: "orderly {} (calls d @ take n (shutdown (start_env E (cycle d)) (cur_args d)))" if "phase d = Leaving"
    using that assms shutdown_clean [of "start_env E (cycle d)" "cur_args d"]
    by (simp add: consistent_def up_def tidy_def orderly_take)
  show "consistent E (watchdog_exits E n d)"
  proof (cases "\<not> watchdog_woken d \<or> over (phase d)")
    case False
    then have "phase (watchdog_exits E n d) = Forced_Exit" by (simp add: watchdog_exits_def Let_def)
    moreover have "orderly {} (calls (watchdog_exits E n d))"
      using False sh consistent_orderly [OF assms] by (simp add: watchdog_exits_def Let_def)
    ultimately show ?thesis by (simp add: consistent_def)
  qed (use assms in \<open>auto simp: watchdog_exits_def\<close>)
qed

lemma reachable_consistent: "reachable E d0 d \<Longrightarrow> consistent E d0 \<Longrightarrow> consistent E d"
  by (induction rule: reachable.induct) (auto intro: consistent_main consistent_event consistent_watchdog)

lemma forced_deliver: "phase (deliver e d) = Forced_Exit \<Longrightarrow> phase d = Forced_Exit"
  by (cases e) (auto simp: signal_handler_def service_stop_handler_def request_restart_def split: if_splits)

lemma forced_main: "phase (main_step E d) = Forced_Exit \<Longrightarrow> phase d = Forced_Exit"
  by (auto simp: main_step_def split: phase.splits sum.splits prod.splits option.splits if_splits)

lemma woken_stays: "watchdog_woken (deliver e d) = watchdog_woken d" "watchdog_woken (main_step E d) = watchdog_woken d"
  by (cases e) (auto simp: signal_handler_def service_stop_handler_def request_restart_def main_step_def
      split: phase.splits sum.splits prod.splits option.splits)

text \<open>Only a woken watchdog ends the process.\<close>

lemma reachable_forced:
  assumes "reachable E d0 d" "phase d0 \<noteq> Forced_Exit"
  shows "phase d = Forced_Exit \<longrightarrow> watchdog_woken d"
  using assms
proof (induction rule: reachable.induct)
  case (reach_main d)
  then show ?case using forced_main [of E d] by (auto simp: woken_stays)
next
  case (reach_event d e)
  then show ?case using forced_deliver [of e d] by (auto simp: woken_stays simp del: deliver.simps)
qed (auto simp: watchdog_wakes_def watchdog_exits_def Let_def)

lemma first_consistent: "consistent E (first_cycle fs a cfg w)"
  by (simp add: consistent_def first_cycle_def tidy_def)

lemma run_daemon_first:
  assumes "run_offsd E p w program argv = Run_Daemon p' d"
  obtains a cfg w' where "d = first_cycle (files_at_start E) a cfg w'"
  using assms by (auto simp: run_offsd_def split: if_splits prod.splits sum.splits option.splits proc_end.splits)

text \<open>C5. In every state the daemon can reach, under any interleaving of signals, reload requests, changes of
  the outside world and the watchdog, and whatever PID file an earlier process has left behind: while it
  serves, exactly the configured subsystems exist, every call so far was in order and its PID file is in
  place; a daemon that ends its main function with 0 has destroyed every subsystem in order, and its PID
  file is gone unless \<^verbatim>\<open>unlink\<close> failed; one that ends with 1 leaves at most the configuration and the authority, and
  its PID file is gone unless it could not be opened or not be removed; these are the only exit codes. A
  daemon that the watchdog ends has made its calls in order up to there, and the watchdog has acted
  because it found a shutdown under way; its subsystems and its PID file may be left.\<close>

theorem daemon_lifecycle:
  assumes "run_offsd E p w program argv = Run_Daemon p' d0" and "reachable E d0 d"
  shows "(phase d = Polling \<longrightarrow>
      alive (calls d) {} = started (start_env E (cycle d)) (cur_args d) \<and> orderly {} (calls d) \<and> pid_there d) \<and>
    (phase d = Ended 0 \<longrightarrow> alive (calls d) {} = {} \<and> orderly {} (calls d) \<and>
      (pid_gone d \<or> (\<exists>path. arg_pid_file (cur_args d) = Some path \<and> \<not> pid_unlinked E (cycle d) path))) \<and>
    (\<forall>rc. phase d = Ended rc \<longrightarrow> rc \<in> {0, 1} \<and> alive (calls d) {} \<subseteq> {Config, Authority} \<and> (pid_gone d \<or> pid_trouble E d)) \<and>
    (phase d = Forced_Exit \<longrightarrow> orderly {} (calls d) \<and> watchdog_woken d)"
proof -
  from assms(1) obtain a cfg w' where d0: "d0 = first_cycle (files_at_start E) a cfg w'" by (rule run_daemon_first)
  then have "consistent E d0" by (simp add: first_consistent)
  with assms(2) have c: "consistent E d" by (rule reachable_consistent)
  from assms(2) have "phase d = Forced_Exit \<longrightarrow> watchdog_woken d"
    by (rule reachable_forced) (simp add: d0 first_cycle_def)
  with c show ?thesis
    by (auto simp: consistent_def up_def tidy_def pid_trouble_def pid_opened_def split: option.splits)
qed

section \<open>Stopping\<close>

text \<open>Sequences of actions: steps of the main thread, events and the watchdog, in any order.\<close>

datatype 'w action = Main_Thread | Event "'w event" | Watchdog_Wakes | Watchdog_Exits nat

fun act :: "('j, 'w) run_env \<Rightarrow> 'w action \<Rightarrow> 'w daemon \<Rightarrow> 'w daemon" where
  "act E Main_Thread d = main_step E d"
| "act E (Event e) d = deliver e d"
| "act E Watchdog_Wakes d = watchdog_wakes d"
| "act E (Watchdog_Exits n) d = watchdog_exits E n d"

text \<open>\<open>k\<close> steps of the main thread before the regular end of a daemon that has been told to stop.\<close>

definition stopping :: "nat \<Rightarrow> 'w daemon \<Rightarrow> bool" where
  "stopping k d \<longleftrightarrow> phase d = Ended 0 \<or>
     (\<not> restart_requested d \<and> g_node d \<and> (\<not> running d \<or> stop_requested d) \<and>
      (phase d = Polling \<and> k = 3 \<or> phase d = Leaving \<and> k = 2 \<or> phase d = Deciding \<and> k = 1))"

lemma stopping_main: "stopping k d \<Longrightarrow> stopping (k - 1) (main_step E d)"
  by (auto simp: stopping_def main_step_def)

lemma stopping_event: "stopping k d \<Longrightarrow> e \<noteq> Reload \<Longrightarrow> stopping k (deliver e d)"
  by (cases e) (auto simp: stopping_def over_def signal_handler_def service_stop_handler_def)

lemma stopping_wakes: "stopping k d \<Longrightarrow> stopping k (watchdog_wakes d)"
  by (auto simp: stopping_def watchdog_wakes_def)

lemma stopping_exits: "stopping k d \<Longrightarrow> stopping k (watchdog_exits E n d) \<or> phase (watchdog_exits E n d) = Forced_Exit"
  by (auto simp: watchdog_exits_def Let_def)

lemma act_over: "over (phase d) \<Longrightarrow> phase (act E a d) = phase d"
proof (cases a)
  case (Event e)
  assume "over (phase d)"
  with Event show ?thesis by (cases e) (auto simp: over_def)
qed (auto simp: main_step_def watchdog_wakes_def watchdog_exits_def over_def split: phase.splits)

lemma forced_stays: "phase d = Forced_Exit \<Longrightarrow> phase (fold (act E) acts d) = Forced_Exit"
  by (induction acts arbitrary: d) (simp_all add: act_over over_def)

lemma stopping_ends:
  assumes "stopping k d" "Event Reload \<notin> set acts" "k \<le> count_list acts Main_Thread"
  shows "phase (fold (act E) acts d) = Ended 0 \<or> phase (fold (act E) acts d) = Forced_Exit \<and> (\<exists>n. Watchdog_Exits n \<in> set acts)"
  using assms
proof (induction acts arbitrary: k d)
  case Nil
  then show ?case by (auto simp: stopping_def)
next
  case (Cons a acts)
  consider (go) j where "stopping j (act E a d)" "j \<le> count_list acts Main_Thread"
    | (forced) n where "a = Watchdog_Exits n" "phase (act E a d) = Forced_Exit"
  proof (cases a)
    case Main_Thread
    then show ?thesis using go stopping_main [OF Cons.prems(1), of E] Cons.prems(3) by simp
  next
    case (Event e)
    then show ?thesis using go stopping_event [OF Cons.prems(1), of e] Cons.prems(2,3) by auto
  next
    case Watchdog_Wakes
    then show ?thesis using go stopping_wakes [OF Cons.prems(1)] Cons.prems(3) by simp
  next
    case (Watchdog_Exits n)
    then show ?thesis using go forced stopping_exits [OF Cons.prems(1), of E n] Cons.prems(3) by auto
  qed
  then show ?case
  proof cases
    case go
    from Cons.IH [OF go(1) _ go(2)] Cons.prems(2) show ?thesis by auto
  next
    case (forced n)
    then show ?thesis using forced_stays [of "act E a d" E acts] by auto
  qed
qed

text \<open>C28. A termination signal or a service stop ends a serving daemon that has not been asked to reload:
  whatever signals, stop requests and changes of the outside world follow, as long as no reload request
  is among them, once the main thread has made three more steps (it has left its loop, its teardown has
  returned, and it has made up its mind) it has ended with 0, unless the watchdog has ended the process.
  A teardown that never returns is the case in which the third step is never made; then only the
  watchdog ends the process, with 1.\<close>

theorem terminate_ends:
  assumes "phase d = Polling" and "\<not> restart_requested d" and "g_node d" and "e = Terminate \<or> e = Service_Stop"
    and "Event Reload \<notin> set acts" and "3 \<le> count_list acts Main_Thread"
  shows "phase (fold (act E) acts (deliver e d)) = Ended 0 \<or>
         phase (fold (act E) acts (deliver e d)) = Forced_Exit \<and> (\<exists>n. Watchdog_Exits n \<in> set acts)"
proof (rule stopping_ends [OF _ assms(5,6)])
  show "stopping 3 (deliver e d)"
    using assms(1-4) by (auto simp: stopping_def signal_handler_def service_stop_handler_def over_def)
qed

lemma leave_polling:
  assumes "phase d = Polling" "\<not> restart_requested d" "\<not> running d \<or> stop_requested d"
  shows "phase ((main_step E ^^ 3) d) = Ended 0"
proof -
  have s1: "main_step E d = d\<lparr>phase := Leaving\<rparr>" using assms by (auto simp: main_step_def)
  define d2 where "d2 = main_step E (d\<lparr>phase := Leaving\<rparr>)"
  have "phase d2 = Deciding" "\<not> restart_requested d2" using assms(2) by (simp_all add: d2_def main_step_def)
  then have "phase (main_step E d2) = Ended 0" by (simp add: main_step_def)
  moreover have "(main_step E ^^ 3) d = main_step E (main_step E (main_step E d))" by (simp add: eval_nat_numeral)
  ultimately show ?thesis by (simp add: s1 d2_def)
qed

text \<open>A start that succeeds, and the loop it leads to.\<close>

lemma next_cycle:
  assumes "phase d = Deciding" "restart_requested d"
    and "load_pending_override E (world d) (arg_config_dir (cur_args d)) = (cfg, w')"
    and "\<And>path. pid_open_error E (Suc (cycle d)) path = None"
    and "startup (start_env E (Suc (cycle d))) (cur_args d) cfg = (cs, Some (args, c))"
  shows "phase ((main_step E ^^ 4) d) = Polling \<and> running ((main_step E ^^ 4) d) \<and> \<not> restart_requested ((main_step E ^^ 4) d)
    \<and> stop_requested ((main_step E ^^ 4) d) = stop_requested d"
proof -
  define d1 where "d1 = d\<lparr>phase := Begin_Cycle cfg, restart_requested := False, world := w', cycle := Suc (cycle d)\<rparr>"
  have s1: "main_step E d = d1" using assms by (simp add: main_step_def d1_def)
  obtain fs where "write_pid_file (pid_open_error E (cycle d1)) (own_pid E) (arg_pid_file (cur_args d1)) (pid_files d1) = Inr fs"
    using assms(4) by (cases "arg_pid_file (cur_args d1)") (simp_all add: write_pid_file_def d1_def)
  then have s2: "main_step E d1 = d1\<lparr>phase := Starting cfg, pid_files := fs\<rparr>" by (simp add: main_step_def d1_def)
  have s3: "main_step E (d1\<lparr>phase := Starting cfg, pid_files := fs\<rparr>) =
      d1\<lparr>phase := Listening, cur_args := args, running := True, g_node := True, pid_files := fs,
         g_update_actor := has (start_env E (cycle d1)) args Update_Actor, calls := calls d1 @ cs\<rparr>"
    using assms(5) by (simp add: main_step_def d1_def)
  have "(main_step E ^^ 4) d = main_step E (main_step E (main_step E (main_step E d)))" by (simp add: eval_nat_numeral)
  then show ?thesis unfolding s1 s2 s3 by (simp add: main_step_def d1_def)
qed

text \<open>C29. A termination signal that arrives while the daemon is taking itself down for a reload is lost: it comes up
  again, goes back to serving and stays there.\<close>

theorem terminate_lost_in_reload:
  assumes "phase d = Deciding" and "restart_requested d" and "g_node d" and "\<not> stop_requested d"
    and "load_pending_override E (world d) (arg_config_dir (cur_args d)) = (cfg, w')"
    and "\<And>path. pid_open_error E (Suc (cycle d)) path = None"
    and "startup (start_env E (Suc (cycle d))) (cur_args d) cfg = (cs, Some (args, c))"
  shows "phase ((main_step E ^^ (4 + n)) (deliver Terminate d)) = Polling"
proof -
  let ?d = "deliver Terminate d"
  let ?s = "(main_step E ^^ 4) ?d"
  have d: "?d = d\<lparr>running := False\<rparr>" using assms(1,3) by (simp add: signal_handler_def over_def)
  have s: "phase ?s = Polling \<and> running ?s \<and> \<not> restart_requested ?s \<and> stop_requested ?s = stop_requested ?d"
    by (rule next_cycle [where cfg = cfg and w' = w' and cs = cs and args = args and c = c]) (use assms d in simp_all)
  then have "main_step E ?s = ?s" using assms(4) d by (simp add: main_step_def)
  then have "(main_step E ^^ n) ?s = ?s" by (induction n) simp_all
  moreover have "(main_step E ^^ (4 + n)) ?d = (main_step E ^^ n) ?s" by (simp only: add.commute [of 4] funpow_add comp_apply)
  ultimately show ?thesis using s by (simp only:)
qed

text \<open>A service stop is not lost in a reload: the flag it sets stays, so the daemon comes up once more and
  then ends with 0.\<close>

theorem service_stop_survives_reload:
  assumes "phase d = Deciding" and "restart_requested d" and "g_node d"
    and "load_pending_override E (world d) (arg_config_dir (cur_args d)) = (cfg, w')"
    and "\<And>path. pid_open_error E (Suc (cycle d)) path = None"
    and "startup (start_env E (Suc (cycle d))) (cur_args d) cfg = (cs, Some (args, c))"
  shows "phase ((main_step E ^^ 7) (deliver Service_Stop d)) = Ended 0"
proof -
  let ?d = "deliver Service_Stop d"
  let ?s = "(main_step E ^^ 4) ?d"
  have d: "?d = d\<lparr>stop_requested := True, running := False\<rparr>" using assms(1,3) by (simp add: over_def service_stop_handler_def)
  have s: "phase ?s = Polling \<and> running ?s \<and> \<not> restart_requested ?s \<and> stop_requested ?s = stop_requested ?d"
    by (rule next_cycle [where cfg = cfg and w' = w' and cs = cs and args = args and c = c]) (use assms d in simp_all)
  have "phase ((main_step E ^^ 3) ?s) = Ended 0" by (rule leave_polling) (use s d in simp_all)
  moreover have "(main_step E ^^ (3 + 4)) ?d = (main_step E ^^ 3) ?s" by (simp only: funpow_add comp_apply)
  ultimately show ?thesis by simp
qed

section \<open>A run in the foreground\<close>

definition demo_run :: "json \<Rightarrow> string option \<Rightarrow> (json, unit) run_env" where
  "demo_run root pending = \<lparr>
     the_host = (json_host root)\<lparr>config_pending_load := (\<lambda>_ _. map_option (\<lambda>d. demo_config\<lparr>cfg_cache_dir := Some d\<rparr>) pending)\<rparr>,
     is_regular = (\<lambda>_ p. p = ''offs.json''), nprocs = 4, config_pending_exists = (\<lambda>_ _. pending \<noteq> None),
     config_pending_mark_applied = (\<lambda>w _. w),
     dirs = \<lparr>dir_present = (\<lambda>_ _. True), rm_rf = (\<lambda>w _. (True, w)), default_dirs = (\<lambda>_. None)\<rparr>,
     proc = demo_proc_env, start_env = (\<lambda>_. demo_startup []),
     listener = (\<lambda>_. \<lparr>quic_listener = True, quic_listener_start = True, network_start_mdns = True,
        endpoint_parse = (\<lambda>_. None), endpoint_host_header = (\<lambda>_ _. None), network_connect_relay = (\<lambda>_ _. False), peer_book = True\<rparr>),
     own_pid = 42, pid_open_error = (\<lambda>_ _. None), pid_unlinked = (\<lambda>_ _. True), files_at_start = (\<lambda>_. None)\<rparr>"

definition demo_json :: json where
  "demo_json = JObj [(''cache'', JObj [(''dir'', JStr ''/srv/cache'')]), (''daemon'', JObj [(''pid-file'', JStr ''/run/o.pid'')])]"

lemma demo_run_parsed:
  "\<exists>args. parse_args (the_host (demo_run demo_json pending)) () 4 ''offsd'' [''--foreground'']
      (default_args (default_config_file (demo_run demo_json pending) ())) = Inr args \<and>
     arg_cache_dir args = Some ''/srv/cache'' \<and> arg_config_dir args = None \<and> arg_foreground args \<and> arg_pid_file args = Some ''/run/o.pid'' \<and>
     arg_node_cert_path args = None \<and> arg_node_key_path args = None \<and> arg_ca_cert_path args = None \<and> arg_api_key args = None \<and>
     arg_host args = Some ''0.0.0.0'' \<and> arg_bootstrap_peers args = None"
  by (simp add: demo_run_def json_host_def default_config_file_def parse_args_def set_value_def set_switch_def default_args_def cfg_defs
      demo_json_def to_u16_def finish_args_def Let_def)

lemma demo_runs:
  "\<exists>d. run_offsd (demo_run demo_json pending) (demo_proc []) () ''offsd'' [''--foreground''] = Run_Daemon (demo_proc []) d"
proof -
  obtain args where args: "parse_args (the_host (demo_run demo_json pending)) () 4 ''offsd'' [''--foreground'']
      (default_args (default_config_file (demo_run demo_json pending) ())) = Inr args" "arg_foreground args"
      "arg_cache_dir args = Some ''/srv/cache''" "arg_config_dir args = None"
    using demo_run_parsed by blast
  have n: "nprocs (demo_run demo_json pending) = 4" by (simp add: demo_run_def)
  have dd: "offs_default_dirs_get (the_host (demo_run demo_json pending)) () = Some (''/etc/offs'', ''/var/cache/offs'')"
    by (simp add: demo_run_def json_host_def)
  show ?thesis using args by (simp add: run_offsd_def n fill_dirs_def dd split: prod.split)
qed

theorem daemon_lifecycle_witness:
  "\<exists>d. run_offsd (demo_run demo_json None) (demo_proc []) () ''offsd'' [''--foreground''] = Run_Daemon (demo_proc []) d \<and>
     (\<forall>n. phase ((main_step (demo_run demo_json None) ^^ n) d) = Polling \<longrightarrow>
        orderly {} (calls ((main_step (demo_run demo_json None) ^^ n) d)) \<and> pid_there ((main_step (demo_run demo_json None) ^^ n) d))"
proof -
  let ?E = "demo_run demo_json None"
  obtain d where d: "run_offsd ?E (demo_proc []) () ''offsd'' [''--foreground''] = Run_Daemon (demo_proc []) d"
    using demo_runs by blast
  have "reachable ?E d ((main_step ?E ^^ n) d)" for n by (induction n) (simp_all add: reachable.intros)
  with daemon_lifecycle [OF d] d show ?thesis by blast
qed

definition demo_reloading :: "unit daemon" where
  "demo_reloading = (first_cycle (\<lambda>_. None) demo_args None ())\<lparr>phase := Deciding, restart_requested := True, g_node := True\<rparr>"

lemma demo_restarts:
  "\<exists>cs args c. startup (start_env (demo_run demo_json None) (Suc (cycle demo_reloading))) (cur_args demo_reloading) None = (cs, Some (args, c))"
  "load_pending_override (demo_run demo_json None) (world demo_reloading) (arg_config_dir (cur_args demo_reloading)) = (None, ())"
proof -
  show "\<exists>cs args c. startup (start_env (demo_run demo_json None) (Suc (cycle demo_reloading))) (cur_args demo_reloading) None = (cs, Some (args, c))"
    by (simp add: demo_reloading_def first_cycle_def demo_run_def) (simp add: demo_startup_defs)
  show "load_pending_override (demo_run demo_json None) (world demo_reloading) (arg_config_dir (cur_args demo_reloading)) = (None, ())"
    by (simp add: load_pending_override_def demo_run_def split: option.split)
qed

theorem terminate_lost_in_reload_witness:
  "phase ((main_step (demo_run demo_json None) ^^ (4 + 100)) (deliver Terminate demo_reloading)) = Polling"
proof -
  obtain cs args c where s: "startup (start_env (demo_run demo_json None) (Suc (cycle demo_reloading))) (cur_args demo_reloading) None = (cs, Some (args, c))"
    using demo_restarts(1) by blast
  show ?thesis
    by (rule terminate_lost_in_reload [OF _ _ _ _ demo_restarts(2) _ s]) (simp_all add: demo_reloading_def first_cycle_def demo_run_def)
qed

theorem service_stop_survives_reload_witness:
  "phase ((main_step (demo_run demo_json None) ^^ 7) (deliver Service_Stop demo_reloading)) = Ended 0"
proof -
  obtain cs args c where s: "startup (start_env (demo_run demo_json None) (Suc (cycle demo_reloading))) (cur_args demo_reloading) None = (cs, Some (args, c))"
    using demo_restarts(1) by blast
  show ?thesis
    by (rule service_stop_survives_reload [OF _ _ _ demo_restarts(2) _ s]) (simp_all add: demo_reloading_def first_cycle_def demo_run_def)
qed

theorem terminate_ends_witness:
  "let d = deliver Terminate (demo_reloading\<lparr>phase := Polling, restart_requested := False\<rparr>);
       acts = [Main_Thread, Event Hangup, Watchdog_Wakes, Main_Thread, Event (Outside ()), Main_Thread] in
   phase (fold (act (demo_run demo_json None)) acts d) = Ended 0"
proof -
  have "phase (fold (act (demo_run demo_json None)) acts (deliver Terminate (demo_reloading\<lparr>phase := Polling, restart_requested := False\<rparr>))) = Ended 0"
    if "acts = [Main_Thread, Event Hangup, Watchdog_Wakes, Main_Thread, Event (Outside ()), Main_Thread]" for acts
    using terminate_ends [of "demo_reloading\<lparr>phase := Polling, restart_requested := False\<rparr>" Terminate acts "demo_run demo_json None"] that
    by (auto simp: demo_reloading_def simp del: act.simps deliver.simps)
  then show ?thesis by simp
qed

end
