(* ===== verification/Daemon_Service.thy ===== *)
theory Daemon_Service
  imports Prelude
begin

text \<open>
  The bridge between the daemon and the Windows service control manager
  (\<^verbatim>\<open>src/src/Service/daemon_service_windows.c\<close>): the status reports, the control handler, the service thread
  and the entry point. The manager runs the handler on a thread of its own, so the reachable states are those
  of a step relation in which the two threads interleave.
\<close>

section \<open>Status reports\<close>

datatype scm_state = START_PENDING | RUNNING | STOP_PENDING | STOPPED

record scm_status =
  dwCurrentState :: scm_state
  dwControlsAccepted :: bool \<comment> \<open>\<^verbatim>\<open>SERVICE_ACCEPT_STOP | SERVICE_ACCEPT_SHUTDOWN\<close>, or none\<close>
  dwWin32ExitCode :: u32
  dwServiceSpecificExitCode :: u32
  dwWaitHint :: u32

definition ERROR_SERVICE_SPECIFIC_ERROR :: u32 where
  "ERROR_SERVICE_SPECIFIC_ERROR = 1066"

text \<open>The threads and the globals: where the service thread and the handler are, the stop flag, whether a stop
  handler is registered and how often it was called, whether the status handle is there, and the calls of
  \<^verbatim>\<open>SetServiceStatus\<close>.\<close>

datatype main_pc = Main_Start | Main_Registered | Main_Pending | Main_Body | Main_Returned int | Main_Done

datatype ctrl_pc = Ctrl_Idle | Ctrl_Flagged | Ctrl_Reported

record bridge =
  main_at :: main_pc
  ctrl_at :: ctrl_pc
  g_stop_requested :: bool
  g_stop_handler :: bool
  handler_calls :: nat
  g_run_body :: bool
  g_status_handle :: bool
  reports :: "scm_status list"

definition service_report :: "scm_state \<Rightarrow> u32 \<Rightarrow> u32 \<Rightarrow> bridge \<Rightarrow> bridge" where
  "service_report state exit_code wait_hint s =
     (let specific = (state = STOPPED \<and> exit_code \<noteq> 0);
          status = \<lparr>dwCurrentState = state, dwControlsAccepted = (state \<noteq> START_PENDING),
            dwWin32ExitCode = (if specific then ERROR_SERVICE_SPECIFIC_ERROR else 0),
            dwServiceSpecificExitCode = (if specific then exit_code else 0), dwWaitHint = wait_hint\<rparr>
      in if g_status_handle s then s\<lparr>reports := reports s @ [status]\<rparr> else s)"

section \<open>The two threads\<close>

datatype control = CONTROL_STOP | CONTROL_SHUTDOWN | CONTROL_INTERROGATE | CONTROL_OTHER

definition is_stop :: "control \<Rightarrow> bool" where
  "is_stop c \<longleftrightarrow> c = CONTROL_STOP \<or> c = CONTROL_SHUTDOWN"

text \<open>The three actions of the control handler on a stop; on every other control it does nothing.\<close>

definition ctrl_flag :: "bridge \<Rightarrow> bridge" where
  "ctrl_flag s = s\<lparr>g_stop_requested := True, ctrl_at := Ctrl_Flagged\<rparr>"

definition ctrl_report :: "bridge \<Rightarrow> bridge" where
  "ctrl_report s = (service_report STOP_PENDING 0 5000 s)\<lparr>ctrl_at := Ctrl_Reported\<rparr>"

definition ctrl_call :: "bridge \<Rightarrow> bridge" where
  "ctrl_call s = s\<lparr>handler_calls := (if g_stop_handler s then handler_calls s + 1 else handler_calls s), ctrl_at := Ctrl_Idle\<rparr>"

definition service_ctrl_handler :: "control \<Rightarrow> bridge \<Rightarrow> bridge" where
  "service_ctrl_handler c s = (if is_stop c then ctrl_call (ctrl_report (ctrl_flag s)) else s)"

text \<open>The actions of the service thread, which registers the handler, reports, runs the body and reports again.\<close>

definition main_register :: "bool \<Rightarrow> bridge \<Rightarrow> bridge" where
  "main_register ok s = s\<lparr>g_status_handle := ok, main_at := (if ok then Main_Registered else Main_Done)\<rparr>"

definition main_pending :: "bridge \<Rightarrow> bridge" where
  "main_pending s = (service_report START_PENDING 0 30000 s)\<lparr>main_at := Main_Pending\<rparr>"

definition main_running :: "bridge \<Rightarrow> bridge" where
  "main_running s =
     (if g_run_body s then (service_report RUNNING 0 0 s)\<lparr>main_at := Main_Body\<rparr>
      else (service_report STOPPED ERROR_SERVICE_SPECIFIC_ERROR 3000 s)\<lparr>main_at := Main_Done\<rparr>)"

definition main_stopped :: "int \<Rightarrow> bridge \<Rightarrow> bridge" where
  "main_stopped rc s = (service_report STOPPED (if rc = 0 then 0 else word_of_int rc) 3000 s)\<lparr>main_at := Main_Done\<rparr>"

definition service_main :: "bool \<Rightarrow> (bridge \<Rightarrow> int \<times> bridge) \<Rightarrow> bridge \<Rightarrow> bridge" where
  "service_main registered body s =
     (let s1 = main_register registered s in
      if \<not> registered then s1
      else (let s2 = main_running (main_pending s1) in
        if \<not> g_run_body s then s2
        else (case body s2 of (rc, s3) \<Rightarrow> main_stopped rc s3)))"

section \<open>The entry point\<close>

text \<open>What \<^verbatim>\<open>StartServiceCtrlDispatcherW\<close> does: it fails because no manager started the process, fails
  otherwise, or runs the service thread to its end.\<close>

datatype dispatcher = Not_A_Service | Dispatcher_Failed | Dispatched

definition idle_bridge :: bridge where
  "idle_bridge = \<lparr>main_at = Main_Start, ctrl_at = Ctrl_Idle, g_stop_requested = False, g_stop_handler = False, handler_calls = 0,
     g_run_body = False, g_status_handle = False, reports = []\<rparr>"

definition enter :: "bridge \<Rightarrow> bridge" where
  "enter s = s\<lparr>g_run_body := True, g_stop_requested := False\<rparr>"

definition daemon_service_try_run :: "dispatcher \<Rightarrow> (bridge \<Rightarrow> bridge) \<Rightarrow> bridge \<Rightarrow> int \<times> bridge" where
  "daemon_service_try_run d thread s =
     (case d of
        Dispatched \<Rightarrow> (1, thread (enter s))
      | Not_A_Service \<Rightarrow> (0, enter s)
      | Dispatcher_Failed \<Rightarrow> (- 1, enter s))"

definition daemon_service_set_stop_handler :: "bridge \<Rightarrow> bridge" where
  "daemon_service_set_stop_handler s = s\<lparr>g_stop_handler := True\<rparr>"

definition daemon_service_stop_requested :: "bridge \<Rightarrow> int" where
  "daemon_service_stop_requested s = (if g_stop_requested s then 1 else 0)"

section \<open>Interleavings\<close>

text \<open>The manager sends a control only while a handler is registered, and one at a time; the body registers the
  stop handler and returns at any time.\<close>

inductive bridge_step :: "bridge \<Rightarrow> bridge \<Rightarrow> bool" where
  step_register: "main_at s = Main_Start \<Longrightarrow> bridge_step s (main_register ok s)"
| step_pending: "main_at s = Main_Registered \<Longrightarrow> bridge_step s (main_pending s)"
| step_running: "main_at s = Main_Pending \<Longrightarrow> bridge_step s (main_running s)"
| step_set_handler: "main_at s = Main_Body \<Longrightarrow> bridge_step s (daemon_service_set_stop_handler s)"
| step_return: "main_at s = Main_Body \<Longrightarrow> bridge_step s (s\<lparr>main_at := Main_Returned rc\<rparr>)"
| step_stopped: "main_at s = Main_Returned rc \<Longrightarrow> bridge_step s (main_stopped rc s)"
| step_flag: "g_status_handle s \<Longrightarrow> ctrl_at s = Ctrl_Idle \<Longrightarrow> bridge_step s (ctrl_flag s)"
| step_report: "ctrl_at s = Ctrl_Flagged \<Longrightarrow> bridge_step s (ctrl_report s)"
| step_call: "ctrl_at s = Ctrl_Reported \<Longrightarrow> bridge_step s (ctrl_call s)"

inductive bridge_reachable :: "bridge \<Rightarrow> bool" where
  reach_enter: "bridge_reachable (enter idle_bridge)"
| reach_step: "bridge_reachable s \<Longrightarrow> bridge_step s s' \<Longrightarrow> bridge_reachable s'"

inductive_cases bridge_stepE: "bridge_step s s'"

section \<open>Properties\<close>

text \<open>The reports of the service thread, and what it has reported at each point.\<close>

definition own_reports :: "bridge \<Rightarrow> scm_state list" where
  "own_reports s = filter (\<lambda>x. x \<noteq> STOP_PENDING) (map dwCurrentState (reports s))"

fun expected :: "main_pc \<Rightarrow> scm_state list" where
  "expected Main_Start = []"
| "expected Main_Registered = []"
| "expected Main_Pending = [START_PENDING]"
| "expected Main_Body = [START_PENDING, RUNNING]"
| "expected (Main_Returned rc) = [START_PENDING, RUNNING]"
| "expected Main_Done = [START_PENDING, RUNNING, STOPPED]"

definition bridge_inv :: "bridge \<Rightarrow> bool" where
  "bridge_inv s \<longleftrightarrow> g_run_body s \<and>
     (own_reports s = expected (main_at s) \<or> (main_at s = Main_Done \<and> \<not> g_status_handle s \<and> reports s = [])) \<and>
     (main_at s \<noteq> Main_Start \<and> main_at s \<noteq> Main_Done \<longrightarrow> g_status_handle s) \<and>
     (main_at s = Main_Start \<longrightarrow> \<not> g_status_handle s \<and> reports s = []) \<and>
     (STOP_PENDING \<in> dwCurrentState ` set (reports s) \<or> ctrl_at s \<noteq> Ctrl_Idle \<longrightarrow> g_stop_requested s) \<and>
     (\<forall>r \<in> set (reports s). dwControlsAccepted r \<longleftrightarrow> dwCurrentState r \<noteq> START_PENDING)"

lemmas bridge_ops = service_report_def ctrl_flag_def ctrl_report_def ctrl_call_def main_register_def main_pending_def main_running_def
  main_stopped_def daemon_service_set_stop_handler_def Let_def

lemma bridge_step_inv: "bridge_step s s' \<Longrightarrow> bridge_inv s \<Longrightarrow> bridge_inv s'"
  by (erule bridge_stepE) (auto simp: bridge_inv_def bridge_ops own_reports_def)

lemma reachable_inv: "bridge_reachable s \<Longrightarrow> bridge_inv s"
proof (induction rule: bridge_reachable.induct)
  case reach_enter
  then show ?case by (simp add: bridge_inv_def enter_def idle_bridge_def own_reports_def)
next
  case (reach_step s s')
  then show ?case by (blast intro: bridge_step_inv)
qed

text \<open>The service thread alone, with a body that returns \<open>rc\<close>, is one of the interleavings.\<close>

lemma service_main_reachable: "bridge_reachable (service_main registered (\<lambda>s. (rc, s\<lparr>main_at := Main_Returned rc\<rparr>)) (enter idle_bridge))"
proof -
  let ?s0 = "enter idle_bridge"
  have r1: "bridge_reachable (main_register registered ?s0)"
    by (rule reach_step [OF reach_enter step_register]) (simp add: enter_def idle_bridge_def)
  show ?thesis
  proof (cases registered)
    case True
    let ?s1 = "main_register True ?s0"
    let ?s3 = "main_running (main_pending ?s1)"
    note pcs = bridge_ops enter_def idle_bridge_def
    have "bridge_reachable (main_pending ?s1)"
      using r1 True by (intro reach_step [OF _ step_pending]) (simp_all add: pcs)
    then have "bridge_reachable ?s3" by (rule reach_step [OF _ step_running]) (simp add: pcs)
    then have "bridge_reachable (?s3\<lparr>main_at := Main_Returned rc\<rparr>)" by (rule reach_step [OF _ step_return]) (simp add: pcs)
    then have "bridge_reachable (main_stopped rc (?s3\<lparr>main_at := Main_Returned rc\<rparr>))" by (rule reach_step [OF _ step_stopped]) simp
    with True show ?thesis by (simp add: service_main_def Let_def) (simp add: enter_def)
  qed (use r1 in \<open>simp add: service_main_def Let_def\<close>)
qed

text \<open>However the two threads interleave, the service thread reports START_PENDING, RUNNING and STOPPED in
  this order and each once, RUNNING before the daemon body starts; only START_PENDING refuses controls; and
  whenever STOP_PENDING has been reported, the flag that the daemon's main loop polls is set and stays set.\<close>

theorem bridge_reports_ordered:
  assumes "bridge_reachable s"
  shows "prefix (own_reports s) [START_PENDING, RUNNING, STOPPED] \<and>
    (main_at s = Main_Body \<longrightarrow> RUNNING \<in> set (map dwCurrentState (reports s))) \<and>
    (STOP_PENDING \<in> set (map dwCurrentState (reports s)) \<longrightarrow> daemon_service_stop_requested s = 1) \<and>
    (\<forall>r \<in> set (reports s). dwControlsAccepted r \<longleftrightarrow> dwCurrentState r \<noteq> START_PENDING) \<and>
    (g_stop_requested s \<and> bridge_step s s' \<longrightarrow> g_stop_requested s')"
proof -
  from assms have inv: "bridge_inv s" by (rule reachable_inv)
  have "prefix (own_reports s) [START_PENDING, RUNNING, STOPPED]"
    using inv by (cases "main_at s") (auto simp: bridge_inv_def own_reports_def)
  moreover have "RUNNING \<in> set (map dwCurrentState (reports s))" if "main_at s = Main_Body"
  proof -
    have "RUNNING \<in> set (own_reports s)" using inv that by (auto simp: bridge_inv_def)
    then show ?thesis by (auto simp: own_reports_def)
  qed
  moreover have "g_stop_requested s'" if "g_stop_requested s" "bridge_step s s'"
    using that(2) by (rule bridge_stepE) (use that(1) in \<open>auto simp: bridge_ops\<close>)
  ultimately show ?thesis using inv by (auto simp: bridge_inv_def daemon_service_stop_requested_def)
qed

text \<open>The order of the two threads' reports is not fixed: the handler sets the flag before it reports, and a
  daemon that ends at once is reported as STOPPED before the handler reports STOP_PENDING, which is then the
  last thing the manager hears.\<close>

theorem stop_pending_after_stopped:
  "\<exists>s. bridge_reachable s \<and> map dwCurrentState (reports s) = [START_PENDING, RUNNING, STOPPED, STOP_PENDING]"
proof -
  note pcs = bridge_ops enter_def idle_bridge_def
  let ?s3 = "main_running (main_pending (main_register True (enter idle_bridge)))"
  have "bridge_reachable (main_register True (enter idle_bridge))"
    by (rule reach_step [OF reach_enter step_register]) (simp add: pcs)
  then have "bridge_reachable (main_pending (main_register True (enter idle_bridge)))" by (rule reach_step [OF _ step_pending]) (simp add: pcs)
  then have "bridge_reachable ?s3" by (rule reach_step [OF _ step_running]) (simp add: pcs)
  then have "bridge_reachable (ctrl_flag ?s3)" by (rule reach_step [OF _ step_flag]) (simp_all add: pcs)
  then have "bridge_reachable ((ctrl_flag ?s3)\<lparr>main_at := Main_Returned 0\<rparr>)" by (rule reach_step [OF _ step_return]) (simp add: pcs)
  then have "bridge_reachable (main_stopped 0 ((ctrl_flag ?s3)\<lparr>main_at := Main_Returned 0\<rparr>))" by (rule reach_step [OF _ step_stopped]) simp
  then have "bridge_reachable (ctrl_report (main_stopped 0 ((ctrl_flag ?s3)\<lparr>main_at := Main_Returned 0\<rparr>)))"
    by (rule reach_step [OF _ step_report]) (simp add: pcs)
  moreover have "map dwCurrentState (reports (ctrl_report (main_stopped 0 ((ctrl_flag ?s3)\<lparr>main_at := Main_Returned 0\<rparr>)))) =
      [START_PENDING, RUNNING, STOPPED, STOP_PENDING]" by (simp add: pcs)
  ultimately show ?thesis by (intro exI conjI)
qed

theorem bridge_reports_ordered_witness:
  "prefix (own_reports (service_main True (\<lambda>s. (0, s\<lparr>main_at := Main_Returned 0\<rparr>)) (enter idle_bridge))) [START_PENDING, RUNNING, STOPPED]"
  using bridge_reports_ordered [OF service_main_reachable [of True 0]] by blast

end
