(* ===== verification/Service_Run.thy ===== *)
theory Service_Run
  imports Daemon_Run Daemon_Service
begin

text \<open>
  The daemon as a Windows service: the service thread of \<^verbatim>\<open>src/src/Service/daemon_service_windows.c\<close> runs
  \<^verbatim>\<open>_run_offsd\<close> of \<^verbatim>\<open>src/src/offsd/main.c\<close> as its body, and the control handler acts on both. The composed
  system projects to a run of the bridge and to a run of the daemon, so the invariants of the two hold of it. Its
  steps are labelled with the thread that makes them, so that the stop can be followed through every interleaving.
\<close>

section \<open>The composed system\<close>

record 'w service_run =
  br :: bridge
  dm :: "'w daemon option"
  terminated :: bool \<comment> \<open>the watchdog has ended the process\<close>

text \<open>Who makes a step: the service thread, the control handler, the watchdog, or something else that happens to
  the daemon.\<close>

datatype 'w actor = Service_Thread | Control_Handler | Watchdog | Elsewhere "'w event"

text \<open>The body starts: either it ends before its loop, or it is in its first cycle and sees the flag.\<close>

fun body_start :: "'w run_start \<Rightarrow> bool \<Rightarrow> 'w daemon option" where
  "body_start (Run_Daemon p d0) flagged = Some (if flagged then deliver Service_Flag d0 else d0)"
| "body_start (Run_Exit rc out w) flagged = None"

text \<open>The start of the subsystems ends with the registration of the stop handler.\<close>

definition registers :: "'w daemon \<Rightarrow> bridge \<Rightarrow> bridge" where
  "registers d b = (if phase d = Listening then daemon_service_set_stop_handler b else b)"

inductive service_step :: "('j, 'w) run_env \<Rightarrow> 'w run_start \<Rightarrow> 'w actor \<Rightarrow> 'w service_run \<Rightarrow> 'w service_run \<Rightarrow> bool" for E body where
  svc_register: "main_at (br s) = Main_Start \<Longrightarrow> service_step E body Service_Thread s (s\<lparr>br := main_register ok (br s)\<rparr>)"
| svc_pending: "main_at (br s) = Main_Registered \<Longrightarrow> service_step E body Service_Thread s (s\<lparr>br := main_pending (br s)\<rparr>)"
| svc_enter: "main_at (br s) = Main_Pending \<Longrightarrow>
    service_step E body Service_Thread s (s\<lparr>br := main_running (br s), dm := body_start body (g_stop_requested (br s))\<rparr>)"
| svc_body: "main_at (br s) = Main_Body \<Longrightarrow> dm s = Some d \<Longrightarrow> \<not> over (phase d) \<Longrightarrow>
    service_step E body Service_Thread s (s\<lparr>br := registers (main_step E d) (br s), dm := Some (main_step E d)\<rparr>)"
| svc_return: "main_at (br s) = Main_Body \<Longrightarrow> dm s = Some d \<Longrightarrow> phase d = Ended rc \<Longrightarrow>
    service_step E body Service_Thread s (s\<lparr>br := (br s)\<lparr>main_at := Main_Returned rc\<rparr>\<rparr>)"
| svc_exit: "main_at (br s) = Main_Body \<Longrightarrow> body = Run_Exit rc out w \<Longrightarrow>
    service_step E body Service_Thread s (s\<lparr>br := (br s)\<lparr>main_at := Main_Returned rc\<rparr>\<rparr>)"
| svc_stopped: "main_at (br s) = Main_Returned rc \<Longrightarrow> service_step E body Service_Thread s (s\<lparr>br := main_stopped rc (br s)\<rparr>)"
| svc_flag: "g_status_handle (br s) \<Longrightarrow> ctrl_at (br s) = Ctrl_Idle \<Longrightarrow>
    service_step E body Control_Handler s (s\<lparr>br := ctrl_flag (br s), dm := map_option (deliver Service_Flag) (dm s)\<rparr>)"
| svc_report: "ctrl_at (br s) = Ctrl_Flagged \<Longrightarrow> service_step E body Control_Handler s (s\<lparr>br := ctrl_report (br s)\<rparr>)"
| svc_call: "ctrl_at (br s) = Ctrl_Reported \<Longrightarrow>
    service_step E body Control_Handler s (s\<lparr>br := ctrl_call (br s), dm := (if g_stop_handler (br s) then map_option (deliver Service_Call) (dm s) else dm s)\<rparr>)"
| svc_event: "e = Terminate \<or> e = Reload \<or> (\<exists>w. e = Outside w) \<Longrightarrow>
    service_step E body (Elsewhere e) s (s\<lparr>dm := map_option (deliver e) (dm s)\<rparr>)"
| svc_wakes: "service_step E body Watchdog s (s\<lparr>dm := map_option watchdog_wakes (dm s)\<rparr>)"
| svc_exits: "dm s = Some d \<Longrightarrow> watchdog_woken d \<Longrightarrow>
    service_step E body Watchdog s (s\<lparr>dm := Some (watchdog_exits E n d), terminated := True\<rparr>)"

text \<open>The process is no more: the watchdog or a signal without a handler has ended it.\<close>

definition gone :: "'w service_run \<Rightarrow> bool" where
  "gone s \<longleftrightarrow> terminated s \<or> (\<exists>d. dm s = Some d \<and> phase d = Killed)"

inductive service_reachable :: "('j, 'w) run_env \<Rightarrow> 'w run_start \<Rightarrow> 'w service_run \<Rightarrow> bool" for E body where
  svc_init: "service_reachable E body \<lparr>br = enter idle_bridge, dm = None, terminated = False\<rparr>"
| svc_step: "service_reachable E body s \<Longrightarrow> \<not> gone s \<Longrightarrow> service_step E body a s s' \<Longrightarrow> service_reachable E body s'"

inductive service_trace :: "('j, 'w) run_env \<Rightarrow> 'w run_start \<Rightarrow> 'w actor list \<Rightarrow> 'w service_run \<Rightarrow> 'w service_run \<Rightarrow> bool" for E body where
  trace_none: "service_trace E body [] s s"
| trace_snoc: "service_trace E body acts s s' \<Longrightarrow> \<not> gone s' \<Longrightarrow> service_step E body a s' s'' \<Longrightarrow> service_trace E body (acts @ [a]) s s''"

inductive_cases service_stepE: "service_step E body a s s'"

lemma svc_stepI: "service_reachable E body s \<Longrightarrow> service_step E body a s s' \<Longrightarrow> \<not> gone s \<Longrightarrow> service_reachable E body s'"
  by (rule svc_step)

section \<open>Projections\<close>

lemma project_bridge:
  assumes "service_step E body a s s'" "bridge_reachable (br s)"
  shows "bridge_reachable (br s')"
proof -
  have keep: "bridge_reachable b" if "bridge_step (br s) b" for b
    using assms(2) that by (rule reach_step)
  show ?thesis
    using assms(1)
    by (rule service_stepE) (use assms(2) in \<open>auto simp: registers_def intro!: keep intro: bridge_step.intros\<close>)
qed

text \<open>The daemon part is reachable from the first cycle.\<close>

definition daemon_ok :: "('j, 'w) run_env \<Rightarrow> 'w run_start \<Rightarrow> 'w service_run \<Rightarrow> bool" where
  "daemon_ok E body s = (case dm s of
     None \<Rightarrow> True
   | Some d \<Rightarrow> \<exists>p d0. body = Run_Daemon p d0 \<and> reachable E d0 d \<and> (g_stop_requested (br s) \<longrightarrow> over (phase d) \<or> stop_requested d))"

lemma main_step_stop: "stop_requested (main_step E d) = stop_requested d"
  by (auto simp: main_step_def split: phase.split sum.split prod.split option.split)

lemma main_step_over: "over (phase d) \<Longrightarrow> main_step E d = d"
  by (auto simp: main_step_def over_def split: phase.splits)

lemma deliver_over: "over (phase d) \<Longrightarrow> over (phase (deliver e d)) \<and> phase (deliver e d) = phase d"
  by (cases e) (auto simp: over_def)
lemma deliver_stop: "stop_requested d \<Longrightarrow> stop_requested (deliver e d)"
  by (cases e) (simp_all add: signal_handler_def service_stop_handler_def request_restart_def)

lemma flag_stop: "over (phase (deliver Service_Flag d)) \<or> stop_requested (deliver Service_Flag d)"
  by (simp add: over_def)

lemma told_deliver: "over (phase d) \<or> stop_requested d \<Longrightarrow> over (phase (deliver e d)) \<or> stop_requested (deliver e d)"
  using deliver_over deliver_stop by blast

lemma told_main: "over (phase d) \<or> stop_requested d \<Longrightarrow> over (phase (main_step E d)) \<or> stop_requested (main_step E d)"
  using main_step_over [of d E] main_step_stop [of E d] by auto

lemma told_exits: "over (phase d) \<or> stop_requested d \<Longrightarrow> over (phase (watchdog_exits E n d)) \<or> stop_requested (watchdog_exits E n d)"
  by (auto simp: watchdog_exits_def Let_def over_def)

lemma told_wakes: "phase (watchdog_wakes d) = phase d" "stop_requested (watchdog_wakes d) = stop_requested d"
  by (simp_all add: watchdog_wakes_def)

lemma finished_exits: "phase d = Ended rc \<Longrightarrow> phase (watchdog_exits E n d) = Ended rc"
  by (simp add: watchdog_exits_def over_def)

lemma daemon_okI:
  assumes "\<And>d. dm s = Some d \<Longrightarrow> \<exists>p d0. body = Run_Daemon p d0 \<and> reachable E d0 d"
    and "\<And>d. dm s = Some d \<Longrightarrow> g_stop_requested (br s) \<Longrightarrow> over (phase d) \<or> stop_requested d"
  shows "daemon_ok E body s"
  using assms by (fastforce simp: daemon_ok_def split: option.split)

lemma daemon_okD:
  assumes "daemon_ok E body s" "dm s = Some d"
  shows "\<exists>p d0. body = Run_Daemon p d0 \<and> reachable E d0 d" "g_stop_requested (br s) \<Longrightarrow> over (phase d) \<or> stop_requested d"
  using assms by (auto simp: daemon_ok_def)

lemma daemon_ok_event:
  assumes "daemon_ok E body s" "g_stop_requested b \<Longrightarrow> g_stop_requested (br s) \<or> e = Service_Flag"
  shows "daemon_ok E body (s\<lparr>br := b, dm := map_option (deliver e) (dm s)\<rparr>)"
proof (rule daemon_okI)
  fix d' assume "dm (s\<lparr>br := b, dm := map_option (deliver e) (dm s)\<rparr>) = Some d'"
  then obtain d where d: "dm s = Some d" "d' = deliver e d" by auto
  show "\<exists>p d0. body = Run_Daemon p d0 \<and> reachable E d0 d'"
    using daemon_okD(1) [OF assms(1) d(1)] d(2) by (auto intro: reach_event)
  assume "g_stop_requested (br (s\<lparr>br := b, dm := map_option (deliver e) (dm s)\<rparr>))"
  then have "g_stop_requested (br s) \<or> e = Service_Flag" using assms(2) by simp
  then show "over (phase d') \<or> stop_requested d'"
    using daemon_okD(2) [OF assms(1) d(1)] told_deliver [of d e] flag_stop [of d] d(2) by blast
qed

lemma daemon_ok_bridge:
  assumes "daemon_ok E body s" "g_stop_requested b \<Longrightarrow> g_stop_requested (br s)"
  shows "daemon_ok E body (s\<lparr>br := b\<rparr>)"
  using assms by (auto simp: daemon_ok_def split: option.splits)

lemma daemon_ok_enter: "daemon_ok E body (s\<lparr>br := b, dm := body_start body (g_stop_requested b)\<rparr>)"
proof (cases body)
  case (Run_Daemon p d0)
  show ?thesis
  proof (cases "g_stop_requested b")
    case True
    with Run_Daemon flag_stop [of d0] show ?thesis by (auto simp: daemon_ok_def simp del: deliver.simps intro: reach_init reach_event)
  qed (use Run_Daemon in \<open>simp add: daemon_ok_def reach_init\<close>)
qed (simp add: daemon_ok_def)

lemma daemon_ok_main:
  assumes "daemon_ok E body s" "dm s = Some d" "g_stop_requested b = g_stop_requested (br s)"
  shows "daemon_ok E body (s\<lparr>br := b, dm := Some (main_step E d)\<rparr>)"
proof (rule daemon_okI)
  show "\<exists>p d0. body = Run_Daemon p d0 \<and> reachable E d0 d'" if "dm (s\<lparr>br := b, dm := Some (main_step E d)\<rparr>) = Some d'" for d'
    using daemon_okD(1) [OF assms(1,2)] that by (auto intro: reach_main)
  show "over (phase d') \<or> stop_requested d'"
    if "dm (s\<lparr>br := b, dm := Some (main_step E d)\<rparr>) = Some d'" "g_stop_requested (br (s\<lparr>br := b, dm := Some (main_step E d)\<rparr>))" for d'
    using daemon_okD(2) [OF assms(1,2)] told_main [of d E] that assms(3) by auto
qed

lemma project_daemon:
  assumes "service_step E body a s s'" "daemon_ok E body s"
  shows "daemon_ok E body s'"
  using assms(1)
proof (rule service_stepE)
  assume "s' = s\<lparr>br := main_running (br s), dm := body_start body (g_stop_requested (br s))\<rparr>"
  moreover have "g_stop_requested (main_running (br s)) = g_stop_requested (br s)" by (simp add: bridge_ops)
  ultimately show ?thesis using daemon_ok_enter [where s = s and b = "main_running (br s)" and E = E and body = body] by simp
next
  fix d assume "dm s = Some d" "s' = s\<lparr>br := registers (main_step E d) (br s), dm := Some (main_step E d)\<rparr>"
  then show ?thesis using daemon_ok_main [OF assms(2)] by (simp add: registers_def bridge_ops)
next
  assume "s' = s\<lparr>br := ctrl_flag (br s), dm := map_option (deliver Service_Flag) (dm s)\<rparr>"
  then show ?thesis using daemon_ok_event [OF assms(2)] by simp
next
  assume "s' = s\<lparr>br := ctrl_call (br s), dm := (if g_stop_handler (br s) then map_option (deliver Service_Call) (dm s) else dm s)\<rparr>"
  then show ?thesis
    using daemon_ok_event [OF assms(2), where b = "ctrl_call (br s)" and e = Service_Call] daemon_ok_bridge [OF assms(2), where b = "ctrl_call (br s)"]
    by (auto simp: bridge_ops)
next
  fix e :: "'b event" assume "s' = s\<lparr>dm := map_option (deliver e) (dm s)\<rparr>"
  then show ?thesis using daemon_ok_event [OF assms(2), where b = "br s" and e = e] by simp
next
  assume "s' = s\<lparr>dm := map_option watchdog_wakes (dm s)\<rparr>"
  then show ?thesis using assms(2) by (auto simp: daemon_ok_def told_wakes split: option.splits intro: reach_wakes)
next
  fix d n assume "dm s = Some d" "s' = s\<lparr>dm := Some (watchdog_exits E n d), terminated := True\<rparr>"
  then show ?thesis using assms(2) by (auto simp: daemon_ok_def told_exits intro: reach_exits)
qed (use assms(2) in \<open>auto simp: bridge_ops intro!: daemon_ok_bridge\<close>)
section \<open>The end\<close>

definition finished :: "'w run_start \<Rightarrow> 'w service_run \<Rightarrow> int \<Rightarrow> bool" where
  "finished body s rc = (case body of
     Run_Daemon p d0 \<Rightarrow> \<exists>d. dm s = Some d \<and> phase d = Ended rc
   | Run_Exit rc' out w \<Rightarrow> rc = rc')"

definition tells :: "scm_status \<Rightarrow> int \<Rightarrow> bool" where
  "tells r rc \<longleftrightarrow> dwServiceSpecificExitCode r = word_of_int rc \<and>
     dwWin32ExitCode r = (if word_of_int rc = (0 :: u32) then 0 else ERROR_SERVICE_SPECIFIC_ERROR)"

definition ends_ok :: "'w run_start \<Rightarrow> 'w service_run \<Rightarrow> bool" where
  "ends_ok body s \<longleftrightarrow>
     (main_at (br s) \<in> {Main_Start, Main_Registered, Main_Pending} \<longrightarrow> dm s = None) \<and>
     (\<forall>rc. main_at (br s) = Main_Returned rc \<longrightarrow> finished body s rc) \<and>
     (\<forall>r \<in> set (reports (br s)). dwCurrentState r = STOPPED \<longrightarrow> (\<exists>rc. finished body s rc \<and> tells r rc))"

lemma finished_deliver: "phase d = Ended rc \<Longrightarrow> phase (deliver e d) = Ended rc"
  using deliver_over [of d e] by (simp add: over_def)

lemma finished_main: "phase d = Ended rc \<Longrightarrow> main_step E d = d"
  using main_step_over [of d E] by (simp add: over_def)

lemma finished_step:
  assumes "service_step E body a s s'" "main_at (br s) = Main_Pending \<Longrightarrow> dm s = None" "finished body s rc"
  shows "finished body s' rc"
proof (cases body)
  case (Run_Daemon p d0)
  with assms(3) obtain d where d: "dm s = Some d" "phase d = Ended rc" by (auto simp: finished_def)
  then have "main_at (br s) \<noteq> Main_Pending" using assms(2) by auto
  with assms(1) have "\<exists>d. dm s' = Some d \<and> phase d = Ended rc"
    by (elim service_stepE) (use d finished_deliver [OF d(2)] finished_main [OF d(2), of E] finished_exits [OF d(2), of E] in \<open>auto simp: told_wakes simp del: deliver.simps\<close>)
  with Run_Daemon show ?thesis by (simp add: finished_def)
qed (use assms(3) in \<open>simp add: finished_def\<close>)

text \<open>Only the last action of the service thread reports STOPPED.\<close>

lemma new_stopped:
  assumes "service_step E body a s s'" "g_run_body (br s)" "r \<in> set (reports (br s'))" "dwCurrentState r = STOPPED"
  shows "r \<in> set (reports (br s)) \<or> (\<exists>rc. main_at (br s) = Main_Returned rc \<and> tells r rc)"
  using assms(1)
  by (rule service_stepE)
    (use assms(2-4) in \<open>auto simp: bridge_ops registers_def tells_def split: if_splits\<close>)

lemma new_returned:
  assumes "service_step E body a s s'" "main_at (br s') = Main_Returned rc" "main_at (br s) \<noteq> Main_Returned rc" "g_run_body (br s)"
    and "daemon_ok E body s"
  shows "finished body s rc"
  using assms(1)
proof (rule service_stepE)
  fix d rc' assume "dm s = Some d" "phase d = Ended rc'" "s' = s\<lparr>br := (br s)\<lparr>main_at := Main_Returned rc'\<rparr>\<rparr>"
  then show ?thesis using daemon_okD(1) [OF assms(5)] assms(2) by (auto simp: finished_def)
next
  fix rc' out w assume "body = Run_Exit rc' out w" "s' = s\<lparr>br := (br s)\<lparr>main_at := Main_Returned rc'\<rparr>\<rparr>"
  then show ?thesis using assms(2) by (simp add: finished_def)
qed (use assms(2-4) in \<open>auto simp: bridge_ops registers_def split: if_splits\<close>)

lemma early_no_daemon:
  assumes "service_step E body a s s'" "ends_ok body s" "g_run_body (br s)" "main_at (br s') \<in> {Main_Start, Main_Registered, Main_Pending}"
  shows "dm s' = None"
  using assms(1)
  by (rule service_stepE) (use assms(2-4) in \<open>auto simp: ends_ok_def bridge_ops registers_def split: if_splits\<close>)

lemma ends_ok_step:
  assumes "service_step E body a s s'" "ends_ok body s" "bridge_reachable (br s)" "daemon_ok E body s"
  shows "ends_ok body s'"
proof -
  have run: "g_run_body (br s)" using reachable_inv [OF assms(3)] by (simp add: bridge_inv_def)
  have keep: "finished body s' rc" if "finished body s rc" for rc
    using assms(2) that by (intro finished_step [OF assms(1)]) (simp_all add: ends_ok_def)
  have "finished body s' rc" if "main_at (br s') = Main_Returned rc" for rc
    using that assms(2) new_returned [OF assms(1) that _ run assms(4)] by (auto simp: ends_ok_def intro: keep)
  moreover have "\<exists>rc. finished body s' rc \<and> tells r rc" if r: "r \<in> set (reports (br s'))" and stopped: "dwCurrentState r = STOPPED" for r
    using new_stopped [OF assms(1) run r stopped]
  proof
    assume "r \<in> set (reports (br s))"
    then obtain rc where "finished body s rc" "tells r rc" using assms(2) stopped unfolding ends_ok_def by blast
    with keep show ?thesis by blast
  next
    assume "\<exists>rc. main_at (br s) = Main_Returned rc \<and> tells r rc"
    then obtain rc where "finished body s rc" "tells r rc" using assms(2) unfolding ends_ok_def by blast
    with keep show ?thesis by blast
  qed
  ultimately show ?thesis using early_no_daemon [OF assms(1,2) run] by (simp add: ends_ok_def)
qed

lemma service_invariant:
  "service_reachable E body s \<Longrightarrow> bridge_reachable (br s) \<and> daemon_ok E body s \<and> ends_ok body s"
proof (induction rule: service_reachable.induct)
  case svc_init
  then show ?case using reach_enter by (simp add: daemon_ok_def ends_ok_def enter_def idle_bridge_def)
next
  case (svc_step s a s')
  then show ?case by (blast intro: project_bridge project_daemon ends_ok_step)
qed
section \<open>Properties\<close>

text \<open>C10. The daemon under the Windows service manager, for every interleaving of the service thread, the control
  handler, reloads, console signals and the watchdog: the service thread reports its three states in order; a
  daemon whose stop is reported as pending has been told to stop, or is over; and STOPPED is reported only
  after the daemon has ended by itself, with the exit code it has ended with, 0 or 1, its PID file gone unless
  the PID file could not be opened or not be removed, and nothing of it left when the code is 0.\<close>

theorem service_daemon_composes:
  assumes "run_offsd E p w program argv = Run_Daemon p' d0" and "service_reachable E (Run_Daemon p' d0) s"
  shows "prefix (own_reports (br s)) [START_PENDING, RUNNING, STOPPED] \<and>
    (STOP_PENDING \<in> dwCurrentState ` set (reports (br s)) \<and> dm s = Some d \<longrightarrow> over (phase d) \<or> stop_requested d) \<and>
    (r \<in> set (reports (br s)) \<and> dwCurrentState r = STOPPED \<longrightarrow>
       (\<exists>d rc. dm s = Some d \<and> phase d = Ended rc \<and> rc \<in> {0, 1} \<and> dwServiceSpecificExitCode r = word_of_int rc \<and>
          (dwWin32ExitCode r = 0 \<longleftrightarrow> rc = 0) \<and> (pid_gone d \<or> pid_trouble E d) \<and> (rc = 0 \<longrightarrow> alive (calls d) {} = {})))"
proof -
  from service_invariant [OF assms(2)] have b: "bridge_inv (br s)" and dok: "daemon_ok E (Run_Daemon p' d0) s" and e: "ends_ok (Run_Daemon p' d0) s"
    by (auto intro: reachable_inv)
  have "prefix (own_reports (br s)) [START_PENDING, RUNNING, STOPPED]"
    using b by (cases "main_at (br s)") (auto simp: bridge_inv_def own_reports_def)
  moreover have "over (phase d) \<or> stop_requested d" if "STOP_PENDING \<in> dwCurrentState ` set (reports (br s))" "dm s = Some d"
    using that(1) b by (intro daemon_okD(2) [OF dok that(2)]) (simp add: bridge_inv_def)
  moreover have "\<exists>d rc. dm s = Some d \<and> phase d = Ended rc \<and> rc \<in> {0, 1} \<and> dwServiceSpecificExitCode r = word_of_int rc \<and>
      (dwWin32ExitCode r = 0 \<longleftrightarrow> rc = 0) \<and> (pid_gone d \<or> pid_trouble E d) \<and> (rc = 0 \<longrightarrow> alive (calls d) {} = {})"
    if r: "r \<in> set (reports (br s))" "dwCurrentState r = STOPPED"
  proof -
    from e r obtain rc where "finished (Run_Daemon p' d0) s rc" and t: "tells r rc" unfolding ends_ok_def by blast
    then obtain d where d: "dm s = Some d" "phase d = Ended rc" by (auto simp: finished_def)
    from daemon_okD(1) [OF dok d(1)] have "reachable E d0 d" by auto
    moreover from assms(1) obtain a cfg w' where "d0 = first_cycle (files_at_start E) a cfg w'" by (rule run_daemon_first)
    ultimately have "consistent E d" by (auto intro: reachable_consistent first_consistent)
    then have "(pid_gone d \<or> pid_trouble E d) \<and> (rc = 0 \<and> tidy d {} \<or> rc = 1)" using d(2) by (auto simp: consistent_def)
    with d t show ?thesis by (auto simp: tells_def tidy_def ERROR_SERVICE_SPECIFIC_ERROR_def)
  qed
  ultimately show ?thesis by blast
qed

section \<open>The stop in every interleaving\<close>

text \<open>The manager has been told that the service has stopped without an error.\<close>

definition told_stopped :: "'w service_run \<Rightarrow> bool" where
  "told_stopped s \<longleftrightarrow> (\<exists>r \<in> set (reports (br s)). dwCurrentState r = STOPPED \<and> dwWin32ExitCode r = 0)"

text \<open>The service thread after \<open>k\<close> steps of the stop.\<close>

definition stop_at :: "nat \<Rightarrow> 'w service_run \<Rightarrow> bool" where
  "stop_at k s \<longleftrightarrow> g_status_handle (br s) \<and> g_run_body (br s) \<and> (\<exists>d. dm s = Some d \<and>
     (main_at (br s) = Main_Body \<and> k \<le> 3 \<and> stopping (3 - k) d \<and> (phase d = Ended 0 \<longrightarrow> k = 3) \<or>
      main_at (br s) = Main_Returned 0 \<and> k = 4 \<and> phase d = Ended 0 \<or>
      main_at (br s) = Main_Done \<and> k = 5 \<and> phase d = Ended 0 \<and> told_stopped s))"

lemma stopping_exact: "stopping (3 - k) d \<Longrightarrow> k \<le> 3 \<Longrightarrow> phase d \<noteq> Ended 0 \<Longrightarrow> k < 3 \<and> \<not> over (phase d)"
  by (auto simp: stopping_def over_def)

lemma stopping_late: "stopping (3 - k) d \<Longrightarrow> phase (main_step E d) = Ended 0 \<Longrightarrow> phase d \<noteq> Ended 0 \<Longrightarrow> k = 2"
  by (auto simp: stopping_def main_step_def split: if_splits prod.splits)

lemma deliver_ended: "phase (deliver e d) = Ended rc \<Longrightarrow> phase d = Ended rc"
  by (cases e) (auto simp: signal_handler_def service_stop_handler_def request_restart_def split: if_splits)

lemma told_stopped_grows: "set (reports (br s)) \<subseteq> set (reports (br s')) \<Longrightarrow> told_stopped s \<Longrightarrow> told_stopped s'"
  by (auto simp: told_stopped_def)

text \<open>An event and a step of the handler leave the stop where it is.\<close>

lemma stop_at_cong:
  assumes "stop_at k s" "dm s = Some d" "dm s' = Some d'" "stopping (3 - k) d \<Longrightarrow> stopping (3 - k) d'"
    and "phase d' = Ended 0 \<longleftrightarrow> phase d = Ended 0" "set (reports (br s)) \<subseteq> set (reports (br s'))"
    and "main_at (br s') = main_at (br s)" "g_status_handle (br s') = g_status_handle (br s)" "g_run_body (br s') = g_run_body (br s)"
  shows "stop_at k s'"
proof -
  note told = told_stopped_grows [OF assms(6)]
  have h: "g_status_handle (br s)" "g_run_body (br s)" using assms(1) by (simp_all add: stop_at_def)
  from assms(1,2) consider
      (body) "main_at (br s) = Main_Body" "k \<le> 3" "stopping (3 - k) d" "phase d = Ended 0 \<longrightarrow> k = 3"
    | (returned) "main_at (br s) = Main_Returned 0" "k = 4" "phase d = Ended 0"
    | (reported) "main_at (br s) = Main_Done" "k = 5" "phase d = Ended 0" "told_stopped s"
    by (auto simp: stop_at_def)
  then show ?thesis
    by cases (simp_all add: stop_at_def h assms(3-5,7-9) told)
qed

lemma stop_at_event:
  assumes "stop_at k s" "e \<noteq> Reload" "main_at b = main_at (br s)" "g_status_handle b = g_status_handle (br s)"
    "g_run_body b = g_run_body (br s)" "set (reports (br s)) \<subseteq> set (reports b)"
  shows "stop_at k (s\<lparr>br := b, dm := map_option (deliver e) (dm s)\<rparr>)"
proof -
  from assms(1) obtain d where d: "dm s = Some d" by (auto simp: stop_at_def)
  have "phase (deliver e d) = Ended 0 \<longleftrightarrow> phase d = Ended 0" using deliver_ended finished_deliver by blast
  then show ?thesis
    by (intro stop_at_cong [OF assms(1) d, where d' = "deliver e d"] stopping_event [OF _ assms(2)])
      (simp_all add: d assms(3-6) del: deliver.simps)
qed

lemma stop_at_bridge:
  assumes "stop_at k s" "main_at b = main_at (br s)" "g_status_handle b = g_status_handle (br s)"
    "g_run_body b = g_run_body (br s)" "set (reports (br s)) \<subseteq> set (reports b)"
  shows "stop_at k (s\<lparr>br := b\<rparr>)"
proof -
  from assms(1) obtain d where d: "dm s = Some d" by (auto simp: stop_at_def)
  show ?thesis by (rule stop_at_cong [OF assms(1) d, where d' = d]) (simp_all add: d assms(2-5))
qed

lemma stop_at_thread:
  assumes "stop_at k s" "service_step E (Run_Daemon p d0) Service_Thread s s'"
  shows "stop_at (Suc k) s'"
  using assms(2)
proof (rule service_stepE)
  fix d assume "main_at (br s) = Main_Body" and d: "dm s = Some d" "\<not> over (phase d)"
    and s': "s' = s\<lparr>br := registers (main_step E d) (br s), dm := Some (main_step E d)\<rparr>"
  with assms(1) have st: "k \<le> 3" "stopping (3 - k) d" "phase d \<noteq> Ended 0" "g_status_handle (br s)" "g_run_body (br s)"
    by (auto simp: stop_at_def over_def)
  have "k < 3" using stopping_exact st by blast
  moreover have "stopping (3 - Suc k) (main_step E d)" using stopping_main [OF st(2), of E] by simp
  moreover have "phase (main_step E d) = Ended 0 \<longrightarrow> Suc k = 3" using stopping_late [OF st(2) _ st(3), of E] by auto
  ultimately show ?thesis
    using st \<open>main_at (br s) = Main_Body\<close> by (simp add: s' stop_at_def registers_def bridge_ops)
next
  fix d rc assume "main_at (br s) = Main_Body" "dm s = Some d" "phase d = Ended rc"
    and s': "s' = s\<lparr>br := (br s)\<lparr>main_at := Main_Returned rc\<rparr>\<rparr>"
  moreover from this assms(1) have "rc = 0" "k = 3" by (auto simp: stop_at_def stopping_def)
  ultimately show ?thesis using assms(1) by (simp add: stop_at_def)
next
  fix rc assume "main_at (br s) = Main_Returned rc" and s': "s' = s\<lparr>br := main_stopped rc (br s)\<rparr>"
  moreover from this assms(1) have "rc = 0" "k = 4" "g_status_handle (br s)" by (auto simp: stop_at_def)
  ultimately show ?thesis using assms(1) by (auto simp: stop_at_def told_stopped_def bridge_ops)
qed (use assms(1) in \<open>auto simp: stop_at_def\<close>)

lemma stop_at_other:
  assumes "stop_at k s" "service_step E (Run_Daemon p d0) a s s'" "a \<noteq> Service_Thread" "a \<noteq> Elsewhere Reload"
  shows "terminated s' \<or> stop_at k s'"
  using assms(2)
proof (rule service_stepE)
  assume s': "s' = s\<lparr>br := ctrl_flag (br s), dm := map_option (deliver Service_Flag) (dm s)\<rparr>"
  have "stop_at k s'" unfolding s' by (rule stop_at_event [OF assms(1)]) (auto simp: bridge_ops)
  then show ?thesis ..
next
  assume s': "s' = s\<lparr>br := ctrl_report (br s)\<rparr>"
  have "stop_at k s'" unfolding s' by (rule stop_at_bridge [OF assms(1)]) (auto simp: bridge_ops)
  then show ?thesis ..
next
  assume s': "s' = s\<lparr>br := ctrl_call (br s), dm := (if g_stop_handler (br s) then map_option (deliver Service_Call) (dm s) else dm s)\<rparr>"
  have "stop_at k (s\<lparr>br := ctrl_call (br s), dm := map_option (deliver Service_Call) (dm s)\<rparr>)"
    by (rule stop_at_event [OF assms(1)]) (auto simp: bridge_ops)
  moreover have "stop_at k (s\<lparr>br := ctrl_call (br s)\<rparr>)" by (rule stop_at_bridge [OF assms(1)]) (auto simp: bridge_ops)
  ultimately have "stop_at k s'" unfolding s' by (cases "g_stop_handler (br s)") (simp_all del: deliver.simps)
  then show ?thesis ..
next
  fix e assume "a = Elsewhere e" "s' = s\<lparr>dm := map_option (deliver e) (dm s)\<rparr>"
  moreover from this assms(4) have "stop_at k (s\<lparr>br := br s, dm := map_option (deliver e) (dm s)\<rparr>)"
    by (intro stop_at_event [OF assms(1)]) auto
  ultimately show ?thesis by simp
next
  assume s': "s' = s\<lparr>dm := map_option watchdog_wakes (dm s)\<rparr>"
  from assms(1) obtain d where d: "dm s = Some d" by (auto simp: stop_at_def)
  have "stop_at k s'"
    by (rule stop_at_cong [OF assms(1) d, where d' = "watchdog_wakes d"]) (simp_all add: s' d told_wakes stopping_wakes)
  then show ?thesis ..
qed (use assms(3) in auto)

lemma stop_at_alive: "stop_at k s \<Longrightarrow> dm s = Some d \<Longrightarrow> phase d \<noteq> Killed"
  by (auto simp: stop_at_def stopping_def)

lemma stop_at_progress:
  assumes "stop_at k s" "k < 5"
  shows "\<exists>s'. service_step E body Service_Thread s s'"
proof -
  from assms obtain d where d: "dm s = Some d"
    and at: "main_at (br s) = Main_Body \<and> k \<le> 3 \<and> stopping (3 - k) d \<or> main_at (br s) = Main_Returned 0"
    by (auto simp: stop_at_def)
  show ?thesis
  proof (cases "main_at (br s) = Main_Body")
    case True
    with at have st: "k \<le> 3" "stopping (3 - k) d" by auto
    show ?thesis
    proof (cases "phase d = Ended 0")
      case False
      with stopping_exact [OF st(2,1)] have "\<not> over (phase d)" by blast
      with svc_body [OF True d, of E body] show ?thesis by blast
    qed (use svc_return [OF True d, of 0 E body] in blast)
  next
    case False
    with at svc_stopped [of s 0 E body] show ?thesis by blast
  qed
qed

lemma stop_trace:
  assumes "service_trace E (Run_Daemon p d0) acts s s'" "stop_at 0 s" "Elsewhere Reload \<notin> set acts"
  shows "terminated s' \<or> stop_at (count_list acts Service_Thread) s'"
  using assms
proof (induction rule: service_trace.induct)
  case (trace_snoc acts s s' a s'')
  then have "stop_at (count_list acts Service_Thread) s'" by (auto simp: gone_def)
  with trace_snoc.prems(2) show ?case
    using stop_at_thread [of _ s' E p d0 s''] stop_at_other [of _ s' E p d0 a s''] trace_snoc.hyps(3)
    by (cases "a = Service_Thread") auto
qed simp

text \<open>Only the watchdog ends the process.\<close>

lemma trace_terminated:
  assumes "service_trace E body acts s s'" "terminated s'"
  shows "terminated s \<or> Watchdog \<in> set acts"
  using assms
proof (induction rule: service_trace.induct)
  case (trace_snoc acts s s' a s'')
  from trace_snoc.hyps(3) trace_snoc.prems have "terminated s' \<or> a = Watchdog" by (auto elim: service_stepE)
  with trace_snoc.IH show ?case by auto
qed simp

lemma stop_at_start:
  assumes "service_reachable E (Run_Daemon p (first_cycle fs a cfg w)) s"
    and "g_stop_requested (br s)" "main_at (br s) = Main_Body" "dm s = Some d" "phase d = Polling" "\<not> restart_requested d"
  shows "stop_at 0 s"
proof -
  from service_invariant [OF assms(1)]
  have b: "bridge_inv (br s)" and dok: "daemon_ok E (Run_Daemon p (first_cycle fs a cfg w)) s" by (auto intro: reachable_inv)
  from daemon_okD(2) [OF dok assms(4)] assms(2,5) have stop: "stop_requested d" by (simp add: over_def)
  from daemon_okD(1) [OF dok assms(4)] have "reachable E (first_cycle fs a cfg w) d" by auto
  then have "consistent E d" by (rule reachable_consistent) (rule first_consistent)
  then have "g_node d" using assms(5) by (simp add: consistent_def up_def)
  moreover have "g_status_handle (br s)" "g_run_body (br s)" using b assms(3) by (auto simp: bridge_inv_def)
  ultimately show ?thesis using stop assms(3-6) by (simp add: stop_at_def stopping_def)
qed

text \<open>C11. A stop by the service manager stops the service, in every interleaving. Once the flag is raised and
  while the daemon is in its main loop with no reload requested, follow any sequence of steps of the service thread, the
  control handler, the watchdog, console signals and changes of the outside world in which no reload is requested:
  as long as the service thread has made fewer than five of them it can make another one; after five (it has
  left the loop, the teardown has returned, it has decided to end, it has returned, it has reported) the
  manager has been told STOPPED without an error; the only exception is that the watchdog has ended the process, which
  then never reports STOPPED. That the thread gets to make its steps, and so that the teardown returns before the watchdog
  acts, is not claimed. The handler may still report STOP_PENDING after STOPPED.\<close>

theorem service_stop_stops:
  assumes "service_reachable E (Run_Daemon p (first_cycle fs a cfg w)) s" "\<not> gone s"
    and "g_stop_requested (br s)" "main_at (br s) = Main_Body" "dm s = Some d" "phase d = Polling" "\<not> restart_requested d"
    and "service_trace E (Run_Daemon p (first_cycle fs a cfg w)) acts s s'" "Elsewhere Reload \<notin> set acts"
  shows "terminated s' \<and> Watchdog \<in> set acts \<or>
    (if count_list acts Service_Thread < 5
     then \<exists>s''. service_step E (Run_Daemon p (first_cycle fs a cfg w)) Service_Thread s' s''
     else told_stopped s')"
proof (cases "terminated s'")
  case True
  with trace_terminated [OF assms(8)] assms(2) show ?thesis by (auto simp: gone_def)
next
  case False
  with stop_trace [OF assms(8) stop_at_start [OF assms(1,3-7)] assms(9)]
  have at: "stop_at (count_list acts Service_Thread) s'" by blast
  show ?thesis
  proof (cases "count_list acts Service_Thread < 5")
    case True
    with stop_at_progress [OF at True, of E "Run_Daemon p (first_cycle fs a cfg w)"] show ?thesis by simp
  qed (use at in \<open>auto simp: stop_at_def\<close>)
qed

text \<open>Five steps of the service thread alone are such a sequence.\<close>

lemma count_replicate: "count_list (replicate n x) x = n"
  by (induction n) simp_all

lemma stop_path:
  assumes "stop_at 0 s" "\<not> gone s" "n \<le> 5"
  shows "\<exists>s'. service_trace E (Run_Daemon p d0) (replicate n Service_Thread) s s' \<and> \<not> gone s'"
  using assms(3)
proof (induction n)
  case 0
  then show ?case using assms(2) trace_none by force
next
  case (Suc n)
  then obtain s1 where s1: "service_trace E (Run_Daemon p d0) (replicate n Service_Thread) s s1" "\<not> gone s1" by auto
  have at: "stop_at n s1" using stop_trace [OF s1(1) assms(1)] s1(2) by (simp add: gone_def count_replicate)
  with Suc.prems obtain s2 where s2: "service_step E (Run_Daemon p d0) Service_Thread s1 s2"
    using stop_at_progress [of n s1] by fastforce
  have "terminated s2 = terminated s1" using s2 by (rule service_stepE) auto
  then have "\<not> gone s2" using s1(2) stop_at_alive [OF stop_at_thread [OF at s2]] by (auto simp: gone_def)
  with trace_snoc [OF s1 s2] show ?case by (auto simp: replicate_append_same)
qed

section \<open>A run\<close>

lemma service_starts:
  "service_reachable E (Run_Daemon p d0)
     \<lparr>br = main_running (main_pending (main_register True (enter idle_bridge))), dm = Some d0, terminated = False\<rparr>"
proof -
  let ?B = "Run_Daemon p d0"
  let ?s0 = "\<lparr>br = enter idle_bridge, dm = None, terminated = False\<rparr>"
  let ?s1 = "\<lparr>br = main_register True (enter idle_bridge), dm = None, terminated = False\<rparr>"
  let ?s2 = "\<lparr>br = main_pending (main_register True (enter idle_bridge)), dm = None, terminated = False\<rparr>"
  note pcs = bridge_ops enter_def idle_bridge_def
  have "service_step E ?B Service_Thread ?s0 ?s1" using svc_register [of ?s0 E ?B True] by (simp add: enter_def idle_bridge_def)
  with svc_init have "service_reachable E ?B ?s1" by (rule svc_stepI) (simp add: gone_def)
  moreover have "service_step E ?B Service_Thread ?s1 ?s2" using svc_pending [of ?s1 E ?B] by (simp add: pcs)
  ultimately have "service_reachable E ?B ?s2" by (rule svc_stepI) (simp add: gone_def)
  moreover have "service_step E ?B Service_Thread ?s2 \<lparr>br = main_running (br ?s2), dm = Some d0, terminated = False\<rparr>"
    using svc_enter [of ?s2 E ?B] by (simp add: pcs)
  ultimately have "service_reachable E ?B \<lparr>br = main_running (br ?s2), dm = Some d0, terminated = False\<rparr>"
    by (rule svc_stepI) (simp add: gone_def)
  then show ?thesis by simp
qed

lemma service_body_runs:
  assumes "service_reachable E body s" "\<not> terminated s" "main_at (br s) = Main_Body" "dm s = Some d"
    and "\<And>i. i < n \<Longrightarrow> \<not> over (phase ((main_step E ^^ i) d))"
  shows "\<exists>b. service_reachable E body (s\<lparr>br := b, dm := Some ((main_step E ^^ n) d)\<rparr>) \<and> main_at b = Main_Body \<and> g_stop_requested b = g_stop_requested (br s)"
  using assms(5)
proof (induction n)
  case 0
  have "s\<lparr>br := br s, dm := Some d\<rparr> = s" using assms(4) by (cases s) simp
  with assms(1,3) show ?case by (intro exI [of _ "br s"]) (simp only: funpow_0 simp_thms)
next
  case (Suc n)
  then obtain b where b: "service_reachable E body (s\<lparr>br := b, dm := Some ((main_step E ^^ n) d)\<rparr>)" "main_at b = Main_Body" "g_stop_requested b = g_stop_requested (br s)"
    by auto
  let ?s = "s\<lparr>br := b, dm := Some ((main_step E ^^ n) d)\<rparr>"
  have live: "\<not> over (phase ((main_step E ^^ n) d))" using Suc.prems by simp
  then have "\<not> gone ?s" using assms(2) by (auto simp: gone_def over_def)
  from svc_step [OF b(1) this svc_body] b(2) live
  have "service_reachable E body (s\<lparr>br := registers (main_step E ((main_step E ^^ n) d)) b, dm := Some ((main_step E ^^ Suc n) d)\<rparr>)" by simp
  moreover have "main_at (registers x b) = Main_Body" "g_stop_requested (registers x b) = g_stop_requested (br s)" for x
    using b(2,3) by (simp_all add: registers_def bridge_ops)
  ultimately show ?case by blast
qed

text \<open>The demonstration daemon, flagged before it starts, reaches its loop in three steps.\<close>

abbreviation demo_first :: "unit daemon" where
  "demo_first \<equiv> first_cycle (\<lambda>_. None) demo_args None ()"

lemma demo_polls:
  "phase ((main_step (demo_run demo_json None) ^^ 3) (deliver Service_Flag demo_first)) = Polling"
  "\<not> restart_requested ((main_step (demo_run demo_json None) ^^ 3) (deliver Service_Flag demo_first))"
  "i < 3 \<Longrightarrow> \<not> over (phase ((main_step (demo_run demo_json None) ^^ i) (deliver Service_Flag demo_first)))"
proof -
  let ?E = "demo_run demo_json None"
  let ?d = "demo_first\<lparr>stop_requested := True\<rparr>"
  have d: "deliver Service_Flag demo_first = ?d" by (simp add: first_cycle_def over_def)
  have "\<exists>cs args c. startup (start_env ?E 0) (cur_args ?d) None = (cs, Some (args, c))"
    using demo_restarts(1) by (simp add: demo_reloading_def first_cycle_def demo_run_def)
  then obtain cs args c where s: "startup (start_env ?E 0) (cur_args ?d) None = (cs, Some (args, c))" by blast
  have "\<exists>fs. main_step ?E ?d = ?d\<lparr>phase := Starting None, pid_files := fs\<rparr>"
    by (cases "arg_pid_file (cur_args ?d)") (auto simp: main_step_def first_cycle_def write_pid_file_def demo_run_def)
  then obtain fs where s1: "main_step ?E ?d = ?d\<lparr>phase := Starting None, pid_files := fs\<rparr>" by blast
  have s2: "phase (main_step ?E (main_step ?E ?d)) = Listening" "\<not> restart_requested (main_step ?E (main_step ?E ?d))"
    using s unfolding s1 by (simp_all add: main_step_def first_cycle_def)
  have s3: "phase (main_step ?E x) = Polling \<and> restart_requested (main_step ?E x) = restart_requested x" if "phase x = Listening" for x
    using that by (simp add: main_step_def)
  show "phase ((main_step ?E ^^ 3) (deliver Service_Flag demo_first)) = Polling"
    "\<not> restart_requested ((main_step ?E ^^ 3) (deliver Service_Flag demo_first))"
    using s2 s3 [OF s2(1)] unfolding d by (simp_all add: eval_nat_numeral)
  show "\<not> over (phase ((main_step ?E ^^ i) (deliver Service_Flag demo_first)))" if "i < 3"
  proof -
    consider "i = 0" | "i = 1" | "i = 2" using \<open>i < 3\<close> by linarith
    then show ?thesis
      using s2(1) unfolding d by cases (simp add: over_def first_cycle_def, simp add: s1 over_def, simp add: eval_nat_numeral over_def)
  qed
qed

theorem service_stop_stops_witness:
  "\<exists>s d s'. dm s = Some d \<and> phase d = Polling \<and>
     service_trace (demo_run demo_json None) (Run_Daemon (demo_proc []) demo_first) (replicate 5 Service_Thread) s s' \<and> told_stopped s'"
proof -
  let ?E = "demo_run demo_json None"
  let ?B = "Run_Daemon (demo_proc []) demo_first"
  let ?b = "main_running (main_pending (main_register True (enter idle_bridge)))"
  let ?s = "\<lparr>br = ctrl_flag ?b, dm = Some (deliver Service_Flag demo_first), terminated = False\<rparr>"
  let ?d = "(main_step ?E ^^ 3) (deliver Service_Flag demo_first)"
  note pcs = bridge_ops enter_def idle_bridge_def
  have "service_step ?E ?B Control_Handler \<lparr>br = ?b, dm = Some demo_first, terminated = False\<rparr> ?s"
    using svc_flag [of "\<lparr>br = ?b, dm = Some demo_first, terminated = False\<rparr>" ?E ?B] by (simp add: pcs)
  from svc_step [OF service_starts _ this] have r: "service_reachable ?E ?B ?s" by (simp add: gone_def first_cycle_def)
  have "main_at (br ?s) = Main_Body" "g_stop_requested (br ?s)" by (simp_all add: pcs)
  with service_body_runs [OF r, of "deliver Service_Flag demo_first" 3] demo_polls(3) obtain b where
    b: "service_reachable ?E ?B (?s\<lparr>br := b, dm := Some ?d\<rparr>)" "main_at b = Main_Body" "g_stop_requested b"
    by (auto simp del: deliver.simps)
  let ?t = "?s\<lparr>br := b, dm := Some ?d\<rparr>"
  have live: "\<not> gone ?t" using demo_polls(1) by (simp add: gone_def del: deliver.simps)
  have at: "stop_at 0 ?t" by (rule stop_at_start [OF b(1)]) (use b demo_polls in \<open>simp_all del: deliver.simps\<close>)
  obtain s' where s': "service_trace ?E ?B (replicate 5 Service_Thread) ?t s'" "\<not> gone s'"
    using stop_path [OF at live, of 5 ?E] by auto
  have "terminated s' \<and> Watchdog \<in> set (replicate 5 Service_Thread :: unit actor list) \<or>
      (if count_list (replicate 5 Service_Thread :: unit actor list) Service_Thread < 5
       then \<exists>s''. service_step ?E ?B Service_Thread s' s'' else told_stopped s')"
    by (rule service_stop_stops [OF b(1) live _ _ _ _ _ s'(1), where d = ?d]) (use b demo_polls in \<open>simp_all del: deliver.simps\<close>)
  moreover have "count_list (replicate 5 Service_Thread :: unit actor list) Service_Thread = 5" by (simp add: eval_nat_numeral)
  ultimately have "told_stopped s'" by simp
  with s' demo_polls(1) show ?thesis by (intro exI [of _ ?t] exI [of _ ?d] exI [of _ s']) (simp del: deliver.simps)
qed

text \<open>A daemon whose PID file cannot be written ends at once, and the manager is told.\<close>

definition demo_unwritable :: "(json, unit) run_env" where
  "demo_unwritable = (demo_run demo_json None)\<lparr>pid_open_error := \<lambda>_ _. Some ''Permission denied''\<rparr>"

lemma demo_unwritable_runs:
  "\<exists>d0. run_offsd demo_unwritable (demo_proc []) () ''offsd'' [''--foreground''] = Run_Daemon (demo_proc []) d0 \<and>
     phase (main_step demo_unwritable d0) = Ended 1"
proof -
  obtain args where args: "parse_args (the_host (demo_run demo_json None)) () 4 ''offsd'' [''--foreground'']
      (default_args (default_config_file (demo_run demo_json None) ())) = Inr args" "arg_foreground args"
      "arg_cache_dir args = Some ''/srv/cache''" "arg_config_dir args = None" "arg_pid_file args = Some ''/run/o.pid''"
    using demo_run_parsed by blast
  have env: "the_host demo_unwritable = the_host (demo_run demo_json None)" "is_regular demo_unwritable = is_regular (demo_run demo_json None)"
    by (simp_all add: demo_unwritable_def)
  have same: "nprocs demo_unwritable = 4" "default_config_file demo_unwritable = default_config_file (demo_run demo_json None)"
    by (simp add: demo_unwritable_def demo_run_def) (simp add: default_config_file_def env fun_eq_iff split: option.split)
  have dd: "offs_default_dirs_get (the_host (demo_run demo_json None)) () = Some (''/etc/offs'', ''/var/cache/offs'')"
    by (simp add: demo_run_def json_host_def)
  have "load_pending_override demo_unwritable () d = (None, ())" for d
    by (simp add: load_pending_override_def demo_unwritable_def demo_run_def split: option.split)
  then show ?thesis
    using args
    by (simp add: run_offsd_def env(1) same fill_dirs_def dd first_cycle_def pending_relocation_def main_step_def write_pid_file_def)
      (simp add: demo_unwritable_def)
qed

lemma open_failed:
  "phase d = Begin_Cycle cfg \<Longrightarrow> phase (main_step E d) = Ended rc \<Longrightarrow> pid_trouble E (main_step E d)"
  by (auto simp: main_step_def pid_trouble_def write_pid_file_def split: sum.splits option.splits)

theorem service_daemon_composes_witness:
  "\<exists>d0 s d r. run_offsd demo_unwritable (demo_proc []) () ''offsd'' [''--foreground''] = Run_Daemon (demo_proc []) d0 \<and>
     service_reachable demo_unwritable (Run_Daemon (demo_proc []) d0) s \<and> dm s = Some d \<and> r \<in> set (reports (br s)) \<and>
     dwCurrentState r = STOPPED \<and> dwServiceSpecificExitCode r = 1 \<and> phase d = Ended 1 \<and> pid_trouble demo_unwritable d"
proof -
  let ?E = demo_unwritable
  obtain d0 where d0: "run_offsd ?E (demo_proc []) () ''offsd'' [''--foreground''] = Run_Daemon (demo_proc []) d0"
      "phase (main_step ?E d0) = Ended 1"
    using demo_unwritable_runs by blast
  let ?B = "Run_Daemon (demo_proc []) d0"
  let ?b = "main_running (main_pending (main_register True (enter idle_bridge)))"
  let ?s1 = "\<lparr>br = ?b, dm = Some (main_step ?E d0), terminated = False\<rparr>"
  let ?s2 = "\<lparr>br = ?b\<lparr>main_at := Main_Returned 1\<rparr>, dm = Some (main_step ?E d0), terminated = False\<rparr>"
  let ?s3 = "\<lparr>br = main_stopped 1 (?b\<lparr>main_at := Main_Returned 1\<rparr>), dm = Some (main_step ?E d0), terminated = False\<rparr>"
  note pcs = bridge_ops enter_def idle_bridge_def
  obtain a cfg w' where first: "d0 = first_cycle (files_at_start ?E) a cfg w'" using d0(1) by (rule run_daemon_first)
  then have live: "\<not> over (phase d0)" "phase d0 \<noteq> Killed" by (simp_all add: first_cycle_def over_def)
  have "service_step ?E ?B Service_Thread \<lparr>br = ?b, dm = Some d0, terminated = False\<rparr> ?s1"
    using svc_body [of "\<lparr>br = ?b, dm = Some d0, terminated = False\<rparr>" d0 ?E ?B] d0(2) live by (simp add: registers_def pcs)
  with service_starts have "service_reachable ?E ?B ?s1" by (rule svc_stepI) (simp add: gone_def live d0(2))
  moreover have "service_step ?E ?B Service_Thread ?s1 ?s2" using svc_return [of ?s1 "main_step ?E d0" 1 ?E ?B] d0(2) by (simp add: pcs)
  ultimately have "service_reachable ?E ?B ?s2" by (rule svc_stepI) (simp add: gone_def live d0(2))
  moreover have "service_step ?E ?B Service_Thread ?s2 ?s3" using svc_stopped [of ?s2 1 ?E ?B] by simp
  ultimately have r3: "service_reachable ?E ?B ?s3" by (rule svc_stepI) (simp add: gone_def live d0(2))
  let ?r = "last (reports (br ?s3))"
  have r: "?r \<in> set (reports (br ?s3))" "dwCurrentState ?r = STOPPED" by (simp_all add: pcs)
  obtain d rc where d: "dm ?s3 = Some d" "phase d = Ended rc" "dwServiceSpecificExitCode ?r = word_of_int rc"
    using service_daemon_composes [OF d0(1) r3, of "main_step ?E d0" ?r] r by blast
  then have d': "d = main_step ?E d0" "rc = 1" using d0(2) by simp_all
  have "phase d0 = Begin_Cycle cfg" using first by (simp add: first_cycle_def)
  then have "pid_trouble ?E d" using d0(2) unfolding d'(1) by (rule open_failed)
  with d0(1) r3 r d d' show ?thesis
    by (intro exI [of _ d0] exI [of _ ?s3] exI [of _ d] exI [of _ ?r]) simp
qed

end
