(* ===== verification/Cache_Location.thy ===== *)
theory Cache_Location
  imports Daemon_Run
begin

text \<open>
  Where the blocks are: the directory the command line tool computes (\<open>Config_Dirs\<close>) against the one a
  freshly started daemon opens (\<open>Daemon_Run\<close>), and what a reload changes of it.
\<close>

section \<open>The directories in the configuration file, as the daemon reads them\<close>

lemma sub_section: "sub_string h (cJSON_GetObjectItem h root sec) key = section_string h root sec key"
  by (simp add: sub_string_def sub_item_def section_string_def)

lemma cfg_steps_dirs:
  "arg_cache_dir (cfg_capacity h n a) = arg_cache_dir a" "arg_config_dir (cfg_capacity h n a) = arg_config_dir a"
  "cfg_eabf h n a = Inr a' \<Longrightarrow> arg_cache_dir a' = arg_cache_dir a \<and> arg_config_dir a' = arg_config_dir a"
  "cfg_taus h n a = Inr a' \<Longrightarrow> arg_cache_dir a' = arg_cache_dir a \<and> arg_config_dir a' = arg_config_dir a"
  "cfg_unix_mode h n a = Inr a' \<Longrightarrow> arg_cache_dir a' = arg_cache_dir a \<and> arg_config_dir a' = arg_config_dir a"
  by (auto simp: cfg_capacity_def cfg_eabf_def cfg_taus_def cfg_unix_mode_def Let_def split: option.splits if_splits)

lemma cfg_network_dirs:
  "cfg_network h root a = Inr a' \<Longrightarrow> arg_cache_dir a' = arg_cache_dir a \<and> arg_config_dir a' = arg_config_dir a"
  by (auto simp: cfg_network_def Let_def cfg_steps_dirs(1,2) split: if_splits dest!: cfg_steps_dirs(3-5))

lemma parse_config_dirs:
  assumes "parse_config_file h w path a = Inr a'"
  obtains buffer root where "read_file h w path = Some buffer" "cJSON_Parse h (c_string_of buffer) = Some root"
    "arg_cache_dir a' = fill (arg_cache_dir a) (section_string h root ''cache'' ''dir'')"
    "arg_config_dir a' = fill (arg_config_dir a) (section_string h root ''daemon'' ''config-dir'')"
proof -
  from assms obtain buffer root n where f: "read_file h w path = Some buffer" "cJSON_Parse h (c_string_of buffer) = Some root"
    and n: "cfg_network h root (cfg_daemon h root a) = Inr n" and a': "a' = cfg_transports h root (cfg_auth_to_tls h root n)"
    by (auto simp: parse_config_file_def split: option.splits)
  from cfg_network_dirs [OF n] have "arg_cache_dir n = arg_cache_dir a"
    "arg_config_dir n = fill (arg_config_dir a) (section_string h root ''daemon'' ''config-dir'')"
    by (simp_all add: cfg_daemon_def Let_def sub_section)
  then show thesis
    using f by (intro that) (simp_all add: a' cfg_transports_def cfg_auth_to_tls_def Let_def sub_section)
qed

section \<open>Flags that do not name a directory\<close>

definition dir_flags :: "string set" where
  "dir_flags = {''--config'', ''--config-dir'', ''--cache-dir''}"

lemma set_value_dirs:
  assumes "set_value fl v a = Some (Inr a')" "fl \<notin> dir_flags"
  shows "arg_cache_dir a' = arg_cache_dir a \<and> arg_config_dir a' = arg_config_dir a \<and> arg_config_path a' = arg_config_path a"
  using assms by (auto simp: set_value_def dir_flags_def split: if_splits option.splits)

lemma set_switch_dirs:
  "set_switch fl a = Some a' \<Longrightarrow>
     arg_cache_dir a' = arg_cache_dir a \<and> arg_config_dir a' = arg_config_dir a \<and> arg_config_path a' = arg_config_path a"
  by (auto simp: set_switch_def split: if_splits)

lemma parse_flags_dirs:
  "parse_flags argv a = Inr a' \<Longrightarrow> set argv \<inter> dir_flags = {} \<Longrightarrow>
     arg_cache_dir a' = arg_cache_dir a \<and> arg_config_dir a' = arg_config_dir a \<and> arg_config_path a' = arg_config_path a"
proof (induction argv a rule: parse_flags.induct)
  case (3 fl v rest a)
  show ?case
  proof (cases "set_value fl v a")
    case None
    with 3 show ?thesis by (auto split: option.splits dest!: set_switch_dirs)
  next
    case (Some r)
    with 3(3) obtain b where b: "set_value fl v a = Some (Inr b)" "parse_flags rest b = Inr a'" by (cases r) auto
    with 3(4) set_value_dirs [OF b(1)] 3(2) [OF b(1) refl b(2)] show ?thesis by auto
  qed
qed (auto split: option.splits dest!: set_switch_dirs)

lemma finish_args_dirs:
  "arg_cache_dir (finish_args n a) = arg_cache_dir a" "arg_config_dir (finish_args n a) = arg_config_dir a"
  by (simp_all add: finish_args_def Let_def)

text \<open>What the file contributes when no flag names a directory: the same two values the tool reads.\<close>

lemma parse_args_dirs:
  assumes "parse_args h w n program argv (default_args cp) = Inr args" and "set argv \<inter> dir_flags = {}"
  shows "case cp of None \<Rightarrow> arg_cache_dir args = None \<and> arg_config_dir args = None
    | Some path \<Rightarrow> cli_cache_read_config_file_dirs h w path 1024 1024
        = Some (out_buffer 1024 (arg_config_dir args), out_buffer 1024 (arg_cache_dir args))"
proof -
  from assms(1) obtain a where a: "parse_flags argv (default_args cp) = Inr a" by (auto simp: parse_args_def split: sum.splits)
  note none = parse_flags_dirs [OF a assms(2), simplified default_args_def, simplified]
  show ?thesis
  proof (cases cp)
    case None
    with assms(1) a none show ?thesis by (auto simp: parse_args_def finish_args_dirs)
  next
    case (Some path)
    with assms(1) a none obtain b where b: "parse_config_file h w path a = Inr b" "args = finish_args n b"
      by (auto simp: parse_args_def split: sum.splits)
    from b(1) none obtain buffer root where "read_file h w path = Some buffer" "cJSON_Parse h (c_string_of buffer) = Some root"
      "arg_cache_dir b = section_string h root ''cache'' ''dir''" "arg_config_dir b = section_string h root ''daemon'' ''config-dir''"
      by (elim parse_config_dirs) (simp add: fill_def)
    with Some b(2) show ?thesis by (simp add: cli_cache_read_config_file_dirs_def finish_args_dirs)
  qed
qed

section \<open>The tool and the daemon\<close>

lemma run_daemon_parts:
  assumes "run_offsd E p w program argv = Run_Daemon p' d"
  obtains args a cfg w' where "parse_args (the_host E) w (nprocs E) program argv (default_args (default_config_file E w)) = Inr args"
    "fill_dirs E w args = Some a" "load_pending_override E w (arg_config_dir a) = (cfg, w')"
    "d = first_cycle (files_at_start E) (pending_relocation (arg_cache_dir args) cfg a) cfg w'"
  using assms by (auto simp: run_offsd_def split: if_splits prod.splits sum.splits option.splits proc_end.splits)

text \<open>Directories the 1024 byte buffers of the tool can hold: neither empty nor too long.\<close>

definition fits :: "string option \<Rightarrow> bool" where
  "fits v = (case v of None \<Rightarrow> True | Some s \<Rightarrow> s \<noteq> [] \<and> length s < 1024)"

text \<open>The tool and the daemon read the same files: the default configuration file is a regular file exactly
  when it can be read, and a pending configuration that can be loaded exists.\<close>

definition same_files :: "('j, 'w) run_env \<Rightarrow> 'w \<Rightarrow> bool" where
  "same_files E w \<longleftrightarrow>
     (\<forall>path. offs_default_config_path_get (the_host E) w = Some path \<longrightarrow> is_regular E w path = (read_file (the_host E) w path \<noteq> None)) \<and>
     (\<forall>c. config_pending_load (the_host E) w c \<noteq> None \<longrightarrow> config_pending_exists E w c)"

definition dirs_fit :: "('j, 'w) run_env \<Rightarrow> 'w \<Rightarrow> offsd_args \<Rightarrow> bool" where
  "dirs_fit E w args \<longleftrightarrow>
     fits (arg_config_dir args) \<and> fits (arg_cache_dir args) \<and>
     (case offs_default_dirs_get (the_host E) w of None \<Rightarrow> True | Some (c, k) \<Rightarrow> fits (Some c) \<and> fits (Some k)) \<and>
     (\<forall>dir c. config_pending_load (the_host E) w dir = Some c \<longrightarrow> fits (cfg_cache_dir c))"

lemma out_buffer_fits: "fits v \<Longrightarrow> out_buffer 1024 v = (case v of None \<Rightarrow> [] | Some s \<Rightarrow> s)"
  by (simp add: out_buffer_def fits_def split: option.splits)

lemma config_file_dirs_args:
  assumes "parse_args (the_host E) w n program argv (default_args (default_config_file E w)) = Inr args"
    and "set argv \<inter> dir_flags = {}" "same_files E w" "fits (arg_config_dir args)" "fits (arg_cache_dir args)"
  shows "config_file_dirs (the_host E) w = None \<and> arg_config_dir args = None \<and> arg_cache_dir args = None \<or>
    config_file_dirs (the_host E) w = Some (case arg_config_dir args of None \<Rightarrow> [] | Some s \<Rightarrow> s, case arg_cache_dir args of None \<Rightarrow> [] | Some s \<Rightarrow> s)"
proof (cases "default_config_file E w")
  case None
  then have "config_file_dirs (the_host E) w = None"
    using assms(3) by (auto simp: default_config_file_def same_files_def config_file_dirs_def cli_cache_read_config_file_dirs_def
        split: option.splits if_splits)
  with parse_args_dirs [OF assms(1,2)] None show ?thesis by simp
next
  case (Some path)
  then have "offs_default_config_path_get (the_host E) w = Some path" by (auto simp: default_config_file_def split: option.splits if_splits)
  with parse_args_dirs [OF assms(1,2)] Some assms(4,5) show ?thesis
    by (simp add: config_file_dirs_def out_buffer_fits)
qed


text \<open>C36. A reload never moves the cache: in every state a run can reach, the cache directory is the one chosen at
  its start.\<close>

theorem reload_keeps_cache_dir:
  assumes "reachable E d0 d"
  shows "arg_cache_dir (cur_args d) = arg_cache_dir (cur_args d0)"
  using assms
proof (induction rule: reachable.induct)
  case (reach_main d)
  have "arg_cache_dir (cur_args (main_step E d)) = arg_cache_dir (cur_args d)"
    by (cases "phase d") (auto simp: main_step_def split: sum.split prod.split option.split dest: startup_ok(4))
  with reach_main show ?case by simp
next
  case (reach_event d e)
  have "cur_args (deliver e d) = cur_args d" by (cases e) (simp_all add: signal_handler_def service_stop_handler_def request_restart_def)
  with reach_event show ?case by simp
next
  case (reach_exits d n)
  then show ?case by (simp add: watchdog_exits_def Let_def)
next
  case (reach_wakes d)
  then show ?case by (simp add: watchdog_wakes_def)
qed simp

text \<open>C37. A staged relocation is ignored when the configuration file names a cache directory: the daemon opens the
  directory of the file, from which \<^verbatim>\<open>offs cache move\<close> has just moved the blocks away.\<close>

theorem staged_relocation_ignored:
  assumes run: "run_offsd E p w program argv = Run_Daemon p' d" and flags: "set argv \<inter> dir_flags = {}"
    and same: "same_files E w"
    and fit: "\<And>args. parse_args (the_host E) w (nprocs E) program argv (default_args (default_config_file E w)) = Inr args \<Longrightarrow> dirs_fit E w args"
    and moved_from: "config_file_dirs (the_host E) w = Some (c, current)" "current \<noteq> []"
    and staged: "pending_cache_dir (the_host E) w None = Some dest" "dest \<noteq> current"
  shows "arg_cache_dir (cur_args d) = Some current \<and> arg_cache_dir (cur_args d) \<noteq> Some dest"
proof -
  from run obtain args a cfg w' where args: "parse_args (the_host E) w (nprocs E) program argv (default_args (default_config_file E w)) = Inr args"
    and a: "fill_dirs E w args = Some a" and d: "d = first_cycle (files_at_start E) (pending_relocation (arg_cache_dir args) cfg a) cfg w'"
    by (rule run_daemon_parts)
  have "arg_cache_dir args = Some current"
    using config_file_dirs_args [OF args flags same] fit [OF args] moved_from by (auto simp: dirs_fit_def split: option.splits)
  then have "arg_cache_dir (cur_args d) = Some current"
    using a by (auto simp: d first_cycle_def pending_relocation_def fill_dirs_def fill_def split: option.splits if_splits)
  with staged(2) show ?thesis by simp
qed

section \<open>Witnesses\<close>

lemma demo_fits:
  "same_files (demo_run demo_json (Some ''/new'')) ()"
  "parse_args (the_host (demo_run demo_json (Some ''/new''))) () 4 ''offsd'' [''--foreground'']
      (default_args (default_config_file (demo_run demo_json (Some ''/new'')) ())) = Inr args \<Longrightarrow> dirs_fit (demo_run demo_json (Some ''/new'')) () args"
proof -
  show "same_files (demo_run demo_json (Some ''/new'')) ()" by (simp add: same_files_def demo_run_def json_host_def)
  assume "parse_args (the_host (demo_run demo_json (Some ''/new''))) () 4 ''offsd'' [''--foreground'']
      (default_args (default_config_file (demo_run demo_json (Some ''/new'')) ())) = Inr args"
  then have "arg_cache_dir args = Some ''/srv/cache''" "arg_config_dir args = None" using demo_run_parsed [of "Some ''/new''"] by auto
  then show "dirs_fit (demo_run demo_json (Some ''/new'')) () args"
    by (auto simp: dirs_fit_def fits_def demo_run_def json_host_def demo_config_def)
qed


theorem staged_relocation_ignored_witness:
  "\<exists>d. run_offsd (demo_run demo_json (Some ''/new'')) (demo_proc []) () ''offsd'' [''--foreground''] = Run_Daemon (demo_proc []) d \<and>
     pending_cache_dir (the_host (demo_run demo_json (Some ''/new''))) () None = Some ''/new'' \<and> arg_cache_dir (cur_args d) = Some ''/srv/cache''"
proof -
  obtain d where d: "run_offsd (demo_run demo_json (Some ''/new'')) (demo_proc []) () ''offsd'' [''--foreground''] = Run_Daemon (demo_proc []) d"
    using demo_runs by blast
  have n: "nprocs (demo_run demo_json (Some ''/new'')) = 4" by (simp add: demo_run_def)
  have f: "config_file_dirs (the_host (demo_run demo_json (Some ''/new''))) () = Some ([], ''/srv/cache'')"
    by (simp add: config_file_dirs_def cli_cache_read_config_file_dirs_def demo_run_def json_host_def demo_json_def section_string_def out_buffer_def c_buf_def)
  have p: "pending_cache_dir (the_host (demo_run demo_json (Some ''/new''))) () None = Some ''/new''"
    using f by (simp add: pending_cache_dir_def given_def cli_cache_resolve_config_dir_def) (simp add: demo_run_def json_host_def)
  from staged_relocation_ignored [OF d _ demo_fits(1), unfolded n, OF _ demo_fits(2) f _ p] d p show ?thesis
    by (auto simp: dir_flags_def)
qed

theorem reload_keeps_cache_dir_witness:
  "\<exists>d. run_offsd (demo_run demo_json None) (demo_proc []) () ''offsd'' [''--foreground''] = Run_Daemon (demo_proc []) d \<and>
     arg_cache_dir (cur_args (deliver Reload (main_step (demo_run demo_json None) d))) = arg_cache_dir (cur_args d)"
proof -
  obtain d where d: "run_offsd (demo_run demo_json None) (demo_proc []) () ''offsd'' [''--foreground''] = Run_Daemon (demo_proc []) d"
    using demo_runs by blast
  have "reachable (demo_run demo_json None) d (deliver Reload (main_step (demo_run demo_json None) d))"
    by (intro reachable.intros)
  from reload_keeps_cache_dir [OF this] d show ?thesis by blast
qed

end
