(* ===== verification/Metrics.thy ===== *)
theory Metrics
  imports Prelude
begin

text \<open>
  The metrics server (\<^verbatim>\<open>src/src/offs-metrics/metrics_server.c\<close>): the table of the latest topology report of
  every node, the handlers of its three routes and its command line. CBOR, the report decoder, the JSON printer and
  the arithmetic of doubles are parameters; node identifiers are compared by equality
  (\<^verbatim>\<open>node_id_equals\<close>).
\<close>

section \<open>Reports and the node table\<close>

record ('n, 'd) peer_metrics_snapshot =
  ps_node_id :: 'n
  ps_hebbian_weight :: 'd
  ps_rtt_ewma_ms :: 'd
  ps_connected :: bool
  rpc_count :: "u64 list"
  rpc_success :: "u64 list"
  rpc_failure :: "u64 list"

record ('n, 'd) topology_metrics =
  peer_snapshots :: "('n, 'd) peer_metrics_snapshot list"
  ring_entry_count :: u64
  total_connections :: u64
  avg_hebbian_weight :: 'd
  total_rpc_calls :: "u64 list"
  total_rate_limit_accepted :: "u64 list"
  total_rate_limit_rejected :: "u64 list"

definition MAX_NODES :: nat where
  "MAX_NODES = 256"

record ('n, 'd) node_report =
  node_id :: 'n
  last_seen_ms :: u64
  latest :: "('n, 'd) topology_metrics"
  report_count :: u32 \<comment> \<open>a C \<^verbatim>\<open>int\<close>, read as a signed number\<close>

type_synonym ('n, 'd) node_table = "('n, 'd) node_report list" \<comment> \<open>\<^verbatim>\<open>g_nodes[0 .. g_node_count - 1]\<close>\<close>

text \<open>The zeroed entry; \<open>zero\<close> is the double 0.\<close>

definition zero_metrics :: "'d \<Rightarrow> ('n, 'd) topology_metrics" where
  "zero_metrics zero = \<lparr>peer_snapshots = [], ring_entry_count = 0, total_connections = 0, avg_hebbian_weight = zero,
     total_rpc_calls = [], total_rate_limit_accepted = [], total_rate_limit_rejected = []\<rparr>"

definition new_entry :: "'d \<Rightarrow> 'n \<Rightarrow> ('n, 'd) node_report" where
  "new_entry zero n = \<lparr>node_id = n, last_seen_ms = 0, latest = zero_metrics zero, report_count = 0\<rparr>"

fun find_node :: "'n \<Rightarrow> ('n, 'd) node_table \<Rightarrow> nat option" where
  "find_node n [] = None"
| "find_node n (e # es) = (if node_id e = n then Some 0 else map_option Suc (find_node n es))"

text \<open>The index of the entry and the table with it; \<open>None\<close> when the table is full.\<close>

definition find_or_create_node :: "'d \<Rightarrow> 'n \<Rightarrow> ('n, 'd) node_table \<Rightarrow> (nat \<times> ('n, 'd) node_table) option" where
  "find_or_create_node zero n nodes =
     (case find_node n nodes of
        Some i \<Rightarrow> Some (i, nodes)
      | None \<Rightarrow> if length nodes \<ge> MAX_NODES then None else Some (length nodes, nodes @ [new_entry zero n]))"

definition store_report :: "'d \<Rightarrow> 'n \<Rightarrow> u64 \<Rightarrow> ('n, 'd) topology_metrics \<Rightarrow> ('n, 'd) node_table \<Rightarrow> ('n, 'd) node_table option" where
  "store_report zero n timestamp metrics nodes =
     (case find_or_create_node zero n nodes of
        None \<Rightarrow> None
      | Some (i, t) \<Rightarrow>
          Some (t[i := (t ! i)\<lparr>latest := metrics, last_seen_ms := timestamp, report_count := report_count (t ! i) + 1\<rparr>]))"

section \<open>The handlers\<close>

datatype http_method = HTTP_GET | HTTP_POST | HTTP_OTHER

record http_req =
  req_method :: http_method
  req_path :: string
  req_body :: "byte list option"

record http_resp =
  resp_status :: nat
  content_type :: "string option"
  resp_text :: string

datatype 'd jval = J_Obj "(string \<times> 'd jval) list" | J_Arr "'d jval list" | J_Str string | J_Nat nat | J_Int int | J_Real 'd | J_Bool bool

record ('n, 'd, 'c) metrics_api =
  load_cbor :: "byte list \<Rightarrow> 'c option"
  topology_report_decode :: "'c \<Rightarrow> ('n \<times> u64 \<times> ('n, 'd) topology_metrics) option"
  id_str :: "'n \<Rightarrow> string"
  json_print :: "'d jval \<Rightarrow> string option"
  d_zero :: 'd
  d_add :: "'d \<Rightarrow> 'd \<Rightarrow> 'd"
  d_div :: "'d \<Rightarrow> nat \<Rightarrow> 'd"
  print_f :: "'d \<Rightarrow> string" \<comment> \<open>the conversion \<^verbatim>\<open>%f\<close>\<close>
  PEER_RPC_TYPE_COUNT :: nat
  RPC_TYPE_COUNT :: nat

definition reply :: "nat \<Rightarrow> string \<Rightarrow> http_resp" where
  "reply status text = \<lparr>resp_status = status, content_type = None, resp_text = text\<rparr>"

text \<open>\<open>None\<close> leaves the request to the other handlers. The message of a report that cannot be decoded is
  written with its last character missing.\<close>

definition handle_report :: "('n, 'd, 'c) metrics_api \<Rightarrow> http_req \<Rightarrow> ('n, 'd) node_table \<Rightarrow> (http_resp \<times> ('n, 'd) node_table) option" where
  "handle_report api req nodes =
     (if req_method req \<noteq> HTTP_POST \<or> req_path req \<noteq> ''/report'' then None
      else (case req_body req of
          None \<Rightarrow> Some (reply 400 ''empty body'', nodes)
        | Some body \<Rightarrow>
            if body = [] then Some (reply 400 ''empty body'', nodes)
            else (case load_cbor api body of
                None \<Rightarrow> Some (reply 400 ''invalid CBOR'', nodes)
              | Some item \<Rightarrow>
                  (case topology_report_decode api item of
                     None \<Rightarrow> Some (reply 400 (take 20 ''invalid report format''), nodes)
                   | Some (reporter_id, timestamp_ms, metrics) \<Rightarrow>
                       (case store_report (d_zero api) reporter_id timestamp_ms metrics nodes of
                          None \<Rightarrow> Some (reply 500 ''node table full'', nodes)
                        | Some nodes' \<Rightarrow> Some (reply 200 ''{\"status\":\"ok\"}'', nodes'))))))"

text \<open>The JSON of \<^verbatim>\<open>/status\<close>; integers are given before their conversion to a double.\<close>

definition peer_json :: "('n, 'd, 'c) metrics_api \<Rightarrow> ('n, 'd) peer_metrics_snapshot \<Rightarrow> 'd jval" where
  "peer_json api snap =
     J_Obj [(''node_id'', J_Str (id_str api (ps_node_id snap))), (''hebbian_weight'', J_Real (ps_hebbian_weight snap)),
            (''rtt_ewma_ms'', J_Real (ps_rtt_ewma_ms snap)), (''connected'', J_Bool (ps_connected snap)),
            (''total_rpc_calls'', J_Nat (unat (sum_list (take 5 (rpc_count snap)))))]"

definition node_json :: "('n, 'd, 'c) metrics_api \<Rightarrow> ('n, 'd) node_report \<Rightarrow> 'd jval" where
  "node_json api e =
     (let m = latest e in
      J_Obj ([(''node_id'', J_Str (id_str api (node_id e))), (''last_seen_ms'', J_Nat (unat (last_seen_ms e))),
              (''report_count'', J_Int (sint (report_count e))), (''peer_count'', J_Nat (length (peer_snapshots m))),
              (''ring_entry_count'', J_Nat (unat (ring_entry_count m))), (''total_connections'', J_Nat (unat (total_connections m))),
              (''avg_hebbian_weight'', J_Real (avg_hebbian_weight m))]
             @ (if peer_snapshots m \<noteq> [] then [(''peers'', J_Arr (map (peer_json api) (take 20 (peer_snapshots m))))] else [])))"

definition status_json :: "('n, 'd, 'c) metrics_api \<Rightarrow> nat \<Rightarrow> ('n, 'd) node_table \<Rightarrow> 'd jval" where
  "status_json api now nodes =
     J_Obj [(''node_count'', J_Nat (length nodes)), (''timestamp_ms'', J_Nat (unat (of_nat now * 1000 :: u64))),
            (''nodes'', J_Arr (map (node_json api) nodes))]"

definition handle_status :: "('n, 'd, 'c) metrics_api \<Rightarrow> nat \<Rightarrow> http_req \<Rightarrow> ('n, 'd) node_table \<Rightarrow> http_resp option" where
  "handle_status api now req nodes =
     (if req_method req \<noteq> HTTP_GET \<or> req_path req \<noteq> ''/status'' then None
      else (case json_print api (status_json api now nodes) of
          None \<Rightarrow> Some (reply 500 [])
        | Some text \<Rightarrow> Some \<lparr>resp_status = 200, content_type = Some ''application/json'', resp_text = text\<rparr>))"

text \<open>The totals of \<^verbatim>\<open>/metrics\<close>, accumulated entry by entry in 64-bit counters.\<close>

record 'd totals =
  t_peers :: u64
  t_ring :: u64
  t_conns :: u64
  t_hebbian :: 'd
  t_samples :: nat
  t_calls :: u64
  t_success :: u64
  t_failure :: u64
  t_accepted :: u64
  t_rejected :: u64

definition add_entry :: "('n, 'd, 'c) metrics_api \<Rightarrow> 'd totals \<Rightarrow> ('n, 'd) node_report \<Rightarrow> 'd totals" where
  "add_entry api t e =
     (let m = latest e; p = PEER_RPC_TYPE_COUNT api; r = RPC_TYPE_COUNT api in
      \<lparr>t_peers = t_peers t + of_nat (length (peer_snapshots m)), t_ring = t_ring t + ring_entry_count m,
       t_conns = t_conns t + total_connections m, t_hebbian = d_add api (t_hebbian t) (avg_hebbian_weight m),
       t_samples = t_samples t + 1,
       t_calls = foldl (+) (t_calls t) (take p (total_rpc_calls m)),
       t_success = foldl (\<lambda>a s. foldl (+) a (take p (rpc_success s))) (t_success t) (peer_snapshots m),
       t_failure = foldl (\<lambda>a s. foldl (+) a (take p (rpc_failure s))) (t_failure t) (peer_snapshots m),
       t_accepted = foldl (+) (t_accepted t) (take r (total_rate_limit_accepted m)),
       t_rejected = foldl (+) (t_rejected t) (take r (total_rate_limit_rejected m))\<rparr>)"

definition aggregate :: "('n, 'd, 'c) metrics_api \<Rightarrow> ('n, 'd) node_table \<Rightarrow> 'd totals" where
  "aggregate api nodes =
     foldl (add_entry api)
       \<lparr>t_peers = 0, t_ring = 0, t_conns = 0, t_hebbian = d_zero api, t_samples = 0, t_calls = 0, t_success = 0, t_failure = 0,
        t_accepted = 0, t_rejected = 0\<rparr> nodes"

definition metric_lines :: "string \<Rightarrow> string \<Rightarrow> string \<Rightarrow> string \<Rightarrow> string" where
  "metric_lines name kind help_text value =
     nl (''# HELP '' @ name @ '' '' @ help_text) @ nl (''# TYPE '' @ name @ '' '' @ kind) @ nl (name @ '' '' @ value)"

definition metrics_body :: "('n, 'd, 'c) metrics_api \<Rightarrow> ('n, 'd) node_table \<Rightarrow> string" where
  "metrics_body api nodes =
     (let t = aggregate api nodes; avg = (if t_samples t > 0 then d_div api (t_hebbian t) (t_samples t) else d_zero api);
          n64 = (\<lambda>v :: u64. dec_nat (unat v)) in
      metric_lines ''offs_nodes_total'' ''gauge'' ''Total number of tracked nodes reporting metrics'' (dec_nat (length nodes))
      @ metric_lines ''offs_peers_total'' ''gauge'' ''Total number of known peers across all nodes'' (n64 (t_peers t))
      @ metric_lines ''offs_ring_entries'' ''gauge'' ''Total ring set entries across all nodes'' (n64 (t_ring t))
      @ metric_lines ''offs_connections_total'' ''gauge'' ''Total active connections across all nodes'' (n64 (t_conns t))
      @ metric_lines ''offs_avg_hebbian_weight'' ''gauge'' ''Average Hebbian weight across nodes'' (print_f api avg)
      @ metric_lines ''offs_rpc_calls_total'' ''counter'' ''Total RPC calls across all nodes'' (n64 (t_calls t))
      @ metric_lines ''offs_rpc_success_total'' ''counter'' ''Total successful RPC calls across all nodes'' (n64 (t_success t))
      @ metric_lines ''offs_rpc_failure_total'' ''counter'' ''Total failed RPC calls across all nodes'' (n64 (t_failure t))
      @ metric_lines ''offs_rate_limit_accepted_total'' ''counter'' ''Total rate-limited accepted requests'' (n64 (t_accepted t))
      @ metric_lines ''offs_rate_limit_rejected_total'' ''counter'' ''Total rate-limited rejected requests'' (n64 (t_rejected t)))"

definition handle_metrics :: "('n, 'd, 'c) metrics_api \<Rightarrow> http_req \<Rightarrow> ('n, 'd) node_table \<Rightarrow> http_resp option" where
  "handle_metrics api req nodes =
     (if req_method req \<noteq> HTTP_GET \<or> req_path req \<noteq> ''/metrics'' then None
      else (let body = metrics_body api nodes in
        if length body \<ge> 4096 then Some (reply 500 [])
        else Some \<lparr>resp_status = 200, content_type = Some ''text/plain; version=0.0.4'', resp_text = body\<rparr>))"

text \<open>The handlers in the order of their registration; \<open>None\<close> where none has taken the request.\<close>

definition serve :: "('n, 'd, 'c) metrics_api \<Rightarrow> nat \<Rightarrow> http_req \<Rightarrow> ('n, 'd) node_table \<Rightarrow> http_resp option \<times> ('n, 'd) node_table" where
  "serve api now req nodes =
     (case handle_report api req nodes of
        Some (resp, nodes') \<Rightarrow> (Some resp, nodes')
      | None \<Rightarrow>
          (case handle_status api now req nodes of
             Some resp \<Rightarrow> (Some resp, nodes)
           | None \<Rightarrow> (handle_metrics api req nodes, nodes)))"

section \<open>The command line\<close>

fun metrics_args :: "string list \<Rightarrow> u16 \<Rightarrow> string \<Rightarrow> (u16 \<times> string) option" where
  "metrics_args [] port host = Some (port, host)"
| "metrics_args [x] port host = (if x = ''--help'' then None else Some (port, host))"
| "metrics_args (x # v # rest) port host =
     (if x = ''--port'' then metrics_args rest (to_u16 (atoi v)) host
      else if x = ''--host'' then metrics_args rest port v
      else if x = ''--help'' then None
      else metrics_args (v # rest) port host)"

definition metrics_help :: "console list" where
  "metrics_help = map (\<lambda>s. Out (nl s))
     [''Usage: offs-metrics [--port PORT] [--host HOST]'', ''  --port PORT   HTTP listen port (default: 9090)'',
      ''  --host HOST   Bind host (default: 0.0.0.0)'']"

text \<open>The process: its exit code and output, where \<open>pool_ok\<close> and \<open>server_ok\<close> say whether the two
  subsystems could be created, up to the signal it waits for.\<close>

definition metrics_main :: "bool \<Rightarrow> bool \<Rightarrow> string list \<Rightarrow> int \<times> console list" where
  "metrics_main pool_ok server_ok argv =
     (case metrics_args argv 9090 ''0.0.0.0'' of
        None \<Rightarrow> (0, metrics_help)
      | Some (port, host) \<Rightarrow>
          (let at = host @ '':'' @ dec_nat (unat port); starting = Out (nl (''offs-metrics: starting on '' @ at)) in
           if \<not> pool_ok then (1, [starting, Err (nl ''offs-metrics: failed to create scheduler pool'')])
           else if \<not> server_ok then (1, [starting, Err (nl (''offs-metrics: failed to create HTTP server on '' @ at))])
           else (0, [starting, Out (nl (''offs-metrics: listening on '' @ at)), Out (nl ''offs-metrics: shutting down...''),
                     Out (nl ''offs-metrics: stopped'')])))"
section \<open>What a table of latest reports promises\<close>

text \<open>The distinct elements of a list in the order of their first occurrence.\<close>

definition firsts :: "'a list \<Rightarrow> 'a list" where
  "firsts xs = rev (remdups (rev xs))"

lemma firsts_snoc: "firsts (xs @ [x]) = (if x \<in> set xs then firsts xs else firsts xs @ [x])"
  by (simp add: firsts_def)

lemma set_firsts [simp]: "set (firsts xs) = set xs" "firsts [] = []"
  by (simp_all add: firsts_def)

text \<open>The contract of a bounded table: a known member is always accepted, a new one as long as there is room, and
  each keeps the last value it has sent and how many it has sent.\<close>

locale report_table =
  fixes receive :: "'n \<Rightarrow> 'v \<Rightarrow> 's \<Rightarrow> 's option"
    and value_of :: "'s \<Rightarrow> 'n \<Rightarrow> ('v \<times> u32) option"
    and members :: "'s \<Rightarrow> 'n list"
    and capacity :: nat
    and vacant :: 's
  assumes vacant_members: "members vacant = []"
    and receive_known: "n \<in> set (members s) \<Longrightarrow> \<exists>s'. receive n v s = Some s' \<and> members s' = members s"
    and receive_new: "n \<notin> set (members s) \<Longrightarrow> length (members s) < capacity \<Longrightarrow>
      \<exists>s'. receive n v s = Some s' \<and> members s' = members s @ [n]"
    and receive_full: "n \<notin> set (members s) \<Longrightarrow> capacity \<le> length (members s) \<Longrightarrow> receive n v s = None"
    and value_unknown: "n \<notin> set (members s) \<Longrightarrow> value_of s n = None"
    and value_same: "receive n v s = Some s' \<Longrightarrow>
      value_of s' n = Some (v, 1 + (case value_of s n of None \<Rightarrow> 0 | Some (_, c) \<Rightarrow> c))"
    and value_other: "receive n v s = Some s' \<Longrightarrow> m \<noteq> n \<Longrightarrow> value_of s' m = value_of s m"
begin

definition accept :: "'s \<Rightarrow> 'n \<times> 'v \<Rightarrow> 's" where
  "accept s r = (case receive (fst r) (snd r) s of Some s' \<Rightarrow> s' | None \<Rightarrow> s)"

lemma accept_pair: "accept s (n, v) = (case receive n v s of Some s' \<Rightarrow> s' | None \<Rightarrow> s)"
  by (simp add: accept_def)

lemma members_after: "members (foldl accept vacant rs) = take capacity (firsts (map fst rs))"
proof (induction rs rule: rev_induct)
  case (snoc r rs)
  obtain n v where r: "r = (n, v)" by fastforce
  let ?s = "foldl accept vacant rs"
  show ?case
  proof (cases "n \<in> set (members ?s)")
    case True
    then have "n \<in> set (map fst rs)" using snoc set_take_subset [of capacity "firsts (map fst rs)"] by auto
    with receive_known [OF True, of v] snoc show ?thesis by (auto simp: r accept_pair firsts_snoc)
  next
    case False
    show ?thesis
    proof (cases "length (members ?s) < capacity")
      case True
      then have all: "members ?s = firsts (map fst rs)" using snoc by simp
      with False have "n \<notin> set (map fst rs)" by simp
      with receive_new [OF False True, of v] all True show ?thesis by (auto simp: r accept_pair firsts_snoc)
    next
      case full: False
      then have "receive n v ?s = None" using receive_full [OF False] by simp
      with full snoc show ?thesis by (auto simp: r accept_pair firsts_snoc)
    qed
  qed
qed (simp add: vacant_members)

lemma value_after:
  assumes "n \<in> set (members (foldl accept vacant rs))"
  shows "value_of (foldl accept vacant rs) n =
    Some (snd (last (filter (\<lambda>r. fst r = n) rs)), of_nat (length (filter (\<lambda>r. fst r = n) rs)))"
  using assms
proof (induction rs rule: rev_induct)
  case Nil
  then show ?case by (simp add: vacant_members)
next
  case (snoc r rs)
  obtain k v where r: "r = (k, v)" by fastforce
  let ?s = "foldl accept vacant rs"
  show ?case
  proof (cases "receive k v ?s")
    case None
    then have "k \<notin> set (members ?s)" using receive_known [of k ?s v] by auto
    then have "k \<noteq> n" using snoc.prems None by (auto simp: r accept_pair)
    with snoc None show ?thesis by (simp add: r accept_pair)
  next
    case (Some s')
    show ?thesis
    proof (cases "k = n")
      case False
      have "n \<in> set (members ?s)"
      proof (rule ccontr)
        assume "n \<notin> set (members ?s)"
        then have "value_of s' n = None" using value_other [OF Some, of n] value_unknown False by simp
        moreover have "set (members s') \<subseteq> insert k (set (members ?s))"
          using receive_known [of k ?s v] receive_new [of k ?s v] receive_full [of k ?s v] Some by fastforce
        ultimately show False using snoc.prems \<open>n \<notin> set (members ?s)\<close> False Some by (auto simp: r accept_pair)
      qed
      with snoc Some False value_other [OF Some, of n] show ?thesis by (simp add: r accept_pair)
    next
      case True
      show ?thesis
      proof (cases "n \<in> set (members ?s)")
        case member: True
        with snoc.IH value_same [OF Some] True Some show ?thesis by (simp add: r accept_pair)
      next
        case new: False
        then have "length (members ?s) < capacity" using receive_full [of n ?s v] Some True by fastforce
        then have "n \<notin> fst ` set rs" using new members_after [of rs] by simp
        then have "filter (\<lambda>r. fst r = n) rs = []" by (auto simp: filter_empty_conv)
        with value_same [OF Some] value_unknown [OF new] True Some show ?thesis by (simp add: r accept_pair)
      qed
    qed
  qed
qed

end
section \<open>The node table keeps the contract\<close>

definition report_value :: "('n, 'd) node_table \<Rightarrow> 'n \<Rightarrow> ((u64 \<times> ('n, 'd) topology_metrics) \<times> u32) option" where
  "report_value nodes n =
     map_option (\<lambda>i. ((last_seen_ms (nodes ! i), latest (nodes ! i)), report_count (nodes ! i))) (find_node n nodes)"

lemma find_node_Some: "find_node n nodes = Some i \<Longrightarrow> i < length nodes \<and> node_id (nodes ! i) = n"
  by (induction nodes arbitrary: i) (auto split: if_splits)

lemma find_node_None: "find_node n nodes = None \<longleftrightarrow> n \<notin> set (map node_id nodes)"
  by (induction nodes) auto

lemma find_node_append: "find_node n (xs @ ys) = (case find_node n xs of Some i \<Rightarrow> Some i | None \<Rightarrow> map_option (\<lambda>i. i + length xs) (find_node n ys))"
  by (induction xs) (auto simp: option.map_comp comp_def option.map_ident split: option.split intro: option.map_cong)

lemma find_node_ids: "map node_id xs = map node_id ys \<Longrightarrow> find_node n xs = find_node n ys"
  by (induction n xs arbitrary: ys rule: find_node.induct) auto

text \<open>The table after a stored report, for a known and for a new node.\<close>

lemma store_known:
  assumes "find_node n nodes = Some i"
  shows "store_report z n t m nodes =
    Some (nodes[i := (nodes ! i)\<lparr>latest := m, last_seen_ms := t, report_count := report_count (nodes ! i) + 1\<rparr>])"
  using assms by (simp add: store_report_def find_or_create_node_def)

lemma store_new:
  assumes "find_node n nodes = None"
  shows "store_report z n t m nodes =
    (if length nodes \<ge> MAX_NODES then None else Some (nodes @ [\<lparr>node_id = n, last_seen_ms = t, latest = m, report_count = 1\<rparr>]))"
  using assms by (simp add: store_report_def find_or_create_node_def new_entry_def nth_append)

lemma update_ids:
  assumes "find_node n nodes = Some i" "node_id e = n"
  shows "map node_id (nodes[i := e]) = map node_id nodes"
  using find_node_Some [OF assms(1)] assms(2) by (simp add: map_update list_update_same_conv)

lemma report_value_known:
  assumes "find_node n nodes = Some i" "node_id e = n"
  shows "report_value (nodes[i := e]) k =
    (if k = n then Some ((last_seen_ms e, latest e), report_count e) else report_value nodes k)"
proof -
  have f: "find_node k (nodes[i := e]) = find_node k nodes" by (rule find_node_ids [OF update_ids [OF assms]])
  show ?thesis
  proof (cases "find_node k nodes")
    case None
    with assms f show ?thesis by (auto simp: report_value_def)
  next
    case (Some j)
    with find_node_Some [OF Some] find_node_Some [OF assms(1)] assms f show ?thesis
      by (cases "k = n") (auto simp: report_value_def nth_list_update)
  qed
qed

lemma report_value_new:
  assumes "find_node n nodes = None"
  shows "report_value (nodes @ [e\<lparr>node_id := n\<rparr>]) k =
    (if k = n then Some ((last_seen_ms e, latest e), report_count e) else report_value nodes k)"
  using assms find_node_Some [of k nodes]
  by (cases "find_node k nodes") (auto simp: report_value_def find_node_append nth_append)

text \<open>What a stored report does to the table, seen through \<open>report_value\<close>.\<close>

lemma store_report_value:
  assumes "store_report z n t m nodes = Some nodes'"
  shows "report_value nodes' k =
    (if k = n then Some ((t, m), 1 + (case report_value nodes n of None \<Rightarrow> 0 | Some (_, c) \<Rightarrow> c)) else report_value nodes k)"
proof (cases "find_node n nodes")
  case None
  with assms have "nodes' = nodes @ [\<lparr>node_id = n, last_seen_ms = t, latest = m, report_count = 1\<rparr>\<lparr>node_id := n\<rparr>]"
    by (simp add: store_new split: if_splits)
  with None show ?thesis by (simp only: report_value_new [OF None]) (simp add: report_value_def)
next
  case (Some i)
  define e where "e = (nodes ! i)\<lparr>latest := m, last_seen_ms := t, report_count := report_count (nodes ! i) + 1\<rparr>"
  have "nodes' = nodes[i := e]" using assms by (simp add: store_known [OF Some] e_def)
  moreover have "node_id e = n" using find_node_Some [OF Some] by (simp add: e_def)
  ultimately show ?thesis using report_value_known [OF Some] by (simp add: e_def report_value_def Some)
qed

interpretation node_reports: report_table "\<lambda>n v nodes. store_report (z :: 'd) (n :: 'n) (fst v) (snd v) nodes" report_value "map node_id" MAX_NODES "[]"
proof
  fix n :: 'n and v :: "u64 \<times> ('n, 'd) topology_metrics" and s s' :: "('n, 'd) node_table" and m :: 'n
  show "map node_id [] = []" by simp
  show "n \<in> set (map node_id s) \<Longrightarrow> \<exists>s'. store_report z n (fst v) (snd v) s = Some s' \<and> map node_id s' = map node_id s"
    using find_node_None [of n s] find_node_Some [of n s] by (cases "find_node n s") (auto simp: store_known update_ids)
  show "n \<notin> set (map node_id s) \<Longrightarrow> length (map node_id s) < MAX_NODES \<Longrightarrow>
      \<exists>s'. store_report z n (fst v) (snd v) s = Some s' \<and> map node_id s' = map node_id s @ [n]"
    by (simp add: store_new find_node_None)
  show "n \<notin> set (map node_id s) \<Longrightarrow> MAX_NODES \<le> length (map node_id s) \<Longrightarrow> store_report z n (fst v) (snd v) s = None"
    by (simp add: store_new find_node_None)
  show "n \<notin> set (map node_id s) \<Longrightarrow> report_value s n = None"
    using find_node_None [of n s] by (simp add: report_value_def)
  show "store_report z n (fst v) (snd v) s = Some s' \<Longrightarrow>
      report_value s' n = Some (v, 1 + (case report_value s n of None \<Rightarrow> 0 | Some (_, c) \<Rightarrow> c))"
    using store_report_value [of z n "fst v" "snd v" s s' n] by simp
  show "store_report z n (fst v) (snd v) s = Some s' \<Longrightarrow> m \<noteq> n \<Longrightarrow> report_value s' m = report_value s m"
    using store_report_value [of z n "fst v" "snd v" s s' m] by simp
qed

section \<open>Properties\<close>

text \<open>The table after a sequence of decoded reports; a report that finds the table full is dropped.\<close>

definition store_all :: "'d \<Rightarrow> ('n \<times> u64 \<times> ('n, 'd) topology_metrics) list \<Rightarrow> ('n, 'd) node_table" where
  "store_all z reports = foldl (\<lambda>s r. case store_report z (fst r) (fst (snd r)) (snd (snd r)) s of Some s' \<Rightarrow> s' | None \<Rightarrow> s) [] reports"

lemma store_all_accept: "store_all z reports = foldl (node_reports.accept z) [] reports"
  by (simp add: store_all_def node_reports.accept_def [abs_def])

text \<open>C14. After any sequence of reports, handled one after the other, the table holds the first 256 distinct reporters
  in the order in which they appeared, and for each of them its last report, the time of it and, as long
  as it has sent fewer than 2 to the 31 of them, the number of reports it has sent (the counter is a 32-bit integer).
  The server runs its handlers on two workers without a lock; what two of them do to the table at the
  same time is not covered.\<close>

theorem node_table_latest:
  "map node_id (store_all z reports) = take 256 (firsts (map fst reports)) \<and>
   (\<forall>n. n \<in> set (take 256 (firsts (map fst reports))) \<longrightarrow>
      (\<exists>count. report_value (store_all z reports) n = Some (snd (last (filter (\<lambda>r. fst r = n) reports)), count) \<and>
         (length (filter (\<lambda>r. fst r = n) reports) < 2 ^ 31 \<longrightarrow> sint count = int (length (filter (\<lambda>r. fst r = n) reports)))))"
proof -
  have "sint (of_nat k :: u32) = int k" if "k < 2 ^ 31" for k
    using that by (simp add: signed_of_nat signed_take_bit_int_eq_self)
  then show ?thesis
    using node_reports.members_after [of z reports] node_reports.value_after [of _ z reports]
    by (simp add: store_all_accept MAX_NODES_def)
qed

lemma dec_nat_length: "n < 10 ^ k \<Longrightarrow> 0 < k \<Longrightarrow> length (dec_nat n) \<le> k"
proof (induction k arbitrary: n)
  case (Suc k)
  show ?case
  proof (cases "n < 10")
    case True
    then show ?thesis by (subst dec_nat.simps) simp
  next
    case False
    then have "0 < k" "n div 10 < 10 ^ k" using Suc.prems by (auto simp: less_mult_imp_div_less intro: Nat.gr0I)
    with Suc.IH False show ?thesis by (subst dec_nat.simps) simp
  qed
qed simp

lemma u64_digits: "length (dec_nat (unat (v :: u64))) \<le> 20"
proof (rule dec_nat_length)
  have "unat v < 2 ^ 64" using unsigned_less [of v] by simp
  then show "unat v < 10 ^ 20" by simp
qed simp

lemma metric_lines_length: "length (metric_lines name kind h v) = 3 * length name + length kind + length h + length v + 20"
  by (simp add: metric_lines_def nl_def newline_def)

lemma metrics_body_length:
  assumes "length nodes \<le> 256" and "\<And>x. length (print_f api x) \<le> 400"
  shows "length (metrics_body api nodes) < 4096"
proof -
  have "length (dec_nat (length nodes)) \<le> 3" using assms(1) by (intro dec_nat_length) simp_all
  moreover note u64_digits [of "t_peers (aggregate api nodes)"] u64_digits [of "t_ring (aggregate api nodes)"]
    u64_digits [of "t_conns (aggregate api nodes)"] u64_digits [of "t_calls (aggregate api nodes)"]
    u64_digits [of "t_success (aggregate api nodes)"] u64_digits [of "t_failure (aggregate api nodes)"]
    u64_digits [of "t_accepted (aggregate api nodes)"] u64_digits [of "t_rejected (aggregate api nodes)"]
    assms(2) [of "d_div api (t_hebbian (aggregate api nodes)) (t_samples (aggregate api nodes))"] assms(2) [of "d_zero api"]
  ultimately show ?thesis by (simp add: metrics_body_def Let_def metric_lines_length)
qed
lemma foldl_sum: "foldl (+) (a :: u64) xs = a + sum_list xs"
  by (induction xs arbitrary: a) (simp_all add: add.assoc)

lemma foldl_sum_map: "(\<And>a x. f a x = a + g x) \<Longrightarrow> foldl f (a :: u64) xs = a + sum_list (map g xs)"
  by (induction xs arbitrary: a) (simp_all add: add.assoc)

text \<open>A projection of the totals that adds \<open>g e\<close> for every entry is the sum of them.\<close>

lemma aggregate_sum:
  assumes "\<And>t e. f (add_entry api t e) = f t + g e"
  shows "f (foldl (add_entry api) t nodes) = f t + (sum_list (map g nodes) :: u64)"
  by (induction nodes arbitrary: t) (simp_all add: assms add.assoc)

lemma totals_are_sums:
  assumes p_def: "p = PEER_RPC_TYPE_COUNT api"
  shows "t_peers (aggregate api nodes) = sum_list (map (\<lambda>e. of_nat (length (peer_snapshots (latest e)))) nodes)"
    and "t_ring (aggregate api nodes) = sum_list (map (\<lambda>e. ring_entry_count (latest e)) nodes)"
    and "t_conns (aggregate api nodes) = sum_list (map (\<lambda>e. total_connections (latest e)) nodes)"
    and "t_calls (aggregate api nodes) = sum_list (map (\<lambda>e. sum_list (take p (total_rpc_calls (latest e)))) nodes)"
    and "t_success (aggregate api nodes) =
      sum_list (map (\<lambda>e. sum_list (map (\<lambda>s. sum_list (take p (rpc_success s))) (peer_snapshots (latest e)))) nodes)"
    and "t_failure (aggregate api nodes) =
      sum_list (map (\<lambda>e. sum_list (map (\<lambda>s. sum_list (take p (rpc_failure s))) (peer_snapshots (latest e)))) nodes)"
    and "t_accepted (aggregate api nodes) = sum_list (map (\<lambda>e. sum_list (take (RPC_TYPE_COUNT api) (total_rate_limit_accepted (latest e)))) nodes)"
    and "t_rejected (aggregate api nodes) = sum_list (map (\<lambda>e. sum_list (take (RPC_TYPE_COUNT api) (total_rate_limit_rejected (latest e)))) nodes)"
  unfolding aggregate_def
  by (subst aggregate_sum; simp add: add_entry_def Let_def p_def foldl_sum foldl_sum_map)+

lemma store_all_bounded: "length (store_all z reports) \<le> 256"
  using node_reports.members_after [of z reports, THEN arg_cong, of length] by (simp add: store_all_accept MAX_NODES_def)

text \<open>The page as a specification: one block for each quantity, with its name, its type, its explanation and its value, a
  sum over the latest reports of the tracked nodes.\<close>

definition prom_block :: "string \<times> string \<times> string \<times> string \<Rightarrow> string" where
  "prom_block b = (case b of (name, kind, about, v) \<Rightarrow>
     ''# HELP '' @ name @ '' '' @ about @ newline @ ''# TYPE '' @ name @ '' '' @ kind @ newline @ name @ '' '' @ v @ newline)"

definition sum_u64 :: "(('n, 'd) topology_metrics \<Rightarrow> u64) \<Rightarrow> ('n, 'd) node_table \<Rightarrow> string" where
  "sum_u64 g nodes = dec_nat (unat (sum_list (map (\<lambda>e. g (latest e)) nodes)))"

definition prom_page :: "('n, 'd, 'c) metrics_api \<Rightarrow> ('n, 'd) node_table \<Rightarrow> (string \<times> string \<times> string \<times> string) list" where
  "prom_page api nodes =
     (let p = PEER_RPC_TYPE_COUNT api; r = RPC_TYPE_COUNT api in
      [(''offs_nodes_total'', ''gauge'', ''Total number of tracked nodes reporting metrics'', dec_nat (length nodes)),
       (''offs_peers_total'', ''gauge'', ''Total number of known peers across all nodes'', sum_u64 (\<lambda>m. of_nat (length (peer_snapshots m))) nodes),
       (''offs_ring_entries'', ''gauge'', ''Total ring set entries across all nodes'', sum_u64 ring_entry_count nodes),
       (''offs_connections_total'', ''gauge'', ''Total active connections across all nodes'', sum_u64 total_connections nodes),
       (''offs_avg_hebbian_weight'', ''gauge'', ''Average Hebbian weight across nodes'',
          print_f api (if nodes = [] then d_zero api
                       else d_div api (foldl (d_add api) (d_zero api) (map (\<lambda>e. avg_hebbian_weight (latest e)) nodes)) (length nodes))),
       (''offs_rpc_calls_total'', ''counter'', ''Total RPC calls across all nodes'', sum_u64 (\<lambda>m. sum_list (take p (total_rpc_calls m))) nodes),
       (''offs_rpc_success_total'', ''counter'', ''Total successful RPC calls across all nodes'',
          sum_u64 (\<lambda>m. sum_list (map (\<lambda>s. sum_list (take p (rpc_success s))) (peer_snapshots m))) nodes),
       (''offs_rpc_failure_total'', ''counter'', ''Total failed RPC calls across all nodes'',
          sum_u64 (\<lambda>m. sum_list (map (\<lambda>s. sum_list (take p (rpc_failure s))) (peer_snapshots m))) nodes),
       (''offs_rate_limit_accepted_total'', ''counter'', ''Total rate-limited accepted requests'',
          sum_u64 (\<lambda>m. sum_list (take r (total_rate_limit_accepted m))) nodes),
       (''offs_rate_limit_rejected_total'', ''counter'', ''Total rate-limited rejected requests'',
          sum_u64 (\<lambda>m. sum_list (take r (total_rate_limit_rejected m))) nodes)])"

lemma aggregate_average:
  "t_samples (foldl (add_entry api) t nodes) = t_samples t + length nodes"
  "t_hebbian (foldl (add_entry api) t nodes) = foldl (d_add api) (t_hebbian t) (map (\<lambda>e. avg_hebbian_weight (latest e)) nodes)"
  by (induction nodes arbitrary: t) (simp_all add: add_entry_def Let_def)

lemma metrics_body_page: "metrics_body api nodes = concat (map prom_block (prom_page api nodes))"
proof -
  have "t_samples (aggregate api nodes) = length nodes"
    "t_hebbian (aggregate api nodes) = foldl (d_add api) (d_zero api) (map (\<lambda>e. avg_hebbian_weight (latest e)) nodes)"
    by (simp_all add: aggregate_def aggregate_average)
  then show ?thesis
    by (simp add: metrics_body_def prom_page_def prom_block_def metric_lines_def nl_def sum_u64_def Let_def
        totals_are_sums [OF refl])
qed

text \<open>C26. \<^verbatim>\<open>GET /metrics\<close> always succeeds, whatever has been reported (reports handled one after the other, and a
  conversion of a double that takes at most 400 characters): the answer is, character by character, the ten quantities with their
  explanations and types, each with its value: the number of tracked nodes, and the sums over the latest report of
  every tracked node of the peers, the ring entries, the connections, the RPC calls, their successes and
  failures, the accepted and the rejected requests, modulo 2 to the 64, and the average weight.\<close>

theorem metrics_exposition:
  assumes "req_method req = HTTP_GET" "req_path req = ''/metrics''" and "\<And>x. length (print_f api x) \<le> 400"
    and "nodes = store_all z reports"
  shows "handle_metrics api req nodes =
    Some \<lparr>resp_status = 200, content_type = Some ''text/plain; version=0.0.4'', resp_text = concat (map prom_block (prom_page api nodes))\<rparr>"
proof -
  have "length (metrics_body api nodes) < 4096"
    by (rule metrics_body_length) (simp_all add: assms(3,4) store_all_bounded)
  then show ?thesis using assms(1,2) by (simp add: handle_metrics_def Let_def metrics_body_page)
qed

definition demo_api :: "(nat, unit, nat) metrics_api" where
  "demo_api = \<lparr>load_cbor = (\<lambda>_. None), topology_report_decode = (\<lambda>_. None), id_str = (\<lambda>_. []), json_print = (\<lambda>_. None),
     d_zero = (), d_add = (\<lambda>_ _. ()), d_div = (\<lambda>_ _. ()), print_f = (\<lambda>_. ''0.000000''), PEER_RPC_TYPE_COUNT = 2, RPC_TYPE_COUNT = 1\<rparr>"

definition demo_report :: "(nat, unit) topology_metrics" where
  "demo_report = (zero_metrics ())\<lparr>total_rpc_calls := [3, 4, 9]\<rparr>"

theorem metrics_exposition_witness:
  "map_option resp_text (handle_metrics demo_api \<lparr>req_method = HTTP_GET, req_path = ''/metrics'', req_body = None\<rparr>
      (store_all () [(1, 5, demo_report), (2, 6, demo_report)])) =
   Some (concat (map prom_block (prom_page demo_api (store_all () [(1, 5, demo_report), (2, 6, demo_report)]))))
   \<and> prom_page demo_api (store_all () [(1, 5, demo_report), (2, 6, demo_report)]) ! 5 =
      (''offs_rpc_calls_total'', ''counter'', ''Total RPC calls across all nodes'', ''14'')"
proof -
  let ?nodes = "store_all () [(1, 5, demo_report), (2, 6, demo_report)]"
  have nodes: "?nodes =
      [\<lparr>node_id = 1, last_seen_ms = 5, latest = demo_report, report_count = 1\<rparr>,
       \<lparr>node_id = 2, last_seen_ms = 6, latest = demo_report, report_count = 1\<rparr>]"
    by (simp add: store_all_def store_report_def find_or_create_node_def new_entry_def MAX_NODES_def)
  have "dec_nat 14 = ''14''" by code_simp
  then have "prom_page demo_api ?nodes ! 5 = (''offs_rpc_calls_total'', ''counter'', ''Total RPC calls across all nodes'', ''14'')"
    unfolding nodes by (simp add: prom_page_def Let_def sum_u64_def demo_report_def zero_metrics_def demo_api_def)
  moreover have "handle_metrics demo_api \<lparr>req_method = HTTP_GET, req_path = ''/metrics'', req_body = None\<rparr> ?nodes =
      Some \<lparr>resp_status = 200, content_type = Some ''text/plain; version=0.0.4'', resp_text = concat (map prom_block (prom_page demo_api ?nodes))\<rparr>"
    by (rule metrics_exposition) (simp_all add: demo_api_def)
  ultimately show ?thesis by simp
qed

theorem node_table_latest_witness:
  "\<exists>count. report_value (store_all () [(1, 5, demo_report), (2, 6, demo_report), (1, 7, demo_report)]) (1 :: nat) = Some ((7, demo_report), count)
     \<and> sint count = 2"
  using node_table_latest [of "()" "[(1 :: nat, 5, demo_report), (2, 6, demo_report), (1, 7, demo_report)]"]
  by (simp add: firsts_def)

end
