(* ===== verification/Command_Lines.thy ===== *)
theory Command_Lines
  imports Daemon_Run Service
begin

text \<open>
  The command line of the daemon as the other programs see it: what \<^verbatim>\<open>offs restart\<close> passes on
  (\<^verbatim>\<open>src/src/offs/commands/start_stop.c\<close>), which socket \<^verbatim>\<open>offs start\<close> probes, and what the usage text says, compared with \<^verbatim>\<open>_parse_args\<close> of \<^verbatim>\<open>src/src/offsd/main.c\<close>.
\<close>

section \<open>Options and their values\<close>

text \<open>The options of the daemon that take a value, and a command line divided into options.\<close>

definition takes_value :: "string \<Rightarrow> bool" where
  "takes_value flag \<longleftrightarrow> set_value flag [] (default_args None) \<noteq> None"

fun split_flags :: "string list \<Rightarrow> (string \<times> string option) list" where
  "split_flags [] = []"
| "split_flags [flag] = [(flag, None)]"
| "split_flags (flag # v # rest) = (if takes_value flag then (flag, Some v) # split_flags rest else (flag, None) # split_flags (v # rest))"

text \<open>A command line in which no value looks like one of the two options the CLI searches for.\<close>

definition plain_values :: "string list \<Rightarrow> bool" where
  "plain_values as \<longleftrightarrow> list_all (\<lambda>(flag, v). v \<noteq> Some ''--unix'' \<and> v \<noteq> Some ''--foreground'') (split_flags as)"

definition unix_values :: "string list \<Rightarrow> string list" where
  "unix_values as = List.map_filter (\<lambda>(flag, v). if flag = ''--unix'' then v else None) (split_flags as)"

lemma set_value_None: "set_value flag v a = None \<longleftrightarrow> \<not> takes_value flag"
  by (simp add: takes_value_def set_value_def)

lemma takes_value_simps [simp]:
  "\<not> takes_value ''--foreground''" "takes_value ''--unix''"
  by (simp_all add: takes_value_def set_value_def)

lemma takes_valueE:
  assumes "takes_value flag"
  obtains e where "set_value flag v a = Some e"
  using assms set_value_None [of flag v a] by (cases "set_value flag v a") auto

lemma plain_values_simps [simp]:
  "plain_values []"
  "plain_values [flag]"
  "plain_values (flag # v # rest) \<longleftrightarrow>
     (if takes_value flag then v \<noteq> ''--unix'' \<and> v \<noteq> ''--foreground'' \<and> plain_values rest else plain_values (v # rest))"
  by (auto simp: plain_values_def)

lemma unix_values_simps [simp]:
  "unix_values [] = []"
  "unix_values [flag] = []"
  "unix_values (flag # v # rest) =
     (if takes_value flag then (if flag = ''--unix'' then [v] else []) @ unix_values rest else unix_values (v # rest))"
  by (auto simp: unix_values_def List.map_filter_simps)

section \<open>The foreground switch\<close>

definition fg :: "bool \<Rightarrow> offsd_args \<Rightarrow> offsd_args" where
  "fg b a = a\<lparr>arg_foreground := b\<rparr>"

lemma fg_fg [simp]: "fg b (a\<lparr>arg_foreground := c\<rparr>) = fg b a"
  by (simp add: fg_def)

lemma set_value_fg: "set_value flag v (fg b a) = map_option (map_sum id (fg b)) (set_value flag v a)"
  by (simp add: set_value_def fg_def split: option.splits)

lemma set_switch_fg: "flag \<noteq> ''--foreground'' \<Longrightarrow> set_switch flag (fg b a) = map_option (fg b) (set_switch flag a)"
  by (simp add: set_switch_def fg_def)

lemma parse_flags_switch:
  "\<not> takes_value flag \<Longrightarrow> parse_flags (flag # rest) a =
     (case set_switch flag a of Some a' \<Rightarrow> parse_flags rest a'
      | None \<Rightarrow> Inl (if flag = ''--help'' then Stop_Help else Stop_Unknown flag))"
  using set_value_None [of flag] by (cases rest) (auto split: option.splits)
lemma set_switch_foreground [simp]: "set_switch ''--foreground'' a = Some (a\<lparr>arg_foreground := True\<rparr>)"
  by (simp add: set_switch_def)

lemma parse_flags_fg:
  "plain_values as \<Longrightarrow>
   parse_flags (filter (\<lambda>x. x \<noteq> ''--foreground'') as) (fg b a) = map_sum id (fg b) (parse_flags as a)"
proof (induction as a rule: parse_flags.induct)
  case (2 flag a)
  show ?case
  proof (cases "flag = ''--foreground''")
    case False
    then show ?thesis by (cases "set_switch flag a") (simp_all add: set_switch_fg)
  qed simp
next
  case (3 flag v rest a)
  show ?case
  proof (cases "takes_value flag")
    case True
    then obtain e where e: "set_value flag v a = Some e" by (rule takes_valueE)
    from True have "flag \<noteq> ''--foreground''" by auto
    with True e 3 show ?thesis by (cases e) (simp_all add: set_value_fg)
  next
    case False
    then have none: "set_value flag v a = None" by (simp add: set_value_None)
    show ?thesis
    proof (cases "flag = ''--foreground''")
      case True
      with 3(1) [OF none, of "a\<lparr>arg_foreground := True\<rparr>"] 3(3) False none show ?thesis
        by simp
    next
      case other: False
      show ?thesis
      proof (cases "set_switch flag a")
        case (Some a')
        with 3(1) [OF none Some] 3(3) False none other show ?thesis
          by (simp add: parse_flags_switch set_switch_fg del: parse_flags.simps(3))
      qed (use False none other in \<open>simp add: parse_flags_switch set_switch_fg del: parse_flags.simps(3)\<close>)
    qed
  qed
qed simp

lemma andthen_fg:
  "(\<And>a. f (fg b a) = map_sum id (fg b) (f a)) \<Longrightarrow> andthen (map_sum id (fg b) r) f = map_sum id (fg b) (andthen r f)"
  by (cases r) (simp_all add: andthen_def)

lemma cfg_steps_fg:
  "cfg_daemon h root (fg b a) = fg b (cfg_daemon h root a)"
  "cfg_auth_to_tls h root (fg b a) = fg b (cfg_auth_to_tls h root a)"
  "cfg_transports h root (fg b a) = fg b (cfg_transports h root a)"
  "cfg_capacity h net (fg b a) = fg b (cfg_capacity h net a)"
  "cfg_eabf h net (fg b a) = map_sum id (fg b) (cfg_eabf h net a)"
  "cfg_taus h net (fg b a) = map_sum id (fg b) (cfg_taus h net a)"
  "cfg_unix_mode h net (fg b a) = map_sum id (fg b) (cfg_unix_mode h net a)"
  by (simp_all add: fg_def cfg_daemon_def cfg_auth_to_tls_def cfg_transports_def cfg_capacity_def cfg_eabf_def cfg_taus_def
      cfg_unix_mode_def Let_def split: option.splits sum.splits)

lemma cfg_network_fg: "cfg_network h root (fg b a) = map_sum id (fg b) (cfg_network h root a)"
proof -
  have host: "(fg b a)\<lparr>arg_host := x, arg_port := y, arg_relay_url := z\<rparr> = fg b (a\<lparr>arg_host := x, arg_port := y, arg_relay_url := z\<rparr>)" for x y z
    by (simp add: fg_def)
  have same: "arg_host (fg b a) = arg_host a" "arg_port (fg b a) = arg_port a" "arg_relay_url (fg b a) = arg_relay_url a"
    by (simp_all add: fg_def)
  have boot: "arg_bootstrap_peers (fg b a') = arg_bootstrap_peers a'" "(fg b a')\<lparr>arg_bootstrap_peers := x\<rparr> = fg b (a'\<lparr>arg_bootstrap_peers := x\<rparr>)" for a' x
    by (simp_all add: fg_def)
  show ?thesis
    unfolding cfg_network_def Let_def host same
    by (simp add: andthen_fg cfg_steps_fg boot)
qed

lemma parse_config_file_fg: "parse_config_file h w path (fg b a) = map_sum id (fg b) (parse_config_file h w path a)"
  by (simp add: parse_config_file_def cfg_steps_fg cfg_network_fg andthen_fg split: option.split)

lemma parse_args_fg:
  assumes "plain_values as"
  shows "parse_args h w n program (filter (\<lambda>x. x \<noteq> ''--foreground'') as) (fg b a) =
    map_sum id (fg b) (parse_args h w n program as a)"
proof -
  have finish: "finish_args n (fg b a) = fg b (finish_args n a)" for a
    by (simp add: finish_args_def fg_def Let_def)
  have path: "arg_config_path (fg b a) = arg_config_path a" for a by (simp add: fg_def)
  show ?thesis
    by (simp add: parse_args_def parse_flags_fg [OF assms] finish path parse_config_file_fg split: sum.split option.split)
qed

section \<open>The socket\<close>

lemma set_value_unix: "set_value flag v a = Some (Inr a') \<Longrightarrow> arg_unix_path a' = (if flag = ''--unix'' then Some v else arg_unix_path a)"
  by (auto simp: set_value_def arg_string_set_def split: if_splits option.splits)

lemma set_switch_unix: "set_switch flag a = Some a' \<Longrightarrow> arg_unix_path a' = arg_unix_path a"
  by (auto simp: set_switch_def split: if_splits)

lemma parse_flags_unix:
  "parse_flags as a = Inr a' \<Longrightarrow>
   arg_unix_path a' = (if unix_values as = [] then arg_unix_path a else Some (last (unix_values as)))"
proof (induction as a rule: parse_flags.induct)
  case (2 flag a)
  then show ?case by (auto dest: set_switch_unix split: option.splits)
next
  case (3 flag v rest a)
  show ?case
  proof (cases "set_value flag v a")
    case None
    with 3 show ?thesis by (auto simp: set_value_None dest: set_switch_unix split: option.splits)
  next
    case (Some e)
    with set_value_None [of flag v a] have "takes_value flag" by simp
    moreover from Some 3(3) obtain a1 where "e = Inr a1" by (cases e) auto
    ultimately show ?thesis using Some 3(2) [OF Some] 3(3) set_value_unix [of flag v a a1] by simp
  qed
qed simp

lemma probe_unix_values:
  "plain_values as \<Longrightarrow> probe_socket_path as = (if unix_values as = [] then OFFS_LOCAL_SOCKET_PATH else hd (unix_values as))"
proof (induction as rule: split_flags.induct)
  case (3 flag v rest)
  show ?case
  proof (cases "takes_value flag")
    case True
    with 3 have "v \<noteq> ''--unix''" by simp
    then have "probe_socket_path (v # rest) = probe_socket_path rest" by (cases rest) simp_all
    with True 3 show ?thesis by simp
  next
    case False
    then have "flag \<noteq> ''--unix''" by auto
    with False 3 show ?thesis by simp
  qed
qed simp_all

text \<open>The socket a configuration file names.\<close>

definition config_socket :: "('j, 'w) host \<Rightarrow> 'w \<Rightarrow> string \<Rightarrow> string option" where
  "config_socket h w path = do {
     buffer \<leftarrow> read_file h w path;
     root \<leftarrow> cJSON_Parse h (c_string_of buffer);
     sub_string h (cJSON_GetObjectItem h root ''unix'') ''socket-path''
   }"

lemma cfg_network_frame:
  assumes "cfg_network h root a = Inr a'"
  shows "arg_unix_path a' = arg_unix_path a" "arg_config_path a' = arg_config_path a"
proof -
  have steps:
    "arg_unix_path (cfg_capacity h net x) = arg_unix_path x" "arg_config_path (cfg_capacity h net x) = arg_config_path x"
    "cfg_eabf h net x = Inr x' \<Longrightarrow> arg_unix_path x' = arg_unix_path x \<and> arg_config_path x' = arg_config_path x"
    "cfg_taus h net x = Inr x' \<Longrightarrow> arg_unix_path x' = arg_unix_path x \<and> arg_config_path x' = arg_config_path x"
    "cfg_unix_mode h net x = Inr x' \<Longrightarrow> arg_unix_path x' = arg_unix_path x \<and> arg_config_path x' = arg_config_path x" for net x x'
    by (auto simp: cfg_capacity_def cfg_eabf_def cfg_taus_def cfg_unix_mode_def Let_def split: option.splits prod.splits if_splits)
  have "arg_unix_path a' = arg_unix_path a \<and> arg_config_path a' = arg_config_path a"
    using assms by (auto simp: cfg_network_def Let_def andthen_def steps(1,2) dest!: steps(3-5) split: if_splits sum.splits)
  then show "arg_unix_path a' = arg_unix_path a" "arg_config_path a' = arg_config_path a" by simp_all
qed

lemma parse_config_file_unix:
  assumes "parse_config_file h w path a = Inr a'"
  shows "arg_unix_path a' = fill (arg_unix_path a) (config_socket h w path)" "arg_config_path a' = arg_config_path a"
proof -
  from assms obtain buffer root a1 where r: "read_file h w path = Some buffer" "cJSON_Parse h (c_string_of buffer) = Some root"
      "cfg_network h root (cfg_daemon h root a) = Inr a1" "a' = cfg_transports h root (cfg_auth_to_tls h root a1)"
    by (auto simp: parse_config_file_def andthen_def split: option.splits sum.splits)
  note simps = config_socket_def cfg_daemon_def cfg_auth_to_tls_def cfg_transports_def Let_def
  from r(4) cfg_network_frame [OF r(3)]
  show "arg_unix_path a' = fill (arg_unix_path a) (config_socket h w path)" "arg_config_path a' = arg_config_path a"
    by (simp_all add: simps r(1,2))
qed

lemma parse_args_unix:
  assumes "parse_args h w n program as (default_args c) = Inr a"
  shows "arg_unix_path a = Some (if unix_values as \<noteq> [] then last (unix_values as)
    else case Option.bind (arg_config_path a) (config_socket h w) of Some s \<Rightarrow> s | None \<Rightarrow> OFFS_LOCAL_SOCKET_PATH)"
proof -
  from assms obtain a0 where a0: "parse_flags as (default_args c) = Inr a0" by (auto simp: parse_args_def split: sum.splits)
  have unix: "arg_unix_path a0 = (if unix_values as = [] then None else Some (last (unix_values as)))"
    using parse_flags_unix [OF a0] by (simp add: default_args_def)
  show ?thesis
  proof (cases "arg_config_path a0")
    case None
    then show ?thesis using assms a0 unix by (auto simp: parse_args_def finish_args_def arg_string_set_def Let_def)
  next
    case (Some path)
    with assms a0 obtain a1 where "parse_config_file h w path a0 = Inr a1" "a = finish_args n a1"
      by (auto simp: parse_args_def split: sum.splits)
    then show ?thesis using parse_config_file_unix [of h w path a0 a1] Some unix
      by (auto simp: finish_args_def arg_string_set_def fill_def Let_def split: option.splits)
  qed
qed

lemma start_fork_silent:
  assumes "\<And>w. os_local_connect os w (probe_socket_path as) = None"
  shows "fst (start_fork os as st) = 1"
proof -
  have "\<not> fst (probe_daemon_up os (probe_socket_path as) t 0 w)" for t w
    using probe_daemon_up_iff [of t os "probe_socket_path as" w] assms by auto
  then show ?thesis by (auto simp: start_fork_def Let_def case_prod_beta split: option.split)
qed

section \<open>The usage text\<close>

text \<open>The options the usage text describes: the first words of its option lines.\<close>

definition documented :: "string \<Rightarrow> string list" where
  "documented program = map (\<lambda>l. takeWhile (\<lambda>c. c \<noteq> CHR '' '') (drop 2 l)) (filter (\<lambda>l. take 4 l = ''  --'') (usage_lines program))"

definition accepted :: "string \<Rightarrow> bool" where
  "accepted flag \<longleftrightarrow> takes_value flag \<or> set_switch flag (default_args None) \<noteq> None \<or> flag = ''--help''"

definition flag_names :: "string list" where
  "flag_names = [''--config'', ''--host'', ''--port'', ''--quic-port'', ''--unix'', ''--unix-socket-mode'', ''--cache-dir'', ''--config-dir'',
     ''--pid-file'', ''--workers'', ''--foreground'', ''--log-file'', ''--log-level'', ''--log-structured'', ''--metrics-server'', ''--ca-cert'',
     ''--node-cert'', ''--node-key'', ''--relay-url'', ''--max-capacity-bytes'', ''--api-key'', ''--bootstrap'', ''--ws-port'', ''--wt-port'',
     ''--wt-h3-port'', ''--ws-cert'', ''--ws-key'', ''--wt-cert'', ''--wt-key'', ''--allow-secure'', ''--help'']"

lemma documented_names: "documented program = flag_names"
  by (simp add: documented_def usage_lines_def flag_names_def)

lemma accepted_if_named: "flag \<in> set flag_names \<Longrightarrow> accepted flag"
proof -
  have "list_all accepted flag_names"
    by (simp add: flag_names_def accepted_def takes_value_def set_value_def set_switch_def)
  then show "flag \<in> set flag_names \<Longrightarrow> accepted flag" by (simp add: list_all_iff)
qed

lemma named_if_accepted: "flag \<notin> set flag_names \<Longrightarrow> \<not> accepted flag"
  by (simp add: flag_names_def accepted_def takes_value_def set_value_def set_switch_def)

lemma set_switch_None: "set_switch flag a = None \<longleftrightarrow> set_switch flag b = None"
  by (simp add: set_switch_def)

text \<open>C35. The usage text of the daemon is complete and says nothing else: an option is described there exactly if the
  daemon does not refuse it as unknown.\<close>

theorem usage_complete: "flag \<in> set (documented program) \<longleftrightarrow> parse_flags [flag, v] a \<noteq> Inl (Stop_Unknown flag)"
proof (cases "accepted flag")
  case False
  then have "parse_flags [flag, v] a = Inl (Stop_Unknown flag)"
    using set_switch_None [of flag a "default_args None"] by (simp add: accepted_def parse_flags_switch del: parse_flags.simps)
  with False accepted_if_named show ?thesis by (auto simp: documented_names)
next
  case True
  then have "flag \<in> set (documented program)" using named_if_accepted by (auto simp: documented_names)
  moreover have "parse_flags [flag, v] a \<noteq> Inl (Stop_Unknown flag)"
  proof (cases "takes_value flag")
    case True
    then obtain e where e: "set_value flag v a = Some e" by (rule takes_valueE)
    then have "e \<noteq> Inl (Stop_Unknown flag)" by (auto simp: set_value_def split: if_splits option.splits)
    with e show ?thesis by (cases e) simp_all
  next
    case switch: False
    show ?thesis
    proof (cases "set_switch flag a")
      case None
      with True switch set_switch_None [of flag a "default_args None"] have "flag = ''--help''" by (simp add: accepted_def)
      with None switch show ?thesis by (simp add: parse_flags_switch del: parse_flags.simps)
    next
      case (Some a')
      then have "v = flag \<Longrightarrow> set_switch v a' \<noteq> None" using set_switch_None [of flag a a'] by auto
      with Some switch show ?thesis
        by (cases "set_switch v a'") (auto simp: parse_flags_switch simp del: parse_flags.simps(3))
    qed
  qed
  ultimately show ?thesis by simp
qed

end
