(* ===== verification/Spec2Isabelle.thy ===== *)
theory Spec2Isabelle
  imports Offs_Main Updater Service_Run Cache_Location Metrics Command_Lines
begin

text \<open>
  \<^bold>\<open>Verification of the OFFS node software.\<close> The repository builds five programs around the library liboffs: the
  daemon \<^verbatim>\<open>offsd\<close>, the command line client \<^verbatim>\<open>offs\<close>, the updater \<^verbatim>\<open>offs-updater\<close>, the metrics collector
  \<^verbatim>\<open>offs-metrics\<close>, and the service backends that daemon and updater share. The client talks to the daemon over a
  local socket in length-prefixed frames; it also starts, stops and restarts it, and it moves the block cache while
  the daemon is down. The updater stops the service, replaces the binaries, hands over to its own new version and
  starts the service again. This theory imports the whole development and holds the properties that span programs.

  \<^bold>\<open>Theories and sources\<close> (all paths below \<^verbatim>\<open>src/src/\<close>).

  \<^item> \<open>Prelude\<close>: what the components share of C and its library: fixed-width conversions, \<^verbatim>\<open>strtoull\<close>, \<^verbatim>\<open>strtol\<close>,
    \<^verbatim>\<open>atoi\<close>, \<^verbatim>\<open>snprintf\<close> into a buffer, \<^verbatim>\<open>fwrite\<close> to a file with limited room, decimal and hexadecimal
    text, the lines printed. \<open>L10n\<close>: the messages of \<^verbatim>\<open>offs/l10n/en.h\<close>.
  \<^item> \<open>Client\<close> (\<^verbatim>\<open>offs/client.c\<close>): the connection, the send and receive loops over a socket that may accept or
    deliver any number of bytes, and the frames. \<open>Cli_Base\<close> (\<^verbatim>\<open>offs/cli_util.c\<close>): the command table, help, language,
    error frames, the socket path, and the session a command works on.
  \<^item> \<open>Cache_Paths\<close>, \<open>Move_Tree\<close>, \<open>Config_Dirs\<close> (\<^verbatim>\<open>offs/cli_util.c\<close>): path comparison, the recursive move of a
    directory tree, the search for the configuration and cache directories. \<open>Cache_Size\<close>, \<open>Cache\<close>
    (\<^verbatim>\<open>offs/commands/cache.c\<close>): sizes with units, and \<^verbatim>\<open>offs cache size / move / gc\<close>.
  \<^item> \<open>Start_Stop\<close> (\<^verbatim>\<open>offs/commands/start_stop.c\<close>), \<open>File_Transfer\<close> (\<^verbatim>\<open>put.c\<close>, \<^verbatim>\<open>get.c\<close>, \<^verbatim>\<open>load.c\<close>), \<open>Requests\<close>
    (\<^verbatim>\<open>health.c\<close>, \<^verbatim>\<open>status.c\<close>), \<open>Blocks\<close> (\<^verbatim>\<open>block.c\<close>, \<^verbatim>\<open>pin.c\<close>, \<^verbatim>\<open>ephemeral.c\<close>), \<open>Peers\<close> (\<^verbatim>\<open>peer.c\<close>, \<^verbatim>\<open>friend.c\<close>,
    \<^verbatim>\<open>bootstrap.c\<close>), \<open>Config_Command\<close> (\<^verbatim>\<open>config.c\<close>): the commands. \<open>Offs_Main\<close> (\<^verbatim>\<open>offs/main.c\<close>): the global
    options and the dispatch over all of them.
  \<^item> \<open>Daemon_Args\<close>, \<open>Daemon_Auth\<close>, \<open>Daemon_Startup\<close>, \<open>Daemon_Process\<close>, \<open>Daemon_Run\<close> (\<^verbatim>\<open>offsd/main.c\<close>): command
    line and configuration file, API key and authentication, the calls that build and destroy the subsystems on every
    path, detaching, the uninstall command, the PID file, the watchdog, and the main loop as a transition system
    whose steps interleave with signals, service stops and reload requests. \<open>Cache_Location\<close>: where the CLI and the
    daemon find the cache.
  \<^item> \<open>Service\<close> (\<^verbatim>\<open>Service/service.h\<close>, \<^verbatim>\<open>service_linux.c\<close>, \<^verbatim>\<open>service_macos.c\<close>), \<open>Service_Windows\<close>
    (\<^verbatim>\<open>service_windows.c\<close>): the table of service operations and its three implementations. \<open>Daemon_Service\<close>
    (\<^verbatim>\<open>daemon_service_windows.c\<close>): the two threads of the daemon as a Windows service. \<open>Service_Run\<close>: these threads
    composed with the main loop of the daemon. \<open>Updater\<close> (\<^verbatim>\<open>Updater/updater_main.c\<close>): an update, in both of its
    processes. \<open>Metrics\<close> (\<^verbatim>\<open>offs-metrics/metrics_server.c\<close>): node table, routes, exposition. \<open>Command_Lines\<close>: the
    daemon's command line as the CLI and the usage text see it.

  \<^bold>\<open>How the code is modelled.\<close> A C function is a HOL function of the same name (without the leading underscore). The
  state it reads and writes is a record that is passed through: the client session with the printed lines, the world of
  the operating system, the files of the updater, the calls the daemon has made. Integers have their width where it
  matters (\<open>u8\<close> to \<open>u64\<close>, with wrap-around), else they are \<open>int\<close> or \<open>nat\<close>. Exit codes are the integers of the code;
  a failed start of the daemon and a refused argument are values of a sum type. A socket is the list of answers its
  calls will give, so that every fragmentation, interruption and failure is an input; a result \<open>None\<close> of a command
  means that the answers are used up while the code still waits for one, and which lists are long enough is stated
  where it matters. Loops are structural or have a termination proof, and no fuel is used: the receive
  loops recurse over the answers of the socket, the descent of the tree move ends because every path must fit a buffer of
  1024 bytes, the polling loops because their time is counted.

  \<^bold>\<open>Interfaces.\<close> \<open>frame_channel\<close> is what the commands rely on at the connection; \<open>reporter\<close>, \<open>error_reporter\<close> and
  \<open>loud_reporter\<close> what they promise of an exchange with the daemon; \<open>report_table\<close> the node table of the metrics
  server; \<open>service\<close> what a client of the service table can conclude from a successful wait. All are interpreted on the
  definitions of the components, and the properties rest on the facts of these interpretations.

  \<^bold>\<open>What is shown.\<close> Without \<^verbatim>\<open>--unsafe\<close> and with complete directory listings, no path through \<^verbatim>\<open>offs cache move\<close> loses a cached
  file, and the tree move keeps every file at one of the two places; frames survive every fragmentation of the stream;
  the path comparison decides identity and nesting of directories other than the root; in every reachable state of the
  daemon its subsystems, its calls and its PID file agree with its phase, and a regular end leaves nothing behind but a
  PID file it could not remove, also under the Windows service manager, which is told STOPPED only after that; a stop
  ends the daemon as soon as its teardown returns, else the watchdog does; the CLI and the daemon agree on the cache
  directory when neither is given directory flags, on the settings across a restart, and on the socket when it is
  given by one flag or by none; uploads are sent up to the announced size and downloads written exactly; for the requests
  listed there, the exit status tells whether the daemon acknowledged them; an update installs every staged file it could
  open, and stops the daemon first; the systemd waits are bounded by their naps and the time of their checks; the Windows
  backend closes exactly the handles it opens; the metrics page shows the sums it should and fits its buffer. Where the
  code falls short of its intent, the theorem states what it does (files lost after a read error of a directory, the root
  as a parent, lost signals during a reload, lost exit codes, the ignored relocation, sends that never end).

  \<^bold>\<open>Assumptions.\<close> Memory allocation succeeds. liboffs, CBOR, cJSON, bcrypt, the socket layer, the file system calls of the
  commands and the service managers are parameters; where a property needs something of them (an encoder that
  is inverted by its decoder, a copy that is verified before its source is removed), it is a hypothesis, and the witness of
  the property gives an instance. In particular:

  \<^item> the laws of the file system (\<open>fs_laws\<close>) describe a tree without symbolic links, which the \<^verbatim>\<open>stat\<close> of the tree move would
    follow, and a move that is lossless only in the verifying mode; that a listing is not cut short by an error of
    \<^verbatim>\<open>readdir\<close> is the separate condition \<open>listings_complete\<close>;
  \<^item> the handlers of the metrics server are modelled one at a time, although the code runs them on two workers without a lock;
  \<^item> the program the updater becomes is a parameter; the property about a whole update takes the staged updater to be this one;
  \<^item> the teardown of the daemon is one step of the main thread that happens or does not; the watchdog, which may end the process
    during it after any number of its calls, is a transition of its own;
  \<^item> the handles of the Windows service manager are numbers that are never given out twice;
  \<^item> the value of a conversion of a number to an integer type it does not fit, which C leaves undefined, is a parameter.

  Where the code has branches for several platforms, the POSIX branch is modelled, except
  in the service backends, the updater and the start and stop commands, which have both.

  \<^bold>\<open>Not modelled.\<close> The crash and minidump filters of the Windows daemon, the Windows variants of the directory listing
  and of absolute paths, out-of-memory branches, time stamps of log lines and of the health context, declarations in
  headers (\<^verbatim>\<open>cli_util.h\<close>, \<^verbatim>\<open>daemon_service.h\<close>), messages that no code uses, tests, packaging and release
  scripts: they hold no logic of their own or only call what is outside the repository.
\<close>

section \<open>Properties that span programs\<close>

text \<open>C16. \<^verbatim>\<open>offs restart\<close> gives the daemon the settings it had: the flags it reads from the command line of the
  running daemon make \<^verbatim>\<open>offsd\<close> compute the same settings from the same configuration file, except that the new
  daemon is not in the foreground. (No value of an option may itself look like an option the CLI searches
  for, and the command line must fit the buffer.)\<close>

theorem restart_same_settings:
  assumes "os_kind os \<noteq> Windows_OS" "os_pgrep_offsd os w = Some pid" "0 < pid"
    and "os_cmdline os w pid = Some (cmdline_of (exe # as))"
    and "list_all proper_arg (exe # as)" "length (cmdline_of (exe # as)) \<le> 4095"
    and "plain_values as"
    and "parse_args h w' n program as (default_args c) = Inr a"
  shows "parse_args h w' n program (restart_args os [] w) (default_args c) = Inr (a\<lparr>arg_foreground := False\<rparr>)"
proof -
  have "fg False (default_args c) = default_args c" by (simp add: fg_def default_args_def)
  then show ?thesis
    using parse_args_fg [OF assms(7), of h w' n program False "default_args c"] assms(8)
    by (simp add: restart_preserves_flags [OF assms(1-6)] fg_def)
qed

theorem restart_same_settings_witness:
  "\<exists>a. parse_args (json_host (JObj [])) () 4 ''offsd'' [''--foreground'', ''--port'', ''80''] (default_args None) = Inr a \<and>
     parse_args (json_host (JObj [])) () 4 ''offsd''
       (restart_args (demo_machine 5 9 [''offsd'', ''--foreground'', ''--port'', ''80'']) [] 0) (default_args None) = Inr (a\<lparr>arg_foreground := False\<rparr>)"
proof -
  let ?as = "[''--foreground'', ''--port'', ''80'']"
  have "\<exists>a. parse_args (json_host (JObj [])) () 4 ''offsd'' ?as (default_args None) = Inr a"
    by (simp add: parse_args_def set_value_def default_args_def)
  then obtain a where a: "parse_args (json_host (JObj [])) () 4 ''offsd'' ?as (default_args None) = Inr a" by blast
  moreover have "plain_values ?as" by (simp add: takes_value_def set_value_def)
  ultimately show ?thesis
    using restart_same_settings [of "demo_machine 5 9 (''offsd'' # ?as)" 0 41 "''offsd''" ?as, OF _ _ _ _ _ _ _ a]
    by (simp add: demo_machine_def proper_arg_def cmdline_of_def)
qed

text \<open>C17. The socket \<^verbatim>\<open>offs start\<close> probes and the socket the daemon listens on. With \<^verbatim>\<open>--unix\<close> flags the daemon takes
  the last and the CLI the first, so that they agree exactly if these are the same path, as with a single flag. Without
  such a flag the daemon takes the path its configuration file names, else the default, and the CLI always the default:
  they agree exactly if the file names none or the default itself. Whenever nothing ever answers at the path the CLI
  probes (as when the daemon listens elsewhere and no other process has that socket), \<^verbatim>\<open>offs start\<close> reports a failed start
  with exit status 1, also of a daemon that is up.\<close>

theorem start_probe_socket:
  assumes "plain_values as" and "parse_args h w n program as (default_args c) = Inr a"
  shows "(unix_values as \<noteq> [] \<longrightarrow> arg_unix_path a = Some (last (unix_values as)) \<and> probe_socket_path as = hd (unix_values as)) \<and>
    (unix_values as = [] \<longrightarrow> probe_socket_path as = OFFS_LOCAL_SOCKET_PATH \<and>
       arg_unix_path a = Some (case Option.bind (arg_config_path a) (config_socket h w) of Some s \<Rightarrow> s | None \<Rightarrow> OFFS_LOCAL_SOCKET_PATH)) \<and>
    (length (unix_values as) = 1 \<longrightarrow> arg_unix_path a = Some (probe_socket_path as)) \<and>
    ((\<forall>w. os_local_connect os w (probe_socket_path as) = None) \<longrightarrow> fst (start_fork os as st) = 1)"
proof -
  note eqs = parse_args_unix [OF assms(2)] probe_unix_values [OF assms(1)]
  have once: "arg_unix_path a = Some (probe_socket_path as)" if "length (unix_values as) = 1"
  proof -
    from that obtain v where "unix_values as = [v]" by (auto simp: length_Suc_conv)
    then show ?thesis using eqs by simp
  qed
  have "fst (start_fork os as st) = 1" if "\<And>w. os_local_connect os w (probe_socket_path as) = None"
    using that by (rule start_fork_silent)
  with once eqs show ?thesis by simp
qed

theorem start_probe_socket_witness:
  "\<exists>a. parse_args (json_host (JObj [(''unix'', JObj [(''socket-path'', JStr ''/x'')])])) () 4 ''offsd'' [] (default_args (Some ''offs.json'')) = Inr a \<and>
     arg_unix_path a = Some ''/x'' \<and> probe_socket_path [] = OFFS_LOCAL_SOCKET_PATH \<and>
     fst (start_fork ((demo_machine 5 9 [])\<lparr>os_local_connect := \<lambda>w p. None\<rparr>) [] \<lparr>client = None, log = [], sys_st.world = 0\<rparr>) = 1"
proof -
  let ?h = "json_host (JObj [(''unix'', JObj [(''socket-path'', JStr ''/x'')])])"
  have "\<exists>a. parse_args ?h () 4 ''offsd'' [] (default_args (Some ''offs.json'')) = Inr a \<and> arg_config_path a = Some ''offs.json''"
    by (simp add: parse_args_def default_args_def cfg_defs json_host_def finish_args_def Let_def)
  then obtain a where a: "parse_args ?h () 4 ''offsd'' [] (default_args (Some ''offs.json'')) = Inr a" "arg_config_path a = Some ''offs.json''"
    by blast
  moreover have "config_socket ?h () ''offs.json'' = Some ''/x''"
    by (simp add: config_socket_def json_host_def sub_string_def sub_item_def)
  ultimately show ?thesis
    using start_probe_socket [of "[]" ?h "()" 4 "''offsd''" "Some ''offs.json''" a
        "(demo_machine 5 9 [])\<lparr>os_local_connect := \<lambda>w p. None\<rparr>" "\<lparr>client = None, log = [], sys_st.world = 0\<rparr>"]
    by simp
qed

end
